(* ===== verification/Prelude.thy ===== *)
theory Prelude
  imports Main "HOL-Library.Word"
begin

text \<open>
  Shared vocabulary of the development.

  \<^item> C++ strings are byte strings: \<open>string\<close> is a list of 8-bit characters.
  \<^item> A C \<open>int\<close> that only carries a return code or a port is an \<open>int\<close>; a value whose width
    matters (a wire field, a truncated time stamp) is a \<open>32 word\<close>.
  \<^item> What a call can do besides returning is a value of the type \<open>outcome\<close>: an uncaught
    standard-library exception, undefined behaviour (a read or write outside a buffer, a
    dereferenced null pointer), or a loop that never ends.
\<close>

section \<open>Outcomes\<close>

datatype cxx_exn = OutOfRange | LengthError

datatype 'a outcome = Ret 'a | Throw cxx_exn | Undef | Diverge

fun obind :: "'a outcome \<Rightarrow> ('a \<Rightarrow> 'b outcome) \<Rightarrow> 'b outcome" where
  "obind (Ret a) f = f a"
| "obind (Throw e) f = Throw e"
| "obind Undef f = Undef"
| "obind Diverge f = Diverge"

named_theorems outcome_simps \<open>inversion of sequenced outcomes\<close>

lemma obind_eq_Ret [outcome_simps]: "obind m f = Ret b \<longleftrightarrow> (\<exists>a. m = Ret a \<and> f a = Ret b)"
  by (cases m) auto

lemma obind_cong [fundef_cong]:
  "m = m' \<Longrightarrow> (\<And>a. m' = Ret a \<Longrightarrow> f a = f' a) \<Longrightarrow> obind m f = obind m' f'"
  by (cases m') auto

lemma obind_assoc: "obind (obind m f) g = obind m (\<lambda>a. obind (f a) g)"
  by (cases m) auto

text \<open>A loop run as a partial function: no value means that the loop does not end.\<close>

definition run_loop :: "'a outcome option \<Rightarrow> 'a outcome" where
  "run_loop r = (case r of None \<Rightarrow> Diverge | Some m \<Rightarrow> m)"

lemma run_loop_simps [simp]: "run_loop None = Diverge" "run_loop (Some m) = m"
  by (simp_all add: run_loop_def)

section \<open>Standard library strings\<close>

text \<open>\<open>s.substr(pos)\<close> and \<open>s.substr(pos, n)\<close> throw when \<open>pos\<close> is past the end.\<close>

definition substr_from :: "string \<Rightarrow> nat \<Rightarrow> string outcome" where
  "substr_from s pos = (if length s < pos then Throw OutOfRange else Ret (drop pos s))"

definition substr :: "string \<Rightarrow> nat \<Rightarrow> nat \<Rightarrow> string outcome" where
  "substr s pos n = (if length s < pos then Throw OutOfRange else Ret (take n (drop pos s)))"

text \<open>\<open>std::string(buf, n)\<close> with \<open>n\<close> an \<open>int\<close>: a negative count becomes a huge \<open>size_t\<close>.\<close>

definition string_of_buf :: "string \<Rightarrow> int \<Rightarrow> string outcome" where
  "string_of_buf buf n = (if n < 0 then Throw LengthError else Ret (take (nat n) buf))"

lemma substr_Ret [simp]: "pos \<le> length s \<Longrightarrow> substr s pos n = Ret (take n (drop pos s))"
  by (simp add: substr_def)

lemma substr_from_Ret [simp]: "pos \<le> length s \<Longrightarrow> substr_from s pos = Ret (drop pos s)"
  by (simp add: substr_from_def)

lemma substr_from_Throw [simp]: "length s < pos \<Longrightarrow> substr_from s pos = Throw OutOfRange"
  by (simp add: substr_from_def)

lemma string_of_buf_Ret [simp]: "0 \<le> n \<Longrightarrow> string_of_buf buf n = Ret (take (nat n) buf)"
  by (simp add: string_of_buf_def)

lemma string_of_buf_neg [simp]: "n < 0 \<Longrightarrow> string_of_buf buf n = Throw LengthError"
  by (simp add: string_of_buf_def)

text \<open>\<open>s.c_str()\<close> read as a C string ends at the first zero byte.\<close>

definition c_str :: "string \<Rightarrow> string" where
  "c_str s = takeWhile (\<lambda>c. c \<noteq> CHR 0x00) s"

lemma c_str_id: "CHR 0x00 \<notin> set s \<Longrightarrow> c_str s = s"
  by (auto simp: c_str_def takeWhile_eq_all_conv)

text \<open>\<open>std::to_string\<close> of an \<open>int\<close>.\<close>

fun dec_nat :: "nat \<Rightarrow> string" where
  "dec_nat n = (if n < 10 then [char_of (48 + n)] else dec_nat (n div 10) @ [char_of (48 + n mod 10)])"

declare dec_nat.simps [simp del]

definition to_string :: "int \<Rightarrow> string" where
  "to_string i = (if i < 0 then CHR ''-'' # dec_nat (nat (- i)) else dec_nat (nat i))"

lemma char_of_zero [simp]: "char_of (0 :: nat) = CHR 0x00"
  by (simp add: char_of_def)

text \<open>The decimal notation determines the number, and holds no other character than digits.\<close>

fun dec_value :: "string \<Rightarrow> nat \<Rightarrow> nat" where
  "dec_value [] acc = acc"
| "dec_value (c # cs) acc = dec_value cs (10 * acc + (of_char c - 48))"

lemma dec_value_append: "dec_value (xs @ ys) acc = dec_value ys (dec_value xs acc)"
  by (induction xs acc rule: dec_value.induct) simp_all

lemma of_char_digit: "k < 10 \<Longrightarrow> of_char (char_of (48 + k) :: char) = (48 + k :: nat)"
  by simp

lemma dec_value_dec_nat: "dec_value (dec_nat n) 0 = n"
proof (induction n rule: dec_nat.induct)
  case (1 n)
  then show ?case
    by (cases "n < 10") (simp_all add: dec_nat.simps [of n] dec_value_append of_char_digit)
qed

definition dec_digits :: "char set" where
  "dec_digits = char_of ` {48 ..< 58 :: nat}"

lemma char_of_digit: "(k :: nat) < 10 \<Longrightarrow> char_of (48 + k) \<in> dec_digits"
  unfolding dec_digits_def by (rule imageI) simp

lemma set_dec_nat: "set (dec_nat n) \<subseteq> dec_digits"
proof (induction n rule: dec_nat.induct)
  case (1 n)
  then show ?case
    by (cases "n < 10") (simp_all add: dec_nat.simps [of n] char_of_digit)
qed

lemma dec_nat_nonempty: "dec_nat n \<noteq> []"
  by (simp add: dec_nat.simps [of n])

lemma char_not_digit: "of_char c < (48 :: nat) \<Longrightarrow> c \<notin> dec_digits"
  by (auto simp: dec_digits_def)

lemma minus_not_digit: "CHR ''-'' \<notin> dec_digits" and space_not_digit: "CHR '' '' \<notin> dec_digits"
  and colon_not_digit: "CHR '':'' \<notin> dec_digits"
  by (simp_all add: char_not_digit) (auto simp: dec_digits_def dest!: arg_cong [where f = "of_char :: char \<Rightarrow> nat"])

lemma dec_nat_eq [simp]: "dec_nat m = dec_nat n \<longleftrightarrow> m = n"
  by (metis dec_value_dec_nat)

lemma to_string_eq [simp]: "to_string i = to_string j \<longleftrightarrow> i = j"
proof -
  have "CHR ''-'' # xs \<noteq> dec_nat n" "dec_nat n \<noteq> CHR ''-'' # xs" for xs n
    using set_dec_nat [of n] minus_not_digit by (metis list.set_intros(1) subsetD)+
  then show ?thesis by (auto simp: to_string_def split: if_splits)
qed

lemma set_to_string: "set (to_string i) \<subseteq> insert (CHR ''-'') dec_digits"
  using set_dec_nat by (auto simp: to_string_def)

lemma to_string_no_space: "CHR '' '' \<notin> set (to_string i)"
  and to_string_no_colon: "CHR '':'' \<notin> set (to_string i)"
  using set_to_string [of i] space_not_digit colon_not_digit by auto

lemma split_at_last:
  assumes "xs @ c # ys = xs' @ c # ys'" and "c \<notin> set ys" and "c \<notin> set ys'"
  shows "xs = xs' \<and> ys = ys'"
proof -
  have "rev ys @ c # rev xs = rev ys' @ c # rev xs'"
    using arg_cong [OF assms(1), of rev] by simp
  then have "takeWhile (\<lambda>d. d \<noteq> c) (rev ys @ c # rev xs) = takeWhile (\<lambda>d. d \<noteq> c) (rev ys' @ c # rev xs')"
    by simp
  moreover have "takeWhile (\<lambda>d. d \<noteq> c) (rev zs @ c # us) = rev zs" if "c \<notin> set zs" for zs us
    using that by (subst takeWhile_append2) auto
  ultimately have "ys = ys'" using assms(2,3) by simp
  with assms(1) show ?thesis by simp
qed

section \<open>The memory image of a 32-bit value\<close>

text \<open>
  The targets are little-endian: the four bytes of a value, least significant first.
\<close>

definition le32 :: "32 word \<Rightarrow> string" where
  "le32 w = (let n = unat w in
     [char_of (n mod 256), char_of (n div 256 mod 256),
      char_of (n div 65536 mod 256), char_of (n div 16777216 mod 256)])"

fun un_le32 :: "string \<Rightarrow> 32 word outcome" where
  "un_le32 (a # b # c # d # _) =
     Ret (word_of_nat (of_char a + 256 * of_char b + 65536 * of_char c + 16777216 * of_char d))"
| "un_le32 _ = Undef"

lemma length_le32 [simp]: "length (le32 w) = 4"
  by (simp add: le32_def Let_def)

lemma un_le32_short: "length s < 4 \<Longrightarrow> un_le32 s = Undef"
  by (cases s rule: un_le32.cases) auto

lemma split_bytes32:
  fixes n :: nat
  assumes "n < 4294967296"
  shows "n mod 256 + 256 * (n div 256 mod 256) + 65536 * (n div 65536 mod 256)
           + 16777216 * (n div 16777216 mod 256) = n"
proof -
  define p q r where "p = n div 256" and "q = p div 256" and "r = q div 256"
  have defs: "n div 65536 = q" "n div 16777216 = r"
    by (simp_all add: p_def q_def r_def div_mult2_eq [symmetric])
  have eqs: "n = 256 * p + n mod 256" "p = 256 * q + p mod 256" "q = 256 * r + q mod 256"
    by (simp_all add: p_def q_def r_def)
  have "r mod 256 = r"
    using assms by (simp add: r_def q_def p_def div_mult2_eq [symmetric])
  then show ?thesis
    unfolding defs p_def [symmetric] using eqs by linarith
qed

lemma un_le32_le32 [simp]: "un_le32 (le32 w @ s) = Ret w"
proof -
  let ?n = "unat w"
  have "?n < 4294967296"
    using unsigned_less [of w, where ?'a = nat] by simp
  note split = split_bytes32 [OF this]
  have "un_le32 (le32 w @ s) = Ret (word_of_nat
    (?n mod 256 + 256 * (?n div 256 mod 256) + 65536 * (?n div 65536 mod 256)
      + 16777216 * (?n div 16777216 mod 256)))"
    by (simp add: le32_def Let_def del: of_nat_add of_nat_mult of_nat_numeral)
  then show ?thesis unfolding split by simp
qed

lemma un_le32_le32_nil [simp]: "un_le32 (le32 w) = Ret w"
  using un_le32_le32 [of w "[]"] by simp

lemma un_le32_total: "4 \<le> length s \<Longrightarrow> \<exists>w. un_le32 s = Ret w"
  by (cases s rule: un_le32.cases) auto

lemma join_bytes32:
  fixes a b c d :: nat
  assumes "a < 256" "b < 256" "c < 256" "d < 256"
  shows "(a + 256 * b + 65536 * c + 16777216 * d) mod 256 = a"
    and "(a + 256 * b + 65536 * c + 16777216 * d) div 256 mod 256 = b"
    and "(a + 256 * b + 65536 * c + 16777216 * d) div 65536 mod 256 = c"
    and "(a + 256 * b + 65536 * c + 16777216 * d) div 16777216 mod 256 = d"
    and "a + 256 * b + 65536 * c + 16777216 * d < 4294967296"
proof -
  have digit: "(x + 256 * m) mod 256 = x" "(x + 256 * m) div 256 = m" if "x < 256" for x m :: nat
    using that by simp_all
  define q where "q = c + 256 * d"
  define p where "p = b + 256 * q"
  have n: "a + 256 * b + 65536 * c + 16777216 * d = a + 256 * p"
    by (simp add: p_def q_def)
  have div: "(a + 256 * p) div 65536 = q" "(a + 256 * p) div 16777216 = d"
    using assms by (simp_all add: div_mult2_eq [of _ 256 256, simplified]
        div_mult2_eq [of _ 256 65536, simplified] digit p_def q_def)
  show "(a + 256 * b + 65536 * c + 16777216 * d) mod 256 = a"
    unfolding n by (rule digit(1) [OF assms(1)])
  show "(a + 256 * b + 65536 * c + 16777216 * d) div 256 mod 256 = b"
    unfolding n digit(2) [OF assms(1)] p_def by (rule digit(1) [OF assms(2)])
  show "(a + 256 * b + 65536 * c + 16777216 * d) div 65536 mod 256 = c"
    unfolding n div q_def by (rule digit(1) [OF assms(3)])
  show "(a + 256 * b + 65536 * c + 16777216 * d) div 16777216 mod 256 = d"
    unfolding n div using assms(4) by simp
  show "a + 256 * b + 65536 * c + 16777216 * d < 4294967296"
    using assms by linarith
qed

lemma le32_un_le32:
  assumes "un_le32 s = Ret w"
  shows "take 4 s = le32 w"
proof -
  obtain a b c d r where s: "s = a # b # c # d # r"
    using assms by (cases s rule: un_le32.cases) auto
  have b: "of_char x < (256 :: nat)" for x :: char
    by (rule nat_of_char_less_256)
  note j = join_bytes32 [OF b [of a] b [of b] b [of c] b [of d]]
  from assms s have "w = word_of_nat (of_char a + 256 * of_char b + 65536 * of_char c + 16777216 * of_char d)"
    by simp
  then have n: "unat w = of_char a + 256 * of_char b + 65536 * of_char c + 16777216 * of_char d"
    using j(5) by (simp add: unat_of_nat take_bit_nat_eq_self_iff del: of_nat_add)
  have "le32 w = [char_of (of_char a :: nat), char_of (of_char b :: nat),
      char_of (of_char c :: nat), char_of (of_char d :: nat)]"
    unfolding le32_def Let_def n j ..
  then show ?thesis by (simp add: s)
qed

section \<open>The assertion macros\<close>

text \<open>
  \<open>iAssert(ret, log)\<close> leaves the enclosing function with \<open>-1\<close> when \<open>ret\<close> is negative, and
  otherwise goes on with the statements after it.
\<close>

definition iAssert :: "int \<Rightarrow> 'a \<Rightarrow> 'a \<Rightarrow> 'a" where
  "iAssert ret fail k = (if ret < 0 then fail else k)"

lemma iAssert_simps [simp]:
  "ret < 0 \<Longrightarrow> iAssert ret fail k = fail"
  "0 \<le> ret \<Longrightarrow> iAssert ret fail k = k"
  by (simp_all add: iAssert_def)

text \<open>
  The other checks: \<open>iAssertNull\<close> and the variants of \<open>ssl_def.h\<close>, which also log the error
  queue of OpenSSL.
\<close>

definition iAssertNull :: "bool \<Rightarrow> 'a \<Rightarrow> 'a \<Rightarrow> 'a" where
  "iAssertNull is_null fail k = (if is_null then fail else k)"

definition SSL_iAssert_LT0 :: "int \<Rightarrow> 'a \<Rightarrow> 'a \<Rightarrow> 'a" where
  "SSL_iAssert_LT0 ret fail k = (if ret < 0 then fail else k)"

definition SSL_iAssert_NE1 :: "int \<Rightarrow> 'a \<Rightarrow> 'a \<Rightarrow> 'a" where
  "SSL_iAssert_NE1 ret fail k = (if ret \<noteq> 1 then fail else k)"

definition SSL_iAssert_NULL :: "bool \<Rightarrow> 'a \<Rightarrow> 'a \<Rightarrow> 'a" where
  "SSL_iAssert_NULL is_null fail k = (if is_null then fail else k)"

lemmas assert_macros [simp] =
  iAssertNull_def SSL_iAssert_LT0_def SSL_iAssert_NE1_def SSL_iAssert_NULL_def

end
