(* ===== verification/CommDef.thy ===== *)
theory CommDef
  imports Prelude
begin

text \<open>
  Deployment constants of \<open>comm/commdef/comm_def.h\<close> (with \<open>ONLINE_ENVIRONMENT\<close> defined, as it
  is in the source) and the key paths of \<open>comm/ssltools/ssl_def.h\<close>. The collection
  \<open>const_defs\<close> unfolds them.
\<close>

named_theorems const_defs \<open>definitions of the program's constants\<close>

section \<open>Hosts and ports\<close>

definition IP_ALIYUN_IN :: string where [const_defs]: "IP_ALIYUN_IN = ''172.17.55.219''"
definition IP_ALIYUN_PB :: string where [const_defs]: "IP_ALIYUN_PB = ''47.111.5.82''"
definition IP_TENCLOUD_IN :: string where [const_defs]: "IP_TENCLOUD_IN = ''10.0.20.9''"
definition IP_TENCLOUD_PB :: string where [const_defs]: "IP_TENCLOUD_PB = ''43.138.134.77''"
definition IP_BAIDUYUN_IN :: string where [const_defs]: "IP_BAIDUYUN_IN = ''192.168.0.4''"
definition IP_BAIDUYUN_PB :: string where [const_defs]: "IP_BAIDUYUN_PB = ''106.13.211.246''"

definition IP_CLIENT_PB :: string where [const_defs]: "IP_CLIENT_PB = IP_ALIYUN_PB"
definition IP_CONTROLLER_IN :: string where [const_defs]: "IP_CONTROLLER_IN = IP_TENCLOUD_IN"
definition IP_CONTROLLER_PB :: string where [const_defs]: "IP_CONTROLLER_PB = IP_TENCLOUD_PB"
definition IP_APPGATEWAY_IN :: string where [const_defs]: "IP_APPGATEWAY_IN = IP_BAIDUYUN_IN"
definition IP_APPGATEWAY_PB :: string where [const_defs]: "IP_APPGATEWAY_PB = IP_BAIDUYUN_PB"
definition IP_APPLICATION_IN :: string where [const_defs]: "IP_APPLICATION_IN = IP_BAIDUYUN_IN"
definition IP_APPLICATION_PB :: string where [const_defs]: "IP_APPLICATION_PB = IP_BAIDUYUN_PB"

definition UDP_PORT_CONTROLLER :: int where [const_defs]: "UDP_PORT_CONTROLLER = 6000"
definition UDP_PORT_APPGATEWAY :: int where [const_defs]: "UDP_PORT_APPGATEWAY = 6001"
definition TCP_PORT_CONTROLLER :: int where [const_defs]: "TCP_PORT_CONTROLLER = 6002"
definition TCP_PORT_APPGATEWAY :: int where [const_defs]: "TCP_PORT_APPGATEWAY = 6003"
definition TCP_PORT_APPLICATION :: int where [const_defs]: "TCP_PORT_APPLICATION = 6004"

section \<open>Key and certificate files\<close>

definition ROOT_PATH :: string where [const_defs]: "ROOT_PATH = ''/etc/sdp/keys/''"

definition RSA_PUB_KEY_CONTROLLER :: string where
  [const_defs]: "RSA_PUB_KEY_CONTROLLER = ROOT_PATH @ ''rsa/controller_pubkey.pem''"
definition RSA_PRI_KEY_CONTROLLER :: string where
  [const_defs]: "RSA_PRI_KEY_CONTROLLER = ROOT_PATH @ ''rsa/controller_key.pem''"
definition RSA_PUB_KEY_GATEWAY :: string where
  [const_defs]: "RSA_PUB_KEY_GATEWAY = ROOT_PATH @ ''rsa/gateway_pubkey.pem''"
definition RSA_PRI_KEY_GATEWAY :: string where
  [const_defs]: "RSA_PRI_KEY_GATEWAY = ROOT_PATH @ ''rsa/gateway_key.pem''"

definition SSL_CRT_CA :: string where [const_defs]: "SSL_CRT_CA = ROOT_PATH @ ''certs/ca.crt''"
definition SSL_CRT_CONTROLLER :: string where
  [const_defs]: "SSL_CRT_CONTROLLER = ROOT_PATH @ ''controller/controller.crt''"
definition SSL_KEY_CONTROLLER :: string where
  [const_defs]: "SSL_KEY_CONTROLLER = ROOT_PATH @ ''controller/controller.key''"
definition SSL_CRT_GATEWAY :: string where
  [const_defs]: "SSL_CRT_GATEWAY = ROOT_PATH @ ''gateway/gateway.crt''"
definition SSL_KEY_GATEWAY :: string where
  [const_defs]: "SSL_KEY_GATEWAY = ROOT_PATH @ ''gateway/gateway.key''"
definition SSL_CRT_APPLICATION :: string where
  [const_defs]: "SSL_CRT_APPLICATION = ROOT_PATH @ ''application/application.crt''"
definition SSL_KEY_APPLICATION :: string where
  [const_defs]: "SSL_KEY_APPLICATION = ROOT_PATH @ ''application/application.key''"
definition SSL_CRT_CLIENT :: string where
  [const_defs]: "SSL_CRT_CLIENT = ROOT_PATH @ ''client/client.crt''"
definition SSL_KEY_CLIENT :: string where
  [const_defs]: "SSL_KEY_CLIENT = ROOT_PATH @ ''client/client.key''"

end
