(* ===== verification/Packet.thy ===== *)
theory Packet
  imports Prelude CommDef
begin

text \<open>
  The wire format of an RPC packet: \<open>comm/erpc/erpc_def.h\<close> and the packing half of
  \<open>comm/erpc/erpc_handler.cpp\<close>. A request is a 4-byte command and a body; a response carries
  a 4-byte return code and 50 bytes of message in between.
\<close>

section \<open>Data\<close>

definition kErrServiceNotFound :: int where [const_defs]: "kErrServiceNotFound = -501"
definition kPacketLengthErr :: int where [const_defs]: "kPacketLengthErr = -1001"

definition ID_CONTROLLER :: int where [const_defs]: "ID_CONTROLLER = 1"
definition ID_GATEWAY :: int where [const_defs]: "ID_GATEWAY = 2"
definition ID_APPLICATION :: int where [const_defs]: "ID_APPLICATION = 3"
definition ID_TESTSERVER :: int where [const_defs]: "ID_TESTSERVER = 4"

definition HEADER_RET_MSG_LIMIT_SIZE :: nat where "HEADER_RET_MSG_LIMIT_SIZE = 50"

record Header =
  ret_code :: "32 word"
  ret_msg :: string

record Packet =
  p_cmdid :: "32 word"
  p_header :: Header
  p_body :: string

record SocketInfo =
  si_ip :: string
  si_port :: int

record Extra =
  socket_info :: SocketInfo

section \<open>Packing and unpacking\<close>

definition MemoryCopyToString :: "32 word \<Rightarrow> string" where
  "MemoryCopyToString data = le32 data"

definition MemoryCorpToObject :: "string \<Rightarrow> 32 word outcome" where
  "MemoryCorpToObject str = un_le32 str"

definition PackDataToString :: "Packet \<Rightarrow> int \<Rightarrow> string" where
  "PackDataToString packet is_with_header =
     MemoryCopyToString (p_cmdid packet)
     @ (if is_with_header \<noteq> 0 then
          let msg_size = length (ret_msg (p_header packet)) in
          MemoryCopyToString (ret_code (p_header packet))
          @ take HEADER_RET_MSG_LIMIT_SIZE (ret_msg (p_header packet))
          @ replicate (HEADER_RET_MSG_LIMIT_SIZE - msg_size) CHR 0x00
        else [])
     @ p_body packet"

definition ParseDataFromString :: "Packet \<Rightarrow> string \<Rightarrow> int \<Rightarrow> (int \<times> Packet) outcome" where
  "ParseDataFromString packet str is_with_header =
     (let min_size = 4 + (if is_with_header \<noteq> 0 then 4 + HEADER_RET_MSG_LIMIT_SIZE else 0) in
      if length str < min_size then Ret (kPacketLengthErr, packet)
      else
        obind (substr str 0 4) (\<lambda>tmpstr.
        obind (MemoryCorpToObject tmpstr) (\<lambda>cmdid.
        let packet = packet\<lparr>p_cmdid := cmdid\<rparr> in
        obind
          (if is_with_header \<noteq> 0 then
             obind (substr str 4 4) (\<lambda>tmpstr.
             obind (MemoryCorpToObject tmpstr) (\<lambda>code.
             obind (substr str 8 HEADER_RET_MSG_LIMIT_SIZE) (\<lambda>msg.
             Ret (packet\<lparr>p_header := \<lparr>ret_code = code, ret_msg = msg\<rparr>\<rparr>))))
           else Ret packet) (\<lambda>packet.
        obind (substr_from str min_size) (\<lambda>body.
        Ret (0, packet\<lparr>p_body := body\<rparr>))))))"

definition empty_Packet :: Packet where
  "empty_Packet = \<lparr>p_cmdid = 0, p_header = \<lparr>ret_code = 0, ret_msg = []\<rparr>, p_body = []\<rparr>"

section \<open>Lemmas\<close>

text \<open>The message field as it arrives: cut to 50 bytes or filled up with zero bytes.\<close>

definition wire_msg :: "string \<Rightarrow> string" where
  "wire_msg m = take HEADER_RET_MSG_LIMIT_SIZE m @ replicate (HEADER_RET_MSG_LIMIT_SIZE - length m) CHR 0x00"

lemma length_wire_msg [simp]: "length (wire_msg m) = 50"
  by (simp add: wire_msg_def HEADER_RET_MSG_LIMIT_SIZE_def)

lemma wire_msg_id: "length m = 50 \<Longrightarrow> wire_msg m = m"
  by (simp add: wire_msg_def HEADER_RET_MSG_LIMIT_SIZE_def)

lemma Pack_no_header: "PackDataToString p 0 = le32 (p_cmdid p) @ p_body p"
  by (simp add: PackDataToString_def MemoryCopyToString_def)

lemma Pack_header:
  "PackDataToString p 1 =
     le32 (p_cmdid p) @ le32 (ret_code (p_header p)) @ wire_msg (ret_msg (p_header p)) @ p_body p"
  by (simp add: PackDataToString_def MemoryCopyToString_def wire_msg_def Let_def)

lemma Parse_no_header:
  "ParseDataFromString p0 (le32 c @ body) 0 = Ret (0, p0\<lparr>p_cmdid := c, p_body := body\<rparr>)"
  by (simp add: ParseDataFromString_def MemoryCorpToObject_def)

lemma Parse_header:
  assumes "length m = 50"
  shows "ParseDataFromString p0 (le32 c @ le32 r @ m @ body) 1 =
     Ret (0, \<lparr>p_cmdid = c, p_header = \<lparr>ret_code = r, ret_msg = m\<rparr>, p_body = body\<rparr>)"
  using assms
  by (simp add: ParseDataFromString_def MemoryCorpToObject_def HEADER_RET_MSG_LIMIT_SIZE_def)

lemma le32_split:
  assumes "4 \<le> length s"
  obtains w where "s = le32 w @ drop 4 s"
proof -
  obtain w where "un_le32 s = Ret w" using un_le32_total [OF assms] by blast
  then have "take 4 s = le32 w" by (rule le32_un_le32)
  then have "s = le32 w @ drop 4 s" by (metis append_take_drop_id)
  then show thesis by (rule that)
qed

text \<open>Every text long enough is the packing of some packet.\<close>

lemma packed_form:
  assumes "58 \<le> length s"
  obtains c r m body where "s = le32 c @ le32 r @ m @ body" "length m = 50"
proof -
  have "4 \<le> length s" "4 \<le> length (drop 4 s)" using assms by simp_all
  then obtain c r where "s = le32 c @ drop 4 s" "drop 4 s = le32 r @ drop 4 (drop 4 s)"
    by (metis le32_split)
  then have "s = le32 c @ le32 r @ take 50 (drop 8 s) @ drop 50 (drop 8 s)"
    by (metis append_take_drop_id drop_drop numeral_plus_numeral semiring_norm(2,6))
  then show thesis by (rule that) (use assms in simp)
qed

section \<open>Properties\<close>

text \<open>
  C33. Unpacking undoes packing, for every command, return code, message and body, and
  whatever the packet held before: a request keeps the old header, a response carries the
  message cut or zero-filled to 50 bytes.
\<close>

theorem packet_roundtrip:
  "ParseDataFromString p0 (PackDataToString p 0) 0 = Ret (0, p\<lparr>p_header := p_header p0\<rparr>) \<and>
   ParseDataFromString p0 (PackDataToString p 1) 1 =
     Ret (0, p\<lparr>p_header := (p_header p)\<lparr>ret_msg := wire_msg (ret_msg (p_header p))\<rparr>\<rparr>)"
proof -
  have "p0\<lparr>p_cmdid := p_cmdid p, p_body := p_body p\<rparr> = p\<lparr>p_header := p_header p0\<rparr>"
    by (cases p0; cases p) simp
  moreover have "\<lparr>p_cmdid = p_cmdid p, p_header = \<lparr>ret_code = ret_code (p_header p), ret_msg = m\<rparr>, p_body = p_body p\<rparr>
      = p\<lparr>p_header := (p_header p)\<lparr>ret_msg := m\<rparr>\<rparr>" for m
    by (cases p; cases "p_header p") simp
  ultimately show ?thesis
    by (simp add: Pack_no_header Parse_no_header Pack_header Parse_header)
qed

text \<open>
  Unpacking a response is total and exact: a text under 58 bytes is refused with the
  length error and leaves the packet alone, every other text is accepted, and packing the
  result again gives the same bytes.
\<close>

lemma response_parse_exact:
  "(length s < 58 \<longrightarrow> ParseDataFromString p0 s 1 = Ret (kPacketLengthErr, p0)) \<and>
   (58 \<le> length s \<longrightarrow> (\<exists>p. ParseDataFromString p0 s 1 = Ret (0, p) \<and> PackDataToString p 1 = s))"
proof (intro conjI impI)
  assume "58 \<le> length s"
  then obtain c r m body where s: "s = le32 c @ le32 r @ m @ body" "length m = 50"
    by (rule packed_form)
  then show "\<exists>p. ParseDataFromString p0 s 1 = Ret (0, p) \<and> PackDataToString p 1 = s"
    by (simp add: Parse_header Pack_header wire_msg_id)
qed (simp add: ParseDataFromString_def HEADER_RET_MSG_LIMIT_SIZE_def)

lemma request_parse_cases:
  "length s < 4 \<Longrightarrow> ParseDataFromString p0 s 0 = Ret (kPacketLengthErr, p0)"
  "4 \<le> length s \<Longrightarrow> \<exists>c. un_le32 s = Ret c \<and> s = le32 c @ drop 4 s \<and>
     ParseDataFromString p0 s 0 = Ret (0, p0\<lparr>p_cmdid := c, p_body := drop 4 s\<rparr>)"
proof -
  assume "4 \<le> length s"
  then obtain c where "s = le32 c @ drop 4 s" by (rule le32_split)
  then show "\<exists>c. un_le32 s = Ret c \<and> s = le32 c @ drop 4 s \<and>
     ParseDataFromString p0 s 0 = Ret (0, p0\<lparr>p_cmdid := c, p_body := drop 4 s\<rparr>)"
    by (metis Parse_no_header un_le32_le32)
qed (simp add: ParseDataFromString_def)

end
