(* ===== verification/Connector.thy ===== *)
theory Connector
  imports CommDef
begin

text \<open>
  \<open>comm/ssltools/ssl_tool\<close>, class \<open>SSLConnector\<close>: one TLS connection. The results of the
  OpenSSL calls are the parameter \<open>tls_env\<close>; the object keeps which of its two handles exist,
  its role and whether the handshake succeeded. \<open>None\<close> in \<open>ssl_handle\<close> is the uninitialised
  pointer of a connector that never tried to connect.
\<close>

record tls_env =
  ctx_new :: "int \<Rightarrow> bool"
  use_certificate :: "string \<Rightarrow> int"
  use_private_key :: "string \<Rightarrow> int"
  check_private_key :: int
  tls_new :: bool
  tls_set_fd :: "int \<Rightarrow> int"
  tls_connect :: int
  tls_accept :: int

record SSLConnector =
  ctx_handle :: bool
  ssl_handle :: "bool option"
  is_server :: int
  conn_status :: int

section \<open>Construction\<close>

definition SSL_Init :: "tls_env \<Rightarrow> SSLConnector \<Rightarrow> int \<times> SSLConnector" where
  "SSL_Init env c =
     (let c = c\<lparr>ctx_handle := ctx_new env (is_server c)\<rparr>
      in SSL_iAssert_NULL (\<not> ctx_handle c) (-1, c) (0, c))"

text \<open>A null context is dereferenced by the first call.\<close>

definition SSL_LoadCertificate :: "tls_env \<Rightarrow> SSLConnector \<Rightarrow> string \<Rightarrow> string \<Rightarrow> string \<Rightarrow> int outcome" where
  "SSL_LoadCertificate env c cert ca_cert pri_key =
     (if \<not> ctx_handle c then Undef
      else
        SSL_iAssert_NE1 (use_certificate env cert) (Ret (-1))
          (SSL_iAssert_NE1 (use_private_key env pri_key) (Ret (-1))
            (SSL_iAssert_NE1 (check_private_key env) (Ret (-1)) (Ret 0))))"

definition SSLConnector_new :: "tls_env \<Rightarrow> string \<Rightarrow> string \<Rightarrow> int \<Rightarrow> SSLConnector outcome" where
  "SSLConnector_new env cert pri_key server =
     (let c = \<lparr>ctx_handle = False, ssl_handle = None, is_server = server, conn_status = 0\<rparr>;
          (ret, c) = SSL_Init env c
      in obind (SSL_LoadCertificate env c cert SSL_CRT_CA pri_key) (\<lambda>ret. Ret c))"

section \<open>Handshakes\<close>

definition SSLConnect :: "tls_env \<Rightarrow> int \<Rightarrow> SSLConnector \<Rightarrow> int \<times> SSLConnector" where
  "SSLConnect env fd c =
     (let c = c\<lparr>ssl_handle := Some (tls_new env)\<rparr> in
      SSL_iAssert_NULL (\<not> tls_new env) (-1, c)
        (SSL_iAssert_NE1 (tls_set_fd env fd) (-1, c)
          (SSL_iAssert_NE1 (tls_connect env) (-1, c)
            (0, c\<lparr>conn_status := 1\<rparr>))))"

definition SSLAccept :: "tls_env \<Rightarrow> int \<Rightarrow> SSLConnector \<Rightarrow> int \<times> SSLConnector" where
  "SSLAccept env fd c =
     (let c = c\<lparr>ssl_handle := Some (tls_new env)\<rparr> in
      SSL_iAssert_NULL (\<not> tls_new env) (-1, c)
        (SSL_iAssert_NE1 (tls_set_fd env fd) (-1, c)
          (SSL_iAssert_NE1 (tls_accept env) (-1, c)
            (0, c\<lparr>conn_status := 1\<rparr>))))"

text \<open>
  The dump of the peer's certificate, whose texts go to the log: \<open>cert\<close>, \<open>subject\<close> and
  \<open>issuer\<close> say whether the three lookups gave an object.
\<close>

definition SSL_DumpCertInfo :: "bool \<Rightarrow> bool \<Rightarrow> bool \<Rightarrow> int" where
  "SSL_DumpCertInfo cert subject issuer =
     SSL_iAssert_NULL (\<not> cert) (-1) (SSL_iAssert_NULL (\<not> subject) (-1) (SSL_iAssert_NULL (\<not> issuer) (-1) 0))"

text \<open>What the destructor releases: the connection and the context.\<close>

definition SSLConnector_delete :: "SSLConnector \<Rightarrow> bool \<times> bool" where
  "SSLConnector_delete c = (conn_status c \<noteq> 0, ctx_handle c)"

section \<open>Reading and writing\<close>

text \<open>
  \<open>SSL_write\<close> and \<open>SSL_read\<close> want a connection object. The parameters are what they do on it: the
  result for the bytes to write, and the result with the bytes that were read.
\<close>

definition SSLWrite :: "(string \<Rightarrow> int) \<Rightarrow> SSLConnector \<Rightarrow> string \<Rightarrow> int outcome" where
  "SSLWrite ssl_write c buf = (if ssl_handle c = Some True then Ret (ssl_write buf) else Undef)"

definition SSLRead :: "(nat \<Rightarrow> int \<times> string) \<Rightarrow> SSLConnector \<Rightarrow> nat \<Rightarrow> (int \<times> string) outcome" where
  "SSLRead ssl_read c size_of_buf = (if ssl_handle c = Some True then Ret (ssl_read size_of_buf) else Undef)"

text \<open>Whether the object behind a possibly null connector has a connection to read from and write to.\<close>

definition has_ssl :: "SSLConnector option \<Rightarrow> bool" where
  "has_ssl connector \<longleftrightarrow> (\<exists>c. connector = Some c \<and> ssl_handle c = Some True)"

lemma has_ssl_simps [simp]:
  "\<not> has_ssl None" "has_ssl (Some c) \<longleftrightarrow> ssl_handle c = Some True"
  by (simp_all add: has_ssl_def)

lemma has_ssl_code [code]:
  "has_ssl connector = (case connector of None \<Rightarrow> False | Some c \<Rightarrow> ssl_handle c = Some True)"
  by (cases connector) simp_all

lemma has_ssl_io:
  "SSLWrite w c buf = (if has_ssl (Some c) then Ret (w buf) else Undef)"
  "SSLRead rd c n = (if has_ssl (Some c) then Ret (rd n) else Undef)"
  by (simp_all add: SSLWrite_def SSLRead_def)

lemma has_ssl_handshake:
  "fst (SSLConnect env fd c) = 0 \<Longrightarrow> has_ssl (Some (snd (SSLConnect env fd c)))"
  "fst (SSLAccept env fd c) = 0 \<Longrightarrow> has_ssl (Some (snd (SSLAccept env fd c)))"
  by (auto simp: SSLConnect_def SSLAccept_def Let_def split: if_splits)

section \<open>Invariant\<close>

text \<open>A successful handshake left a live connection handle.\<close>

definition connector_wf :: "SSLConnector \<Rightarrow> bool" where
  "connector_wf c \<longleftrightarrow> conn_status c \<in> {0, 1} \<and> (conn_status c = 1 \<longrightarrow> ssl_handle c = Some True)"

lemma connector_wf_new: "SSLConnector_new env cert key server = Ret c \<Longrightarrow> connector_wf c \<and> ctx_handle c \<and> is_server c = server \<and> conn_status c = 0"
  by (auto simp: SSLConnector_new_def SSL_Init_def SSL_LoadCertificate_def connector_wf_def Let_def
      split: if_splits)

lemma SSLAccept_wf:
  assumes "conn_status c = 0"
  shows "connector_wf (snd (SSLAccept env fd c))"
    and "fst (SSLAccept env fd c) = 0 \<longleftrightarrow> conn_status (snd (SSLAccept env fd c)) = 1"
    and "fst (SSLAccept env fd c) \<in> {0, -1}"
  using assms by (auto simp: SSLAccept_def connector_wf_def Let_def)

lemma SSLConnect_ret: "fst (SSLConnect env fd c) \<in> {0, -1}"
  by (auto simp: SSLConnect_def Let_def)

text \<open>
  After a handshake that succeeded, on either side, reading and writing are defined; without any
  handshake they are not.
\<close>

lemma io_after_handshake:
  assumes "fst (SSLConnect env fd c) = 0 \<and> c' = snd (SSLConnect env fd c) \<or> fst (SSLAccept env fd c) = 0 \<and> c' = snd (SSLAccept env fd c)"
  shows "SSLWrite w c' buf = Ret (w buf)" and "SSLRead r c' n = Ret (r n)"
  using assms by (auto simp: SSLConnect_def SSLAccept_def SSLWrite_def SSLRead_def Let_def split: if_splits)

lemma io_without_handshake:
  assumes "SSLConnector_new env cert key server = Ret c"
  shows "SSLWrite w c buf = Undef" and "SSLRead r c n = Undef"
  using assms
  by (auto simp: SSLConnector_new_def SSL_Init_def SSL_LoadCertificate_def SSLWrite_def SSLRead_def Let_def split: if_splits)

section \<open>Properties\<close>

text \<open>
  A fresh connector on which one handshake is tried keeps its handles consistent; the
  destructor always releases the context, and releases the connection exactly when the
  handshake succeeded, so a connection object allocated for a failed handshake is leaked.
\<close>

lemma connector_lifetime:
  assumes "SSLConnector_new env cert key server = Ret c"
  shows "case SSLConnect env fd c of (ret, c') \<Rightarrow>
     connector_wf c' \<and> SSLConnector_delete c' = (ret = 0, True) \<and>
     (ret \<noteq> 0 \<and> tls_new env \<longrightarrow> ssl_handle c' = Some True \<and> \<not> fst (SSLConnector_delete c'))"
  using connector_wf_new [OF assms]
  by (auto simp: SSLConnect_def SSLConnector_delete_def connector_wf_def Let_def)

end
