(* ===== verification/Transport.thy ===== *)
theory Transport
  imports Packet Connector
begin

text \<open>
  The reading and writing half of \<open>comm/erpc/erpc_handler.cpp\<close>: one read per request, the
  loop that writes a response, and the datagrams. The system calls are inputs: what a call
  returned, the \<open>errno\<close> it left and the bytes it delivered. A write loop runs over the list
  of results that the successive writes return; when the list is used up before the loop
  ends, the result is \<open>None\<close>.
\<close>

datatype errno = EAGAIN | EINTR | OtherErrno

record io_result =
  io_n :: int
  io_errno :: errno
  io_data :: string

section \<open>Reading\<close>

definition RD_BUF_SIZE :: nat where "RD_BUF_SIZE = 5 * 1024 * 1024"

text \<open>A null connector and one without a connection object are dereferenced by the read.\<close>

definition HandleRead :: "SSLConnector option \<Rightarrow> io_result \<Rightarrow> string \<Rightarrow> (int \<times> string) outcome" where
  "HandleRead connector r outstr =
     (case connector of
        None \<Rightarrow> Undef
      | Some c \<Rightarrow>
          obind (SSLRead (\<lambda>size. (io_n r, io_data r)) c RD_BUF_SIZE) (\<lambda>(n, buff).
            if n < 0 then
              if io_errno r = EAGAIN then Ret (n, outstr)
              else if io_errno r = EINTR then Ret (n, outstr)
              else Ret (-1, outstr)
            else obind (string_of_buf buff n) (\<lambda>s. Ret (n, s))))"

text \<open>The overload on a plain descriptor has the same body over \<open>read\<close>.\<close>

definition HandleRead_fd :: "io_result \<Rightarrow> string \<Rightarrow> (int \<times> string) outcome" where
  "HandleRead_fd r outstr =
     (let n = io_n r in
      if n < 0 then
        if io_errno r = EAGAIN then Ret (n, outstr)
        else if io_errno r = EINTR then Ret (n, outstr)
        else Ret (-1, outstr)
      else obind (string_of_buf (io_data r) n) (\<lambda>s. Ret (n, s)))"

section \<open>Writing\<close>

text \<open>
  \<open>str\<close> is what the previous round left of the text, \<open>done_n\<close> (the \<open>total\<close> of the code) what has been written so far;
  each round first drops \<open>done_n\<close> bytes from \<open>str\<close>. \<open>sent\<close> collects the bytes that the
  peer received: the first \<open>n\<close> of the buffer each time a write returns \<open>n\<close>.
\<close>

fun HandleWrite_loop ::
  "(int \<times> errno) list \<Rightarrow> string \<Rightarrow> nat \<Rightarrow> nat \<Rightarrow> string \<Rightarrow> (int \<times> string) outcome option" where
  "HandleWrite_loop [] str done_n w_size sent = None"
| "HandleWrite_loop ((n, err) # rs) str done_n w_size sent =
     (if length str < done_n then Some (Throw OutOfRange)
      else
        let str = drop done_n str in
        if n = 0 then Some (Ret (int done_n, sent))
        else if n < 0 then
          if err = EAGAIN then Some (Ret (int done_n, sent))
          else if err = EINTR then HandleWrite_loop rs str done_n w_size sent
          else Some (Ret (-1, sent))
        else
          let done_n = done_n + nat n;
              sent = sent @ take (nat n) str in
          if done_n = w_size then Some (Ret (int done_n, sent))
          else HandleWrite_loop rs str done_n w_size sent)"

text \<open>The connector is the same in every round, so its null pointers show in the first one.\<close>

definition HandleWrite ::
  "SSLConnector option \<Rightarrow> (int \<times> errno) list \<Rightarrow> string \<Rightarrow> (int \<times> string) outcome option" where
  "HandleWrite connector rs instr =
     (if has_ssl connector then HandleWrite_loop rs instr 0 (length instr) [] else Some Undef)"

text \<open>The overload on a plain descriptor has the same loop over \<open>write\<close>.\<close>

definition HandleWrite_fd :: "(int \<times> errno) list \<Rightarrow> string \<Rightarrow> (int \<times> string) outcome option" where
  "HandleWrite_fd rs instr = HandleWrite_loop rs instr 0 (length instr) []"

section \<open>Datagrams\<close>

record datagram =
  dg_data :: string
  dg_ip :: string
  dg_port :: int

text \<open>
  \<open>UDPRecv\<close> tests its own \<open>ret\<close>, which is always 0, and not the count \<open>n\<close> that
  \<open>recvfrom\<close> returned.
\<close>

definition UDPRecv :: "int \<Rightarrow> errno \<Rightarrow> datagram \<Rightarrow> (int \<times> string \<times> string \<times> int) outcome" where
  "UDPRecv n err d =
     (let ret = (0 :: int) in
      if ret < 0 then
        if err = EAGAIN then Ret (0, [], [], 0)
        else if err = EINTR then Ret (0, [], [], 0)
        else Ret (-1, [], [], 0)
      else obind (string_of_buf (dg_data d) n) (\<lambda>outstr. Ret (0, outstr, dg_ip d, dg_port d)))"

text \<open>The result of \<open>UDPSend\<close> and the datagram it puts on the wire, if any.\<close>

definition UDPSend :: "int \<Rightarrow> int \<Rightarrow> string \<Rightarrow> int \<times> string option" where
  "UDPSend socket_ret sendto_ret outstr =
     iAssert socket_ret (-1, None) (iAssert sendto_ret (-1, None) (0, Some outstr))"

definition ClientUDPRequest :: "int \<Rightarrow> int \<Rightarrow> 32 word \<Rightarrow> string \<Rightarrow> int \<times> string option" where
  "ClientUDPRequest socket_ret sendto_ret cmdid msg =
     (let (ret, wire) = UDPSend socket_ret sendto_ret (MemoryCopyToString cmdid @ msg)
      in iAssert ret (-1, wire) (0, wire))"

section \<open>Lemmas\<close>

lemma HandleRead_null: "\<not> has_ssl connector \<Longrightarrow> HandleRead connector r outstr = Undef"
  by (cases connector) (simp_all add: HandleRead_def has_ssl_io)

lemma HandleRead_fd_eq: "has_ssl connector \<Longrightarrow> HandleRead connector r outstr = HandleRead_fd r outstr"
  by (cases connector) (simp_all add: HandleRead_def HandleRead_fd_def has_ssl_io Let_def)

lemma HandleRead_ret:
  "HandleRead connector r outstr = Ret (n, s) \<Longrightarrow>
     has_ssl connector \<and> (n \<noteq> 0 \<longrightarrow> n < 0 \<and> s = outstr \<or> 0 < n \<and> s = take (nat n) (io_data r))"
  by (cases "has_ssl connector")
    (auto simp: HandleRead_null HandleRead_fd_eq HandleRead_fd_def Let_def outcome_simps split: if_splits)

lemma HandleRead_no_throw: "has_ssl connector \<Longrightarrow> \<exists>n s. HandleRead connector r outstr = Ret (n, s)"
  by (simp add: HandleRead_fd_eq HandleRead_fd_def Let_def)

lemma HandleRead_pos:
  "has_ssl connector \<Longrightarrow> 0 < io_n r \<Longrightarrow> HandleRead connector r outstr = Ret (io_n r, take (nat (io_n r)) (io_data r))"
  and HandleRead_zero: "has_ssl connector \<Longrightarrow> io_n r = 0 \<Longrightarrow> HandleRead connector r outstr = Ret (0, [])"
  by (simp_all add: HandleRead_fd_eq HandleRead_fd_def Let_def)

lemma HandleRead_neg: "has_ssl connector \<Longrightarrow> io_n r < 0 \<Longrightarrow> \<exists>n < 0. HandleRead connector r outstr = Ret (n, outstr)"
  by (simp add: HandleRead_fd_eq HandleRead_fd_def Let_def)

section \<open>What a write may return\<close>

text \<open>
  The program never sets \<open>SSL_MODE_ENABLE_PARTIAL_WRITE\<close>; without it \<open>SSL_write\<close> is documented
  to succeed only with the whole buffer. An interruption is the one result that the loop repeats.
\<close>

definition whole_writes :: "string \<Rightarrow> (int \<times> errno) list \<Rightarrow> bool" where
  "whole_writes instr ws \<longleftrightarrow> (\<forall>(n, e) \<in> set ws. n \<le> 0 \<or> n = int (length instr))"

definition interrupted :: "int \<times> errno \<Rightarrow> bool" where
  "interrupted = (\<lambda>(n, e). n < 0 \<and> e = EINTR)"

text \<open>The response is either sent whole or not at all; the first result that is not an interruption decides.\<close>

fun write_result :: "string \<Rightarrow> (int \<times> errno) list \<Rightarrow> (int \<times> string) outcome option" where
  "write_result instr [] = None"
| "write_result instr ((n, e) # ws) =
     (if 0 < n then Some (Ret (int (length instr), instr))
      else if n = 0 \<or> e = EAGAIN then Some (Ret (0, []))
      else Some (Ret (-1, [])))"

lemma HandleWrite_whole:
  assumes "has_ssl connector" and "whole_writes instr ws"
  shows "HandleWrite connector ws instr = write_result instr (dropWhile interrupted ws)"
proof -
  have "HandleWrite_loop ws instr 0 (length instr) [] = write_result instr (dropWhile interrupted ws)"
    using assms(2)
  proof (induction ws)
    case (Cons p ws)
    obtain n e where p: "p = (n, e)" by (cases p)
    with Cons.prems have "n \<le> 0 \<or> n = int (length instr)" and ws: "whole_writes instr ws"
      by (simp_all add: whole_writes_def)
    then consider "n < 0" | "n = 0" | "0 < n" "n = int (length instr)" by linarith
    then show ?case
      by cases (simp_all add: p interrupted_def Cons.IH [OF ws, unfolded interrupted_def])
  qed simp
  with assms(1) show ?thesis by (simp add: HandleWrite_def)
qed

lemma HandleWrite_once:
  "has_ssl connector \<Longrightarrow> instr \<noteq> [] \<Longrightarrow>
     HandleWrite connector [(int (length instr), e)] instr = Some (Ret (int (length instr), instr))"
  by (simp add: HandleWrite_def Let_def)

section \<open>Writing in pieces\<close>

text \<open>
  A plain descriptor may take a text in pieces. Interrupted writes before the first byte change
  nothing, and a text that is taken in one or two pieces is written completely and in order.
\<close>

lemma HandleWrite_loop_EINTR0:
  "HandleWrite_loop (replicate k (-1, EINTR) @ rs) str 0 w sent = HandleWrite_loop rs str 0 w sent"
  by (induction k) simp_all

lemma HandleWrite_loop_short:
  assumes "0 < n" and "done_n \<le> length str" and "done_n + n \<noteq> w"
  shows "HandleWrite_loop ((int n, e) # rs) str done_n w sent =
     HandleWrite_loop rs (drop done_n str) (done_n + n) w (sent @ take n (drop done_n str))"
  using assms by (simp add: Let_def)

lemma write_two_pieces:
  assumes "0 < n" and "n < length instr"
  shows "HandleWrite_fd (replicate k (-1, EINTR) @ [(int (length instr), err)]) instr = Some (Ret (int (length instr), instr)) \<and>
         HandleWrite_fd (replicate k (-1, EINTR) @ [(int n, err), (int (length instr - n), err')]) instr
           = Some (Ret (int (length instr), instr))"
  using assms by (auto simp: HandleWrite_fd_def HandleWrite_loop_EINTR0 Let_def)

lemma write_two_pieces_witness:
  "HandleWrite_fd [(-1, EINTR), (2, EAGAIN), (3, EAGAIN)] ''hello'' = Some (Ret (5, ''hello''))"
  using write_two_pieces [of 2 "''hello''" 1 EAGAIN EAGAIN] by simp

text \<open>
  From the second short write on the loop loses its place: the offset is applied to the already
  shortened text, so the third piece does not start where the second one ended but as many bytes
  further as the first piece was long, and the program throws when that is past the end. Whatever
  the later writes return, as long as none returns more than the bytes it was given, the loop
  never reports the whole length: it stops early, throws or goes on for as long as it is fed.
\<close>

fun writes_fit :: "(int \<times> errno) list \<Rightarrow> string \<Rightarrow> nat \<Rightarrow> bool" where
  "writes_fit [] str done_n \<longleftrightarrow> True"
| "writes_fit ((n, e) # rs) str done_n \<longleftrightarrow>
     n \<le> int (length str - done_n) \<and> writes_fit rs (drop done_n str) (done_n + nat n)"

lemma HandleWrite_loop_lost:
  assumes "writes_fit rs str done_n" and "length str < w" and "done_n < w"
  shows "HandleWrite_loop rs str done_n w sent \<noteq> Some (Ret (int w, out))"
  using assms
proof (induction rs arbitrary: str done_n sent)
  case (Cons p rs)
  obtain n e where p: "p = (n, e)" by (cases p)
  with Cons.prems have fit: "n \<le> int (length str - done_n)" "writes_fit rs (drop done_n str) (done_n + nat n)" by simp_all
  show ?case
  proof (cases "0 < n \<and> done_n \<le> length str")
    case True
    with fit(1) Cons.prems(2) have "done_n + nat n < w" by (simp add: of_nat_diff) arith
    with Cons.IH [OF fit(2)] Cons.prems(2) show ?thesis by (auto simp: p Let_def)
  next
    case False
    with Cons.IH [OF fit(2)] Cons.prems(2,3) show ?thesis by (auto simp: p Let_def)
  qed
qed simp

lemma write_three_pieces_lost:
  assumes "0 < n" and "0 < m" and "n + m < length instr"
    and "writes_fit rs (drop n instr) (n + m)"
  shows "HandleWrite_fd ((int n, e1) # (int m, e2) # rs) instr \<noteq> Some (Ret (int (length instr), out))"
proof -
  have "HandleWrite_fd ((int n, e1) # (int m, e2) # rs) instr =
      HandleWrite_loop rs (drop n instr) (n + m) (length instr) (take n instr @ take m (drop n instr))"
    using assms by (simp add: HandleWrite_fd_def HandleWrite_loop_short del: HandleWrite_loop.simps)
  also have "\<dots> \<noteq> Some (Ret (int (length instr), out))"
    using assms by (intro HandleWrite_loop_lost) simp_all
  finally show ?thesis .
qed

lemma write_three_pieces_witness:
  "HandleWrite_fd [(2, EAGAIN), (2, EAGAIN), (3, EAGAIN), (-1, EAGAIN)] ''0123456789'' = Some (Throw OutOfRange)
   \<and> HandleWrite_fd [(1, EAGAIN), (1, EAGAIN), (3, EAGAIN), (-1, EAGAIN)] ''0123456789'' = Some (Ret (5, ''01345''))"
  by (simp add: HandleWrite_fd_def Let_def)

section \<open>Properties\<close>

text \<open>
  \<open>UDPRecv\<close> never reports an error: it delivers the datagram and its sender, and a
  failed \<open>recvfrom\<close> ends in an uncaught exception whatever \<open>errno\<close> says.
\<close>

lemma UDPRecv_never_fails:
  "UDPRecv n err d =
     (if n < 0 then Throw LengthError else Ret (0, take (nat n) (dg_data d), dg_ip d, dg_port d))"
  by (simp add: UDPRecv_def)

end
