(* ===== verification/SslTools.thy ===== *)
theory SslTools
  imports Prelude "HOL-Library.Word"
begin

text \<open>
  \<open>comm/ssltools/ssl_tool.cpp\<close>, class \<open>SSLTools\<close>: RSA encryption, decryption, signing and
  verification of texts of any length, block by block, and the MD5 digest.

  OpenSSL and the key files are the parameter \<open>openssl\<close>. The primitives work on one block:
  \<open>None\<close> is a failure (for \<open>sign\<close>, a signature length left at zero). Encryption is
  randomised; its second argument numbers the random padding it draws. The block loops
  recurse as partial functions, because a key of exactly 42 bytes makes them run forever.
\<close>

record 'k openssl =
  fopen_ok :: "string \<Rightarrow> bool"
  read_pub :: "string \<Rightarrow> 'k option"
  read_pri :: "string \<Rightarrow> 'k option"
  rsa_size :: "'k \<Rightarrow> nat"
  pub_enc :: "'k \<Rightarrow> nat \<Rightarrow> string \<Rightarrow> string option"
  pri_dec :: "'k \<Rightarrow> string \<Rightarrow> string option"
  rsa_sign :: "'k \<Rightarrow> string \<Rightarrow> string option"
  rsa_verify :: "'k \<Rightarrow> string \<Rightarrow> string \<Rightarrow> bool"
  md5_init_ret :: int
  md5_update_ret :: int
  md5_final_ret :: int
  md5_buffer :: "string \<Rightarrow> string"

definition limit_size :: "'k openssl \<Rightarrow> 'k \<Rightarrow> int" where
  "limit_size ssl rsa = int (rsa_size ssl rsa) - 42"

section \<open>Encryption\<close>

text \<open>
  A block holds \<open>limit_size\<close> bytes. A negative limit (a key of fewer than 42 bytes) is passed
  to OpenSSL as a negative length.
\<close>

partial_function (option) RSAEncrypt_loop ::
  "'k openssl \<Rightarrow> 'k \<Rightarrow> nat \<Rightarrow> string \<Rightarrow> string \<Rightarrow> (int \<times> string) outcome option" where
  "RSAEncrypt_loop ssl rsa seed src to_text =
     (if src = [] then Some (Ret (0, to_text))
      else if limit_size ssl rsa < 0 then Some Undef
      else
        (case pub_enc ssl rsa seed (take (nat (limit_size ssl rsa)) src) of
           None \<Rightarrow> Some (Ret (-1, to_text))
         | Some c \<Rightarrow>
             if int (length src) \<le> limit_size ssl rsa then Some (Ret (0, to_text @ c))
             else RSAEncrypt_loop ssl rsa (Suc seed) (drop (nat (limit_size ssl rsa)) src) (to_text @ c)))"

definition RSAEncrypt :: "'k openssl \<Rightarrow> nat \<Rightarrow> string \<Rightarrow> string \<Rightarrow> (int \<times> string) outcome" where
  "RSAEncrypt ssl seed text key =
     (if \<not> fopen_ok ssl key then Ret (-1, [])
      else case read_pub ssl key of
        None \<Rightarrow> Ret (-1, [])
      | Some rsa \<Rightarrow> run_loop (RSAEncrypt_loop ssl rsa seed text []))"

section \<open>Decryption\<close>

text \<open>
  Each round hands \<open>rsa_size\<close> bytes to OpenSSL, whatever is left of the text, and receives the
  block in a buffer of \<open>limit_size\<close> bytes. The zero after the last byte of \<open>c_str()\<close> may be read; a
  rest that is shorter yet is read past its end, and a longer block is written past the buffer.
\<close>

partial_function (option) RSADecrypt_loop ::
  "'k openssl \<Rightarrow> 'k \<Rightarrow> string \<Rightarrow> string \<Rightarrow> (int \<times> string) outcome option" where
  "RSADecrypt_loop ssl rsa src to_text =
     (if src = [] then Some (Ret (0, to_text))
      else if Suc (length src) < rsa_size ssl rsa then Some Undef
      else
        (case pri_dec ssl rsa (take (rsa_size ssl rsa) (src @ [CHR 0x00])) of
           None \<Rightarrow> Some (Ret (-1, to_text))
         | Some p \<Rightarrow>
             if limit_size ssl rsa < int (length p) then Some Undef
             else if length src < rsa_size ssl rsa then Some (Throw OutOfRange)
             else RSADecrypt_loop ssl rsa (drop (rsa_size ssl rsa) src) (to_text @ p)))"

definition RSADecrypt :: "'k openssl \<Rightarrow> string \<Rightarrow> string \<Rightarrow> (int \<times> string) outcome" where
  "RSADecrypt ssl text key =
     (if \<not> fopen_ok ssl key then Ret (-1, [])
      else case read_pri ssl key of
        None \<Rightarrow> Ret (-1, [])
      | Some rsa \<Rightarrow>
          if limit_size ssl rsa < 0 then Undef
          else run_loop (RSADecrypt_loop ssl rsa text []))"

section \<open>Signatures\<close>

text \<open>The result of \<open>RSA_sign\<close> is not looked at: a failure leaves the length at zero.\<close>

partial_function (option) RSASign_loop ::
  "'k openssl \<Rightarrow> 'k \<Rightarrow> string \<Rightarrow> string \<Rightarrow> (int \<times> string) outcome option" where
  "RSASign_loop ssl rsa src sig_text =
     (if src = [] then Some (Ret (0, sig_text))
      else if limit_size ssl rsa < 0 then Some Undef
      else
        (let s = (case rsa_sign ssl rsa (take (nat (limit_size ssl rsa)) src) of None \<Rightarrow> [] | Some s \<Rightarrow> s) in
         if int (length src) \<le> limit_size ssl rsa then Some (Ret (0, sig_text @ s))
         else RSASign_loop ssl rsa (drop (nat (limit_size ssl rsa)) src) (sig_text @ s)))"

definition RSASign :: "'k openssl \<Rightarrow> string \<Rightarrow> string \<Rightarrow> (int \<times> string) outcome" where
  "RSASign ssl text key =
     (if \<not> fopen_ok ssl key then Ret (-1, [])
      else case read_pri ssl key of
        None \<Rightarrow> Ret (-1, [])
      | Some rsa \<Rightarrow> run_loop (RSASign_loop ssl rsa text []))"

text \<open>
  The loop ends when the text is used up, when a block fails, or when the signature has just
  one block left. The result is the flag \<open>success\<close>.
\<close>

partial_function (option) RSAVerify_loop ::
  "'k openssl \<Rightarrow> 'k \<Rightarrow> string \<Rightarrow> string \<Rightarrow> bool outcome option" where
  "RSAVerify_loop ssl rsa src sig =
     (if src = [] then Some (Ret True)
      else if limit_size ssl rsa < 0 \<or> Suc (length sig) < rsa_size ssl rsa then Some Undef
      else if \<not> rsa_verify ssl rsa (take (nat (limit_size ssl rsa)) src) (take (rsa_size ssl rsa) (sig @ [CHR 0x00]))
        then Some (Ret False)
      else if length sig = rsa_size ssl rsa then Some (Ret True)
      else if int (length src) < limit_size ssl rsa \<or> length sig < rsa_size ssl rsa then Some (Throw OutOfRange)
      else RSAVerify_loop ssl rsa (drop (nat (limit_size ssl rsa)) src) (drop (rsa_size ssl rsa) sig))"

definition RSAVerify :: "'k openssl \<Rightarrow> string \<Rightarrow> string \<Rightarrow> string \<Rightarrow> int outcome" where
  "RSAVerify ssl sig_text src_text key =
     (if \<not> fopen_ok ssl key then Ret (-1)
      else case read_pub ssl key of
        None \<Rightarrow> Ret (-1)
      | Some rsa \<Rightarrow>
          obind (run_loop (RSAVerify_loop ssl rsa src_text sig_text))
            (\<lambda>success. Ret (if success then 0 else -1)))"

section \<open>MD5\<close>

text \<open>The digest is cut to as many bytes as the status of \<open>MD5_Final\<close> says.\<close>

definition MD5Encrypt :: "'k openssl \<Rightarrow> string \<Rightarrow> int \<times> string" where
  "MD5Encrypt ssl text =
     SSL_iAssert_LT0 (md5_init_ret ssl) (-1, [])
       (SSL_iAssert_LT0 (md5_update_ret ssl) (-1, [])
         (SSL_iAssert_LT0 (md5_final_ret ssl) (-1, [])
           (0, take (nat (md5_final_ret ssl)) (md5_buffer ssl text))))"

section \<open>What the primitives are documented to do\<close>

text \<open>
  A key pair: the halves have one size above 42 bytes; a block within the limit is encrypted
  to a block of that size, which the private half decrypts to the same bytes.
\<close>

definition rsa_pair :: "'k openssl \<Rightarrow> 'k \<Rightarrow> 'k \<Rightarrow> bool" where
  "rsa_pair ssl pub pri \<longleftrightarrow>
     rsa_size ssl pri = rsa_size ssl pub \<and> 42 < rsa_size ssl pub \<and>
     (\<forall>seed m. length m \<le> rsa_size ssl pub - 42 \<longrightarrow>
        (\<exists>c. pub_enc ssl pub seed m = Some c \<and> length c = rsa_size ssl pub \<and> pri_dec ssl pri c = Some m))"

text \<open>A signing pair: the signature of a block within the limit exists and verifies.\<close>

definition sign_pair :: "'k openssl \<Rightarrow> 'k \<Rightarrow> 'k \<Rightarrow> bool" where
  "sign_pair ssl pri pub \<longleftrightarrow>
     rsa_size ssl pri = rsa_size ssl pub \<and> 42 < rsa_size ssl pub \<and>
     (\<forall>m. length m \<le> rsa_size ssl pub - 42 \<longrightarrow>
        (\<exists>s. rsa_sign ssl pri m = Some s \<and> length s = rsa_size ssl pub \<and> rsa_verify ssl pub m s))"

text \<open>A library that reads a half of a key pair from each file.\<close>

definition reads_keys :: "'k openssl \<Rightarrow> string \<Rightarrow> 'k \<Rightarrow> string \<Rightarrow> 'k \<Rightarrow> bool" where
  "reads_keys ssl pub_file pub pri_file pri \<longleftrightarrow>
     fopen_ok ssl pub_file \<and> fopen_ok ssl pri_file \<and>
     read_pub ssl pub_file = Some pub \<and> read_pri ssl pri_file = Some pri"

text \<open>An instance that meets all of this, for the witnesses: blocks are padded, not encrypted.\<close>

definition toy_ssl :: "unit openssl" where
  "toy_ssl = \<lparr>fopen_ok = (\<lambda>_. True), read_pub = (\<lambda>_. Some ()), read_pri = (\<lambda>_. Some ()),
     rsa_size = (\<lambda>_. 128),
     pub_enc = (\<lambda>_ _ m. Some (char_of (length m) # m @ replicate (127 - length m) CHR 0x00)),
     pri_dec = (\<lambda>_ c. Some (take (of_char (hd c)) (tl c))),
     rsa_sign = (\<lambda>_ m. Some (char_of (length m) # m @ replicate (127 - length m) CHR 0x01)),
     rsa_verify = (\<lambda>_ m s. s = char_of (length m) # m @ replicate (127 - length m) CHR 0x01),
     md5_init_ret = 1, md5_update_ret = 1, md5_final_ret = 1,
     md5_buffer = (\<lambda>m. replicate 16 (char_of (length m)))\<rparr>"

lemma toy_pairs: "rsa_pair toy_ssl () ()" "sign_pair toy_ssl () ()"
  by (auto simp: rsa_pair_def sign_pair_def toy_ssl_def)

lemma toy_reads: "reads_keys toy_ssl f () g ()"
  by (simp add: reads_keys_def toy_ssl_def)

section \<open>Round trips of the block loops\<close>

lemma limit_size_pos: "42 < rsa_size ssl rsa \<Longrightarrow> limit_size ssl rsa = int (rsa_size ssl rsa - 42)"
  by (simp add: limit_size_def)

lemma encrypt_decrypt_loops:
  assumes "rsa_pair ssl pub pri"
  shows "\<exists>c. RSAEncrypt_loop ssl pub seed src acc = Some (Ret (0, acc @ c)) \<and>
             (\<forall>acc'. RSADecrypt_loop ssl pri c acc' = Some (Ret (0, acc' @ src)))"
proof (induction src arbitrary: seed acc rule: length_induct)
  case (1 src)
  let ?n = "rsa_size ssl pub"
  define l where "l = ?n - 42"
  have n: "42 < ?n" "rsa_size ssl pri = ?n" using assms by (simp_all add: rsa_pair_def)
  have l: "limit_size ssl pub = int l" "limit_size ssl pri = int l" "0 < l"
    using n by (simp_all add: limit_size_pos l_def)
  obtain b where b: "pub_enc ssl pub seed (take l src) = Some b" "length b = ?n"
      "pri_dec ssl pri b = Some (take l src)"
    using assms unfolding rsa_pair_def l_def by (metis length_take min.cobounded2)
  have dec: "RSADecrypt_loop ssl pri (b @ c) acc' = RSADecrypt_loop ssl pri c (acc' @ take l src)" for c acc'
    using b n l by (subst RSADecrypt_loop.simps) auto
  consider "src = []" | "src \<noteq> []" "length src \<le> l" | "src \<noteq> []" "l < length src" by linarith
  then show ?case
  proof cases
    case 1
    then show ?thesis by (simp add: RSAEncrypt_loop.simps RSADecrypt_loop.simps)
  next
    case 2
    then have "RSAEncrypt_loop ssl pub seed src acc = Some (Ret (0, acc @ b))"
      using b l by (subst RSAEncrypt_loop.simps) auto
    moreover have "RSADecrypt_loop ssl pri b acc' = Some (Ret (0, acc' @ src))" for acc'
      using dec [of "[]" acc'] 2 by (simp add: RSADecrypt_loop.simps [of _ _ "[]"])
    ultimately show ?thesis by blast
  next
    case 3
    then have "length (drop l src) < length src" using l by simp
    with "1" obtain c where c:
      "RSAEncrypt_loop ssl pub (Suc seed) (drop l src) (acc @ b) = Some (Ret (0, (acc @ b) @ c))"
      "\<forall>acc'. RSADecrypt_loop ssl pri c acc' = Some (Ret (0, acc' @ drop l src))" by blast
    have "RSAEncrypt_loop ssl pub seed src acc = Some (Ret (0, acc @ b @ c))"
      using 3 b l c(1) by (subst RSAEncrypt_loop.simps) auto
    moreover have "RSADecrypt_loop ssl pri (b @ c) acc' = Some (Ret (0, acc' @ src))" for acc'
      using dec c(2) by simp
    ultimately show ?thesis by blast
  qed
qed

lemma sign_verify_loops:
  assumes "sign_pair ssl pri pub"
  shows "\<exists>s. RSASign_loop ssl pri src acc = Some (Ret (0, acc @ s)) \<and>
             RSAVerify_loop ssl pub src s = Some (Ret True) \<and>
             (src \<noteq> [] \<longrightarrow> rsa_size ssl pub \<le> length s)"
proof (induction src arbitrary: acc rule: length_induct)
  case (1 src)
  let ?n = "rsa_size ssl pub"
  define l where "l = ?n - 42"
  have n: "42 < ?n" "rsa_size ssl pri = ?n" using assms by (simp_all add: sign_pair_def)
  have l: "limit_size ssl pub = int l" "limit_size ssl pri = int l" "0 < l"
    using n by (simp_all add: limit_size_pos l_def)
  obtain b where b: "rsa_sign ssl pri (take l src) = Some b" "length b = ?n"
      "rsa_verify ssl pub (take l src) b"
    using assms unfolding sign_pair_def l_def by (metis length_take min.cobounded2)
  consider "src = []" | "src \<noteq> []" "length src \<le> l" | "src \<noteq> []" "l < length src" by linarith
  then show ?case
  proof cases
    case 1
    then show ?thesis by (simp add: RSASign_loop.simps RSAVerify_loop.simps)
  next
    case 2
    then have "RSASign_loop ssl pri src acc = Some (Ret (0, acc @ b))"
      using b l by (subst RSASign_loop.simps) (auto simp: Let_def)
    moreover have "RSAVerify_loop ssl pub src b = Some (Ret True)"
      using 2 b l by (subst RSAVerify_loop.simps) auto
    ultimately show ?thesis using b(2) by auto
  next
    case 3
    then have "length (drop l src) < length src" using l by simp
    with "1" obtain s where s:
      "RSASign_loop ssl pri (drop l src) (acc @ b) = Some (Ret (0, (acc @ b) @ s))"
      "RSAVerify_loop ssl pub (drop l src) s = Some (Ret True)" "?n \<le> length s"
      using 3(2) by fastforce
    have "RSASign_loop ssl pri src acc = Some (Ret (0, acc @ b @ s))"
      using 3 b l s(1) by (subst RSASign_loop.simps) (auto simp: Let_def)
    moreover have "RSAVerify_loop ssl pub src (b @ s) = Some (Ret True)"
      using 3 b l s(2,3) n by (subst RSAVerify_loop.simps) auto
    ultimately show ?thesis using b(2) by auto
  qed
qed

section \<open>The loops end\<close>

lemma loops_end:
  assumes "42 < rsa_size ssl rsa"
  shows encrypt_ends: "\<exists>r. RSAEncrypt_loop ssl rsa seed src acc = Some r \<and> r \<noteq> Diverge"
    and decrypt_ends: "\<exists>r. RSADecrypt_loop ssl rsa src acc = Some r \<and> r \<noteq> Diverge"
    and sign_ends: "\<exists>r. RSASign_loop ssl rsa src acc = Some r \<and> r \<noteq> Diverge"
    and verify_ends: "\<exists>r. RSAVerify_loop ssl rsa src sig = Some r \<and> r \<noteq> Diverge"
proof -
  define l where "l = rsa_size ssl rsa - 42"
  have l: "limit_size ssl rsa = int l" "0 < l" using assms by (simp_all add: limit_size_pos l_def)
  have shorter: "src \<noteq> [] \<Longrightarrow> length (drop l src) < length src"
    "src \<noteq> [] \<Longrightarrow> length (drop (rsa_size ssl rsa) src) < length src" for src :: string
    using l assms by (simp_all add: diff_less)
  show "\<exists>r. RSAEncrypt_loop ssl rsa seed src acc = Some r \<and> r \<noteq> Diverge"
  proof (induction src arbitrary: seed acc rule: length_induct)
    case (1 src)
    then show ?case using shorter(1) l by (subst RSAEncrypt_loop.simps) (auto split: option.split)
  qed
  show "\<exists>r. RSADecrypt_loop ssl rsa src acc = Some r \<and> r \<noteq> Diverge"
  proof (induction src arbitrary: acc rule: length_induct)
    case (1 src)
    then show ?case using shorter(2) l by (subst RSADecrypt_loop.simps) (auto split: option.split)
  qed
  show "\<exists>r. RSASign_loop ssl rsa src acc = Some r \<and> r \<noteq> Diverge"
  proof (induction src arbitrary: acc rule: length_induct)
    case (1 src)
    then show ?case using shorter(1) l by (subst RSASign_loop.simps) (auto simp: Let_def)
  qed
  show "\<exists>r. RSAVerify_loop ssl rsa src sig = Some r \<and> r \<noteq> Diverge"
  proof (induction src arbitrary: sig rule: length_induct)
    case (1 src)
    then show ?case using shorter(1) l by (subst RSAVerify_loop.simps) auto
  qed
qed

section \<open>What a signature covers\<close>

lemma RSAVerify_loop_blocks:
  assumes "42 < rsa_size ssl rsa" and "length msg = k * (rsa_size ssl rsa - 42)"
    and "length sig = k * rsa_size ssl rsa" and "0 < k"
  shows "RSAVerify_loop ssl rsa (msg @ rest) sig = RSAVerify_loop ssl rsa msg sig"
  using assms(2-4)
proof (induction k arbitrary: msg sig)
  case (Suc k)
  define l where "l = rsa_size ssl rsa - 42"
  have l: "limit_size ssl rsa = int l" "0 < l" using assms(1) by (simp_all add: limit_size_pos l_def)
  have len: "length msg = l + k * l" "length sig = rsa_size ssl rsa + k * rsa_size ssl rsa"
    using Suc.prems by (simp_all add: l_def)
  then have tx: "msg \<noteq> []" "take l (msg @ rest) = take l msg" "drop l (msg @ rest) = drop l msg @ rest"
    using l by auto
  show ?case
  proof (cases "k = 0")
    case True
    then show ?thesis using tx l len
      by (subst (1 2) RSAVerify_loop.simps) auto
  next
    case False
    then have "RSAVerify_loop ssl rsa (drop l msg @ rest) (drop (rsa_size ssl rsa) sig)
             = RSAVerify_loop ssl rsa (drop l msg) (drop (rsa_size ssl rsa) sig)"
      using len by (intro Suc.IH) (simp_all add: l_def)
    moreover have "\<not> int k * int l < 0" by (simp add: not_less)
    ultimately show ?thesis using tx l len False
      by (subst (1 2) RSAVerify_loop.simps) auto
  qed
qed simp

lemma RSAVerify_first_block:
  assumes "RSAVerify_loop ssl rsa src sig = Some (Ret True)" and "src \<noteq> []"
  shows "rsa_verify ssl rsa (take (nat (limit_size ssl rsa)) src) (take (rsa_size ssl rsa) sig)"
  using assms by (subst (asm) RSAVerify_loop.simps) (auto split: if_splits)

section \<open>Texts that no honest sender makes\<close>

text \<open>
  The first block is cut short, or decrypts to more than \<open>limit_size\<close> bytes: PKCS #1 v1.5 padding,
  which the code asks for, leaves room for \<open>rsa_size - 11\<close>, and anyone can encrypt with the public key.
\<close>

definition overruns :: "'k openssl \<Rightarrow> string \<Rightarrow> string \<Rightarrow> bool" where
  "overruns ssl key text \<longleftrightarrow> fopen_ok ssl key \<and> text \<noteq> [] \<and>
     (\<exists>rsa. read_pri ssl key = Some rsa \<and>
       (Suc (length text) < rsa_size ssl rsa \<or>
        rsa_size ssl rsa \<le> length text \<and>
          (\<exists>p. pri_dec ssl rsa (take (rsa_size ssl rsa) text) = Some p \<and> limit_size ssl rsa < int (length p))))"

lemma RSADecrypt_overruns: "overruns ssl key text \<Longrightarrow> RSADecrypt ssl text key = Undef"
  by (auto simp: overruns_def RSADecrypt_def RSADecrypt_loop.simps)

section \<open>File-level round trips\<close>

lemma rsa_file_roundtrip:
  assumes "reads_keys ssl pub_file pub pri_file pri" and "rsa_pair ssl pub pri"
  shows "\<exists>c. RSAEncrypt ssl seed msg pub_file = Ret (0, c) \<and> RSADecrypt ssl c pri_file = Ret (0, msg)"
  using assms encrypt_decrypt_loops [OF assms(2), of seed msg "[]"]
  by (auto simp: RSAEncrypt_def RSADecrypt_def reads_keys_def rsa_pair_def limit_size_def)

lemma sign_file_roundtrip:
  assumes "reads_keys ssl pub_file pub pri_file pri" and "sign_pair ssl pri pub"
  shows "\<exists>s. RSASign ssl msg pri_file = Ret (0, s) \<and> RSAVerify ssl s msg pub_file = Ret 0"
  using assms sign_verify_loops [OF assms(2), of msg "[]"]
  by (auto simp: RSASign_def RSAVerify_def reads_keys_def)

lemma RSAVerify_accepts:
  assumes "fopen_ok ssl key" and "read_pub ssl key = Some rsa" and "RSAVerify ssl sig msg key = Ret 0"
  shows "msg = [] \<or> rsa_verify ssl rsa (take (nat (limit_size ssl rsa)) msg) (take (rsa_size ssl rsa) sig)"
proof -
  have "RSAVerify_loop ssl rsa msg sig = Some (Ret True)"
    using assms by (cases "RSAVerify_loop ssl rsa msg sig")
      (auto simp: RSAVerify_def outcome_simps split: if_splits)
  then show ?thesis by (auto dest: RSAVerify_first_block)
qed

text \<open>A short text verifies with a signature of exactly one block.\<close>

lemma verify_short:
  assumes "fopen_ok ssl key" and "read_pub ssl key = Some rsa" and "RSAVerify ssl sig msg key = Ret 0"
    and "msg \<noteq> []" and "int (length msg) < limit_size ssl rsa"
  shows "length sig = rsa_size ssl rsa \<and> rsa_verify ssl rsa msg sig"
proof -
  have "RSAVerify_loop ssl rsa msg sig = Some (Ret True)"
    using assms(1-3) by (cases "RSAVerify_loop ssl rsa msg sig") (auto simp: RSAVerify_def outcome_simps split: if_splits)
  with assms(4,5) show ?thesis by (subst (asm) RSAVerify_loop.simps) (auto split: if_splits)
qed

section \<open>Properties\<close>

text \<open>
  Decryption undoes encryption for msgs of any length, and both return: with a matching
  pair of key files, \<open>RSAEncrypt\<close> succeeds whatever random padding is drawn, and
  \<open>RSADecrypt\<close> gives back the msg.
\<close>

theorem rsa_roundtrip:
  assumes "reads_keys ssl pub_file pub pri_file pri" and "rsa_pair ssl pub pri"
  shows "\<exists>c. RSAEncrypt ssl seed msg pub_file = Ret (0, c) \<and> RSADecrypt ssl c pri_file = Ret (0, msg)"
  using assms by (rule rsa_file_roundtrip)

theorem rsa_roundtrip_witness:
  "\<exists>c. RSAEncrypt toy_ssl 0 (replicate 200 CHR ''x'') ''pub'' = Ret (0, c) \<and>
       RSADecrypt toy_ssl c ''key'' = Ret (0, replicate 200 CHR ''x'')"
  by (rule rsa_roundtrip [OF toy_reads toy_pairs(1)])

text \<open>
  A signature made with the private key verifies with the public key, for msgs of any
  length.
\<close>

theorem sign_verify_roundtrip:
  assumes "reads_keys ssl pub_file pub pri_file pri" and "sign_pair ssl pri pub"
  shows "\<exists>s. RSASign ssl msg pri_file = Ret (0, s) \<and> RSAVerify ssl s msg pub_file = Ret 0"
  using assms by (rule sign_file_roundtrip)

theorem sign_verify_roundtrip_witness:
  "\<exists>s. RSASign toy_ssl (replicate 200 CHR ''x'') ''key'' = Ret (0, s) \<and>
       RSAVerify toy_ssl s (replicate 200 CHR ''x'') ''pub'' = Ret 0"
  by (rule sign_verify_roundtrip [OF toy_reads toy_pairs(2)])

text \<open>
  C40. The four block loops end for every msg, signature and result of the primitives, when the
  keys that are read from the file are longer than 42 bytes.
\<close>

theorem ssl_tools_return:
  assumes "\<And>rsa. read_pub ssl key = Some rsa \<or> read_pri ssl key = Some rsa \<Longrightarrow> 42 < rsa_size ssl rsa"
  shows "RSAEncrypt ssl seed msg key \<noteq> Diverge \<and> RSADecrypt ssl msg key \<noteq> Diverge \<and>
         RSASign ssl msg key \<noteq> Diverge \<and> RSAVerify ssl sig msg key \<noteq> Diverge"
proof -
  have "run_loop (RSAEncrypt_loop ssl rsa seed msg []) \<noteq> Diverge"
    "run_loop (RSADecrypt_loop ssl rsa msg []) \<noteq> Diverge"
    "run_loop (RSASign_loop ssl rsa msg []) \<noteq> Diverge"
    "run_loop (RSAVerify_loop ssl rsa msg sig) \<noteq> Diverge"
    if "read_pub ssl key = Some rsa \<or> read_pri ssl key = Some rsa" for rsa
    using loops_end [OF assms [OF that]] by (metis run_loop_simps(2))+
  moreover have "obind m (\<lambda>b. Ret (if b then 0 else -1 :: int)) \<noteq> Diverge" if "m \<noteq> Diverge" for m :: "bool outcome"
    using that by (cases m) simp_all
  ultimately show ?thesis
    by (simp add: RSAEncrypt_def RSADecrypt_def RSASign_def RSAVerify_def split: option.split)
qed

theorem ssl_tools_return_witness:
  "RSAEncrypt toy_ssl 0 ''abc'' ''pub'' \<noteq> Diverge \<and> RSADecrypt toy_ssl ''abc'' ''pub'' \<noteq> Diverge \<and>
   RSASign toy_ssl ''abc'' ''pub'' \<noteq> Diverge \<and> RSAVerify toy_ssl ''xyz'' ''abc'' ''pub'' \<noteq> Diverge"
  by (rule ssl_tools_return) (simp add: toy_ssl_def)

text \<open>The bound is sharp: with a key of 42 bytes, blocks are empty and signing any text goes on for ever.\<close>

lemma sign_loop_stuck:
  assumes "RSASign_loop ssl rsa src acc = Some r"
  shows "rsa_size ssl rsa = 42 \<longrightarrow> src = []"
  by (rule RSASign_loop.raw_induct [where P = "\<lambda>ssl rsa src acc r. rsa_size ssl rsa = 42 \<longrightarrow> src = []", OF _ assms])
    (fastforce simp: limit_size_def Let_def split: if_splits)

theorem sign_never_returns:
  assumes "fopen_ok ssl key" and "read_pri ssl key = Some rsa" and "rsa_size ssl rsa = 42" and "text \<noteq> []"
  shows "RSASign ssl text key = Diverge"
proof -
  have "RSASign_loop ssl rsa text [] = None" using sign_loop_stuck assms(3,4) by (metis not_Some_eq)
  then show ?thesis using assms(1,2) by (simp add: RSASign_def)
qed

text \<open>
  A signature covers no more of the text than its own blocks: when a text of \<open>k\<close> full
  blocks verifies with a signature of \<open>k\<close> blocks, every extension of the text verifies with
  the same signature.
\<close>

theorem signature_ignores_suffix:
  assumes "read_pub ssl key = Some rsa" and "42 < rsa_size ssl rsa" and "0 < k"
    and "length msg = k * (rsa_size ssl rsa - 42)" and "length sig = k * rsa_size ssl rsa"
    and "RSAVerify ssl sig msg key = Ret 0"
  shows "RSAVerify ssl sig (msg @ rest) key = Ret 0"
proof -
  have "RSAVerify ssl sig (msg @ rest) key = RSAVerify ssl sig msg key"
    using assms(1) RSAVerify_loop_blocks [OF assms(2,4,5,3), of rest] by (simp add: RSAVerify_def)
  then show ?thesis using assms(6) by simp
qed

theorem signature_ignores_suffix_witness:
  "RSAVerify toy_ssl (char_of (86 :: nat) # replicate 86 CHR ''x'' @ replicate 41 CHR 0x01)
     (replicate 86 CHR ''x'' @ ''forged'') ''pub'' = Ret 0"
proof (rule signature_ignores_suffix [where k = 1])
  show "RSAVerify toy_ssl (char_of (86 :: nat) # replicate 86 CHR ''x'' @ replicate 41 CHR 0x01)
     (replicate 86 CHR ''x'') ''pub'' = Ret 0"
    by (simp add: RSAVerify_def RSAVerify_loop.simps toy_ssl_def limit_size_def)
qed (simp_all add: toy_ssl_def)

text \<open>
  A longer signature makes the verifier throw: when the text is shorter than a block and
  its first signature block is genuine, any further byte appended to the signature leads to
  an uncaught \<open>std::out_of_range\<close>.
\<close>

theorem padded_signature_throws:
  assumes "fopen_ok ssl key" and "read_pub ssl key = Some rsa"
    and "msg \<noteq> []" and "int (length msg) < limit_size ssl rsa"
    and "rsa_verify ssl rsa msg sig" and "length sig = rsa_size ssl rsa" and "pad \<noteq> []"
  shows "RSAVerify ssl (sig @ pad) msg key = Throw OutOfRange"
proof -
  have "RSAVerify_loop ssl rsa msg (sig @ pad) = Some (Throw OutOfRange)"
    using assms(3-7) by (subst RSAVerify_loop.simps) simp
  then show ?thesis using assms(1,2) by (simp add: RSAVerify_def)
qed

theorem padded_signature_throws_witness:
  "RSAVerify toy_ssl ((char_of (3 :: nat) # ''abc'' @ replicate 124 CHR 0x01) @ ''!'') ''abc'' ''pub''
     = Throw OutOfRange"
  by (rule padded_signature_throws) (simp_all add: toy_ssl_def limit_size_def)

text \<open>
  A non-empty text only verifies when its first block does; the empty text verifies with
  any signature.
\<close>

lemma verify_needs_first_block:
  assumes "fopen_ok ssl key" and "read_pub ssl key = Some rsa"
  shows "(RSAVerify ssl sig msg key = Ret 0 \<longrightarrow> msg = [] \<or>
            rsa_verify ssl rsa (take (nat (limit_size ssl rsa)) msg) (take (rsa_size ssl rsa) sig))
         \<and> RSAVerify ssl sig [] key = Ret 0"
proof -
  have "RSAVerify ssl sig [] key = Ret 0"
    using assms by (simp add: RSAVerify_def RSAVerify_loop.simps)
  then show ?thesis using RSAVerify_accepts [OF assms] by blast
qed

text \<open>
  With \<open>MD5_Final\<close> reporting success, the digest that is kept is a single byte.
\<close>

lemma md5_one_byte:
  assumes "0 \<le> md5_init_ret ssl" and "0 \<le> md5_update_ret ssl" and "md5_final_ret ssl = 1"
    and "length (md5_buffer ssl msg) = 16"
  shows "\<exists>b. MD5Encrypt ssl msg = (0, [b])"
  using assms by (cases "md5_buffer ssl msg") (auto simp: MD5Encrypt_def)

end
