(* ===== verification/Proto.thy ===== *)
theory Proto
  imports Prelude
begin

text \<open>
  The messages of \<open>comm/proto/spa.proto\<close> and \<open>comm/proto/erpc.proto\<close>: one record per message,
  every optional field an option, every repeated field a list. The getters give a field's
  default when it is absent, as the generated accessors do. Serialisation is generated code:
  it is the parameter \<open>codec\<close>, one pair of functions per message, where parsing is total
  because the callers ignore the success flag of \<open>ParseFromString\<close>.
\<close>

section \<open>Messages\<close>

record Account =
  a_acc :: "string option"
  a_pwd :: "string option"

record SPAVoucher =
  v_account :: "Account option"
  v_mac :: "string option"
  v_address :: "string option"
  v_timestamp :: "32 word option"
  v_random :: "32 word option"

record SPAVoucherPacket =
  vp_enc_data :: "string option"
  vp_md5_data :: "string option"

record SPATicket =
  t_ip :: "string option"
  t_timestamp :: "32 word option"
  t_random :: "32 word option"
  t_valid_seconds :: "32 word option"

record SPATicketPacket =
  tp_enc_data :: "string option"
  tp_md5_data :: "string option"
  tp_sign_data :: "string option"

record TestFuncReverseReq =
  tq_str :: "string option"

record TestFuncReverseRsp =
  tr_str :: "string option"

record AppItem =
  ai_gate_udp_port :: "32 word option"
  ai_app_tcp_port :: "32 word option"
  ai_appname :: "string option"
  ai_description :: "string option"

record AccessItem =
  xi_ip :: "string option"
  xi_app :: "AppItem option"
  xi_ticket_packet :: "SPATicketPacket option"

record ConFuncGetAccessReq =
  gq_account :: "Account option"

record ConFuncGetAccessRsp =
  gr_access_list :: "AccessItem list"

record ConFuncRegisterAppReq =
  rq_app_list :: "AppItem list"

datatype ConFuncRegisterAppRsp = ConFuncRegisterAppRsp

record GateFuncBlackListOpReq =
  bq_op :: "32 word option"
  bq_ip :: "string option"
  bq_port :: "32 word option"

datatype GateFuncBlackListOpRsp = GateFuncBlackListOpRsp

record GateFuncNoticeReq =
  nq_op :: "32 word option"
  nq_op_ip :: "string option"

datatype GateFuncNoticeRsp = GateFuncNoticeRsp

definition APP_NOTICE_CLOSE_PORT_FOR_IP :: int where
  "APP_NOTICE_CLOSE_PORT_FOR_IP = 1"

section \<open>Accessors\<close>

definition get_str :: "string option \<Rightarrow> string" where
  "get_str f = (case f of None \<Rightarrow> [] | Some s \<Rightarrow> s)"

definition get_u32 :: "32 word option \<Rightarrow> 32 word" where
  "get_u32 f = (case f of None \<Rightarrow> 0 | Some w \<Rightarrow> w)"

definition get_i32 :: "32 word option \<Rightarrow> int" where
  "get_i32 f = (case f of None \<Rightarrow> 0 | Some w \<Rightarrow> sint w)"

definition empty_Account :: Account where
  "empty_Account = \<lparr>a_acc = None, a_pwd = None\<rparr>"

definition empty_AppItem :: AppItem where
  "empty_AppItem = \<lparr>ai_gate_udp_port = None, ai_app_tcp_port = None, ai_appname = None, ai_description = None\<rparr>"

definition empty_SPATicketPacket :: SPATicketPacket where
  "empty_SPATicketPacket = \<lparr>tp_enc_data = None, tp_md5_data = None, tp_sign_data = None\<rparr>"

definition empty_SPATicket :: SPATicket where
  "empty_SPATicket = \<lparr>t_ip = None, t_timestamp = None, t_random = None, t_valid_seconds = None\<rparr>"

definition get_account :: "Account option \<Rightarrow> Account" where
  "get_account f = (case f of None \<Rightarrow> empty_Account | Some a \<Rightarrow> a)"

definition get_app :: "AppItem option \<Rightarrow> AppItem" where
  "get_app f = (case f of None \<Rightarrow> empty_AppItem | Some a \<Rightarrow> a)"

definition get_ticket_packet :: "SPATicketPacket option \<Rightarrow> SPATicketPacket" where
  "get_ticket_packet f = (case f of None \<Rightarrow> empty_SPATicketPacket | Some p \<Rightarrow> p)"

lemma get_simps [simp]:
  "get_str None = []" "get_str (Some s) = s"
  "get_u32 None = 0" "get_u32 (Some w) = w"
  "get_i32 None = 0" "get_i32 (Some w) = sint w"
  "get_account None = empty_Account" "get_account (Some a) = a"
  "get_app None = empty_AppItem" "get_app (Some i) = i"
  "get_ticket_packet None = empty_SPATicketPacket" "get_ticket_packet (Some p) = p"
  by (simp_all add: get_str_def get_u32_def get_i32_def get_account_def get_app_def get_ticket_packet_def)

section \<open>Serialisation\<close>

record codec =
  ser_voucher :: "SPAVoucher \<Rightarrow> string"
  parse_voucher :: "string \<Rightarrow> SPAVoucher"
  ser_voucher_packet :: "SPAVoucherPacket \<Rightarrow> string"
  parse_voucher_packet :: "string \<Rightarrow> SPAVoucherPacket"
  ser_ticket :: "SPATicket \<Rightarrow> string"
  parse_ticket :: "string \<Rightarrow> SPATicket"
  ser_ticket_packet :: "SPATicketPacket \<Rightarrow> string"
  parse_ticket_packet :: "string \<Rightarrow> SPATicketPacket"
  ser_test_req :: "TestFuncReverseReq \<Rightarrow> string"
  parse_test_req :: "string \<Rightarrow> TestFuncReverseReq"
  ser_test_rsp :: "TestFuncReverseRsp \<Rightarrow> string"
  parse_test_rsp :: "string \<Rightarrow> TestFuncReverseRsp"
  ser_access_req :: "ConFuncGetAccessReq \<Rightarrow> string"
  parse_access_req :: "string \<Rightarrow> ConFuncGetAccessReq"
  ser_access_rsp :: "ConFuncGetAccessRsp \<Rightarrow> string"
  parse_access_rsp :: "string \<Rightarrow> ConFuncGetAccessRsp"
  ser_register_req :: "ConFuncRegisterAppReq \<Rightarrow> string"
  parse_register_req :: "string \<Rightarrow> ConFuncRegisterAppReq"
  ser_register_rsp :: "ConFuncRegisterAppRsp \<Rightarrow> string"
  parse_register_rsp :: "string \<Rightarrow> ConFuncRegisterAppRsp"
  ser_blacklist_req :: "GateFuncBlackListOpReq \<Rightarrow> string"
  parse_blacklist_req :: "string \<Rightarrow> GateFuncBlackListOpReq"
  ser_blacklist_rsp :: "GateFuncBlackListOpRsp \<Rightarrow> string"
  parse_blacklist_rsp :: "string \<Rightarrow> GateFuncBlackListOpRsp"
  ser_notice_req :: "GateFuncNoticeReq \<Rightarrow> string"
  parse_notice_req :: "string \<Rightarrow> GateFuncNoticeReq"
  ser_notice_rsp :: "GateFuncNoticeRsp \<Rightarrow> string"
  parse_notice_rsp :: "string \<Rightarrow> GateFuncNoticeRsp"

end
