(* ===== verification/SpaTools.thy ===== *)
theory SpaTools
  imports SslTools Proto
begin

text \<open>
  \<open>comm/spatools/spa_tool.cpp\<close>: vouchers (client to controller) and tickets (controller to
  gateway) as encrypted, digested and, for tickets, signed packets. Output parameters are
  passed in and returned: a failing call leaves them as they were.
\<close>

section \<open>Vouchers\<close>

definition EncryptVoucher ::
  "'k openssl \<Rightarrow> codec \<Rightarrow> nat \<Rightarrow> SPAVoucherPacket \<Rightarrow> SPAVoucher \<Rightarrow> string \<Rightarrow> (int \<times> SPAVoucherPacket) outcome" where
  "EncryptVoucher ssl cd seed packet voucher key =
     (let plain = ser_voucher cd voucher in
      obind (RSAEncrypt ssl seed plain key) (\<lambda>(ret, rsa_en_text).
        iAssert ret (Ret (-1, packet))
          (let (ret, md5_en_text) = MD5Encrypt ssl plain in
           iAssert ret (Ret (-1, packet))
             (Ret (0, packet\<lparr>vp_enc_data := Some rsa_en_text, vp_md5_data := Some md5_en_text\<rparr>)))))"

definition DecryptVoucher ::
  "'k openssl \<Rightarrow> codec \<Rightarrow> SPAVoucher \<Rightarrow> SPAVoucherPacket \<Rightarrow> string \<Rightarrow> (int \<times> SPAVoucher) outcome" where
  "DecryptVoucher ssl cd voucher packet key =
     (let rsa_en_text = get_str (vp_enc_data packet);
          md5_en_text = get_str (vp_md5_data packet) in
      obind (RSADecrypt ssl rsa_en_text key) (\<lambda>(ret, rsa_de_text).
        iAssert ret (Ret (-1, voucher))
          (let (ret, md5_en_text_new) = MD5Encrypt ssl rsa_de_text in
           iAssert ret (Ret (-1, voucher))
             (if md5_en_text_new \<noteq> md5_en_text then Ret (-1, voucher)
              else Ret (0, parse_voucher cd rsa_de_text)))))"

section \<open>Tickets\<close>

definition EncryptTicket ::
  "'k openssl \<Rightarrow> codec \<Rightarrow> nat \<Rightarrow> SPATicketPacket \<Rightarrow> SPATicket \<Rightarrow> string \<Rightarrow> string \<Rightarrow> (int \<times> SPATicketPacket) outcome" where
  "EncryptTicket ssl cd seed packet ticket sign_pri_key enc_pub_key =
     (let plain = ser_ticket cd ticket in
      obind (RSAEncrypt ssl seed plain enc_pub_key) (\<lambda>(ret, rsa_en_text).
        iAssert ret (Ret (-1, packet))
          (let (ret, md5_en_text) = MD5Encrypt ssl plain in
           iAssert ret (Ret (-1, packet))
             (obind (RSASign ssl plain sign_pri_key) (\<lambda>(ret, rsa_sign_text).
               iAssert ret (Ret (-1, packet))
                 (Ret (0, packet\<lparr>tp_enc_data := Some rsa_en_text, tp_md5_data := Some md5_en_text,
                                 tp_sign_data := Some rsa_sign_text\<rparr>)))))))"

definition DecryptTicket ::
  "'k openssl \<Rightarrow> codec \<Rightarrow> SPATicket \<Rightarrow> SPATicketPacket \<Rightarrow> string \<Rightarrow> string \<Rightarrow> (int \<times> SPATicket) outcome" where
  "DecryptTicket ssl cd ticket packet sign_pub_key enc_pri_key =
     (let rsa_en_text = get_str (tp_enc_data packet);
          md5_en_text = get_str (tp_md5_data packet);
          sign_text = get_str (tp_sign_data packet) in
      obind (RSADecrypt ssl rsa_en_text enc_pri_key) (\<lambda>(ret, rsa_de_text).
        iAssert ret (Ret (-1, ticket))
          (let (ret, md5_en_text_new) = MD5Encrypt ssl rsa_de_text in
           iAssert ret (Ret (-1, ticket))
             (if md5_en_text_new \<noteq> md5_en_text then Ret (-1, ticket)
              else obind (RSAVerify ssl sign_text rsa_de_text sign_pub_key) (\<lambda>ret.
                iAssert ret (Ret (-1, ticket))
                  (Ret (0, parse_ticket cd rsa_de_text)))))))"

section \<open>Lemmas\<close>

definition md5_works :: "'k openssl \<Rightarrow> bool" where
  "md5_works ssl \<longleftrightarrow> 0 \<le> md5_init_ret ssl \<and> 0 \<le> md5_update_ret ssl \<and> 0 \<le> md5_final_ret ssl"

definition md5_value :: "'k openssl \<Rightarrow> string \<Rightarrow> string" where
  "md5_value ssl m = take (nat (md5_final_ret ssl)) (md5_buffer ssl m)"

lemma MD5Encrypt_works: "md5_works ssl \<Longrightarrow> MD5Encrypt ssl m = (0, md5_value ssl m)"
  by (simp add: md5_works_def MD5Encrypt_def md5_value_def)

text \<open>\<open>MD5_Final\<close> is documented to return 1 and to write 16 bytes.\<close>

definition md5_documented :: "'k openssl \<Rightarrow> bool" where
  "md5_documented ssl \<longleftrightarrow> md5_final_ret ssl = 1 \<and> (\<forall>m. length (md5_buffer ssl m) = 16)"

lemma md5_digest_length: "md5_documented ssl \<Longrightarrow> MD5Encrypt ssl m = (r, d) \<Longrightarrow> 0 \<le> r \<Longrightarrow> length d = 1"
  by (auto simp: md5_documented_def MD5Encrypt_def split: if_splits)

lemma toy_md5: "md5_works toy_ssl"
  by (simp add: md5_works_def toy_ssl_def)

lemma toy_md5_documented: "md5_documented toy_ssl"
  by (simp add: md5_documented_def toy_ssl_def)

lemma DecryptVoucher_ok:
  assumes "DecryptVoucher ssl cd voucher packet key = Ret (0, v)"
  obtains r plain r' where "RSADecrypt ssl (get_str (vp_enc_data packet)) key = Ret (r, plain)" "0 \<le> r"
    "MD5Encrypt ssl plain = (r', get_str (vp_md5_data packet))" "0 \<le> r'" "v = parse_voucher cd plain"
  using assms unfolding DecryptVoucher_def iAssert_def
  by (auto simp: outcome_simps Let_def split: if_splits prod.splits)

lemma DecryptTicket_ok:
  assumes "DecryptTicket ssl cd ticket packet sign_key enc_key = Ret (0, t)"
  obtains r plain r' r'' where "RSADecrypt ssl (get_str (tp_enc_data packet)) enc_key = Ret (r, plain)" "0 \<le> r"
    "MD5Encrypt ssl plain = (r', get_str (tp_md5_data packet))" "0 \<le> r'"
    "RSAVerify ssl (get_str (tp_sign_data packet)) plain sign_key = Ret r''" "0 \<le> r''"
    "t = parse_ticket cd plain"
  using assms unfolding DecryptTicket_def iAssert_def
  by (auto simp: outcome_simps Let_def split: if_splits prod.splits)

lemma DecryptVoucher_ret: "DecryptVoucher ssl cd voucher packet key = Ret (ret, v) \<Longrightarrow> ret = 0 \<or> ret = -1 \<and> v = voucher"
  unfolding DecryptVoucher_def iAssert_def
  by (auto simp: outcome_simps Let_def split: if_splits prod.splits)

lemma DecryptTicket_ret:
  "DecryptTicket ssl cd ticket packet sign_key enc_key = Ret (ret, t) \<Longrightarrow> ret = 0 \<or> ret = -1 \<and> t = ticket"
  unfolding DecryptTicket_def iAssert_def
  by (auto simp: outcome_simps Let_def split: if_splits prod.splits)

lemma EncryptTicket_ret: "EncryptTicket ssl cd seed packet t f f' = Ret (ret, p) \<Longrightarrow> 0 \<le> ret \<Longrightarrow> ret = 0"
  unfolding EncryptTicket_def iAssert_def
  by (auto simp: outcome_simps Let_def split: if_splits prod.splits)

lemma RSAVerify_ret: "RSAVerify ssl sig msg key = Ret ret \<Longrightarrow> ret = 0 \<or> ret = -1"
  by (auto simp: RSAVerify_def outcome_simps split: if_splits option.splits)

lemma voucher_survives:
  assumes "reads_keys ssl pub_file pub pri_file pri" and "rsa_pair ssl pub pri" and "md5_works ssl"
    and "parse_voucher cd (ser_voucher cd v) = v"
  shows "\<exists>p'. EncryptVoucher ssl cd seed p v pub_file = Ret (0, p') \<and>
              DecryptVoucher ssl cd v0 p' pri_file = Ret (0, v) \<and>
              get_str (vp_md5_data p') = md5_value ssl (ser_voucher cd v)"
proof -
  obtain c where "RSAEncrypt ssl seed (ser_voucher cd v) pub_file = Ret (0, c)"
      "RSADecrypt ssl c pri_file = Ret (0, ser_voucher cd v)"
    using rsa_file_roundtrip [OF assms(1,2)] by blast
  then show ?thesis
    using assms(3,4) by (simp add: EncryptVoucher_def DecryptVoucher_def MD5Encrypt_works)
qed

lemma ticket_survives:
  assumes "reads_keys ssl sign_pub_file sign_pub sign_pri_file sign_pri" and "sign_pair ssl sign_pri sign_pub"
    and "reads_keys ssl enc_pub_file enc_pub enc_pri_file enc_pri" and "rsa_pair ssl enc_pub enc_pri"
    and "md5_works ssl" and "parse_ticket cd (ser_ticket cd t) = t"
  shows "\<exists>p'. EncryptTicket ssl cd seed p t sign_pri_file enc_pub_file = Ret (0, p') \<and>
              DecryptTicket ssl cd t0 p' sign_pub_file enc_pri_file = Ret (0, t)"
proof -
  obtain c where "RSAEncrypt ssl seed (ser_ticket cd t) enc_pub_file = Ret (0, c)"
      "RSADecrypt ssl c enc_pri_file = Ret (0, ser_ticket cd t)"
    using rsa_file_roundtrip [OF assms(3,4)] by blast
  moreover obtain s where "RSASign ssl (ser_ticket cd t) sign_pri_file = Ret (0, s)"
      "RSAVerify ssl s (ser_ticket cd t) sign_pub_file = Ret 0"
    using sign_file_roundtrip [OF assms(1,2)] by blast
  ultimately show ?thesis
    using assms(5,6) by (simp add: EncryptTicket_def DecryptTicket_def MD5Encrypt_works)
qed

lemma ticket_accepted:
  assumes "fopen_ok ssl sign_key" and "read_pub ssl sign_key = Some rsa"
    and "DecryptTicket ssl cd ticket packet sign_key enc_key = Ret (0, t)"
  shows "\<exists>r plain. RSADecrypt ssl (get_str (tp_enc_data packet)) enc_key = Ret (r, plain) \<and> t = parse_ticket cd plain \<and>
           snd (MD5Encrypt ssl plain) = get_str (tp_md5_data packet) \<and>
           (plain = [] \<or> rsa_verify ssl rsa (take (nat (limit_size ssl rsa)) plain)
                            (take (rsa_size ssl rsa) (get_str (tp_sign_data packet))))"
proof -
  obtain r plain r' r'' where d: "RSADecrypt ssl (get_str (tp_enc_data packet)) enc_key = Ret (r, plain)"
      "MD5Encrypt ssl plain = (r', get_str (tp_md5_data packet))"
      "RSAVerify ssl (get_str (tp_sign_data packet)) plain sign_key = Ret r''" "0 \<le> r''" "t = parse_ticket cd plain"
    using assms(3) by (rule DecryptTicket_ok)
  from d(3,4) RSAVerify_ret have "RSAVerify ssl (get_str (tp_sign_data packet)) plain sign_key = Ret 0"
    by fastforce
  with d show ?thesis using RSAVerify_accepts [OF assms(1,2)] by auto
qed

section \<open>An instance of the codec\<close>

text \<open>A codec that serialises everything to the empty text and parses it to one message.\<close>

definition one_voucher :: SPAVoucher where
  "one_voucher = \<lparr>v_account = Some \<lparr>a_acc = Some ''xiaoming'', a_pwd = Some ''123456''\<rparr>, v_mac = None,
     v_address = None, v_timestamp = Some 1, v_random = Some 2\<rparr>"

definition one_ticket :: SPATicket where
  "one_ticket = \<lparr>t_ip = Some ''47.111.5.82'', t_timestamp = Some 1000, t_random = Some 7,
     t_valid_seconds = Some 30\<rparr>"

definition toy_codec :: codec where
  "toy_codec = \<lparr>ser_voucher = (\<lambda>_. ''v''), parse_voucher = (\<lambda>_. one_voucher),
     ser_voucher_packet = (\<lambda>_. ''p''), parse_voucher_packet = (\<lambda>_. \<lparr>vp_enc_data = None, vp_md5_data = None\<rparr>),
     ser_ticket = (\<lambda>_. ''t''), parse_ticket = (\<lambda>s. if s = [] then empty_SPATicket else one_ticket),
     ser_ticket_packet = (\<lambda>_. ''q''), parse_ticket_packet = (\<lambda>_. empty_SPATicketPacket),
     ser_test_req = (\<lambda>m. get_str (tq_str m)), parse_test_req = (\<lambda>s. \<lparr>tq_str = Some s\<rparr>),
     ser_test_rsp = (\<lambda>m. get_str (tr_str m)), parse_test_rsp = (\<lambda>s. \<lparr>tr_str = Some s\<rparr>),
     ser_access_req = (\<lambda>_. ''a''), parse_access_req = (\<lambda>_. \<lparr>gq_account = v_account one_voucher\<rparr>),
     ser_access_rsp = (\<lambda>_. ''b''), parse_access_rsp = (\<lambda>_. \<lparr>gr_access_list = []\<rparr>),
     ser_register_req = (\<lambda>_. ''r''), parse_register_req = (\<lambda>_. \<lparr>rq_app_list = []\<rparr>),
     ser_register_rsp = (\<lambda>_. ''s''), parse_register_rsp = (\<lambda>_. ConFuncRegisterAppRsp),
     ser_blacklist_req = (\<lambda>_. ''l''), parse_blacklist_req = (\<lambda>_. \<lparr>bq_op = Some 3, bq_ip = Some ''47.111.5.82'', bq_port = Some 6004\<rparr>),
     ser_blacklist_rsp = (\<lambda>_. ''m''), parse_blacklist_rsp = (\<lambda>_. GateFuncBlackListOpRsp),
     ser_notice_req = (\<lambda>_. ''n''), parse_notice_req = (\<lambda>_. \<lparr>nq_op = Some 1, nq_op_ip = Some ''47.111.5.82''\<rparr>),
     ser_notice_rsp = (\<lambda>_. ''o''), parse_notice_rsp = (\<lambda>_. GateFuncNoticeRsp)\<rparr>"

section \<open>Properties\<close>

text \<open>
  A voucher survives the way to the controller: encrypted with the controller's public
  key it is decrypted, its digest accepted and the same voucher parsed, whatever packet and
  voucher objects the results are written to.
\<close>

theorem voucher_roundtrip:
  assumes "reads_keys ssl pub_file pub pri_file pri" and "rsa_pair ssl pub pri" and "md5_works ssl"
    and "parse_voucher cd (ser_voucher cd v) = v"
  shows "\<exists>p'. EncryptVoucher ssl cd seed p v pub_file = Ret (0, p') \<and>
              DecryptVoucher ssl cd v0 p' pri_file = Ret (0, v)"
  using voucher_survives [OF assms] by blast

theorem voucher_roundtrip_witness:
  "\<exists>p'. EncryptVoucher toy_ssl toy_codec 0 \<lparr>vp_enc_data = None, vp_md5_data = None\<rparr> one_voucher ''pub'' = Ret (0, p') \<and>
        DecryptVoucher toy_ssl toy_codec one_voucher p' ''key'' = Ret (0, one_voucher)"
  by (rule voucher_roundtrip [OF toy_reads toy_pairs(1) toy_md5]) (simp add: toy_codec_def)

text \<open>
  C24. A ticket survives the way from the controller over the client to the gateway: signed
  with the controller's private key and encrypted with the gateway's public key, it is
  decrypted, its digest and signature accepted and the same ticket parsed.
\<close>

theorem ticket_roundtrip:
  assumes "reads_keys ssl sign_pub_file sign_pub sign_pri_file sign_pri" and "sign_pair ssl sign_pri sign_pub"
    and "reads_keys ssl enc_pub_file enc_pub enc_pri_file enc_pri" and "rsa_pair ssl enc_pub enc_pri"
    and "md5_works ssl" and "parse_ticket cd (ser_ticket cd t) = t"
  shows "\<exists>p'. EncryptTicket ssl cd seed p t sign_pri_file enc_pub_file = Ret (0, p') \<and>
              DecryptTicket ssl cd t0 p' sign_pub_file enc_pri_file = Ret (0, t)"
  using assms by (rule ticket_survives)

theorem ticket_roundtrip_witness:
  "\<exists>p'. EncryptTicket toy_ssl toy_codec 0 empty_SPATicketPacket one_ticket ''con_key'' ''gate_pub'' = Ret (0, p') \<and>
        DecryptTicket toy_ssl toy_codec empty_SPATicket p' ''con_pub'' ''gate_key'' = Ret (0, one_ticket)"
  by (rule ticket_roundtrip [OF toy_reads toy_pairs(2) toy_reads toy_pairs(1) toy_md5]) (simp add: toy_codec_def)

text \<open>
  The gateway accepts a ticket only when the text it decrypts has the digest of the packet
  and is either empty or starts with a block for which the packet's signature verifies.
\<close>

lemma accepted_ticket_is_signed:
  assumes "fopen_ok ssl sign_key" and "read_pub ssl sign_key = Some rsa"
    and "DecryptTicket ssl cd ticket packet sign_key enc_key = Ret (0, t)"
  shows "\<exists>r plain. RSADecrypt ssl (get_str (tp_enc_data packet)) enc_key = Ret (r, plain) \<and> t = parse_ticket cd plain \<and>
           snd (MD5Encrypt ssl plain) = get_str (tp_md5_data packet) \<and>
           (plain = [] \<or> rsa_verify ssl rsa (take (nat (limit_size ssl rsa)) plain)
                            (take (rsa_size ssl rsa) (get_str (tp_sign_data packet))))"
  using assms by (rule ticket_accepted)

text \<open>
  A packet with no encrypted data needs no signature: with the digest of the empty text,
  which anybody can compute, it is accepted as the empty ticket under any signature.
\<close>

lemma empty_ticket_needs_no_signature:
  assumes "reads_keys ssl sign_key sign_pub enc_key enc_pri" and "42 < rsa_size ssl enc_pri" and "md5_works ssl"
    and "get_str (tp_enc_data packet) = []" and "get_str (tp_md5_data packet) = md5_value ssl []"
  shows "DecryptTicket ssl cd ticket packet sign_key enc_key = Ret (0, parse_ticket cd [])"
  using assms
  by (simp add: DecryptTicket_def reads_keys_def RSADecrypt_def RSADecrypt_loop.simps [of _ _ "[]"]
      limit_size_def MD5Encrypt_works RSAVerify_def RSAVerify_loop.simps [of _ _ "[]"])

end
