(* ===== verification/Service.thy ===== *)
theory Service
  imports Transport Connector SpaTools
begin

text \<open>
  \<open>comm/erpc/erpc_service\<close>, \<open>comm/erpc/erpc_config\<close> and the request half of
  \<open>comm/erpc/erpc_handler.cpp\<close>: the table of virtual service methods, its base version, and
  the way from a packet or datagram to the method and back.

  A service is a record of its methods over the state \<open>'s\<close> of the process. A method returns
  its code, its response message where it has one, and the new state.
\<close>

section \<open>The command table\<close>

definition CMD_UDP_TEST_FUNC_RECV :: int where [const_defs]: "CMD_UDP_TEST_FUNC_RECV = 1"
definition CMD_RPC_TEST_FUNC_REVERSE :: int where [const_defs]: "CMD_RPC_TEST_FUNC_REVERSE = 2"
definition CMD_UDP_CONTROLLER_FUNC_RECV :: int where [const_defs]: "CMD_UDP_CONTROLLER_FUNC_RECV = 101"
definition CMD_RPC_CONTROLLER_FUNC_GET_ACCESS :: int where
  [const_defs]: "CMD_RPC_CONTROLLER_FUNC_GET_ACCESS = 102"
definition CMD_RPC_CONTROLLER_FUNC_REGISTER_APP :: int where
  [const_defs]: "CMD_RPC_CONTROLLER_FUNC_REGISTER_APP = 103"
definition CMD_UDP_APPGATEWAY_FUNC_RECV :: int where [const_defs]: "CMD_UDP_APPGATEWAY_FUNC_RECV = 201"
definition CMD_RPC_APPGATEWAY_FUNC_BLACK_LIST_OP :: int where
  [const_defs]: "CMD_RPC_APPGATEWAY_FUNC_BLACK_LIST_OP = 202"
definition CMD_RPC_APPGATEWAY_FUNC_NOTICE :: int where [const_defs]: "CMD_RPC_APPGATEWAY_FUNC_NOTICE = 203"

section \<open>Services\<close>

record 's ErpcService =
  TestFuncUdpRecv :: "string \<Rightarrow> string \<Rightarrow> int \<Rightarrow> 's \<Rightarrow> (int \<times> 's) outcome"
  TestFuncReverse :: "TestFuncReverseReq \<Rightarrow> Extra \<Rightarrow> 's \<Rightarrow> (int \<times> TestFuncReverseRsp \<times> 's) outcome"
  ConFuncUdpRecv :: "string \<Rightarrow> string \<Rightarrow> int \<Rightarrow> 's \<Rightarrow> (int \<times> 's) outcome"
  ConFuncGetAccess :: "ConFuncGetAccessReq \<Rightarrow> Extra \<Rightarrow> 's \<Rightarrow> (int \<times> ConFuncGetAccessRsp \<times> 's) outcome"
  ConFuncRegisterApp :: "ConFuncRegisterAppReq \<Rightarrow> Extra \<Rightarrow> 's \<Rightarrow> (int \<times> ConFuncRegisterAppRsp \<times> 's) outcome"
  GateFuncUdpRecv :: "string \<Rightarrow> string \<Rightarrow> int \<Rightarrow> 's \<Rightarrow> (int \<times> 's) outcome"
  GateFuncBlackListOp :: "GateFuncBlackListOpReq \<Rightarrow> Extra \<Rightarrow> 's \<Rightarrow> (int \<times> GateFuncBlackListOpRsp \<times> 's) outcome"
  GateFuncNotice :: "GateFuncNoticeReq \<Rightarrow> Extra \<Rightarrow> 's \<Rightarrow> (int \<times> GateFuncNoticeRsp \<times> 's) outcome"
  AppFuncHttps :: "string \<Rightarrow> Extra \<Rightarrow> 's \<Rightarrow> (int \<times> string \<times> 's) outcome"

definition base_service :: "'s ErpcService" where
  "base_service = \<lparr>
     TestFuncUdpRecv = (\<lambda>msg ip port s. Ret (kErrServiceNotFound, s)),
     TestFuncReverse = (\<lambda>req extra s. Ret (kErrServiceNotFound, \<lparr>tr_str = None\<rparr>, s)),
     ConFuncUdpRecv = (\<lambda>msg ip port s. Ret (kErrServiceNotFound, s)),
     ConFuncGetAccess = (\<lambda>req extra s. Ret (kErrServiceNotFound, \<lparr>gr_access_list = []\<rparr>, s)),
     ConFuncRegisterApp = (\<lambda>req extra s. Ret (kErrServiceNotFound, ConFuncRegisterAppRsp, s)),
     GateFuncUdpRecv = (\<lambda>msg ip port s. Ret (kErrServiceNotFound, s)),
     GateFuncBlackListOp = (\<lambda>req extra s. Ret (kErrServiceNotFound, GateFuncBlackListOpRsp, s)),
     GateFuncNotice = (\<lambda>req extra s. Ret (kErrServiceNotFound, GateFuncNoticeRsp, s)),
     AppFuncHttps = (\<lambda>request extra s. Ret (kErrServiceNotFound, [], s))\<rparr>"

record 's ErpcConfig =
  cfg_service :: "'s ErpcService"
  server_cert :: string
  server_key :: string

definition SetServiceObj :: "'s ErpcService \<Rightarrow> 's ErpcConfig \<Rightarrow> 's ErpcConfig" where
  "SetServiceObj svc c = c\<lparr>cfg_service := svc\<rparr>"

definition SetServerCert :: "string \<Rightarrow> string \<Rightarrow> 's ErpcConfig \<Rightarrow> 's ErpcConfig" where
  "SetServerCert cert key c = c\<lparr>server_cert := cert, server_key := key\<rparr>"

definition RegisterService :: "'s ErpcService \<Rightarrow> string \<Rightarrow> string \<Rightarrow> 's ErpcConfig \<Rightarrow> 's ErpcConfig" where
  "RegisterService svc cert key c = SetServerCert cert key (SetServiceObj svc c)"

section \<open>RPC requests\<close>

text \<open>The macro \<open>RPC_CALL_FORWARD\<close>.\<close>

definition RPC_CALL_FORWARD ::
  "(string \<Rightarrow> 'req) \<Rightarrow> ('rsp \<Rightarrow> string) \<Rightarrow> ('req \<Rightarrow> Extra \<Rightarrow> 's \<Rightarrow> (int \<times> 'rsp \<times> 's) outcome) \<Rightarrow>
     string \<Rightarrow> Extra \<Rightarrow> 's \<Rightarrow> (int \<times> string \<times> 's) outcome" where
  "RPC_CALL_FORWARD parse ser func request extra s =
     obind (func (parse request) extra s) (\<lambda>(ret, rsp, s). Ret (ret, ser rsp, s))"

definition forward_returning_zero :: "(int \<times> string \<times> 's) outcome \<Rightarrow> (int \<times> string \<times> 's) outcome" where
  "forward_returning_zero m = obind m (\<lambda>(ret, response, s). Ret (0, response, s))"

definition RequestForwardWithCmd ::
  "codec \<Rightarrow> 's ErpcService \<Rightarrow> int \<Rightarrow> string \<Rightarrow> string \<Rightarrow> Extra \<Rightarrow> 's \<Rightarrow> (int \<times> string \<times> 's) outcome" where
  "RequestForwardWithCmd cd svc cmdid request response extra s =
     (if cmdid = CMD_RPC_TEST_FUNC_REVERSE then
        forward_returning_zero
          (RPC_CALL_FORWARD (parse_test_req cd) (ser_test_rsp cd) (TestFuncReverse svc) request extra s)
      else if cmdid = CMD_RPC_APPGATEWAY_FUNC_BLACK_LIST_OP then
        forward_returning_zero
          (RPC_CALL_FORWARD (parse_blacklist_req cd) (ser_blacklist_rsp cd) (GateFuncBlackListOp svc) request extra s)
      else if cmdid = CMD_RPC_CONTROLLER_FUNC_GET_ACCESS then
        forward_returning_zero
          (RPC_CALL_FORWARD (parse_access_req cd) (ser_access_rsp cd) (ConFuncGetAccess svc) request extra s)
      else if cmdid = CMD_RPC_CONTROLLER_FUNC_REGISTER_APP then
        forward_returning_zero
          (RPC_CALL_FORWARD (parse_register_req cd) (ser_register_rsp cd) (ConFuncRegisterApp svc) request extra s)
      else if cmdid = CMD_RPC_APPGATEWAY_FUNC_NOTICE then
        forward_returning_zero
          (RPC_CALL_FORWARD (parse_notice_req cd) (ser_notice_rsp cd) (GateFuncNotice svc) request extra s)
      else Ret (kErrServiceNotFound, response, s))"

text \<open>
  The packet is a fresh object; every field that the code reads has been written before.
\<close>

definition ParseRequestAndForward ::
  "codec \<Rightarrow> 's ErpcService \<Rightarrow> string \<Rightarrow> string \<Rightarrow> Extra \<Rightarrow> 's \<Rightarrow> (int \<times> string \<times> 's) outcome" where
  "ParseRequestAndForward cd svc req_str rsp_str extra s =
     obind (ParseDataFromString empty_Packet req_str 0) (\<lambda>(ret, packet).
       iAssert ret (Ret (-1, rsp_str, s))
         (obind (RequestForwardWithCmd cd svc (sint (p_cmdid packet)) (p_body packet) [] extra s)
           (\<lambda>(ret, response, s).
             let header = (p_header packet)\<lparr>ret_code := word_of_int ret\<rparr> in
             if ret < 0 then Ret (ret, rsp_str, s)
             else
               let header = (if ret = 0 then header\<lparr>ret_msg := ''Request OK''\<rparr> else header);
                   packet = packet\<lparr>p_header := header, p_body := response\<rparr>
               in Ret (ret, PackDataToString packet 1, s))))"

section \<open>Connections\<close>

record FdDataType =
  fd :: int
  event_type :: "32 word"
  fd_socket_info :: SocketInfo
  connector :: "SSLConnector option"

text \<open>
  The result of a request handler: its code, the bytes that were sent back, the new state. A
  missing connector is a null pointer that the first read dereferences (\<open>HandleRead\<close>).
\<close>

definition HandleRPCRequest ::
  "codec \<Rightarrow> 's ErpcService \<Rightarrow> FdDataType \<Rightarrow> io_result \<Rightarrow> (int \<times> errno) list \<Rightarrow> 's \<Rightarrow> (int \<times> string \<times> 's) outcome" where
  "HandleRPCRequest cd svc fd_data r ws s =
     (let connector = connector fd_data;
          extra = \<lparr>socket_info = fd_socket_info fd_data\<rparr> in
      obind (HandleRead connector r []) (\<lambda>(ret, req).
        if ret = 0 then Ret (0, [], s)
        else if ret < 0 then Ret (ret, [], s)
        else
          obind (ParseRequestAndForward cd svc req [] extra s) (\<lambda>(ret, rsp, s).
            iAssert ret (Ret (-1, [], s))
              (obind (run_loop (HandleWrite connector ws rsp)) (\<lambda>(ret, sent).
                iAssert ret (Ret (-1, sent, s)) (Ret (0, sent, s)))))))"

definition HandleApplicationRequest ::
  "'s ErpcService \<Rightarrow> FdDataType \<Rightarrow> io_result \<Rightarrow> (int \<times> errno) list \<Rightarrow> 's \<Rightarrow> (int \<times> string \<times> 's) outcome" where
  "HandleApplicationRequest svc fd_data r ws s =
     (let connector = connector fd_data;
          extra = \<lparr>socket_info = fd_socket_info fd_data\<rparr> in
      obind (HandleRead connector r []) (\<lambda>(ret, request).
        if ret = 0 then Ret (0, [], s)
        else if ret < 0 then Ret (ret, [], s)
        else
          obind (AppFuncHttps svc request extra s) (\<lambda>(ret, response, s).
            iAssert ret (Ret (-1, [], s))
              (obind (run_loop (HandleWrite connector ws response)) (\<lambda>(ret, sent).
                iAssert ret (Ret (-1, sent, s)) (Ret (0, sent, s)))))))"

definition HandleUDPRequest ::
  "'s ErpcService \<Rightarrow> int \<Rightarrow> errno \<Rightarrow> datagram \<Rightarrow> 's \<Rightarrow> (int \<times> 's) outcome" where
  "HandleUDPRequest svc n err d s =
     obind (UDPRecv n err d) (\<lambda>(ret, msg, from_ip, from_port).
       iAssert ret (Ret (-1, s))
         (obind (substr msg 0 4) (\<lambda>cmdid_str.
          obind (substr_from msg 4) (\<lambda>msg_str.
          obind (MemoryCorpToObject cmdid_str) (\<lambda>cmdid.
          obind
            (if uint cmdid = CMD_UDP_TEST_FUNC_RECV then TestFuncUdpRecv svc msg_str from_ip from_port s
             else if uint cmdid = CMD_UDP_CONTROLLER_FUNC_RECV then ConFuncUdpRecv svc msg_str from_ip from_port s
             else if uint cmdid = CMD_UDP_APPGATEWAY_FUNC_RECV then GateFuncUdpRecv svc msg_str from_ip from_port s
             else Ret (ret, s)) (\<lambda>(ret, s).
          iAssert ret (Ret (-1, s)) (Ret (0, s))))))))"

unbundle bit_operations_syntax

text \<open>Event masks of \<open>epoll\<close>.\<close>

definition EPOLLIN :: "32 word" where "EPOLLIN = 0x1"
definition EPOLLOUT :: "32 word" where "EPOLLOUT = 0x4"
definition EPOLLERR :: "32 word" where "EPOLLERR = 0x8"
definition EPOLLHUP :: "32 word" where "EPOLLHUP = 0x10"
definition EPOLLET :: "32 word" where "EPOLLET = 0x80000000"

text \<open>
  Accepting a connection: \<open>fd_data\<close> is the caller's object, which a failed \<open>accept\<close> leaves
  as it was.
\<close>

definition HandleRPCAccept ::
  "tls_env \<Rightarrow> 's ErpcConfig \<Rightarrow> int \<Rightarrow> string \<Rightarrow> int \<Rightarrow> FdDataType \<Rightarrow> (int \<times> FdDataType) outcome" where
  "HandleRPCAccept env cfg tmp_fd ip sin_port fd_data =
     iAssert tmp_fd (Ret (-1, fd_data))
       (obind (SSLConnector_new env (server_cert cfg) (server_key cfg) 1) (\<lambda>c.
         let (ret, c) = SSLAccept env tmp_fd c;
             fd_data = \<lparr>fd = tmp_fd, event_type = EPOLLIN OR EPOLLET,
                        fd_socket_info = \<lparr>si_ip = ip, si_port = sin_port\<rparr>, connector = Some c\<rparr>
         in iAssert ret (Ret (-1, fd_data)) (Ret (0, fd_data))))"

section \<open>The contract of a service\<close>

text \<open>
  A service keeps an invariant of its process when every method does; the request handlers
  then keep it for every request.
\<close>

locale service_contract =
  fixes svc :: "'s ErpcService"
    and inv :: "'s \<Rightarrow> bool"
  assumes inv_TestFuncUdpRecv: "inv s \<Longrightarrow> TestFuncUdpRecv svc m ip p s = Ret (r, s') \<Longrightarrow> inv s'"
    and inv_TestFuncReverse: "inv s \<Longrightarrow> TestFuncReverse svc tq e s = Ret (r, trsp, s') \<Longrightarrow> inv s'"
    and inv_ConFuncUdpRecv: "inv s \<Longrightarrow> ConFuncUdpRecv svc m ip p s = Ret (r, s') \<Longrightarrow> inv s'"
    and inv_ConFuncGetAccess: "inv s \<Longrightarrow> ConFuncGetAccess svc gq e s = Ret (r, grsp, s') \<Longrightarrow> inv s'"
    and inv_ConFuncRegisterApp: "inv s \<Longrightarrow> ConFuncRegisterApp svc rq e s = Ret (r, rrsp, s') \<Longrightarrow> inv s'"
    and inv_GateFuncUdpRecv: "inv s \<Longrightarrow> GateFuncUdpRecv svc m ip p s = Ret (r, s') \<Longrightarrow> inv s'"
    and inv_GateFuncBlackListOp: "inv s \<Longrightarrow> GateFuncBlackListOp svc bq e s = Ret (r, brsp, s') \<Longrightarrow> inv s'"
    and inv_GateFuncNotice: "inv s \<Longrightarrow> GateFuncNotice svc nq e s = Ret (r, nrsp, s') \<Longrightarrow> inv s'"
    and inv_AppFuncHttps: "inv s \<Longrightarrow> AppFuncHttps svc m e s = Ret (r, out, s') \<Longrightarrow> inv s'"
begin

lemmas inv_methods =
  inv_TestFuncUdpRecv inv_TestFuncReverse inv_ConFuncUdpRecv inv_ConFuncGetAccess inv_ConFuncRegisterApp
  inv_GateFuncUdpRecv inv_GateFuncBlackListOp inv_GateFuncNotice inv_AppFuncHttps

lemma inv_forward:
  "inv s \<Longrightarrow> RequestForwardWithCmd cd svc c req rsp e s = Ret (r, out, s') \<Longrightarrow> inv s'"
  by (auto simp: RequestForwardWithCmd_def forward_returning_zero_def RPC_CALL_FORWARD_def outcome_simps
      split: if_splits dest: inv_methods)

lemma inv_parse_and_forward:
  "inv s \<Longrightarrow> ParseRequestAndForward cd svc req rsp e s = Ret (r, out, s') \<Longrightarrow> inv s'"
  by (auto simp: ParseRequestAndForward_def iAssert_def outcome_simps Let_def
      split: if_splits dest: inv_forward)

lemma inv_HandleRPCRequest:
  "inv s \<Longrightarrow> HandleRPCRequest cd svc fd_data r ws s = Ret (ret, sent, s') \<Longrightarrow> inv s'"
  by (auto simp: HandleRPCRequest_def iAssert_def outcome_simps Let_def
      split: if_splits dest: inv_parse_and_forward)

lemma inv_HandleApplicationRequest:
  "inv s \<Longrightarrow> HandleApplicationRequest svc fd_data r ws s = Ret (ret, sent, s') \<Longrightarrow> inv s'"
  by (auto simp: HandleApplicationRequest_def iAssert_def outcome_simps Let_def
      split: if_splits dest: inv_AppFuncHttps)

lemma inv_HandleUDPRequest:
  "inv s \<Longrightarrow> HandleUDPRequest svc n err d s = Ret (ret, s') \<Longrightarrow> inv s'"
  by (auto simp: HandleUDPRequest_def iAssert_def outcome_simps Let_def
      split: if_splits dest: inv_methods)

end

interpretation base: service_contract base_service "\<lambda>s. s = s0" for s0 :: 's
  by unfold_locales (simp_all add: base_service_def)

section \<open>Lemmas\<close>

definition rpc_commands :: "int set" where
  "rpc_commands = {CMD_RPC_TEST_FUNC_REVERSE, CMD_RPC_APPGATEWAY_FUNC_BLACK_LIST_OP,
     CMD_RPC_CONTROLLER_FUNC_GET_ACCESS, CMD_RPC_CONTROLLER_FUNC_REGISTER_APP, CMD_RPC_APPGATEWAY_FUNC_NOTICE}"

lemma forward_known:
  "c \<in> rpc_commands \<Longrightarrow> RequestForwardWithCmd cd svc c req rsp e s = Ret (ret, out, s') \<Longrightarrow> ret = 0"
  by (auto simp: RequestForwardWithCmd_def rpc_commands_def forward_returning_zero_def outcome_simps
      split: if_splits)

lemma forward_unknown:
  "c \<notin> rpc_commands \<Longrightarrow> RequestForwardWithCmd cd svc c req rsp e s = Ret (kErrServiceNotFound, rsp, s)"
  by (simp add: RequestForwardWithCmd_def rpc_commands_def)

lemma forward_ret: "RequestForwardWithCmd cd svc c req rsp e s = Ret (ret, out, s') \<Longrightarrow> ret = 0 \<or> ret = kErrServiceNotFound"
  by (cases "c \<in> rpc_commands") (auto dest: forward_known simp: forward_unknown)

lemma HandleRequest_null:
  assumes "\<not> has_ssl (connector fd_data)"
  shows "HandleRPCRequest cd svc fd_data r ws s = Undef"
    and "HandleApplicationRequest svc fd_data r ws s = Undef"
  using assms by (simp_all add: HandleRPCRequest_def HandleApplicationRequest_def HandleRead_null)

text \<open>
  What becomes of a response: the result of the handler, the bytes that the writes took and the
  state, when the writes are those of \<open>SSL_write\<close>, whole or not at all.
\<close>

definition reply_outcome :: "string \<Rightarrow> (int \<times> errno) list \<Rightarrow> 's \<Rightarrow> (int \<times> string \<times> 's) outcome" where
  "reply_outcome rsp ws s =
     (case dropWhile interrupted ws of
        [] \<Rightarrow> Diverge
      | (n, e) # rest \<Rightarrow>
          if 0 < n then Ret (0, rsp, s)
          else if n = 0 \<or> e = EAGAIN then Ret (0, [], s)
          else Ret (-1, [], s))"

lemma reply_written:
  assumes "has_ssl con" and "whole_writes rsp ws"
  shows "obind (run_loop (HandleWrite con ws rsp)) (\<lambda>(ret, sent). iAssert ret (Ret (-1, sent, s)) (Ret (0, sent, s)))
    = reply_outcome rsp ws s"
  unfolding HandleWrite_whole [OF assms] reply_outcome_def
  by (simp split: list.split prod.split del: dropWhile_eq_Nil_conv)

lemma Pack_not_empty: "PackDataToString p 1 \<noteq> []"
  by (simp add: Pack_header le32_def Let_def)

definition toy_fd_data :: FdDataType where
  "toy_fd_data = \<lparr>fd = 5, event_type = EPOLLIN, fd_socket_info = \<lparr>si_ip = [], si_port = 0\<rparr>,
     connector = Some \<lparr>ctx_handle = True, ssl_handle = Some True, is_server = 1, conn_status = 1\<rparr>\<rparr>"

definition toy_request :: io_result where
  "toy_request = \<lparr>io_n = 7, io_errno = EAGAIN, io_data = le32 2 @ ''abc''\<rparr>"

section \<open>Properties\<close>

text \<open>
  C31. Every response that a server packs says that the request succeeded: whatever code the
  service method returned, an accepted request is answered with return code 0 and the message
  \<open>Request OK\<close>, the command it asked for and the serialised response of the method.
\<close>

theorem every_response_says_ok:
  assumes "ParseRequestAndForward cd svc req [] e s = Ret (ret, rsp, s')" and "0 \<le> ret"
  shows "\<exists>c body out. req = le32 c @ body \<and> sint c \<in> rpc_commands \<and>
           RequestForwardWithCmd cd svc (sint c) body [] e s = Ret (0, out, s') \<and>
           ParseDataFromString empty_Packet rsp 1 =
             Ret (0, \<lparr>p_cmdid = c, p_header = \<lparr>ret_code = 0, ret_msg = wire_msg ''Request OK''\<rparr>, p_body = out\<rparr>)"
proof -
  have "4 \<le> length req"
    using assms by (cases "length req < 4")
      (auto simp: ParseRequestAndForward_def request_parse_cases(1) kPacketLengthErr_def)
  from request_parse_cases(2) [OF this] obtain c where c: "req = le32 c @ drop 4 req"
      "ParseDataFromString empty_Packet req 0 = Ret (0, empty_Packet\<lparr>p_cmdid := c, p_body := drop 4 req\<rparr>)"
    by blast
  from assms c(2) obtain out where f: "RequestForwardWithCmd cd svc (sint c) (drop 4 req) [] e s = Ret (ret, out, s')"
    by (auto simp: ParseRequestAndForward_def outcome_simps Let_def split: if_splits)
  with assms(2) have known: "sint c \<in> rpc_commands" and ret: "ret = 0"
    using forward_unknown [of "sint c" cd svc "drop 4 req" "[]" e s] forward_ret [OF f]
    by (auto simp: kErrServiceNotFound_def)
  have "rsp = PackDataToString \<lparr>p_cmdid = c, p_header = \<lparr>ret_code = 0, ret_msg = ''Request OK''\<rparr>, p_body = out\<rparr> 1"
    using assms(1) c(2) f ret
    by (simp add: ParseRequestAndForward_def outcome_simps Let_def empty_Packet_def)
  then show ?thesis
    using c(1) f known ret by (intro exI [of _ c] exI [of _ "drop 4 req"] exI [of _ out])
      (simp add: Pack_header Parse_header)
qed

theorem every_response_says_ok_witness:
  "\<exists>rsp. ParseRequestAndForward toy_codec base_service (le32 2 @ ''abc'') [] \<lparr>socket_info = \<lparr>si_ip = [], si_port = 0\<rparr>\<rparr> () =
       Ret (0, rsp, ()) \<and>
     (\<exists>p. ParseDataFromString empty_Packet rsp 1 = Ret (0, p) \<and> ret_code (p_header p) = 0)"
proof -
  let ?run = "ParseRequestAndForward toy_codec base_service (le32 2 @ ''abc'') [] \<lparr>socket_info = \<lparr>si_ip = [], si_port = 0\<rparr>\<rparr> ()"
  obtain rsp where rsp: "?run = Ret (0, rsp, ())"
    by (simp add: ParseRequestAndForward_def Parse_no_header RequestForwardWithCmd_def const_defs
        forward_returning_zero_def RPC_CALL_FORWARD_def base_service_def)
  from every_response_says_ok [OF this] show ?thesis using rsp by auto
qed

text \<open>
  An RPC packet that is too short or names no RPC command is not answered: the handler
  fails with -1, sends nothing and leaves the state of the process alone.
\<close>

theorem bad_request_not_answered:
  assumes "has_ssl (connector fd_data)" and "0 < io_n r"
    and "req = take (nat (io_n r)) (io_data r)"
    and "length req < 4 \<or> (\<exists>c body. req = le32 c @ body \<and> sint c \<notin> rpc_commands)"
  shows "HandleRPCRequest cd svc fd_data r ws s = Ret (-1, [], s)"
proof -
  have "\<exists>ret < 0. ParseRequestAndForward cd svc req [] e s = Ret (ret, [], s)" for e
    using assms(4)
  proof
    assume "\<exists>c body. req = le32 c @ body \<and> sint c \<notin> rpc_commands"
    then show ?thesis
      by (auto simp: ParseRequestAndForward_def Parse_no_header forward_unknown kErrServiceNotFound_def)
  qed (auto simp: ParseRequestAndForward_def request_parse_cases(1) kPacketLengthErr_def)
  then obtain ret where "ret < 0"
    "ParseRequestAndForward cd svc req [] \<lparr>socket_info = fd_socket_info fd_data\<rparr> s = Ret (ret, [], s)" by blast
  then show ?thesis
    using assms(1-3) by (simp add: HandleRPCRequest_def HandleRead_pos)
qed

theorem bad_request_not_answered_witness:
  "HandleRPCRequest toy_codec base_service
     toy_fd_data \<lparr>io_n = 3, io_errno = EAGAIN, io_data = ''abc''\<rparr> [] () = Ret (-1, [], ())"
  by (rule bad_request_not_answered [where req = "''abc''"]) (simp_all add: toy_fd_data_def)

text \<open>
  C38. A response is delivered whole or lost, and a lost one may still be reported as a success.
  The results of \<open>SSL_write\<close> that the program can see are the whole length, zero or a negative
  number (it does not enable partial writes). The first one that is not an interruption decides,
  for an RPC request and for one to the application alike: the whole length sends the response
  and the handler returns 0; nothing written, or a socket that would block (the accepted sockets
  are non-blocking), drops the response, which is never sent later, and the handler returns 0 all
  the same; any other error returns -1. In all three cases what the service did to its state
  stays done. The bytes counted as sent are those that a successful write reported (records of a
  long response that left before the socket blocked are not), and the connection has its
  connection object.
\<close>

theorem response_whole_or_lost:
  assumes "has_ssl (connector x)" and "0 < io_n r"
    and "req = take (nat (io_n r)) (io_data r)" and "extra = \<lparr>socket_info = fd_socket_info x\<rparr>"
  shows "(ParseRequestAndForward cd svc req [] extra s = Ret (ret, rsp, s') \<and> 0 \<le> ret \<and> whole_writes rsp ws \<longrightarrow>
       HandleRPCRequest cd svc x r ws s = reply_outcome rsp ws s') \<and>
     (AppFuncHttps svc req extra s = Ret (ret, rsp, s') \<and> 0 \<le> ret \<and> whole_writes rsp ws \<longrightarrow>
       HandleApplicationRequest svc x r ws s = reply_outcome rsp ws s')"
  using assms by (auto simp: HandleRPCRequest_def HandleApplicationRequest_def HandleRead_pos reply_written Let_def)

text \<open>A reversal request is answered on the third attempt, and dropped with a success when the socket would block.\<close>

theorem response_whole_or_lost_witness:
  "\<exists>rsp. rsp \<noteq> [] \<and>
     HandleRPCRequest toy_codec base_service toy_fd_data toy_request
       [(-1, EINTR), (-1, EINTR), (int (length rsp), EAGAIN)] () = Ret (0, rsp, ()) \<and>
     HandleRPCRequest toy_codec base_service toy_fd_data toy_request [(-1, EINTR), (-1, EAGAIN)] () = Ret (0, [], ())"
proof -
  let ?extra = "\<lparr>socket_info = fd_socket_info toy_fd_data\<rparr>"
  have io: "has_ssl (connector toy_fd_data)" "0 < io_n toy_request"
      "le32 2 @ ''abc'' = take (nat (io_n toy_request)) (io_data toy_request)"
    by (simp_all add: toy_fd_data_def toy_request_def)
  obtain rsp where rsp: "ParseRequestAndForward toy_codec base_service (le32 2 @ ''abc'') [] ?extra () = Ret (0, rsp, ())"
      "rsp \<noteq> []"
    by (simp add: ParseRequestAndForward_def Parse_no_header RequestForwardWithCmd_def const_defs
        forward_returning_zero_def RPC_CALL_FORWARD_def base_service_def Pack_not_empty)
  note handled = response_whole_or_lost [OF io refl, THEN conjunct1, rule_format]
  have "HandleRPCRequest toy_codec base_service toy_fd_data toy_request
      [(-1, EINTR), (-1, EINTR), (int (length rsp), EAGAIN)] () = Ret (0, rsp, ())"
    by (subst handled, rule conjI [OF rsp(1)])
      (use rsp(2) in \<open>simp_all add: whole_writes_def reply_outcome_def interrupted_def\<close>)
  moreover have "HandleRPCRequest toy_codec base_service toy_fd_data toy_request [(-1, EINTR), (-1, EAGAIN)] () = Ret (0, [], ())"
    by (subst handled, rule conjI [OF rsp(1)]) (simp_all add: whole_writes_def reply_outcome_def interrupted_def)
  ultimately show ?thesis using rsp(2) by blast
qed

text \<open>
  C39. A datagram of fewer than four bytes, from anybody, stops the server: the handler ends in
  an uncaught exception. A longer datagram with an unknown command is reported as a success
  and changes nothing.
\<close>

theorem udp_request_edge_cases:
  "(length (dg_data d) < 4 \<longrightarrow> HandleUDPRequest svc (int (length (dg_data d))) err d s = Throw OutOfRange) \<and>
   (\<forall>c body. dg_data d = le32 c @ body \<longrightarrow>
      uint c \<notin> {CMD_UDP_TEST_FUNC_RECV, CMD_UDP_CONTROLLER_FUNC_RECV, CMD_UDP_APPGATEWAY_FUNC_RECV} \<longrightarrow>
      HandleUDPRequest svc (int (length (dg_data d))) err d s = Ret (0, s))"
  by (auto simp: HandleUDPRequest_def UDPRecv_def MemoryCorpToObject_def)

theorem udp_request_edge_cases_witness:
  "HandleUDPRequest base_service 3 EAGAIN \<lparr>dg_data = ''abc'', dg_ip = ''1.2.3.4'', dg_port = 9\<rparr> () = Throw OutOfRange"
  using udp_request_edge_cases [of "\<lparr>dg_data = ''abc'', dg_ip = ''1.2.3.4'', dg_port = 9\<rparr>" base_service EAGAIN "()"]
  by simp

end
