(* ===== verification/StdMap.thy ===== *)
theory StdMap
  imports Prelude "HOL-Library.List_Lexorder" "HOL-Library.Char_ord"
begin

text \<open>
  \<open>std::map\<close> as the code uses it: an association list kept in key order, so that iteration
  visits the keys in order. \<open>map_insert\<close> is \<open>insert\<close> (an existing key keeps its value),
  \<open>map_assign\<close> is assignment through \<open>operator[]\<close>, \<open>map_find\<close> is \<open>find\<close> and \<open>map_erase\<close> is
  \<open>erase\<close>. String keys compare byte by byte, as \<open>std::string\<close> does.

  The locale \<open>std_map\<close> states what the rest of the development relies on; its interpretation
  \<open>ordmap\<close> shows that the ordered association lists provide it.
\<close>

section \<open>The interface\<close>

locale std_map =
  fixes find :: "'k \<Rightarrow> 'm \<Rightarrow> 'v option"
    and insert :: "'k \<Rightarrow> 'v \<Rightarrow> 'm \<Rightarrow> 'm"
    and assign :: "'k \<Rightarrow> 'v \<Rightarrow> 'm \<Rightarrow> 'm"
    and erase :: "'k \<Rightarrow> 'm \<Rightarrow> 'm"
    and wf :: "'m \<Rightarrow> bool"
  assumes find_insert:
      "find k' (insert k v m) = (if k' = k \<and> find k m = None then Some v else find k' m)"
    and find_assign: "find k' (assign k v m) = (if k' = k then Some v else find k' m)"
    and find_erase: "find k' (erase k m) = (if k' = k then None else find k' m)"
    and wf_insert: "wf m \<Longrightarrow> wf (insert k v m)"
    and wf_assign: "wf m \<Longrightarrow> wf (assign k v m)"
    and wf_erase: "wf m \<Longrightarrow> wf (erase k m)"
begin

lemma insert_keeps: "find k m = Some w \<Longrightarrow> find k' (insert k v m) = find k' m"
  by (simp add: find_insert)

lemma find_insert_same: "find k (insert k v m) = Some (case find k m of None \<Rightarrow> v | Some w \<Rightarrow> w)"
  by (cases "find k m") (simp_all add: find_insert)

lemma insert_mono: "find k' m = Some w \<Longrightarrow> find k' (insert k v m) = Some w"
  by (auto simp: find_insert)

lemma insert_other: "k' \<noteq> k \<Longrightarrow> find k' (insert k v m) = find k' m"
  by (simp add: find_insert)

lemma erase_other: "k' \<noteq> k \<Longrightarrow> find k' (erase k m) = find k' m"
  by (simp add: find_erase)

lemma dom_insert: "{k'. find k' (insert k v m) \<noteq> None} = Set.insert k {k'. find k' m \<noteq> None}"
  by (auto simp: find_insert)

end

section \<open>Ordered association lists\<close>

type_synonym ('k, 'v) stdmap = "('k \<times> 'v) list"

fun map_find :: "'k \<Rightarrow> ('k, 'v) stdmap \<Rightarrow> 'v option" where
  "map_find k [] = None"
| "map_find k ((k', v) # m) = (if k = k' then Some v else map_find k m)"

text \<open>Puts \<open>k\<close> at its place in the order, replacing the value of an equal key.\<close>

fun map_put :: "'k::linorder \<Rightarrow> 'v \<Rightarrow> ('k, 'v) stdmap \<Rightarrow> ('k, 'v) stdmap" where
  "map_put k v [] = [(k, v)]"
| "map_put k v ((k', v') # m) =
     (if k = k' then (k, v) # m
      else if k < k' then (k, v) # (k', v') # m
      else (k', v') # map_put k v m)"

definition map_assign :: "'k::linorder \<Rightarrow> 'v \<Rightarrow> ('k, 'v) stdmap \<Rightarrow> ('k, 'v) stdmap" where
  "map_assign k v m = map_put k v m"

definition map_insert :: "'k::linorder \<Rightarrow> 'v \<Rightarrow> ('k, 'v) stdmap \<Rightarrow> ('k, 'v) stdmap" where
  "map_insert k v m = (case map_find k m of None \<Rightarrow> map_put k v m | Some _ \<Rightarrow> m)"

definition map_erase :: "'k \<Rightarrow> ('k, 'v) stdmap \<Rightarrow> ('k, 'v) stdmap" where
  "map_erase k m = filter (\<lambda>e. fst e \<noteq> k) m"

definition map_wf :: "('k::linorder, 'v) stdmap \<Rightarrow> bool" where
  "map_wf m \<longleftrightarrow> sorted_wrt (<) (map fst m)"

lemma map_find_put: "map_find k' (map_put k v m) = (if k' = k then Some v else map_find k' m)"
  by (induction k v m rule: map_put.induct) auto

lemma map_find_erase: "map_find k' (map_erase k m) = (if k' = k then None else map_find k' m)"
  by (induction m) (auto simp: map_erase_def)

lemma map_find_Some_in: "map_find k m = Some v \<Longrightarrow> (k, v) \<in> set m"
  by (induction k m rule: map_find.induct) (auto split: if_splits)

lemma keys_put: "fst ` set (map_put k v m) = insert k (fst ` set m)"
  by (induction k v m rule: map_put.induct) auto

lemma sorted_put: "sorted_wrt (<) (map fst m) \<Longrightarrow> sorted_wrt (<) (map fst (map_put k v m))"
proof (induction k v m rule: map_put.induct)
  case (2 k v k' v' m)
  have "fst x = k \<or> fst x \<in> fst ` set m" if "x \<in> set (map_put k v m)" for x
    using that keys_put [of k v m] by (metis image_eqI insert_iff)
  with 2 show ?case by force
qed simp

lemma sorted_erase: "sorted_wrt (<) (map fst m) \<Longrightarrow> sorted_wrt (<) (map fst (map_erase k m))"
  by (induction m) (auto simp: map_erase_def)

lemma map_find_in: "map_wf m \<Longrightarrow> (k, v) \<in> set m \<Longrightarrow> map_find k m = Some v"
proof (induction m)
  case (Cons e m)
  show ?case
  proof (cases "e = (k, v)")
    case False
    with Cons.prems have "(k, v) \<in> set m" "fst e < k" by (auto simp: map_wf_def)
    with Cons show ?thesis by (cases e) (auto simp: map_wf_def)
  qed simp
qed simp

interpretation ordmap: std_map map_find map_insert map_assign map_erase map_wf
  by unfold_locales
    (auto simp: map_insert_def map_assign_def map_find_put map_find_erase map_wf_def
      sorted_put sorted_erase split: option.splits)

lemmas map_simps [simp] =
  ordmap.find_insert ordmap.find_assign ordmap.find_erase

lemmas map_wf_simps [simp] =
  ordmap.wf_insert ordmap.wf_assign ordmap.wf_erase

lemma map_wf_Nil [simp]: "map_wf []"
  by (simp add: map_wf_def)

end
