(* ===== verification/Dispatcher.thy ===== *)
theory Dispatcher
  imports Service StdMap
begin

text \<open>
  \<open>comm/erpc/epoll_dispatcher\<close> and \<open>comm/erpc/erpc_server\<close>: the table of descriptors, the loop
  over the events that \<open>epoll_wait\<close> delivers, and the server that runs it. What the system
  calls return is part of the events; the descriptors that are closed are not tracked.
\<close>

section \<open>State\<close>

record EpollData =
  epollfd :: int
  fdmap :: "(int, FdDataType) stdmap"
  events_allocated :: bool

record EpollDispatcher =
  listen_fd :: int
  udp_fd :: int
  ed_id :: int
  epoll_data :: EpollData

text \<open>
  \<open>fdmap[fd]\<close>: a missing entry is created with all fields zero and no connector.
\<close>

definition empty_fd_data :: FdDataType where
  "empty_fd_data = \<lparr>fd = 0, event_type = 0, fd_socket_info = \<lparr>si_ip = [], si_port = 0\<rparr>, connector = None\<rparr>"

definition fdmap_at :: "int \<Rightarrow> EpollDispatcher \<Rightarrow> FdDataType \<times> EpollDispatcher" where
  "fdmap_at n d =
     (case map_find n (fdmap (epoll_data d)) of
        Some fd_data \<Rightarrow> (fd_data, d)
      | None \<Rightarrow> (empty_fd_data,
          d\<lparr>epoll_data := (epoll_data d)\<lparr>fdmap := map_insert n empty_fd_data (fdmap (epoll_data d))\<rparr>\<rparr>))"

section \<open>The table\<close>

definition DispatcherInit :: "int \<Rightarrow> bool \<Rightarrow> EpollDispatcher \<Rightarrow> int \<times> EpollDispatcher" where
  "DispatcherInit create_ret calloc_ok d =
     (let d = d\<lparr>epoll_data := (epoll_data d)\<lparr>epollfd := create_ret\<rparr>\<rparr> in
      iAssert create_ret (-1, d)
        (let d = d\<lparr>epoll_data := (epoll_data d)\<lparr>events_allocated := calloc_ok\<rparr>\<rparr>
         in iAssertNull (\<not> calloc_ok) (-1, d) (0, d)))"

definition DispatcherAdd :: "int \<Rightarrow> FdDataType \<Rightarrow> EpollDispatcher \<Rightarrow> int \<times> EpollDispatcher" where
  "DispatcherAdd ctl_ret fd_data d =
     iAssert ctl_ret (-1, d)
       (0, d\<lparr>epoll_data := (epoll_data d)\<lparr>fdmap := map_assign (fd fd_data) fd_data (fdmap (epoll_data d))\<rparr>\<rparr>)"

definition DispatcherDel :: "int \<Rightarrow> FdDataType \<Rightarrow> EpollDispatcher \<Rightarrow> int \<times> EpollDispatcher" where
  "DispatcherDel ctl_ret fd_data d =
     iAssert ctl_ret (-1, d)
       (0, d\<lparr>epoll_data := (epoll_data d)\<lparr>fdmap := map_erase (fd fd_data) (fdmap (epoll_data d))\<rparr>\<rparr>)"

definition DispatcherMod :: "int \<Rightarrow> FdDataType \<Rightarrow> EpollDispatcher \<Rightarrow> int \<times> EpollDispatcher" where
  "DispatcherMod ctl_ret fd_data d =
     iAssert ctl_ret (-1, d)
       (0, d\<lparr>epoll_data := (epoll_data d)\<lparr>fdmap := map_assign (fd fd_data) fd_data (fdmap (epoll_data d))\<rparr>\<rparr>)"

section \<open>Construction\<close>

text \<open>The results of the system calls that make one listening descriptor.\<close>

record make_env =
  mk_socket :: int
  mk_setsockopt :: int
  mk_bind :: int
  mk_listen :: int
  mk_ctl :: int

definition fd_data_for :: "int \<Rightarrow> FdDataType" where
  "fd_data_for n = \<lparr>fd = n, event_type = EPOLLIN OR EPOLLET, fd_socket_info = \<lparr>si_ip = [], si_port = 0\<rparr>, connector = None\<rparr>"

definition MakeListenFd :: "make_env \<Rightarrow> EpollDispatcher \<Rightarrow> int \<times> EpollDispatcher" where
  "MakeListenFd mk d =
     (let d = d\<lparr>listen_fd := mk_socket mk\<rparr> in
      iAssert (mk_socket mk) (-1, d)
      (iAssert (mk_setsockopt mk) (-1, d)
      (iAssert (mk_bind mk) (-1, d)
      (iAssert (mk_listen mk) (-1, d)
        (let (ret, d) = DispatcherAdd (mk_ctl mk) (fd_data_for (mk_socket mk)) d
         in iAssert ret (-1, d) (0, d))))))"

definition MakeUdpFd :: "make_env \<Rightarrow> EpollDispatcher \<Rightarrow> int \<times> EpollDispatcher" where
  "MakeUdpFd mk d =
     (let d = d\<lparr>udp_fd := mk_socket mk\<rparr> in
      iAssert (mk_socket mk) (-1, d)
      (iAssert (mk_bind mk) (-1, d)
        (let (ret, d) = DispatcherAdd (mk_ctl mk) (fd_data_for (mk_socket mk)) d
         in iAssert ret (-1, d) (0, d))))"

text \<open>
  The constructors log failures and go on. \<open>d0\<close> holds what the memory of the object held: the
  application's server never sets \<open>udp_fd\<close>.
\<close>

definition EpollDispatcher_base :: "int \<Rightarrow> bool \<Rightarrow> EpollDispatcher \<Rightarrow> EpollDispatcher" where
  "EpollDispatcher_base create_ret calloc_ok d0 =
     snd (DispatcherInit create_ret calloc_ok
       (d0\<lparr>epoll_data := \<lparr>epollfd = 0, fdmap = [], events_allocated = False\<rparr>\<rparr>))"

definition EpollDispatcher_new ::
  "int \<Rightarrow> bool \<Rightarrow> make_env \<Rightarrow> make_env \<Rightarrow> int \<Rightarrow> EpollDispatcher \<Rightarrow> EpollDispatcher" where
  "EpollDispatcher_new create_ret calloc_ok mk_tcp mk_udp self_id d0 =
     (let d = (EpollDispatcher_base create_ret calloc_ok d0)\<lparr>ed_id := self_id\<rparr>
      in snd (MakeUdpFd mk_udp (snd (MakeListenFd mk_tcp d))))"

definition EpollDispatcher_new_application ::
  "int \<Rightarrow> bool \<Rightarrow> make_env \<Rightarrow> int \<Rightarrow> EpollDispatcher \<Rightarrow> EpollDispatcher" where
  "EpollDispatcher_new_application create_ret calloc_ok mk_tcp self_id d0 =
     (let d = (EpollDispatcher_base create_ret calloc_ok d0)\<lparr>ed_id := self_id\<rparr>
      in snd (MakeListenFd mk_tcp d))"

section \<open>One event\<close>

text \<open>
  An event with all that the system calls return while it is handled: the two \<open>epoll_ctl\<close>
  removals and the addition, the datagram or the accepted connection with its handshake and the
  indeterminate object that \<open>accept\<close> fills in, and the reads and writes. \<open>ev_env\<close> is
  what the service method reads of its surroundings, such as the clock.
\<close>

record 'e event =
  ev_fd :: int
  ev_type :: "32 word"
  ev_del_err :: int
  ev_recv :: "int \<times> errno \<times> datagram"
  ev_accept :: "int \<times> string \<times> int"
  ev_tls :: tls_env
  ev_uninit :: FdDataType
  ev_add :: int
  ev_read :: io_result
  ev_writes :: "(int \<times> errno) list"
  ev_del :: int
  ev_env :: 'e

type_synonym sent_log = "(int \<times> string) list"

definition erase_on_error :: "'e event \<Rightarrow> EpollDispatcher \<Rightarrow> EpollDispatcher" where
  "erase_on_error ev d =
     (if ev_type ev AND EPOLLERR \<noteq> 0 \<or> ev_type ev AND EPOLLHUP \<noteq> 0
      then (let (fd_data, d) = fdmap_at (ev_fd ev) d in snd (DispatcherDel (ev_del_err ev) fd_data d))
      else d)"

definition Dispatch_event ::
  "codec \<Rightarrow> ('e \<Rightarrow> 's ErpcConfig) \<Rightarrow> 'e event \<Rightarrow> EpollDispatcher \<times> 's \<Rightarrow>
     (sent_log \<times> EpollDispatcher \<times> 's) outcome" where
  "Dispatch_event cd cfg ev st =
     (let (d, s) = st;
          d = erase_on_error ev d;
          config = cfg (ev_env ev)
      in if ev_type ev AND EPOLLIN \<noteq> 0 then
           if ev_fd ev = udp_fd d then
             (let (fd_data, d) = fdmap_at (ev_fd ev) d;
                  (n, err, dg) = ev_recv ev
              in obind (HandleUDPRequest (cfg_service config) n err dg s) (\<lambda>(ret, s). Ret ([], d, s)))
           else if ev_fd ev = listen_fd d then
             (let (tmp_fd, ip, port) = ev_accept ev
              in obind (HandleRPCAccept (ev_tls ev) config tmp_fd ip port (ev_uninit ev)) (\<lambda>(ret, fd_data).
                   Ret ([], snd (DispatcherAdd (ev_add ev) fd_data d), s)))
           else
             (let (fd_data, d) = fdmap_at (ev_fd ev) d
              in obind
                   (if ed_id d = ID_APPLICATION
                    then HandleApplicationRequest (cfg_service config) fd_data (ev_read ev) (ev_writes ev) s
                    else HandleRPCRequest cd (cfg_service config) fd_data (ev_read ev) (ev_writes ev) s)
                   (\<lambda>(ret, out, s). Ret ([(ev_fd ev, out)], snd (DispatcherDel (ev_del ev) fd_data d), s)))
         else Ret ([], d, s))"

section \<open>Dispatch\<close>

fun Dispatch_loop ::
  "codec \<Rightarrow> ('e \<Rightarrow> 's ErpcConfig) \<Rightarrow> 'e event list \<Rightarrow> EpollDispatcher \<times> 's \<Rightarrow>
     (sent_log \<times> EpollDispatcher \<times> 's) outcome" where
  "Dispatch_loop cd cfg [] st = Ret ([], st)"
| "Dispatch_loop cd cfg (ev # evs) st =
     obind (Dispatch_event cd cfg ev st) (\<lambda>(out, st).
     obind (Dispatch_loop cd cfg evs st) (\<lambda>(outs, st). Ret (out @ outs, st)))"

text \<open>\<open>nums\<close> is what \<open>epoll_wait\<close> returned; a failure is logged and the loop runs no round.\<close>

definition Dispatch ::
  "codec \<Rightarrow> ('e \<Rightarrow> 's ErpcConfig) \<Rightarrow> int \<Rightarrow> 'e event list \<Rightarrow> EpollDispatcher \<times> 's \<Rightarrow>
     (int \<times> sent_log \<times> EpollDispatcher \<times> 's) outcome" where
  "Dispatch cd cfg nums evs st =
     obind (Dispatch_loop cd cfg (take (nat nums) evs) st) (\<lambda>(out, st). Ret (0, out, st))"

section \<open>The server\<close>

record ErpcServer =
  es_id :: int
  es_listen_ip :: string
  es_tcp_port :: int
  es_udp_port :: int
  es_dispatcher :: EpollDispatcher

definition ErpcServer_new :: "int \<Rightarrow> string \<Rightarrow> int \<Rightarrow> int \<Rightarrow> (int \<Rightarrow> EpollDispatcher) \<Rightarrow> ErpcServer" where
  "ErpcServer_new self_id ip tcp_port udp_port new_dispatcher =
     \<lparr>es_id = self_id, es_listen_ip = ip, es_tcp_port = tcp_port, es_udp_port = udp_port,
      es_dispatcher = new_dispatcher self_id\<rparr>"

text \<open>
  The server runs over the batches of events that the calls of \<open>epoll_wait\<close> deliver: after the
  last of them it waits for the next, unless it has returned before.
\<close>

datatype 'st run_state = Waiting sent_log 'st | Returned int

fun Run_loop ::
  "codec \<Rightarrow> ('e \<Rightarrow> 's ErpcConfig) \<Rightarrow> (int \<times> 'e event list) list \<Rightarrow> EpollDispatcher \<times> 's \<Rightarrow> sent_log \<Rightarrow>
     (EpollDispatcher \<times> 's) run_state outcome" where
  "Run_loop cd cfg [] st logged = Ret (Waiting logged st)"
| "Run_loop cd cfg ((nums, evs) # batches) st logged =
     obind (Dispatch cd cfg nums evs st) (\<lambda>(ret, out, st).
       iAssert ret (Ret (Returned (-1))) (Run_loop cd cfg batches st (logged @ out)))"

definition Run ::
  "codec \<Rightarrow> ('e \<Rightarrow> 's ErpcConfig) \<Rightarrow> (int \<times> 'e event list) list \<Rightarrow> ErpcServer \<Rightarrow> 's \<Rightarrow>
     (EpollDispatcher \<times> 's) run_state outcome" where
  "Run cd cfg batches server s = Run_loop cd cfg batches (es_dispatcher server, s) []"

section \<open>The table's invariant\<close>

abbreviation fd_at :: "EpollDispatcher \<Rightarrow> int \<Rightarrow> FdDataType option" where
  "fd_at d n \<equiv> map_find n (fdmap (epoll_data d))"

text \<open>An entry is filed under its own descriptor, or it is the one made up by a lookup.\<close>

definition fdmap_ok :: "EpollDispatcher \<Rightarrow> bool" where
  "fdmap_ok d \<longleftrightarrow> map_wf (fdmap (epoll_data d)) \<and>
     (\<forall>n x. fd_at d n = Some x \<longrightarrow> fd x = n \<or> x = empty_fd_data)"

lemma fdmap_at_simps [simp]:
  "listen_fd (snd (fdmap_at n d)) = listen_fd d" "udp_fd (snd (fdmap_at n d)) = udp_fd d"
  "ed_id (snd (fdmap_at n d)) = ed_id d"
  "fd_at d n = Some x \<Longrightarrow> fdmap_at n d = (x, d)"
  "fd_at d n = None \<Longrightarrow> fst (fdmap_at n d) = empty_fd_data"
  by (simp_all add: fdmap_at_def split: option.split)

lemma Dispatcher_simps [simp]:
  "listen_fd (snd (DispatcherAdd r x d)) = listen_fd d" "udp_fd (snd (DispatcherAdd r x d)) = udp_fd d"
  "ed_id (snd (DispatcherAdd r x d)) = ed_id d"
  "listen_fd (snd (DispatcherDel r x d)) = listen_fd d" "udp_fd (snd (DispatcherDel r x d)) = udp_fd d"
  "ed_id (snd (DispatcherDel r x d)) = ed_id d"
  by (simp_all add: DispatcherAdd_def DispatcherDel_def iAssert_def)

lemma erase_on_error_simps [simp]:
  "listen_fd (erase_on_error ev d) = listen_fd d" "udp_fd (erase_on_error ev d) = udp_fd d"
  "ed_id (erase_on_error ev d) = ed_id d"
  by (simp_all add: erase_on_error_def case_prod_unfold Let_def)

lemma fdmap_ok_at: "fdmap_ok d \<Longrightarrow> fdmap_ok (snd (fdmap_at n d))"
  by (auto simp: fdmap_ok_def fdmap_at_def split: option.split)

lemma fdmap_ok_add: "fdmap_ok d \<Longrightarrow> fdmap_ok (snd (DispatcherAdd r x d))"
  by (auto simp: fdmap_ok_def DispatcherAdd_def iAssert_def)

lemma fdmap_ok_mod: "fdmap_ok d \<Longrightarrow> fdmap_ok (snd (DispatcherMod r x d))"
  by (auto simp: fdmap_ok_def DispatcherMod_def iAssert_def)

lemma fdmap_ok_del: "fdmap_ok d \<Longrightarrow> fdmap_ok (snd (DispatcherDel r x d))"
  by (auto simp: fdmap_ok_def DispatcherDel_def iAssert_def)

lemma fdmap_ok_erase: "fdmap_ok d \<Longrightarrow> fdmap_ok (erase_on_error ev d)"
  by (simp add: erase_on_error_def case_prod_unfold Let_def fdmap_ok_del fdmap_ok_at)

lemmas fdmap_ok_intros = fdmap_ok_at fdmap_ok_add fdmap_ok_del fdmap_ok_erase

lemma make_fds_ok:
  assumes "fdmap_ok d"
  shows "fdmap_ok (snd (MakeListenFd mk d))" and "fdmap_ok (snd (MakeUdpFd mk d))"
proof -
  have l: "fdmap_ok (d\<lparr>listen_fd := n\<rparr>)" "fdmap_ok (d\<lparr>udp_fd := n\<rparr>)" for n
    using assms by (simp_all add: fdmap_ok_def)
  show "fdmap_ok (snd (MakeListenFd mk d))" "fdmap_ok (snd (MakeUdpFd mk d))"
    using fdmap_ok_add [OF l(1)] fdmap_ok_add [OF l(2)] l
    by (simp_all add: MakeListenFd_def MakeUdpFd_def iAssert_def Let_def case_prod_unfold)
qed

lemma fdmap_ok_base: "fdmap_ok (EpollDispatcher_base create_ret calloc_ok d0)"
  by (simp add: EpollDispatcher_base_def DispatcherInit_def iAssert_def Let_def fdmap_ok_def)

lemma fdmap_ok_new:
  "fdmap_ok (EpollDispatcher_new create_ret calloc_ok mk_tcp mk_udp i d0)"
  "fdmap_ok (EpollDispatcher_new_application create_ret calloc_ok mk_tcp i d0)"
proof -
  have "fdmap_ok ((EpollDispatcher_base create_ret calloc_ok d0)\<lparr>ed_id := i\<rparr>)"
    using fdmap_ok_base [of create_ret calloc_ok d0] by (simp add: fdmap_ok_def)
  then show "fdmap_ok (EpollDispatcher_new create_ret calloc_ok mk_tcp mk_udp i d0)"
    "fdmap_ok (EpollDispatcher_new_application create_ret calloc_ok mk_tcp i d0)"
    by (simp_all add: EpollDispatcher_new_def EpollDispatcher_new_application_def make_fds_ok)
qed

text \<open>The three ways in which an event with data returns, and the rest.\<close>

lemma Dispatch_event_cases:
  assumes "Dispatch_event cd cfg ev (d, s) = Ret (out, d', s')"
  obtains (idle) "ev_type ev AND EPOLLIN = 0" "out = []" "d' = erase_on_error ev d" "s' = s"
  | (udp) ret where "ev_fd ev = udp_fd d" "out = []" "d' = snd (fdmap_at (ev_fd ev) (erase_on_error ev d))"
      "HandleUDPRequest (cfg_service (cfg (ev_env ev))) (fst (ev_recv ev)) (fst (snd (ev_recv ev)))
         (snd (snd (ev_recv ev))) s = Ret (ret, s')"
  | (accept) ret x where "ev_fd ev \<noteq> udp_fd d" "ev_fd ev = listen_fd d" "out = []" "s' = s"
      "HandleRPCAccept (ev_tls ev) (cfg (ev_env ev)) (fst (ev_accept ev)) (fst (snd (ev_accept ev)))
         (snd (snd (ev_accept ev))) (ev_uninit ev) = Ret (ret, x)"
      "d' = snd (DispatcherAdd (ev_add ev) x (erase_on_error ev d))"
  | (request) ret bytes x d1 where "ev_fd ev \<noteq> udp_fd d" "ev_fd ev \<noteq> listen_fd d"
      "fdmap_at (ev_fd ev) (erase_on_error ev d) = (x, d1)"
      "(if ed_id d = ID_APPLICATION
        then HandleApplicationRequest (cfg_service (cfg (ev_env ev))) x (ev_read ev) (ev_writes ev) s
        else HandleRPCRequest cd (cfg_service (cfg (ev_env ev))) x (ev_read ev) (ev_writes ev) s) = Ret (ret, bytes, s')"
      "out = [(ev_fd ev, bytes)]" "d' = snd (DispatcherDel (ev_del ev) x d1)"
proof (cases "ev_type ev AND EPOLLIN = 0")
  case True
  then show ?thesis using assms idle by (simp add: Dispatch_event_def)
next
  case in_event: False
  let ?d = "erase_on_error ev d"
  show ?thesis
  proof (cases "ev_fd ev = udp_fd d")
    case True
    then show ?thesis
      using assms in_event udp by (auto simp: Dispatch_event_def case_prod_unfold Let_def outcome_simps)
  next
    case not_udp: False
    show ?thesis
    proof (cases "ev_fd ev = listen_fd d")
      case True
      then show ?thesis
        using assms in_event not_udp accept by (auto simp: Dispatch_event_def case_prod_unfold Let_def outcome_simps)
    next
      case False
      obtain x d1 where at: "fdmap_at (ev_fd ev) ?d = (x, d1)" by fastforce
      have "ed_id d1 = ed_id d" using fdmap_at_simps(3) [of "ev_fd ev" ?d] at by simp
      with at show ?thesis
        using assms in_event not_udp False request [OF not_udp False at]
        by (auto simp: Dispatch_event_def Let_def obind_eq_Ret simp del: if_split)
    qed
  qed
qed

lemma fdmap_ok_event:
  assumes "fdmap_ok d" and "Dispatch_event cd cfg ev (d, s) = Ret (out, d', s')"
  shows "fdmap_ok d'"
  using assms(2)
proof (cases rule: Dispatch_event_cases)
  case (request ret bytes x d1)
  have "fdmap_ok (snd (fdmap_at (ev_fd ev) (erase_on_error ev d)))"
    by (intro fdmap_ok_intros assms(1))
  with request show ?thesis by (simp add: fdmap_ok_del)
qed (use assms(1) in \<open>simp_all add: fdmap_ok_intros\<close>)

lemma Run_loop_induct:
  assumes "Run_loop cd cfg batches (d, s) logged = Ret (Waiting logged' (d', s'))" and "P d s"
    and "\<And>ev d s out d' s'. P d s \<Longrightarrow> Dispatch_event cd cfg ev (d, s) = Ret (out, d', s') \<Longrightarrow> P d' s'"
  shows "P d' s'"
proof -
  have loop: "Dispatch_loop cd cfg evs (d, s) = Ret (out, d', s') \<Longrightarrow> P d s \<Longrightarrow> P d' s'" for evs d s out d' s'
    by (induction evs arbitrary: d s out) (fastforce simp: outcome_simps intro: assms(3))+
  show ?thesis
    using assms(1,2)
    by (induction batches arbitrary: d s logged) (fastforce simp: Dispatch_def outcome_simps dest: loop)+
qed

lemma fdmap_ok_Run:
  "Run cd cfg batches server s = Ret (Waiting logged (d, s')) \<Longrightarrow> fdmap_ok (es_dispatcher server) \<Longrightarrow> fdmap_ok d"
  unfolding Run_def by (erule Run_loop_induct [where P = "\<lambda>d _. fdmap_ok d"]) (auto intro: fdmap_ok_event)

section \<open>The contract of a server\<close>

text \<open>
  A server whose service keeps an invariant, in every environment, keeps it for every sequence
  of events.
\<close>

locale server_contract =
  fixes cfg :: "'e \<Rightarrow> 's ErpcConfig"
    and inv :: "'s \<Rightarrow> bool"
  assumes server_service: "service_contract (cfg_service (cfg e)) inv"
begin

lemma inv_event: "inv s \<Longrightarrow> Dispatch_event cd cfg ev (d, s) = Ret (out, d', s') \<Longrightarrow> inv s'"
  by (erule Dispatch_event_cases)
    (auto dest: service_contract.inv_HandleUDPRequest [OF server_service]
      service_contract.inv_HandleApplicationRequest [OF server_service]
      service_contract.inv_HandleRPCRequest [OF server_service] split: if_splits)

lemma inv_Run:
  "Run cd cfg batches server s = Ret (Waiting logged (d', s')) \<Longrightarrow> inv s \<Longrightarrow> inv s'"
  unfolding Run_def by (erule Run_loop_induct [where P = "\<lambda>_. inv"]) (auto intro: inv_event)

end

section \<open>An instance\<close>

definition toy_conn :: FdDataType where
  "toy_conn = \<lparr>fd = 7, event_type = EPOLLIN OR EPOLLET, fd_socket_info = \<lparr>si_ip = ''1.2.3.4'', si_port = 9\<rparr>,
     connector = Some \<lparr>ctx_handle = True, ssl_handle = Some True, is_server = 1, conn_status = 1\<rparr>\<rparr>"

definition toy_dispatcher :: EpollDispatcher where
  "toy_dispatcher = \<lparr>listen_fd = 4, udp_fd = 5, ed_id = ID_CONTROLLER,
     epoll_data = \<lparr>epollfd = 3, fdmap = [(4, fd_data_for 4), (5, fd_data_for 5), (7, toy_conn)],
                   events_allocated = True\<rparr>\<rparr>"

definition toy_tls :: tls_env where
  "toy_tls = \<lparr>ctx_new = (\<lambda>_. True), use_certificate = (\<lambda>_. 1), use_private_key = (\<lambda>_. 1), check_private_key = 1,
              tls_new = True, tls_set_fd = (\<lambda>_. 1), tls_connect = 1, tls_accept = -1\<rparr>"

definition toy_event :: "int \<Rightarrow> 32 word \<Rightarrow> string \<Rightarrow> unit event" where
  "toy_event n type bytes = \<lparr>ev_fd = n, ev_type = type, ev_del_err = 0,
     ev_recv = (int (length bytes), EAGAIN, \<lparr>dg_data = bytes, dg_ip = ''1.2.3.4'', dg_port = 9\<rparr>),
     ev_accept = (8, ''1.2.3.4'', 9), ev_tls = toy_tls, ev_uninit = empty_fd_data, ev_add = 0,
     ev_read = \<lparr>io_n = int (length bytes), io_errno = EAGAIN, io_data = bytes\<rparr>, ev_writes = [], ev_del = 0, ev_env = ()\<rparr>"

definition toy_config :: "unit \<Rightarrow> unit ErpcConfig" where
  "toy_config = (\<lambda>_. \<lparr>cfg_service = base_service, server_cert = ''crt'', server_key = ''key''\<rparr>)"

lemma masks: "EPOLLIN AND EPOLLIN \<noteq> 0" "EPOLLIN AND EPOLLERR = 0" "EPOLLIN AND EPOLLHUP = 0"
    "(EPOLLIN OR EPOLLHUP) AND EPOLLIN \<noteq> 0" "(EPOLLIN OR EPOLLHUP) AND EPOLLHUP \<noteq> 0"
  by (simp_all add: EPOLLIN_def EPOLLERR_def EPOLLHUP_def)

section \<open>Properties\<close>

lemma Run_no_return: "Run cd cfg batches server s \<noteq> Ret (Returned r)"
proof -
  have "Run_loop cd cfg batches st logged \<noteq> Ret (Returned r)" for st logged
    by (induction batches arbitrary: st logged) (auto simp: Dispatch_def outcome_simps)
  then show ?thesis by (simp add: Run_def)
qed

text \<open>
  C28. A server never returns from its loop: whatever events come, and whatever \<open>epoll_wait\<close>
  itself returns, \<open>Run\<close> either waits for the next batch or ends in an exception, an undefined
  operation or a write that does not end.
\<close>

theorem run_never_returns: "Run cd cfg batches server s \<noteq> Ret (Returned r)"
  by (rule Run_no_return)

text \<open>
  C30. A connection that is reset while data is waiting brings the server down: an event that
  reports an error or a hang-up together with readable data removes the connection first and
  then reads through the null connector of the entry that the second lookup makes up.
\<close>

theorem reset_with_data_crashes:
  assumes "ev_type ev AND EPOLLERR \<noteq> 0 \<or> ev_type ev AND EPOLLHUP \<noteq> 0" and "ev_type ev AND EPOLLIN \<noteq> 0"
    and "ev_fd ev \<noteq> udp_fd d" and "ev_fd ev \<noteq> listen_fd d"
    and "fd_at d (ev_fd ev) = Some x" and "fd x = ev_fd ev" and "0 \<le> ev_del_err ev"
  shows "Dispatch_event cd cfg ev (d, s) = Undef"
proof -
  let ?d = "erase_on_error ev d"
  have "fd_at ?d (ev_fd ev) = None"
    using assms(1,5-7) by (simp add: erase_on_error_def DispatcherDel_def)
  then obtain d1 where at: "fdmap_at (ev_fd ev) ?d = (empty_fd_data, d1)"
    by (metis fdmap_at_simps(5) prod.collapse)
  have "HandleApplicationRequest svc empty_fd_data r ws s = Undef" "HandleRPCRequest cd svc empty_fd_data r ws s = Undef"
    for svc r ws by (simp_all add: HandleRequest_null empty_fd_data_def)
  then show ?thesis
    using assms(2-4) at by (simp add: Dispatch_event_def Let_def)
qed

theorem reset_with_data_crashes_witness:
  "Dispatch_event toy_codec toy_config (toy_event 7 (EPOLLIN OR EPOLLHUP) ''abc'') (toy_dispatcher, ()) = Undef"
  by (rule reset_with_data_crashes [where x = toy_conn])
    (use masks in \<open>simp_all add: toy_event_def toy_dispatcher_def toy_conn_def\<close>)

text \<open>
  C29. A connection serves one request: after a readable event on it that returns, and whose
  removal succeeds, its entry is gone and every other entry is as before; what was sent went to
  that connection and is the answer of its handler.
\<close>

theorem one_request_per_connection:
  assumes "Dispatch_event cd cfg ev (d, s) = Ret (out, d', s')"
    and "ev_type ev AND EPOLLIN \<noteq> 0" and "ev_type ev AND EPOLLERR = 0" and "ev_type ev AND EPOLLHUP = 0"
    and "ev_fd ev \<noteq> udp_fd d" and "ev_fd ev \<noteq> listen_fd d"
    and "fd_at d (ev_fd ev) = Some x" and "fd x = ev_fd ev" and "0 \<le> ev_del ev"
  shows "fd_at d' n = (if n = ev_fd ev then None else fd_at d n) \<and>
     (\<exists>ret bytes. out = [(ev_fd ev, bytes)] \<and>
        (if ed_id d = ID_APPLICATION
         then HandleApplicationRequest (cfg_service (cfg (ev_env ev))) x (ev_read ev) (ev_writes ev) s
         else HandleRPCRequest cd (cfg_service (cfg (ev_env ev))) x (ev_read ev) (ev_writes ev) s) = Ret (ret, bytes, s'))"
  using assms(1)
proof (cases rule: Dispatch_event_cases)
  case (request ret bytes y d1)
  moreover have "erase_on_error ev d = d" using assms(3,4) by (simp add: erase_on_error_def)
  ultimately show ?thesis
    using assms(7-9) by (auto simp: DispatcherDel_def)
qed (use assms in auto)

theorem one_request_per_connection_witness:
  "\<exists>out d'. Dispatch_event toy_codec toy_config (toy_event 7 EPOLLIN ''abc'') (toy_dispatcher, ()) = Ret (out, d', ()) \<and>
     fd_at d' 7 = None"
proof -
  let ?ev = "toy_event 7 EPOLLIN ''abc''"
  have "\<exists>out d'. Dispatch_event toy_codec toy_config ?ev (toy_dispatcher, ()) = Ret (out, d', ())"
  proof -
    have "erase_on_error ?ev toy_dispatcher = toy_dispatcher"
      using masks by (simp add: erase_on_error_def toy_event_def)
    moreover have "fdmap_at 7 toy_dispatcher = (toy_conn, toy_dispatcher)"
      by (simp add: toy_dispatcher_def)
    moreover have "HandleRPCRequest toy_codec base_service toy_conn (ev_read ?ev) [] () = Ret (-1, [], ())"
      by (simp add: HandleRPCRequest_def toy_conn_def toy_event_def HandleRead_pos ParseRequestAndForward_def
          request_parse_cases(1) kPacketLengthErr_def)
    ultimately show ?thesis
      using masks by (simp add: Dispatch_event_def toy_event_def toy_config_def)
        (simp add: toy_dispatcher_def ID_CONTROLLER_def ID_APPLICATION_def)
  qed
  then obtain out d' where run: "Dispatch_event toy_codec toy_config ?ev (toy_dispatcher, ()) = Ret (out, d', ())" by blast
  have "fd_at d' 7 = None"
    using one_request_per_connection [OF run, of toy_conn 7] masks
    by (simp add: toy_event_def toy_dispatcher_def toy_conn_def)
  with run show ?thesis by blast
qed

text \<open>
  A failed handshake is kept: the accepted descriptor is filed and served like any other
  connection, with a connector that never reached the connected state.
\<close>

theorem failed_handshake_is_added:
  assumes "ev_fd ev = listen_fd d" and "ev_fd ev \<noteq> udp_fd d" and "ev_type ev = EPOLLIN"
    and "ev_accept ev = (n, ip, port)" and "0 \<le> n" and "0 \<le> ev_add ev" and "tls_accept (ev_tls ev) \<noteq> 1"
    and "Dispatch_event cd cfg ev (d, s) = Ret (out, d', s')"
  shows "\<exists>x c. fd_at d' n = Some x \<and> fd x = n \<and> si_ip (fd_socket_info x) = ip \<and>
     connector x = Some c \<and> conn_status c = 0"
  using assms(8)
proof (cases rule: Dispatch_event_cases)
  case (accept ret x)
  then obtain c where "SSLConnector_new (ev_tls ev) (server_cert (cfg (ev_env ev))) (server_key (cfg (ev_env ev))) 1 = Ret c"
      "x = \<lparr>fd = n, event_type = EPOLLIN OR EPOLLET, fd_socket_info = \<lparr>si_ip = ip, si_port = port\<rparr>,
            connector = Some (snd (SSLAccept (ev_tls ev) n c))\<rparr>"
    using assms(4,5) by (auto simp: HandleRPCAccept_def outcome_simps iAssert_def Let_def case_prod_unfold split: if_splits)
  moreover have "conn_status (snd (SSLAccept (ev_tls ev) n c)) = 0" if "conn_status c = 0" for c
    using that assms(7) by (simp add: SSLAccept_def Let_def)
  ultimately show ?thesis
    using accept assms(6) connector_wf_new by (auto simp: DispatcherAdd_def)
qed (use assms(1-3) masks in auto)

theorem failed_handshake_is_added_witness:
  "\<exists>out d' x c. Dispatch_event toy_codec toy_config (toy_event 4 EPOLLIN []) (toy_dispatcher, ()) = Ret (out, d', ()) \<and>
     fd_at d' 8 = Some x \<and> connector x = Some c \<and> conn_status c = 0"
proof -
  let ?ev = "toy_event 4 EPOLLIN []"
  have "\<exists>out d'. Dispatch_event toy_codec toy_config ?ev (toy_dispatcher, ()) = Ret (out, d', ())"
  proof -
    have "\<exists>ret x. HandleRPCAccept toy_tls (toy_config ()) 8 ''1.2.3.4'' 9 empty_fd_data = Ret (ret, x)"
      by (simp add: HandleRPCAccept_def SSLConnector_new_def SSL_Init_def SSL_LoadCertificate_def SSLAccept_def
          toy_tls_def Let_def)
    then show ?thesis
      using masks by (auto simp: Dispatch_event_def erase_on_error_def toy_event_def toy_dispatcher_def)
  qed
  then obtain out d' where run: "Dispatch_event toy_codec toy_config ?ev (toy_dispatcher, ()) = Ret (out, d', ())" by blast
  from failed_handshake_is_added [OF _ _ _ _ _ _ _ run, of 8 "''1.2.3.4''" 9]
  have "\<exists>x c. fd_at d' 8 = Some x \<and> connector x = Some c \<and> conn_status c = 0"
    by (auto simp: toy_event_def toy_dispatcher_def toy_tls_def)
  with run show ?thesis by blast
qed

end
