(* ===== verification/Replay.thy ===== *)
theory Replay
  imports StdMap Prelude
begin

text \<open>
  The contract behind \<open>QueryAndInsertMD5\<close>, which the controller and the gateway each have
  a copy of: a key is accepted once. The locale states it for any process state; both
  configurations interpret it.
\<close>

section \<open>Runs of queries\<close>

fun accepted_keys :: "('k \<Rightarrow> 's \<Rightarrow> int \<times> 's) \<Rightarrow> 'k list \<Rightarrow> 's \<Rightarrow> 'k list" where
  "accepted_keys query [] s = []"
| "accepted_keys query (k # ks) s =
     (let (ret, s') = query k s in
      if ret = 0 then k # accepted_keys query ks s' else accepted_keys query ks s')"

locale replay_cache =
  fixes query :: "'k \<Rightarrow> 's \<Rightarrow> int \<times> 's"
    and seen :: "'s \<Rightarrow> 'k set"
  assumes query_ret: "fst (query k s) = (if k \<in> seen s then -1 else 0)"
    and seen_query: "seen (snd (query k s)) = insert k (seen s)"
begin

lemma query_fresh: "fst (query k s) = 0 \<longleftrightarrow> k \<notin> seen s"
  by (simp add: query_ret)

lemma query_again: "fst (query k (snd (query k s))) = -1"
  by (simp add: query_ret seen_query)

lemma accepted_fresh:
  "distinct (accepted_keys query ks s) \<and> set (accepted_keys query ks s) = set ks - seen s"
proof (induction ks arbitrary: s)
  case (Cons k ks)
  have step: "accepted_keys query (k # ks) s =
      (if k \<in> seen s then accepted_keys query ks (snd (query k s)) else k # accepted_keys query ks (snd (query k s)))"
    using query_ret [of k s] by (cases "query k s") simp
  show ?case
    unfolding step using Cons.IH [of "snd (query k s)"] by (auto simp: seen_query)
qed simp

lemma accepted_bound:
  assumes "finite U" and "set ks \<subseteq> U"
  shows "length (accepted_keys query ks s) \<le> card U"
proof -
  have "length (accepted_keys query ks s) = card (set (accepted_keys query ks s))"
    using accepted_fresh [of ks s] by (metis distinct_card)
  also have "\<dots> \<le> card U"
    using accepted_fresh [of ks s] assms by (intro card_mono) auto
  finally show ?thesis .
qed

end

section \<open>Guarded steps\<close>

text \<open>
  A handler that runs into such a cache: it accepts an event (code 0) only when the event's key
  is new, and the key is then remembered. \<open>accepted_run\<close> feeds it a sequence of events and
  returns the accepted ones in order.
\<close>

fun accepted_run :: "('e \<Rightarrow> 's \<Rightarrow> (int \<times> 's) outcome) \<Rightarrow> 'e list \<Rightarrow> 's \<Rightarrow> ('e list \<times> 's) outcome" where
  "accepted_run step [] s = Ret ([], s)"
| "accepted_run step (e # es) s =
     obind (step e s) (\<lambda>(ret, s).
     obind (accepted_run step es s) (\<lambda>(acc, s).
       Ret (if ret = 0 then e # acc else acc, s)))"

locale replay_guard =
  fixes step :: "'e \<Rightarrow> 's \<Rightarrow> (int \<times> 's) outcome"
    and key :: "'e \<Rightarrow> 'k"
    and seen :: "'s \<Rightarrow> 'k set"
  assumes guard_fresh: "step e s = Ret (0, s') \<Longrightarrow> key e \<notin> seen s \<and> key e \<in> seen s'"
    and guard_mono: "step e s = Ret (ret, s') \<Longrightarrow> seen s \<subseteq> seen s'"
begin

lemma run_fresh:
  "accepted_run step es s = Ret (acc, s') \<Longrightarrow>
     distinct (map key acc) \<and> key ` set acc \<inter> seen s = {} \<and> seen s \<union> key ` set acc \<subseteq> seen s'"
proof (induction es arbitrary: s acc)
  case (Cons e es)
  then obtain ret t acc' where step: "step e s = Ret (ret, t)"
      and run: "accepted_run step es t = Ret (acc', s')"
      and acc: "acc = (if ret = 0 then e # acc' else acc')"
    by (auto simp: outcome_simps)
  from Cons.IH [OF run] have IH: "distinct (map key acc')" "key ` set acc' \<inter> seen t = {}"
      "seen t \<union> key ` set acc' \<subseteq> seen s'" by auto
  show ?case
  proof (cases "ret = 0")
    case True
    with guard_fresh step have "key e \<notin> seen s" "key e \<in> seen t" by blast+
    then show ?thesis using IH guard_mono [OF step] acc True by auto
  qed (use IH guard_mono [OF step] acc in auto)
qed simp

lemma run_bound:
  assumes "accepted_run step es s = Ret (acc, s')" and "finite U" and "key ` set acc \<subseteq> U"
  shows "length acc \<le> card U"
proof -
  have "length acc = card (key ` set acc)"
    using run_fresh [OF assms(1)] by (metis distinct_card length_map set_map)
  also have "\<dots> \<le> card U" using assms(2,3) by (rule card_mono)
  finally show ?thesis .
qed

lemma run_no_replay:
  "step e s = Ret (0, t) \<Longrightarrow> accepted_run step es t = Ret (acc, s') \<Longrightarrow> key e' = key e \<Longrightarrow> e' \<notin> set acc"
  using guard_fresh [of e s t] run_fresh [of es t acc s'] by (auto simp: image_iff)

end

lemma accepted_run_in: "accepted_run step es s = Ret (acc, s') \<Longrightarrow> e \<in> set acc \<Longrightarrow> \<exists>t t'. step e t = Ret (0, t')"
  by (induction es arbitrary: s acc) (fastforce simp: outcome_simps split: if_splits)+

text \<open>The cache on its own is a guarded handler.\<close>

sublocale replay_cache \<subseteq> guard: replay_guard "\<lambda>k s. Ret (query k s)" "\<lambda>k. k" seen
proof
  fix e s s' assume "Ret (query e s) = Ret (0, s')"
  then show "e \<notin> seen s \<and> e \<in> seen s'" using query_fresh [of e s] seen_query [of e s] by auto
next
  fix e s ret s' assume "Ret (query e s) = Ret (ret, s')"
  then show "seen s \<subseteq> seen s'" using seen_query [of e s] by auto
qed

text \<open>The keys of one byte.\<close>

lemma card_one_byte: "card {k :: string. length k = 1} = 256" "finite {k :: string. length k = 1}"
proof -
  have "{k :: string. length k = 1} = (\<lambda>c. [c]) ` UNIV"
    by (auto simp: length_Suc_conv)
  moreover have "inj (\<lambda>c :: char. [c])" by (simp add: inj_def)
  ultimately show "card {k :: string. length k = 1} = 256" "finite {k :: string. length k = 1}"
    by (simp_all add: card_image card_UNIV_char)
qed

end
