(* ===== verification/Iptables.thy ===== *)
theory Iptables
  imports StdMap CommDef
begin

text \<open>
  \<open>comm/iptools/iptables_tool\<close>: the commands that open and close TCP ports for single hosts,
  and the white list that is meant to mirror them.

  The firewall itself is outside the source. The model keeps the commands that reached
  \<open>system()\<close>, oldest first; \<open>system\<close> is a parameter that gives the status of a command from
  the commands that ran before it. What the firewall lets through is a matter of the
  commands issued, and the lemmas below count them.
\<close>

section \<open>Commands\<close>

definition cmd_drop :: "int \<Rightarrow> string" where
  "cmd_drop port = ''iptables -I INPUT -p tcp --dport '' @ to_string port @ '' -j DROP''"

definition cmd_ban :: "string \<Rightarrow> int \<Rightarrow> string" where
  "cmd_ban ip port = ''iptables -D INPUT -s '' @ ip @ '' -p tcp --dport '' @ to_string port @ '' -j ACCEPT''"

definition cmd_unban :: "string \<Rightarrow> int \<Rightarrow> string" where
  "cmd_unban ip port = ''iptables -I INPUT -s '' @ ip @ '' -p tcp --dport '' @ to_string port @ '' -j ACCEPT''"

lemma host_port_inj:
  assumes "ip @ '' -p tcp --dport '' @ to_string port @ s = ip' @ '' -p tcp --dport '' @ to_string port' @ s"
  shows "ip = ip' \<and> port = port'"
proof -
  have "(ip @ '' -p tcp --dport'') @ CHR '' '' # to_string port
      = (ip' @ '' -p tcp --dport'') @ CHR '' '' # to_string port'"
    using assms by simp
  from split_at_last [OF this to_string_no_space to_string_no_space] show ?thesis by simp
qed

lemma cmd_inj [simp]:
  "cmd_ban ip port = cmd_ban ip' port' \<longleftrightarrow> ip = ip' \<and> port = port'"
  "cmd_unban ip port = cmd_unban ip' port' \<longleftrightarrow> ip = ip' \<and> port = port'"
  using host_port_inj [of ip port "'' -j ACCEPT''" ip' port']
  by (auto simp: cmd_ban_def cmd_unban_def)

lemma cmd_distinct [simp]:
  "cmd_ban ip port \<noteq> cmd_unban ip' port'" "cmd_unban ip' port' \<noteq> cmd_ban ip port"
  "cmd_drop port \<noteq> cmd_unban ip' port'" "cmd_unban ip' port' \<noteq> cmd_drop port"
  "cmd_drop port \<noteq> cmd_ban ip' port'" "cmd_ban ip' port' \<noteq> cmd_drop port"
  by (simp_all add: cmd_ban_def cmd_unban_def cmd_drop_def)

section \<open>The command runner\<close>

record host =
  commands :: "string list"

type_synonym system_call = "string list \<Rightarrow> string \<Rightarrow> int"

definition ExecuteCmd :: "system_call \<Rightarrow> string \<Rightarrow> host \<Rightarrow> int \<times> host" where
  "ExecuteCmd sys cmd h =
     (let ret = sys (commands h) cmd
      in (if ret = 0 then 0 else -1, h\<lparr>commands := commands h @ [cmd]\<rparr>))"

text \<open>The callers drop the status that \<open>_ExecuteCmd\<close> returns and test their own \<open>ret\<close>.\<close>

definition IptablesTools_new :: "system_call \<Rightarrow> host \<Rightarrow> host" where
  "IptablesTools_new sys h =
     (let h = snd (ExecuteCmd sys ''iptables -Z'' h);
          h = snd (ExecuteCmd sys ''iptables -X'' h)
      in snd (ExecuteCmd sys ''iptables -F'' h))"

definition BanUser :: "system_call \<Rightarrow> string \<Rightarrow> int \<Rightarrow> host \<Rightarrow> int \<times> host" where
  "BanUser sys ip port h = (let ret = 0; h = snd (ExecuteCmd sys (cmd_ban ip port) h) in (ret, h))"

definition UnbanUser :: "system_call \<Rightarrow> string \<Rightarrow> int \<Rightarrow> host \<Rightarrow> int \<times> host" where
  "UnbanUser sys ip port h = (let ret = 0; h = snd (ExecuteCmd sys (cmd_unban ip port) h) in (ret, h))"

fun unban_all :: "system_call \<Rightarrow> string list \<Rightarrow> int \<Rightarrow> host \<Rightarrow> int \<times> host" where
  "unban_all sys [] port h = (0, h)"
| "unban_all sys (ip # ips) port h =
     (let (ret, h) = UnbanUser sys ip port h
      in iAssert ret (-1, h) (unban_all sys ips port h))"

definition IptablesInit :: "system_call \<Rightarrow> string list \<Rightarrow> int \<Rightarrow> host \<Rightarrow> int \<times> host" where
  "IptablesInit sys whitelist port h =
     (let ret = 0; h = snd (ExecuteCmd sys (cmd_drop port) h)
      in iAssert ret (-1, h) (unban_all sys whitelist port h))"

lemma ExecuteCmd_host [simp]: "snd (ExecuteCmd sys cmd h) = \<lparr>commands = commands h @ [cmd]\<rparr>"
  by (simp add: ExecuteCmd_def Let_def)

lemma BanUser_eq [simp]: "BanUser sys ip port h = (0, \<lparr>commands = commands h @ [cmd_ban ip port]\<rparr>)"
  by (simp add: BanUser_def)

lemma UnbanUser_eq [simp]:
  "UnbanUser sys ip port h = (0, \<lparr>commands = commands h @ [cmd_unban ip port]\<rparr>)"
  by (simp add: UnbanUser_def)

lemma unban_all_eq:
  "unban_all sys ips port h = (0, \<lparr>commands = commands h @ map (\<lambda>ip. cmd_unban ip port) ips\<rparr>)"
  by (induction sys ips port h rule: unban_all.induct) auto

lemma IptablesInit_eq [simp]:
  "IptablesInit sys ips port h =
     (0, \<lparr>commands = commands h @ cmd_drop port # map (\<lambda>ip. cmd_unban ip port) ips\<rparr>)"
  by (simp add: IptablesInit_def unban_all_eq)

section \<open>The white list\<close>

definition IP_WHITE_LIST_ADD :: int where [const_defs]: "IP_WHITE_LIST_ADD = 1"
definition IP_WHITE_LIST_DEL :: int where [const_defs]: "IP_WHITE_LIST_DEL = 2"
definition IP_BLACK_LIST_ADD :: int where [const_defs]: "IP_BLACK_LIST_ADD = 3"
definition IP_BLACK_LIST_DEL :: int where [const_defs]: "IP_BLACK_LIST_DEL = 4"

record IPWhiteList =
  ip_white_list :: "(string, int) stdmap"
  iptool :: host

definition IPWhiteList_new :: "system_call \<Rightarrow> host \<Rightarrow> IPWhiteList" where
  "IPWhiteList_new sys h = \<lparr>ip_white_list = [], iptool = IptablesTools_new sys h\<rparr>"

definition IsIPInWhiteList :: "IPWhiteList \<Rightarrow> string \<Rightarrow> int \<Rightarrow> bool" where
  "IsIPInWhiteList w ip port =
     (case map_find ip (ip_white_list w) of Some p \<Rightarrow> p = port | None \<Rightarrow> False)"

definition OpWhiteList :: "system_call \<Rightarrow> int \<Rightarrow> string \<Rightarrow> int \<Rightarrow> IPWhiteList \<Rightarrow> int \<times> IPWhiteList" where
  "OpWhiteList sys op ip port w =
     (let has_rule = IsIPInWhiteList w ip port in
      if op = IP_WHITE_LIST_ADD \<and> has_rule then (-1, w)
      else
        let (ret, w) =
          (if op = IP_WHITE_LIST_ADD then
             let w = w\<lparr>ip_white_list := map_insert ip port (ip_white_list w)\<rparr>;
                 (ret, h) = UnbanUser sys ip port (iptool w)
             in (ret, w\<lparr>iptool := h\<rparr>)
           else (0, w))
        in iAssert ret (-1, w)
          (if op = IP_WHITE_LIST_DEL then
             if \<not> has_rule then (-1, w)
             else
               let w = w\<lparr>ip_white_list := map_erase ip (ip_white_list w)\<rparr>;
                   (ret, h) = BanUser sys ip port (iptool w);
                   w = w\<lparr>iptool := h\<rparr>
               in iAssert ret (-1, w) (0, w)
           else (0, w)))"

fun sync_whitelist :: "string list \<Rightarrow> (string, int) stdmap \<Rightarrow> (string, int) stdmap" where
  "sync_whitelist [] m = m"
| "sync_whitelist (ip # ips) m = sync_whitelist ips (map_insert ip 1 m)"

definition InitWhiteList :: "system_call \<Rightarrow> string list \<Rightarrow> int \<Rightarrow> IPWhiteList \<Rightarrow> int \<times> IPWhiteList" where
  "InitWhiteList sys whitelist port w =
     (let w = w\<lparr>ip_white_list := sync_whitelist whitelist (ip_white_list w)\<rparr>;
          (ret, h) = IptablesInit sys whitelist port (iptool w);
          w = w\<lparr>iptool := h\<rparr>
      in iAssert ret (-1, w) (0, w))"

lemma OpWhiteList_add:
  "OpWhiteList sys IP_WHITE_LIST_ADD ip port w =
     (if IsIPInWhiteList w ip port then (-1, w)
      else (0, \<lparr>ip_white_list = map_insert ip port (ip_white_list w),
                iptool = \<lparr>commands = commands (iptool w) @ [cmd_unban ip port]\<rparr>\<rparr>))"
  by (simp add: OpWhiteList_def IP_WHITE_LIST_ADD_def IP_WHITE_LIST_DEL_def Let_def)

lemma OpWhiteList_del:
  "OpWhiteList sys IP_WHITE_LIST_DEL ip port w =
     (if IsIPInWhiteList w ip port then
        (0, \<lparr>ip_white_list = map_erase ip (ip_white_list w),
             iptool = \<lparr>commands = commands (iptool w) @ [cmd_ban ip port]\<rparr>\<rparr>)
      else (-1, w))"
  by (simp add: OpWhiteList_def IP_WHITE_LIST_ADD_def IP_WHITE_LIST_DEL_def Let_def)

lemma OpWhiteList_other:
  "op \<noteq> IP_WHITE_LIST_ADD \<Longrightarrow> op \<noteq> IP_WHITE_LIST_DEL \<Longrightarrow> OpWhiteList sys op ip port w = (0, w)"
  by (simp add: OpWhiteList_def Let_def)

lemmas OpWhiteList_cases = OpWhiteList_add OpWhiteList_del OpWhiteList_other

lemma find_sync_whitelist:
  "map_find ip (sync_whitelist ips m) =
     (case map_find ip m of Some p \<Rightarrow> Some p | None \<Rightarrow> if ip \<in> set ips then Some 1 else None)"
  by (induction ips m rule: sync_whitelist.induct) (auto split: option.splits)

lemma InitWhiteList_eq:
  "InitWhiteList sys ips port w =
     (0, \<lparr>ip_white_list = sync_whitelist ips (ip_white_list w),
          iptool = \<lparr>commands = commands (iptool w) @ cmd_drop port # map (\<lambda>ip. cmd_unban ip port) ips\<rparr>\<rparr>)"
  by (simp add: InitWhiteList_def Let_def)

section \<open>The access-list interface\<close>

text \<open>
  What the two servers need of their white list, for the one port they pass to it: hosts are
  allowed and revoked one at a time. A host is \<open>stale\<close> when the list holds it under another
  port: the list then never lists it under this one.
\<close>

datatype 'ip access_op = Allow 'ip | Revoke 'ip

fun access_run :: "('ip \<Rightarrow> 's \<Rightarrow> int \<times> 's) \<Rightarrow> ('ip \<Rightarrow> 's \<Rightarrow> int \<times> 's) \<Rightarrow> 'ip access_op list \<Rightarrow> 's \<Rightarrow> 's" where
  "access_run allow revoke [] s = s"
| "access_run allow revoke (Allow ip # ops) s = access_run allow revoke ops (snd (allow ip s))"
| "access_run allow revoke (Revoke ip # ops) s = access_run allow revoke ops (snd (revoke ip s))"

text \<open>The abstract contract: the set of hosts that may connect.\<close>

fun access_spec :: "'ip access_op list \<Rightarrow> 'ip set \<Rightarrow> 'ip set" where
  "access_spec [] A = A"
| "access_spec (Allow ip # ops) A = access_spec ops (insert ip A)"
| "access_spec (Revoke ip # ops) A = access_spec ops (A - {ip})"

lemma access_spec_cong:
  "ip \<in> A \<longleftrightarrow> ip \<in> B \<Longrightarrow> ip \<in> access_spec ops A \<longleftrightarrow> ip \<in> access_spec ops B"
proof (induction ops arbitrary: A B)
  case (Cons op ops)
  show ?case
  proof (cases op)
    case (Allow h)
    then show ?thesis using Cons.IH [of "insert h A" "insert h B"] Cons.prems by simp
  next
    case (Revoke h)
    then show ?thesis using Cons.IH [of "A - {h}" "B - {h}"] Cons.prems by simp
  qed
qed simp

locale access_list =
  fixes allow :: "'ip \<Rightarrow> 's \<Rightarrow> int \<times> 's"
    and revoke :: "'ip \<Rightarrow> 's \<Rightarrow> int \<times> 's"
    and listed :: "'ip \<Rightarrow> 's \<Rightarrow> bool"
    and stale :: "'ip \<Rightarrow> 's \<Rightarrow> bool"
  assumes allow_ret: "fst (allow ip s) = (if listed ip s then -1 else 0)"
    and listed_allow:
      "listed ip' (snd (allow ip s)) \<longleftrightarrow> listed ip' s \<or> (ip' = ip \<and> \<not> stale ip s)"
    and stale_allow: "stale ip' (snd (allow ip s)) = stale ip' s"
    and revoke_ret: "fst (revoke ip s) = (if listed ip s then 0 else -1)"
    and listed_revoke: "listed ip' (snd (revoke ip s)) \<longleftrightarrow> listed ip' s \<and> ip' \<noteq> ip"
    and stale_revoke: "stale ip' (snd (revoke ip s)) = stale ip' s"
begin

lemma stale_run: "stale ip (access_run allow revoke ops s) = stale ip s"
proof (induction ops arbitrary: s)
  case (Cons op ops)
  then show ?case by (cases op) (simp_all add: stale_allow stale_revoke)
qed simp

lemma listed_run:
  "\<not> stale ip s \<Longrightarrow>
     listed ip (access_run allow revoke ops s) \<longleftrightarrow> ip \<in> access_spec ops {ip'. listed ip' s}"
proof (induction ops arbitrary: s)
  case (Cons op ops)
  note eqs = listed_allow listed_revoke stale_allow stale_revoke
  show ?case
  proof (cases op)
    case (Allow h)
    with Cons.prems Cons.IH [of "snd (allow h s)"] show ?thesis
      by (auto simp: eqs intro!: access_spec_cong)
  next
    case (Revoke h)
    with Cons.prems Cons.IH [of "snd (revoke h s)"] show ?thesis
      by (auto simp: eqs intro!: access_spec_cong)
  qed
qed simp

lemma never_stale_listed: "stale ip s \<Longrightarrow> \<not> listed ip s \<Longrightarrow> \<not> listed ip (access_run allow revoke ops s)"
proof (induction ops arbitrary: s)
  case (Cons op ops)
  note eqs = listed_allow listed_revoke stale_allow stale_revoke
  show ?case
  proof (cases op)
    case (Allow h)
    with Cons.prems show ?thesis by (simp add: Cons.IH eqs) (metis Cons.IH eqs(1,3))
  next
    case (Revoke h)
    with Cons.prems show ?thesis by (simp add: Cons.IH eqs)
  qed
qed simp

end

definition stale_entry :: "IPWhiteList \<Rightarrow> string \<Rightarrow> int \<Rightarrow> bool" where
  "stale_entry w ip port =
     (case map_find ip (ip_white_list w) of Some p \<Rightarrow> p \<noteq> port | None \<Rightarrow> False)"

abbreviation wl_allow :: "system_call \<Rightarrow> int \<Rightarrow> string \<Rightarrow> IPWhiteList \<Rightarrow> int \<times> IPWhiteList" where
  "wl_allow sys port ip \<equiv> OpWhiteList sys IP_WHITE_LIST_ADD ip port"

abbreviation wl_revoke :: "system_call \<Rightarrow> int \<Rightarrow> string \<Rightarrow> IPWhiteList \<Rightarrow> int \<times> IPWhiteList" where
  "wl_revoke sys port ip \<equiv> OpWhiteList sys IP_WHITE_LIST_DEL ip port"

interpretation wl: access_list "wl_allow sys port" "wl_revoke sys port"
    "\<lambda>ip w. IsIPInWhiteList w ip port" "\<lambda>ip w. stale_entry w ip port"
  for sys port
  by unfold_locales
    (auto simp: OpWhiteList_add OpWhiteList_del IsIPInWhiteList_def stale_entry_def
      split: option.splits if_splits)

section \<open>The white list and the commands issued\<close>

lemma stale_init:
  "stale_entry (snd (InitWhiteList sys ips port' w)) ip port \<longleftrightarrow>
     stale_entry w ip port \<or> (map_find ip (ip_white_list w) = None \<and> ip \<in> set ips \<and> port \<noteq> 1)"
  by (auto simp: stale_entry_def InitWhiteList_eq find_sync_whitelist split: option.splits)

lemma new_not_stale [simp]: "\<not> stale_entry (IPWhiteList_new sys h) ip port"
  and new_not_listed [simp]: "\<not> IsIPInWhiteList (IPWhiteList_new sys h) ip port"
  by (simp_all add: stale_entry_def IsIPInWhiteList_def IPWhiteList_new_def)

lemma IPWhiteList_new_commands:
  "commands (iptool (IPWhiteList_new sys h)) =
     commands h @ [''iptables -Z'', ''iptables -X'', ''iptables -F'']"
  by (simp add: IPWhiteList_new_def IptablesTools_new_def Let_def)

text \<open>The number of times the port has been opened for a host, less the times it was closed.\<close>

definition net_opened :: "IPWhiteList \<Rightarrow> string \<Rightarrow> int \<Rightarrow> int" where
  "net_opened w ip port =
     int (count_list (commands (iptool w)) (cmd_unban ip port))
     - int (count_list (commands (iptool w)) (cmd_ban ip port))"

lemma count_list_unbans:
  "count_list (map (\<lambda>ip. cmd_unban ip port') ips) (cmd_unban ip port) =
     (if port = port' then count_list ips ip else 0)"
  "count_list (map (\<lambda>ip. cmd_unban ip port') ips) (cmd_ban ip port) = 0"
  by (induction ips) auto

lemma net_opened_new: "commands h = [] \<Longrightarrow> net_opened (IPWhiteList_new sys h) ip port = 0"
  by (simp add: net_opened_def IPWhiteList_new_commands cmd_ban_def cmd_unban_def)

lemma net_opened_init:
  "net_opened (snd (InitWhiteList sys ips port' w)) ip port =
     net_opened w ip port + (if port = port' then int (count_list ips ip) else 0)"
  by (simp add: net_opened_def InitWhiteList_eq count_list_unbans)

lemma net_opened_step:
  "net_opened (snd (wl_allow sys port ip' w)) ip port =
     net_opened w ip port + (if ip' = ip \<and> \<not> IsIPInWhiteList w ip port then 1 else 0)"
  "net_opened (snd (wl_revoke sys port ip' w)) ip port =
     net_opened w ip port - (if ip' = ip \<and> IsIPInWhiteList w ip port then 1 else 0)"
  by (auto simp: net_opened_def OpWhiteList_add OpWhiteList_del)

lemma net_opened_run:
  assumes "\<not> stale_entry w ip port"
  shows "net_opened (access_run (wl_allow sys port) (wl_revoke sys port) ops w) ip port
           - of_bool (IsIPInWhiteList (access_run (wl_allow sys port) (wl_revoke sys port) ops w) ip port)
       = net_opened w ip port - of_bool (IsIPInWhiteList w ip port)"
  using assms
proof (induction ops arbitrary: w)
  case (Cons op ops)
  then show ?case
    by (cases op) (auto simp: net_opened_step wl.stale_allow wl.stale_revoke wl.listed_allow wl.listed_revoke)
qed simp

text \<open>The list and the firewall agree on one port, for every host outside the initial lists.\<close>

definition fw_sync :: "string set \<Rightarrow> int \<Rightarrow> IPWhiteList \<Rightarrow> bool" where
  "fw_sync initial port w \<longleftrightarrow>
     (\<forall>ip. ip \<notin> initial \<longrightarrow>
        \<not> stale_entry w ip port \<and> net_opened w ip port = of_bool (IsIPInWhiteList w ip port))"

lemma fw_sync_new: "commands h = [] \<Longrightarrow> fw_sync initial port (IPWhiteList_new sys h)"
  by (simp add: fw_sync_def net_opened_new)

lemma listed_init:
  "IsIPInWhiteList (snd (InitWhiteList sys ips port' w)) ip port \<longleftrightarrow>
     IsIPInWhiteList w ip port \<or> (map_find ip (ip_white_list w) = None \<and> ip \<in> set ips \<and> port = 1)"
  by (auto simp: IsIPInWhiteList_def InitWhiteList_eq find_sync_whitelist split: option.splits)

lemma fw_sync_init:
  "fw_sync initial port w \<Longrightarrow> set ips \<subseteq> initial \<Longrightarrow> fw_sync initial port (snd (InitWhiteList sys ips port' w))"
  by (auto simp: fw_sync_def stale_init net_opened_init listed_init count_list_0_iff)

lemma fw_sync_op: "fw_sync initial port w \<Longrightarrow> fw_sync initial port (snd (OpWhiteList sys op ip port w))"
  by (cases "op = IP_WHITE_LIST_ADD"; cases "op = IP_WHITE_LIST_DEL")
    (auto simp: fw_sync_def net_opened_step wl.stale_allow wl.stale_revoke wl.listed_allow wl.listed_revoke
      OpWhiteList_other)

text \<open>
  C32. The white list implements the set of allowed hosts: from any list in which the host has
  no entry under another port, a host is listed after a sequence of additions and removals
  exactly when the same sequence puts it into the abstract set.
\<close>

theorem whitelist_refines_set:
  assumes "\<not> stale_entry w ip port"
  shows "IsIPInWhiteList (access_run (wl_allow sys port) (wl_revoke sys port) ops w) ip port
     \<longleftrightarrow> ip \<in> access_spec ops {ip'. IsIPInWhiteList w ip' port}"
  using assms by (rule wl.listed_run)

theorem whitelist_refines_set_witness:
  "IsIPInWhiteList (access_run (wl_allow (\<lambda>_ _. 0) 6004) (wl_revoke (\<lambda>_ _. 0) 6004)
       [Allow ''1.2.3.4'', Allow ''5.6.7.8'', Revoke ''1.2.3.4'', Allow ''1.2.3.4'']
       (IPWhiteList_new (\<lambda>_ _. 0) \<lparr>commands = []\<rparr>)) ''1.2.3.4'' 6004"
  by (subst whitelist_refines_set) simp_all

text \<open>
  The white list mirrors the firewall: after start-up with the initial hosts of two ports
  (as the gateway does) and any additions and removals on the first one, a host outside the
  initial lists is listed exactly when the commands that opened the port for it outnumber the
  commands that closed it by one; otherwise they balance.
\<close>

theorem whitelist_mirrors_commands:
  assumes "ip \<notin> set ips" and "ip \<notin> set ips'"
  shows "net_opened (access_run (wl_allow sys port) (wl_revoke sys port) ops
             (snd (InitWhiteList sys ips port (snd (InitWhiteList sys ips' port'
               (IPWhiteList_new sys \<lparr>commands = []\<rparr>)))))) ip port
       = of_bool (IsIPInWhiteList (access_run (wl_allow sys port) (wl_revoke sys port) ops
             (snd (InitWhiteList sys ips port (snd (InitWhiteList sys ips' port'
               (IPWhiteList_new sys \<lparr>commands = []\<rparr>)))))) ip port)"
proof -
  let ?w = "snd (InitWhiteList sys ips port (snd (InitWhiteList sys ips' port'
               (IPWhiteList_new sys \<lparr>commands = []\<rparr>))))"
  have "\<not> stale_entry ?w ip port" using assms by (simp add: stale_init)
  moreover have "net_opened ?w ip port = 0"
    using assms by (simp add: net_opened_init net_opened_new count_list_0_iff)
  moreover have "\<not> IsIPInWhiteList ?w ip port"
    using assms by (simp add: IsIPInWhiteList_def InitWhiteList_eq find_sync_whitelist IPWhiteList_new_def)
  ultimately show ?thesis using net_opened_run [of ?w ip port sys ops] by simp
qed

theorem whitelist_mirrors_commands_witness:
  "net_opened (access_run (wl_allow (\<lambda>_ _. 0) 6004) (wl_revoke (\<lambda>_ _. 0) 6004) [Allow ''1.2.3.4'']
      (snd (InitWhiteList (\<lambda>_ _. 0) [] 6004 (snd (InitWhiteList (\<lambda>_ _. 0) [''43.138.134.77''] 6003
        (IPWhiteList_new (\<lambda>_ _. 0) \<lparr>commands = []\<rparr>)))))) ''1.2.3.4'' 6004 = 1"
  by (subst whitelist_mirrors_commands)
    (simp_all add: InitWhiteList_eq IPWhiteList_new_def OpWhiteList_add IsIPInWhiteList_def map_insert_def)

text \<open>
  A host of the initial list is recorded under port 1 and not under the port that was
  opened for it: whatever is added and removed later, it is never listed under that port,
  removing it fails and issues no command, so the port stays open for it.
\<close>

lemma initial_host_never_removed:
  assumes "ip \<in> set ips" and "port \<noteq> 1"
  shows "let w = access_run (wl_allow sys port) (wl_revoke sys port) ops
                   (snd (InitWhiteList sys ips port (IPWhiteList_new sys \<lparr>commands = []\<rparr>)))
         in \<not> IsIPInWhiteList w ip port \<and> wl_revoke sys port ip w = (-1, w) \<and> net_opened w ip port \<ge> 1"
proof -
  let ?w0 = "snd (InitWhiteList sys ips port (IPWhiteList_new sys \<lparr>commands = []\<rparr>))"
  let ?run = "\<lambda>ops. access_run (wl_allow sys port) (wl_revoke sys port) ops"
  have stale: "stale_entry ?w0 ip port"
    using assms by (simp add: stale_init IPWhiteList_new_def)
  then have unlisted: "\<not> IsIPInWhiteList (?run ops' ?w0) ip port" for ops'
    by (intro wl.never_stale_listed) (auto simp: stale_entry_def IsIPInWhiteList_def split: option.splits)
  have grows: "net_opened w ip port \<le> net_opened (?run ops' w) ip port"
    if "stale_entry w ip port" for w ops'
    using that
  proof (induction ops' arbitrary: w)
    case (Cons op ops')
    have "\<not> IsIPInWhiteList w ip port"
      using Cons.prems by (auto simp: stale_entry_def IsIPInWhiteList_def split: option.splits)
    with Cons.prems Cons.IH [of "snd (wl_allow sys port (case op of Allow h \<Rightarrow> h | Revoke h \<Rightarrow> h) w)"]
      Cons.IH [of "snd (wl_revoke sys port (case op of Allow h \<Rightarrow> h | Revoke h \<Rightarrow> h) w)"]
    show ?case
      by (cases op) (auto simp: net_opened_step wl.stale_allow wl.stale_revoke split: if_splits)
  qed simp
  have "count_list ips ip \<noteq> 0" using assms(1) by (simp add: count_list_0_iff)
  then have "1 \<le> net_opened ?w0 ip port" by (simp add: net_opened_init net_opened_new)
  with grows [OF stale, of ops] unlisted [of ops] show ?thesis
    by (simp add: Let_def OpWhiteList_del)
qed

end
