(* ===== verification/ControllerConfig.thy ===== *)
theory ControllerConfig
  imports Replay Iptables Proto
begin

text \<open>
  \<open>modules/controller/sdp_controller_config\<close>: the controller's singleton with its white list,
  replay cache, registered applications, permissions and accounts. The methods that write take
  the configuration and return it.
\<close>

section \<open>State\<close>

record SDPControllerConfig =
  con_whitelist :: IPWhiteList
  con_listen_ip :: string
  con_tcp_port :: int
  con_udp_port :: int
  con_md5_map :: "(string, int) stdmap"
  con_app_map :: "(string, AppItem list) stdmap"
  con_permission_map :: "(string, (string, int) stdmap) stdmap"
  con_user_account_map :: "(string, string) stdmap"

text \<open>The listen fields are not initialised; \<open>con_set_listen_info\<close> writes them before any use.\<close>

definition SDPControllerConfig_new :: "system_call \<Rightarrow> host \<Rightarrow> SDPControllerConfig" where
  "SDPControllerConfig_new sys h =
     \<lparr>con_whitelist = IPWhiteList_new sys h, con_listen_ip = [], con_tcp_port = 0, con_udp_port = 0,
      con_md5_map = [], con_app_map = [], con_permission_map = [],
      con_user_account_map =
        map_insert ''xiaobai'' ''123456'' (map_insert ''xiaohong'' ''123456'' (map_insert ''xiaoming'' ''123456'' []))\<rparr>"

section \<open>Operations\<close>

definition con_set_listen_info :: "string \<Rightarrow> int \<Rightarrow> int \<Rightarrow> SDPControllerConfig \<Rightarrow> SDPControllerConfig" where
  "con_set_listen_info ip tcp_port udp_port c =
     c\<lparr>con_listen_ip := ip, con_tcp_port := tcp_port, con_udp_port := udp_port\<rparr>"

definition con_QueryAndInsertMD5 :: "string \<Rightarrow> SDPControllerConfig \<Rightarrow> int \<times> SDPControllerConfig" where
  "con_QueryAndInsertMD5 md5 c =
     (case map_find md5 (con_md5_map c) of
        Some _ \<Rightarrow> (-1, c)
      | None \<Rightarrow> (0, c\<lparr>con_md5_map := map_insert md5 1 (con_md5_map c)\<rparr>))"

definition RegisterApp :: "string \<Rightarrow> AppItem list \<Rightarrow> SDPControllerConfig \<Rightarrow> SDPControllerConfig" where
  "RegisterApp ip app_list c =
     (if app_list \<noteq> [] then c\<lparr>con_app_map := map_assign ip app_list (con_app_map c)\<rparr> else c)"

definition UpdateUserPerssion_Add :: "string \<Rightarrow> string \<Rightarrow> SDPControllerConfig \<Rightarrow> int \<times> SDPControllerConfig" where
  "UpdateUserPerssion_Add account dst c =
     (let found = map_find account (con_permission_map c) in
      if (case found of Some dst_map \<Rightarrow> map_find dst dst_map \<noteq> None | None \<Rightarrow> False) then (1, c)
      else
        let dst_map = (case found of None \<Rightarrow> [] | Some m \<Rightarrow> m)
        in (0, c\<lparr>con_permission_map := map_assign account (map_insert dst 1 dst_map) (con_permission_map c)\<rparr>))"

definition UpdateUserPerssion_Del :: "string \<Rightarrow> string \<Rightarrow> SDPControllerConfig \<Rightarrow> int \<times> SDPControllerConfig" where
  "UpdateUserPerssion_Del account dst c =
     (case map_find account (con_permission_map c) of
        Some dst_map \<Rightarrow>
          (case map_find dst dst_map of
             Some _ \<Rightarrow> (0, c\<lparr>con_permission_map := map_assign account (map_erase dst dst_map) (con_permission_map c)\<rparr>)
           | None \<Rightarrow> (1, c))
      | None \<Rightarrow> (1, c))"

definition CheckUserPasswd :: "SDPControllerConfig \<Rightarrow> string \<Rightarrow> string \<Rightarrow> int" where
  "CheckUserPasswd c account passwd =
     (case map_find account (con_user_account_map c) of
        Some p \<Rightarrow> if p \<noteq> passwd then -2 else 0
      | None \<Rightarrow> -1)"

definition CheckUserPermission_Exists :: "SDPControllerConfig \<Rightarrow> string \<Rightarrow> int" where
  "CheckUserPermission_Exists c account =
     (case map_find account (con_permission_map c) of
        Some dst_map \<Rightarrow> if dst_map \<noteq> [] then 0 else -3
      | None \<Rightarrow> -3)"

definition CheckUserPermission_Allowed :: "SDPControllerConfig \<Rightarrow> string \<Rightarrow> string \<Rightarrow> int" where
  "CheckUserPermission_Allowed c account dst =
     (case map_find account (con_permission_map c) of
        Some dst_map \<Rightarrow> (case map_find dst dst_map of Some _ \<Rightarrow> 0 | None \<Rightarrow> -1)
      | None \<Rightarrow> -1)"

section \<open>The replay cache\<close>

definition con_seen :: "SDPControllerConfig \<Rightarrow> string set" where
  "con_seen c = {k. map_find k (con_md5_map c) \<noteq> None}"

interpretation con_cache: replay_cache con_QueryAndInsertMD5 con_seen
  by unfold_locales (auto simp: con_QueryAndInsertMD5_def con_seen_def split: option.splits)

section \<open>Permissions as a relation\<close>

text \<open>The abstract view: which destinations an account may access.\<close>

definition allowed :: "SDPControllerConfig \<Rightarrow> (string \<times> string) set" where
  "allowed c = {(account, dst). \<exists>m. map_find account (con_permission_map c) = Some m \<and> map_find dst m \<noteq> None}"

lemma Add_allowed: "allowed (snd (UpdateUserPerssion_Add account dst c)) = insert (account, dst) (allowed c)"
  by (auto simp: UpdateUserPerssion_Add_def allowed_def Let_def split: if_splits option.splits)

lemma Del_allowed: "allowed (snd (UpdateUserPerssion_Del account dst c)) = allowed c - {(account, dst)}"
  by (auto simp: UpdateUserPerssion_Del_def allowed_def split: option.splits if_splits)

lemma Allowed_iff: "CheckUserPermission_Allowed c account dst = 0 \<longleftrightarrow> (account, dst) \<in> allowed c"
  by (auto simp: CheckUserPermission_Allowed_def allowed_def split: option.splits)

lemma RegisterApp_allowed [simp]: "allowed (RegisterApp ip apps c) = allowed c"
  by (simp add: RegisterApp_def allowed_def)

text \<open>
  What the tables hold: ordered keys, no account with an empty set of destinations, no gateway
  with an empty list of applications.
\<close>

definition tables_ok :: "SDPControllerConfig \<Rightarrow> bool" where
  "tables_ok c \<longleftrightarrow>
     map_wf (con_md5_map c) \<and> map_wf (con_app_map c) \<and> map_wf (con_permission_map c) \<and>
     (\<forall>g apps. map_find g (con_app_map c) = Some apps \<longrightarrow> apps \<noteq> []) \<and>
     (\<forall>a m. map_find a (con_permission_map c) = Some m \<longrightarrow> map_wf m \<and> m \<noteq> [])"

lemma map_insert_not_Nil [simp]: "map_insert k v m \<noteq> []" for m :: "('k::linorder, 'v) stdmap"
  by (metis map_find.simps(1) map_simps(1) option.distinct(1))

lemma tables_ok_Add: "tables_ok c \<Longrightarrow> tables_ok (snd (UpdateUserPerssion_Add account dst c))"
  by (auto simp: tables_ok_def UpdateUserPerssion_Add_def Let_def split: option.split)

lemma tables_ok_query: "tables_ok c \<Longrightarrow> tables_ok (snd (con_QueryAndInsertMD5 md5 c))"
  by (auto simp: tables_ok_def con_QueryAndInsertMD5_def split: option.split)

lemma tables_ok_register: "tables_ok c \<Longrightarrow> tables_ok (RegisterApp ip apps c)"
  by (auto simp: tables_ok_def RegisterApp_def split: if_splits)

lemma Exists_iff: "CheckUserPermission_Exists c account = 0 \<longleftrightarrow> (\<exists>dst. (account, dst) \<in> allowed c)"
proof -
  have "m \<noteq> [] \<longleftrightarrow> (\<exists>dst. map_find dst m \<noteq> None)" for m :: "(string, int) stdmap"
    by (cases m) auto
  then show ?thesis
    by (auto simp: CheckUserPermission_Exists_def allowed_def split: option.splits)
qed

lemma Passwd_iff: "CheckUserPasswd c account passwd = 0 \<longleftrightarrow> map_find account (con_user_account_map c) = Some passwd"
  by (simp add: CheckUserPasswd_def split: option.split)

section \<open>Properties\<close>

text \<open>
  C35. The permission table implements a relation between accounts and destinations: adding
  inserts one pair, deleting removes one pair, the two checks read the relation, and the
  codes tell whether there was anything to do.
\<close>

theorem permissions_refine_relation:
  "allowed (snd (UpdateUserPerssion_Add account dst c)) = insert (account, dst) (allowed c) \<and>
   allowed (snd (UpdateUserPerssion_Del account dst c)) = allowed c - {(account, dst)} \<and>
   fst (UpdateUserPerssion_Add account dst c) = of_bool ((account, dst) \<in> allowed c) \<and>
   fst (UpdateUserPerssion_Del account dst c) = of_bool ((account, dst) \<notin> allowed c) \<and>
   (CheckUserPermission_Allowed c account dst = 0 \<longleftrightarrow> (account, dst) \<in> allowed c) \<and>
   (CheckUserPermission_Exists c account = 0 \<longleftrightarrow> (\<exists>d. (account, d) \<in> allowed c))"
proof -
  have "fst (UpdateUserPerssion_Add account dst c) = of_bool ((account, dst) \<in> allowed c)"
    "fst (UpdateUserPerssion_Del account dst c) = of_bool ((account, dst) \<notin> allowed c)"
    by (auto simp: UpdateUserPerssion_Add_def UpdateUserPerssion_Del_def allowed_def Let_def split: option.splits)
  then show ?thesis by (simp add: Add_allowed Del_allowed Allowed_iff Exists_iff)
qed

end
