(* ===== verification/ControllerService.thy ===== *)
theory ControllerService
  imports ControllerConfig Service SpaTools
begin

text \<open>
  \<open>modules/controller/sdp_controller_service_impl\<close> and \<open>sdp_controller.cpp\<close>: the knock that
  opens the controller's port for a client, the list of applications with their tickets, and
  the registration of a gateway's applications.
\<close>

section \<open>The environment of one call\<close>

text \<open>
  What the controller reads while it makes the tickets of one answer: the clock, \<open>rand()\<close> and
  the padding randomness, numbered by ticket.
\<close>

record ticket_env =
  te_time :: "nat \<Rightarrow> int"
  te_rand :: "nat \<Rightarrow> int"
  te_seed :: "nat \<Rightarrow> nat"

definition GET_RANDOM :: "int \<Rightarrow> int" where
  "GET_RANDOM rand = rand mod 1000000000 + 1000000000"

definition empty_SPAVoucher :: SPAVoucher where
  "empty_SPAVoucher = \<lparr>v_account = None, v_mac = None, v_address = None, v_timestamp = None, v_random = None\<rparr>"

section \<open>Knocking\<close>

definition con_OpWhiteList :: "system_call \<Rightarrow> int \<Rightarrow> string \<Rightarrow> SDPControllerConfig \<Rightarrow> SDPControllerConfig" where
  "con_OpWhiteList sys op ip c =
     c\<lparr>con_whitelist := snd (OpWhiteList sys op ip (con_tcp_port c) (con_whitelist c))\<rparr>"

text \<open>The macro \<open>HANDLE_VERIFY_FAILD\<close>: a failed check takes the sender off the white list.\<close>

definition HANDLE_VERIFY_FAILD ::
  "system_call \<Rightarrow> int \<Rightarrow> string \<Rightarrow> SDPControllerConfig \<Rightarrow> (int \<times> SDPControllerConfig) outcome \<Rightarrow>
     (int \<times> SDPControllerConfig) outcome" where
  "HANDLE_VERIFY_FAILD sys ret ip c k =
     (if ret \<noteq> 0 then Ret (1, con_OpWhiteList sys IP_WHITE_LIST_DEL ip c) else k)"

definition Con_ConFuncUdpRecv ::
  "'k openssl \<Rightarrow> codec \<Rightarrow> system_call \<Rightarrow> string \<Rightarrow> string \<Rightarrow> int \<Rightarrow> SDPControllerConfig \<Rightarrow>
     (int \<times> SDPControllerConfig) outcome" where
  "Con_ConFuncUdpRecv ssl cd sys msg from_ip from_port c =
     (let packet = parse_voucher_packet cd msg in
      obind (DecryptVoucher ssl cd empty_SPAVoucher packet RSA_PRI_KEY_CONTROLLER) (\<lambda>(ret, voucher).
        iAssert ret (Ret (-1, c))
          (let account = get_account (v_account voucher) in
           HANDLE_VERIFY_FAILD sys (CheckUserPasswd c (get_str (a_acc account)) (get_str (a_pwd account))) from_ip c
             (HANDLE_VERIFY_FAILD sys (CheckUserPermission_Exists c (get_str (a_acc (get_account (v_account voucher))))) from_ip c
               (let (repeated, c) = con_QueryAndInsertMD5 (get_str (vp_md5_data packet)) c in
                if repeated \<noteq> 0 then Ret (1, c)
                else Ret (0, con_OpWhiteList sys IP_WHITE_LIST_ADD from_ip c))))))"

section \<open>The access list\<close>

definition dst_of :: "string \<Rightarrow> AppItem \<Rightarrow> string" where
  "dst_of ip item = ip @ '':'' @ to_string (get_i32 (ai_app_tcp_port item))"

definition new_ticket :: "ticket_env \<Rightarrow> nat \<Rightarrow> string \<Rightarrow> SPATicket" where
  "new_ticket te k user_ip =
     \<lparr>t_ip = Some (c_str user_ip), t_timestamp = Some (word_of_int (te_time te k)),
      t_random = Some (word_of_int (GET_RANDOM (te_rand te k))), t_valid_seconds = Some 30\<rparr>"

text \<open>
  The inner loop, over one gateway's applications. \<open>k\<close> numbers the tickets, \<open>rsp\<close> is the
  response so far. A ticket that cannot be made ends the whole call; its item has been added
  by then.
\<close>

fun access_apps ::
  "'k openssl \<Rightarrow> codec \<Rightarrow> ticket_env \<Rightarrow> SDPControllerConfig \<Rightarrow> string \<Rightarrow> string \<Rightarrow> string \<Rightarrow> AppItem list \<Rightarrow>
     nat \<Rightarrow> AccessItem list \<Rightarrow> (int \<times> nat \<times> AccessItem list) outcome" where
  "access_apps ssl cd te c acc user_ip gateway_ip [] k rsp = Ret (0, k, rsp)"
| "access_apps ssl cd te c acc user_ip gateway_ip (item # items) k rsp =
     (let dst = dst_of gateway_ip item in
      if CheckUserPermission_Allowed c acc dst \<noteq> 0
      then access_apps ssl cd te c acc user_ip gateway_ip items k rsp
      else
        let acc_item = \<lparr>xi_ip = Some gateway_ip, xi_app = Some item, xi_ticket_packet = None\<rparr> in
        obind (EncryptTicket ssl cd (te_seed te k) empty_SPATicketPacket (new_ticket te k user_ip)
                 RSA_PRI_KEY_CONTROLLER RSA_PUB_KEY_GATEWAY) (\<lambda>(ret, ticket_packet).
          iAssert ret (Ret (-1, Suc k, rsp @ [acc_item]))
            (access_apps ssl cd te c acc user_ip gateway_ip items (Suc k)
               (rsp @ [acc_item\<lparr>xi_ticket_packet := Some ticket_packet\<rparr>]))))"

text \<open>The outer loop, over the gateways in key order.\<close>

fun access_gateways ::
  "'k openssl \<Rightarrow> codec \<Rightarrow> ticket_env \<Rightarrow> SDPControllerConfig \<Rightarrow> string \<Rightarrow> string \<Rightarrow> (string \<times> AppItem list) list \<Rightarrow>
     nat \<Rightarrow> AccessItem list \<Rightarrow> (int \<times> nat \<times> AccessItem list) outcome" where
  "access_gateways ssl cd te c acc user_ip [] k rsp = Ret (0, k, rsp)"
| "access_gateways ssl cd te c acc user_ip ((gateway_ip, app_vec) # gs) k rsp =
     obind (access_apps ssl cd te c acc user_ip gateway_ip app_vec k rsp) (\<lambda>(ret, k, rsp).
       iAssert ret (Ret (-1, k, rsp)) (access_gateways ssl cd te c acc user_ip gs k rsp))"

definition Con_ConFuncGetAccess ::
  "'k openssl \<Rightarrow> codec \<Rightarrow> ticket_env \<Rightarrow> ConFuncGetAccessReq \<Rightarrow> Extra \<Rightarrow> SDPControllerConfig \<Rightarrow>
     (int \<times> ConFuncGetAccessRsp \<times> SDPControllerConfig) outcome" where
  "Con_ConFuncGetAccess ssl cd te req extra c =
     (let user_account = get_account (gq_account req) in
      obind (access_gateways ssl cd te c (get_str (a_acc user_account)) (si_ip (socket_info extra)) (con_app_map c) 0 [])
        (\<lambda>(ret, k, rsp). Ret (ret, \<lparr>gr_access_list = rsp\<rparr>, c)))"

section \<open>Registration\<close>

fun grant_all :: "string list \<Rightarrow> SDPControllerConfig \<Rightarrow> SDPControllerConfig" where
  "grant_all [] c = c"
| "grant_all (per # pers) c =
     (let c = snd (UpdateUserPerssion_Add ''xiaoming'' per c);
          c = snd (UpdateUserPerssion_Add ''xiaohong'' per c);
          c = snd (UpdateUserPerssion_Add ''xiaobai'' per c)
      in grant_all pers c)"

definition Con_ConFuncRegisterApp ::
  "ConFuncRegisterAppReq \<Rightarrow> Extra \<Rightarrow> SDPControllerConfig \<Rightarrow>
     (int \<times> ConFuncRegisterAppRsp \<times> SDPControllerConfig) outcome" where
  "Con_ConFuncRegisterApp req extra c =
     (if rq_app_list req = [] then Ret (-1, ConFuncRegisterAppRsp, c)
      else
        let ip = si_ip (socket_info extra);
            app_vec = rq_app_list req;
            perssion_vec = map (dst_of ip) (rq_app_list req);
            c = RegisterApp ip app_vec c
        in Ret (0, ConFuncRegisterAppRsp, grant_all perssion_vec c))"

section \<open>The controller\<close>

definition controller_service ::
  "'k openssl \<Rightarrow> codec \<Rightarrow> system_call \<Rightarrow> ticket_env \<Rightarrow> SDPControllerConfig ErpcService" where
  "controller_service ssl cd sys te = base_service\<lparr>
     ConFuncUdpRecv := Con_ConFuncUdpRecv ssl cd sys,
     ConFuncGetAccess := Con_ConFuncGetAccess ssl cd te,
     ConFuncRegisterApp := Con_ConFuncRegisterApp\<rparr>"

definition SDPController_start :: "system_call \<Rightarrow> SDPControllerConfig \<Rightarrow> SDPControllerConfig" where
  "SDPController_start sys c =
     (let c = con_set_listen_info IP_CONTROLLER_IN TCP_PORT_CONTROLLER UDP_PORT_CONTROLLER c;
          white_vec = [IP_APPGATEWAY_PB]
      in c\<lparr>con_whitelist := snd (InitWhiteList sys white_vec (con_tcp_port c) (con_whitelist c))\<rparr>)"

section \<open>The knock\<close>

abbreviation con_listed :: "SDPControllerConfig \<Rightarrow> string \<Rightarrow> bool" where
  "con_listed c ip \<equiv> IsIPInWhiteList (con_whitelist c) ip (con_tcp_port c)"

text \<open>The outcomes of a knock that returns, one per exit of the handler.\<close>

lemma knock_cases:
  assumes "Con_ConFuncUdpRecv ssl cd sys msg ip port c = Ret (ret, c')"
  obtains (bad) v where "ret = -1" "c' = c"
      "DecryptVoucher ssl cd empty_SPAVoucher (parse_voucher_packet cd msg) RSA_PRI_KEY_CONTROLLER = Ret (-1, v)"
  | (denied) v where "ret = 1" "c' = con_OpWhiteList sys IP_WHITE_LIST_DEL ip c"
      "DecryptVoucher ssl cd empty_SPAVoucher (parse_voucher_packet cd msg) RSA_PRI_KEY_CONTROLLER = Ret (0, v)"
      "\<not> (map_find (get_str (a_acc (get_account (v_account v)))) (con_user_account_map c)
             = Some (get_str (a_pwd (get_account (v_account v)))) \<and>
           (\<exists>dst. (get_str (a_acc (get_account (v_account v))), dst) \<in> allowed c))"
  | (replayed) "ret = 1" "c' = c" "get_str (vp_md5_data (parse_voucher_packet cd msg)) \<in> con_seen c"
  | (passed) v where "ret = 0"
      "DecryptVoucher ssl cd empty_SPAVoucher (parse_voucher_packet cd msg) RSA_PRI_KEY_CONTROLLER = Ret (0, v)"
      "map_find (get_str (a_acc (get_account (v_account v)))) (con_user_account_map c)
         = Some (get_str (a_pwd (get_account (v_account v))))"
      "\<exists>dst. (get_str (a_acc (get_account (v_account v))), dst) \<in> allowed c"
      "get_str (vp_md5_data (parse_voucher_packet cd msg)) \<notin> con_seen c"
      "c' = con_OpWhiteList sys IP_WHITE_LIST_ADD ip
              (snd (con_QueryAndInsertMD5 (get_str (vp_md5_data (parse_voucher_packet cd msg))) c))"
proof -
  let ?packet = "parse_voucher_packet cd msg"
  let ?q = "con_QueryAndInsertMD5 (get_str (vp_md5_data ?packet)) c"
  obtain r v where dec: "DecryptVoucher ssl cd empty_SPAVoucher ?packet RSA_PRI_KEY_CONTROLLER = Ret (r, v)"
    using assms unfolding Con_ConFuncUdpRecv_def Let_def outcome_simps by auto
  with DecryptVoucher_ret have r: "r = 0 \<or> r = -1" by blast
  have keep: "fst ?q \<noteq> 0 \<Longrightarrow> snd ?q = c"
    by (simp add: con_QueryAndInsertMD5_def split: option.splits)
  show ?thesis
  proof (cases "r = 0")
    case True
    then show ?thesis
      using assms dec keep bad denied replayed passed con_cache.query_fresh [of "get_str (vp_md5_data ?packet)" c]
      by (auto simp: Con_ConFuncUdpRecv_def HANDLE_VERIFY_FAILD_def Let_def Passwd_iff Exists_iff
          split: if_splits prod.splits)
  qed (use assms dec r bad in \<open>auto simp: Con_ConFuncUdpRecv_def\<close>)
qed

lemma con_OpWhiteList_simps [simp]:
  "con_tcp_port (con_OpWhiteList sys op ip c) = con_tcp_port c"
  "con_md5_map (con_OpWhiteList sys op ip c) = con_md5_map c"
  "con_permission_map (con_OpWhiteList sys op ip c) = con_permission_map c"
  "con_user_account_map (con_OpWhiteList sys op ip c) = con_user_account_map c"
  "con_app_map (con_OpWhiteList sys op ip c) = con_app_map c"
  "con_whitelist (con_OpWhiteList sys op ip c) = snd (OpWhiteList sys op ip (con_tcp_port c) (con_whitelist c))"
  by (simp_all add: con_OpWhiteList_def)

lemma con_Query_simps [simp]:
  "con_tcp_port (snd (con_QueryAndInsertMD5 m c)) = con_tcp_port c"
  "con_whitelist (snd (con_QueryAndInsertMD5 m c)) = con_whitelist c"
  "con_permission_map (snd (con_QueryAndInsertMD5 m c)) = con_permission_map c"
  "con_user_account_map (snd (con_QueryAndInsertMD5 m c)) = con_user_account_map c"
  "con_app_map (snd (con_QueryAndInsertMD5 m c)) = con_app_map c"
  by (simp_all add: con_QueryAndInsertMD5_def split: option.split)

lemma con_seen_simps [simp]:
  "con_seen (con_OpWhiteList sys op ip c) = con_seen c"
  by (simp add: con_seen_def)

abbreviation con_knock ::
  "'k openssl \<Rightarrow> codec \<Rightarrow> system_call \<Rightarrow> string \<times> string \<times> int \<Rightarrow> SDPControllerConfig \<Rightarrow>
     (int \<times> SDPControllerConfig) outcome" where
  "con_knock ssl cd sys k \<equiv> (case k of (msg, ip, port) \<Rightarrow> Con_ConFuncUdpRecv ssl cd sys msg ip port)"

definition knock_digest :: "codec \<Rightarrow> string \<times> string \<times> int \<Rightarrow> string" where
  "knock_digest cd k = get_str (vp_md5_data (parse_voucher_packet cd (fst k)))"

interpretation con_guard: replay_guard "con_knock ssl cd sys" "knock_digest cd" con_seen
  for ssl cd sys
proof
  fix e s s' assume "con_knock ssl cd sys e s = Ret (0, s')"
  then show "knock_digest cd e \<notin> con_seen s \<and> knock_digest cd e \<in> con_seen s'"
    by (cases e) (auto simp: knock_digest_def con_cache.seen_query elim!: knock_cases)
next
  fix e s ret s' assume "con_knock ssl cd sys e s = Ret (ret, s')"
  then show "con_seen s \<subseteq> con_seen s'"
    by (cases e) (auto simp: con_cache.seen_query elim!: knock_cases)
qed

text \<open>The digest of an accepted knock is one that \<open>MD5Encrypt\<close> has computed.\<close>

lemma accepted_digest:
  assumes "con_knock ssl cd sys k c = Ret (0, c')"
  obtains m r where "MD5Encrypt ssl m = (r, knock_digest cd k)" "0 \<le> r"
proof -
  obtain msg ip port where k: "k = (msg, ip, port)" by (cases k)
  from assms obtain v where
      "DecryptVoucher ssl cd empty_SPAVoucher (parse_voucher_packet cd msg) RSA_PRI_KEY_CONTROLLER = Ret (0, v)"
    unfolding k by (auto elim: knock_cases)
  then obtain plain r where "MD5Encrypt ssl plain = (r, knock_digest cd k)" "0 \<le> r"
    unfolding k knock_digest_def by (auto elim: DecryptVoucher_ok)
  then show ?thesis by (rule that)
qed

section \<open>An instance\<close>

text \<open>
  For the witnesses: a codec whose every datagram carries no encrypted data and the digest of
  the empty text, and a controller on which one destination is registered.
\<close>

definition knock_codec :: codec where
  "knock_codec = toy_codec\<lparr>parse_voucher_packet := \<lambda>_. \<lparr>vp_enc_data = None, vp_md5_data = Some [CHR 0x00]\<rparr>\<rparr>"

definition toy_controller :: SDPControllerConfig where
  "toy_controller = (SDPController_start (\<lambda>_ _. 0) (SDPControllerConfig_new (\<lambda>_ _. 0) \<lparr>commands = []\<rparr>))
     \<lparr>con_permission_map := [(''xiaoming'', [(''106.13.211.246:6004'', 1)])],
      con_app_map := [(''106.13.211.246'', [empty_AppItem\<lparr>ai_app_tcp_port := Some 6004\<rparr>])]\<rparr>"

lemma knock_voucher:
  "DecryptVoucher toy_ssl knock_codec empty_SPAVoucher (parse_voucher_packet knock_codec msg) RSA_PRI_KEY_CONTROLLER
     = Ret (0, one_voucher)"
  by (simp add: DecryptVoucher_def RSADecrypt_def RSADecrypt_loop.simps limit_size_def MD5Encrypt_def
      toy_ssl_def toy_codec_def knock_codec_def)

lemma toy_knock:
  "fst (con_QueryAndInsertMD5 [CHR 0x00] c) = 0 \<Longrightarrow> con_user_account_map c = con_user_account_map toy_controller \<Longrightarrow>
   con_permission_map c = con_permission_map toy_controller \<Longrightarrow>
   Con_ConFuncUdpRecv toy_ssl knock_codec sys msg ip port c =
     Ret (0, con_OpWhiteList sys IP_WHITE_LIST_ADD ip (snd (con_QueryAndInsertMD5 [CHR 0x00] c)))"
  by (simp add: Con_ConFuncUdpRecv_def knock_voucher HANDLE_VERIFY_FAILD_def CheckUserPasswd_def
      CheckUserPermission_Exists_def toy_controller_def SDPController_start_def SDPControllerConfig_new_def
      con_set_listen_info_def one_voucher_def map_insert_def split: prod.split)
    (auto simp: knock_codec_def)

section \<open>The access list and the registration\<close>

text \<open>A ticket that the gateway will accept, made out to the user's address.\<close>

definition good_item :: "'k openssl \<Rightarrow> codec \<Rightarrow> ticket_env \<Rightarrow> string \<Rightarrow> AccessItem \<Rightarrow> bool" where
  "good_item ssl cd te user_ip x \<longleftrightarrow>
     (\<exists>k p. xi_ticket_packet x = Some p \<and>
        (\<forall>t0. DecryptTicket ssl cd t0 p RSA_PUB_KEY_CONTROLLER RSA_PRI_KEY_GATEWAY = Ret (0, new_ticket te k user_ip)))"

definition tickets_work :: "'k openssl \<Rightarrow> codec \<Rightarrow> ticket_env \<Rightarrow> string \<Rightarrow> bool" where
  "tickets_work ssl cd te user_ip \<longleftrightarrow>
     (\<forall>k. \<exists>p. EncryptTicket ssl cd (te_seed te k) empty_SPATicketPacket (new_ticket te k user_ip)
                RSA_PRI_KEY_CONTROLLER RSA_PUB_KEY_GATEWAY = Ret (0, p) \<and>
        (\<forall>t0. DecryptTicket ssl cd t0 p RSA_PUB_KEY_CONTROLLER RSA_PRI_KEY_GATEWAY = Ret (0, new_ticket te k user_ip)))"

lemma access_apps_works:
  assumes "tickets_work ssl cd te user_ip"
  shows "\<exists>k' new. access_apps ssl cd te c acc user_ip g items k rsp = Ret (0, k', rsp @ new) \<and>
     map (\<lambda>x. (xi_ip x, xi_app x)) new = map (\<lambda>i. (Some g, Some i)) (filter (\<lambda>i. (acc, dst_of g i) \<in> allowed c) items) \<and>
     (\<forall>x \<in> set new. good_item ssl cd te user_ip x)"
proof (induction items arbitrary: k rsp)
  case (Cons i items)
  show ?case
  proof (cases "(acc, dst_of g i) \<in> allowed c")
    case True
    obtain p where p: "EncryptTicket ssl cd (te_seed te k) empty_SPATicketPacket (new_ticket te k user_ip)
                RSA_PRI_KEY_CONTROLLER RSA_PUB_KEY_GATEWAY = Ret (0, p)"
        "\<forall>t0. DecryptTicket ssl cd t0 p RSA_PUB_KEY_CONTROLLER RSA_PRI_KEY_GATEWAY = Ret (0, new_ticket te k user_ip)"
      using assms by (auto simp: tickets_work_def)
    let ?x = "\<lparr>xi_ip = Some g, xi_app = Some i, xi_ticket_packet = Some p\<rparr>"
    obtain k' new where IH: "access_apps ssl cd te c acc user_ip g items (Suc k) (rsp @ [?x]) = Ret (0, k', (rsp @ [?x]) @ new)"
        "map (\<lambda>x. (xi_ip x, xi_app x)) new = map (\<lambda>i. (Some g, Some i)) (filter (\<lambda>i. (acc, dst_of g i) \<in> allowed c) items)"
        "\<forall>x \<in> set new. good_item ssl cd te user_ip x"
      using Cons.IH [of "Suc k" "rsp @ [?x]"] by blast
    have "good_item ssl cd te user_ip ?x" using p(2) by (auto simp: good_item_def)
    then show ?thesis
      using True p(1) IH by (intro exI [of _ k'] exI [of _ "?x # new"]) (simp add: Let_def Allowed_iff)
  next
    case False
    then show ?thesis using Cons.IH [of k rsp] by (simp add: Let_def Allowed_iff)
  qed
qed simp

definition offered :: "SDPControllerConfig \<Rightarrow> string \<Rightarrow> (string \<times> AppItem) list" where
  "offered c acc =
     concat (map (\<lambda>(g, items). map (Pair g) (filter (\<lambda>i. (acc, dst_of g i) \<in> allowed c) items)) (con_app_map c))"

lemma access_gateways_works:
  assumes "tickets_work ssl cd te user_ip"
  shows "\<exists>k' new. access_gateways ssl cd te c acc user_ip gs k rsp = Ret (0, k', rsp @ new) \<and>
     map (\<lambda>x. (xi_ip x, xi_app x)) new =
       concat (map (\<lambda>(g, items). map (\<lambda>i. (Some g, Some i)) (filter (\<lambda>i. (acc, dst_of g i) \<in> allowed c) items)) gs) \<and>
     (\<forall>x \<in> set new. good_item ssl cd te user_ip x)"
proof (induction gs arbitrary: k rsp)
  case (Cons gi gs)
  obtain g items where gi: "gi = (g, items)" by (cases gi)
  from access_apps_works [OF assms, of c acc g items k rsp] obtain k1 new1
    where 1: "access_apps ssl cd te c acc user_ip g items k rsp = Ret (0, k1, rsp @ new1)"
      "map (\<lambda>x. (xi_ip x, xi_app x)) new1 = map (\<lambda>i. (Some g, Some i)) (filter (\<lambda>i. (acc, dst_of g i) \<in> allowed c) items)"
      "\<forall>x \<in> set new1. good_item ssl cd te user_ip x" by blast
  from Cons.IH [of k1 "rsp @ new1"] obtain k2 new2
    where 2: "access_gateways ssl cd te c acc user_ip gs k1 (rsp @ new1) = Ret (0, k2, (rsp @ new1) @ new2)"
      "map (\<lambda>x. (xi_ip x, xi_app x)) new2 =
         concat (map (\<lambda>(g, items). map (\<lambda>i. (Some g, Some i)) (filter (\<lambda>i. (acc, dst_of g i) \<in> allowed c) items)) gs)"
      "\<forall>x \<in> set new2. good_item ssl cd te user_ip x" by blast
  show ?case
    using 1 2 by (intro exI [of _ k2] exI [of _ "new1 @ new2"]) (auto simp: gi)
qed simp

lemma GetAccess_works:
  assumes "tickets_work ssl cd te (si_ip (socket_info extra))"
  shows "\<exists>rsp. Con_ConFuncGetAccess ssl cd te req extra c = Ret (0, \<lparr>gr_access_list = rsp\<rparr>, c) \<and>
     map (\<lambda>x. (xi_ip x, xi_app x)) rsp = map (\<lambda>(g, i). (Some g, Some i)) (offered c (get_str (a_acc (get_account (gq_account req))))) \<and>
     (\<forall>x \<in> set rsp. good_item ssl cd te (si_ip (socket_info extra)) x)"
proof -
  let ?acc = "get_str (a_acc (get_account (gq_account req)))"
  obtain k new where "access_gateways ssl cd te c ?acc (si_ip (socket_info extra)) (con_app_map c) 0 [] = Ret (0, k, new)"
      "map (\<lambda>x. (xi_ip x, xi_app x)) new =
         concat (map (\<lambda>(g, items). map (\<lambda>i. (Some g, Some i)) (filter (\<lambda>i. (?acc, dst_of g i) \<in> allowed c) items)) (con_app_map c))"
      "\<forall>x \<in> set new. good_item ssl cd te (si_ip (socket_info extra)) x"
    using access_gateways_works [OF assms, of c ?acc "con_app_map c" 0 "[]"] by auto
  then show ?thesis
    by (simp add: Con_ConFuncGetAccess_def offered_def map_concat comp_def case_prod_unfold)
qed

lemma tickets_work_intro:
  assumes "reads_keys ssl RSA_PUB_KEY_CONTROLLER sign_pub RSA_PRI_KEY_CONTROLLER sign_pri" and "sign_pair ssl sign_pri sign_pub"
    and "reads_keys ssl RSA_PUB_KEY_GATEWAY enc_pub RSA_PRI_KEY_GATEWAY enc_pri" and "rsa_pair ssl enc_pub enc_pri"
    and "md5_works ssl" and "\<And>k. parse_ticket cd (ser_ticket cd (new_ticket te k ip)) = new_ticket te k ip"
  shows "tickets_work ssl cd te ip"
  unfolding tickets_work_def
proof
  fix k
  have "\<exists>p. EncryptTicket ssl cd (te_seed te k) empty_SPATicketPacket (new_ticket te k ip)
                RSA_PRI_KEY_CONTROLLER RSA_PUB_KEY_GATEWAY = Ret (0, p) \<and>
        DecryptTicket ssl cd t0 p RSA_PUB_KEY_CONTROLLER RSA_PRI_KEY_GATEWAY = Ret (0, new_ticket te k ip)" for t0
    by (rule ticket_survives [OF assms])
  then show "\<exists>p. EncryptTicket ssl cd (te_seed te k) empty_SPATicketPacket (new_ticket te k ip)
                RSA_PRI_KEY_CONTROLLER RSA_PUB_KEY_GATEWAY = Ret (0, p) \<and>
        (\<forall>t0. DecryptTicket ssl cd t0 p RSA_PUB_KEY_CONTROLLER RSA_PRI_KEY_GATEWAY = Ret (0, new_ticket te k ip))"
    by (metis outcome.inject(1) prod.inject)
qed

text \<open>Registration.\<close>

lemma grant_all_inv:
  assumes "\<And>u d c. P c \<Longrightarrow> P (snd (UpdateUserPerssion_Add u d c))"
  shows "P c \<Longrightarrow> P (grant_all pers c)"
  by (induction pers c rule: grant_all.induct) (simp_all add: Let_def assms)

lemma grant_all_keeps [simp]:
  "con_whitelist (grant_all pers c) = con_whitelist c \<and> con_tcp_port (grant_all pers c) = con_tcp_port c \<and>
   con_app_map (grant_all pers c) = con_app_map c \<and> con_md5_map (grant_all pers c) = con_md5_map c \<and>
   con_user_account_map (grant_all pers c) = con_user_account_map c"
  by (rule grant_all_inv) (simp_all add: UpdateUserPerssion_Add_def Let_def)

lemma grant_all_allowed:
  "allowed (grant_all pers c) = allowed c \<union> {''xiaoming'', ''xiaohong'', ''xiaobai''} \<times> set pers"
  by (induction pers c rule: grant_all.induct) (auto simp: Add_allowed Let_def)

section \<open>The invariant of the controller\<close>

definition con_inv :: "string set \<Rightarrow> SDPControllerConfig \<Rightarrow> bool" where
  "con_inv initial c \<longleftrightarrow>
     con_tcp_port c = TCP_PORT_CONTROLLER \<and> fw_sync initial TCP_PORT_CONTROLLER (con_whitelist c) \<and>
     tables_ok c"

lemma con_inv_start:
  "commands h = [] \<Longrightarrow> con_inv {IP_APPGATEWAY_PB} (SDPController_start sys (SDPControllerConfig_new sys' h))"
  by (simp add: con_inv_def SDPController_start_def SDPControllerConfig_new_def con_set_listen_info_def
      Let_def fw_sync_init fw_sync_new tables_ok_def)

lemma con_inv_op: "con_inv initial c \<Longrightarrow> con_inv initial (con_OpWhiteList sys op ip c)"
  by (simp add: con_inv_def fw_sync_op con_OpWhiteList_def tables_ok_def)

lemma con_inv_query: "con_inv initial c \<Longrightarrow> con_inv initial (snd (con_QueryAndInsertMD5 m c))"
  by (simp add: con_inv_def tables_ok_query)

lemma con_inv_knock: "con_inv initial c \<Longrightarrow> Con_ConFuncUdpRecv ssl cd sys m ip p c = Ret (r, c') \<Longrightarrow> con_inv initial c'"
  by (erule knock_cases) (simp_all add: con_inv_op con_inv_query)

lemma con_inv_access: "Con_ConFuncGetAccess ssl cd te q e c = Ret (r, rsp, c') \<Longrightarrow> c' = c"
  by (auto simp: Con_ConFuncGetAccess_def outcome_simps)

lemma tables_ok_grant_all: "tables_ok c \<Longrightarrow> tables_ok (grant_all pers c)"
  by (rule grant_all_inv) (rule tables_ok_Add)

lemma RegisterApp_keeps:
  "con_whitelist (RegisterApp ip apps c) = con_whitelist c" "con_tcp_port (RegisterApp ip apps c) = con_tcp_port c"
  "con_user_account_map (RegisterApp ip apps c) = con_user_account_map c"
  by (simp_all add: RegisterApp_def)

lemma con_inv_register:
  "con_inv initial c \<Longrightarrow> Con_ConFuncRegisterApp q e c = Ret (r, rsp, c') \<Longrightarrow> con_inv initial c'"
  by (auto simp: Con_ConFuncRegisterApp_def con_inv_def Let_def RegisterApp_keeps
      intro!: tables_ok_grant_all tables_ok_register split: if_splits)

interpretation controller: service_contract "controller_service ssl cd sys te" "con_inv initial"
  for ssl cd sys te initial
  by unfold_locales
    (auto simp: controller_service_def base_service_def dest: con_inv_knock con_inv_access con_inv_register)

section \<open>Properties\<close>

text \<open>
  C15. A knock that the controller accepts carries a voucher that decrypts with the controller's
  key to the digest of the packet, the password of its account, an account with at least one
  permission, and a digest never accepted before; the digest is then remembered and the sender
  added to the white list of the RPC port.
\<close>

theorem controller_knock_sound:
  assumes "Con_ConFuncUdpRecv ssl cd sys msg ip port c = Ret (0, c')"
  shows "\<exists>r plain. let packet = parse_voucher_packet cd msg;
                         user = get_account (v_account (parse_voucher cd plain));
                         digest = get_str (vp_md5_data packet)
     in RSADecrypt ssl (get_str (vp_enc_data packet)) RSA_PRI_KEY_CONTROLLER = Ret (r, plain) \<and> 0 \<le> r \<and>
        snd (MD5Encrypt ssl plain) = digest \<and>
        map_find (get_str (a_acc user)) (con_user_account_map c) = Some (get_str (a_pwd user)) \<and>
        (\<exists>dst. (get_str (a_acc user), dst) \<in> allowed c) \<and>
        digest \<notin> con_seen c \<and> con_seen c' = insert digest (con_seen c) \<and>
        con_whitelist c' = snd (wl_allow sys (con_tcp_port c) ip (con_whitelist c))"
  using assms
proof (cases rule: knock_cases)
  case (passed v)
  from passed(2) obtain r plain r' where
    "RSADecrypt ssl (get_str (vp_enc_data (parse_voucher_packet cd msg))) RSA_PRI_KEY_CONTROLLER = Ret (r, plain)" "0 \<le> r"
    "MD5Encrypt ssl plain = (r', get_str (vp_md5_data (parse_voucher_packet cd msg)))" "v = parse_voucher cd plain"
    by (rule DecryptVoucher_ok)
  then show ?thesis
    using passed by (intro exI [of _ r] exI [of _ plain]) (simp add: Let_def con_cache.seen_query)
qed simp_all

theorem controller_knock_sound_witness:
  "\<exists>r plain. RSADecrypt toy_ssl [] RSA_PRI_KEY_CONTROLLER = Ret (r, plain) \<and>
     map_find (get_str (a_acc (get_account (v_account (parse_voucher knock_codec plain)))))
       (con_user_account_map toy_controller) = Some ''123456''"
proof -
  have "fst (con_QueryAndInsertMD5 [CHR 0x00] toy_controller) = 0"
    by (simp add: con_QueryAndInsertMD5_def toy_controller_def SDPController_start_def
        SDPControllerConfig_new_def con_set_listen_info_def)
  from controller_knock_sound [OF toy_knock [OF this refl refl, of "\<lambda>_ _. 0" "''knock''" "''1.2.3.4''" 9]]
  show ?thesis by (auto simp: Let_def knock_codec_def toy_codec_def one_voucher_def)
qed

text \<open>
  What a knock does to the white list, exit by exit: a message that cannot be decrypted
  changes nothing; an accepted one lists exactly its sender in addition; a rejected one lists
  nobody, leaves the other hosts alone and, when the account check failed, takes its sender
  off the list. So no host is listed without an accepted knock from its address.
\<close>

theorem knock_whitelist_effect:
  assumes "Con_ConFuncUdpRecv ssl cd sys msg ip port c = Ret (ret, c')"
  shows "ret \<in> {0, 1, -1} \<and>
     (ret = -1 \<longrightarrow> c' = c) \<and>
     (ret = 0 \<longrightarrow> (\<forall>h. con_listed c' h \<longleftrightarrow> con_listed c h \<or> (h = ip \<and> \<not> stale_entry (con_whitelist c) ip (con_tcp_port c)))) \<and>
     (ret = 1 \<longrightarrow> con_seen c' = con_seen c \<and> (\<forall>h. con_listed c' h \<longrightarrow> con_listed c h) \<and>
        (\<forall>h. h \<noteq> ip \<longrightarrow> con_listed c' h = con_listed c h) \<and>
        (knock_digest cd (msg, ip, port) \<notin> con_seen c \<longrightarrow> \<not> con_listed c' ip))"
  using assms by (cases rule: knock_cases) (auto simp: wl.listed_allow wl.listed_revoke knock_digest_def)

theorem knock_whitelist_effect_witness:
  "\<exists>c'. Con_ConFuncUdpRecv toy_ssl knock_codec (\<lambda>_ _. 0) ''knock'' ''1.2.3.4'' 9 toy_controller = Ret (0, c') \<and>
        con_listed c' ''1.2.3.4''"
proof -
  have "fst (con_QueryAndInsertMD5 [CHR 0x00] toy_controller) = 0"
    and fresh: "\<not> stale_entry (con_whitelist toy_controller) ''1.2.3.4'' (con_tcp_port toy_controller)"
    by (simp_all add: con_QueryAndInsertMD5_def toy_controller_def SDPController_start_def
        SDPControllerConfig_new_def con_set_listen_info_def stale_init const_defs)
  note run = toy_knock [OF this(1) refl refl, of "\<lambda>_ _. 0" "''knock''" "''1.2.3.4''" 9]
  from knock_whitelist_effect [OF run] fresh run show ?thesis by simp
qed

text \<open>
  C27. Knocks are not replayed: the digests of the accepted ones are pairwise distinct, in any
  sequence of datagrams from any state. But the digest is one byte, so a controller accepts
  256 knocks at the most in its whole life and then locks everybody out.
\<close>

theorem knocks_bounded:
  assumes "md5_documented ssl" and "accepted_run (con_knock ssl cd sys) ks c = Ret (acc, c')"
  shows "distinct (map (knock_digest cd) acc) \<and> length acc \<le> 256"
proof -
  have "length (knock_digest cd k) = 1" if "k \<in> set acc" for k
    using accepted_run_in [OF assms(2) that] md5_digest_length [OF assms(1)]
    by (metis accepted_digest)
  then have "knock_digest cd ` set acc \<subseteq> {d. length d = 1}" by auto
  from con_guard.run_bound [OF assms(2) card_one_byte(2) this] con_guard.run_fresh [OF assms(2)]
  show ?thesis by (simp add: card_one_byte [unfolded One_nat_def])
qed

theorem knocks_bounded_witness:
  "\<exists>acc c'. accepted_run (con_knock toy_ssl knock_codec (\<lambda>_ _. 0)) [(''knock'', ''1.2.3.4'', 9)] toy_controller
              = Ret (acc, c') \<and> acc = [(''knock'', ''1.2.3.4'', 9)] \<and> length acc \<le> 256"
proof -
  have "fst (con_QueryAndInsertMD5 [CHR 0x00] toy_controller) = 0"
    by (simp add: con_QueryAndInsertMD5_def toy_controller_def SDPController_start_def
        SDPControllerConfig_new_def con_set_listen_info_def)
  note run = toy_knock [OF this refl refl, of "\<lambda>_ _. 0" "''knock''" "''1.2.3.4''" 9]
  then have "accepted_run (con_knock toy_ssl knock_codec (\<lambda>_ _. 0)) [(''knock'', ''1.2.3.4'', 9)] toy_controller
      = Ret ([(''knock'', ''1.2.3.4'', 9)], con_OpWhiteList (\<lambda>_ _. 0) IP_WHITE_LIST_ADD ''1.2.3.4''
          (snd (con_QueryAndInsertMD5 [CHR 0x00] toy_controller)))"
    by simp
  with knocks_bounded [OF toy_md5_documented this] show ?thesis by blast
qed

text \<open>
  C16. The access list is exact: with working keys, the controller answers with the registered
  applications that the account may access, gateway by gateway and in their order, each with a
  ticket that the gateway decrypts to one made out to the requester's address for 30 seconds.
  The password of the request plays no part in it.
\<close>

theorem access_list_exact:
  assumes "reads_keys ssl RSA_PUB_KEY_CONTROLLER sign_pub RSA_PRI_KEY_CONTROLLER sign_pri" and "sign_pair ssl sign_pri sign_pub"
    and "reads_keys ssl RSA_PUB_KEY_GATEWAY enc_pub RSA_PRI_KEY_GATEWAY enc_pri" and "rsa_pair ssl enc_pub enc_pri"
    and "md5_works ssl" and "\<And>k. parse_ticket cd (ser_ticket cd (new_ticket te k ip)) = new_ticket te k ip"
  shows "\<exists>rsp. Con_ConFuncGetAccess ssl cd te \<lparr>gq_account = Some \<lparr>a_acc = Some acc, a_pwd = pwd\<rparr>\<rparr>
             \<lparr>socket_info = \<lparr>si_ip = ip, si_port = port\<rparr>\<rparr> c = Ret (0, \<lparr>gr_access_list = rsp\<rparr>, c) \<and>
     map (\<lambda>x. (xi_ip x, xi_app x)) rsp = map (\<lambda>(g, i). (Some g, Some i)) (offered c acc) \<and>
     (\<forall>x \<in> set rsp. \<exists>k p. xi_ticket_packet x = Some p \<and>
        (\<forall>t0. DecryptTicket ssl cd t0 p RSA_PUB_KEY_CONTROLLER RSA_PRI_KEY_GATEWAY =
           Ret (0, \<lparr>t_ip = Some (c_str ip), t_timestamp = Some (word_of_int (te_time te k)),
                    t_random = Some (word_of_int (GET_RANDOM (te_rand te k))), t_valid_seconds = Some 30\<rparr>)))"
  using GetAccess_works [of ssl cd te "\<lparr>socket_info = \<lparr>si_ip = ip, si_port = port\<rparr>\<rparr>"
      "\<lparr>gq_account = Some \<lparr>a_acc = Some acc, a_pwd = pwd\<rparr>\<rparr>" c] tickets_work_intro [OF assms]
  by (simp add: get_account_def get_str_def good_item_def new_ticket_def)

definition access_codec :: codec where
  "access_codec = toy_codec\<lparr>parse_ticket :=
     \<lambda>s. if s = [] then empty_SPATicket
          else \<lparr>t_ip = Some ''1.2.3.4'', t_timestamp = Some 1000, t_random = Some 1000000007, t_valid_seconds = Some 30\<rparr>\<rparr>"

lemma port_6004: "dec_nat 6004 = ''6004''"
  by (simp add: dec_nat.simps [of 6004] dec_nat.simps [of 600] dec_nat.simps [of 60] dec_nat.simps [of 6]
      char_of_def bit_0 bit_Suc)

theorem access_list_exact_witness:
  "\<exists>rsp. Con_ConFuncGetAccess toy_ssl access_codec \<lparr>te_time = \<lambda>_. 1000, te_rand = \<lambda>_. 7, te_seed = \<lambda>k. k\<rparr>
       \<lparr>gq_account = Some \<lparr>a_acc = Some ''xiaoming'', a_pwd = Some ''wrong''\<rparr>\<rparr>
       \<lparr>socket_info = \<lparr>si_ip = ''1.2.3.4'', si_port = 9\<rparr>\<rparr> toy_controller
     = Ret (0, \<lparr>gr_access_list = rsp\<rparr>, toy_controller) \<and>
     map xi_ip rsp = [Some ''106.13.211.246'']"
proof -
  let ?te = "\<lparr>te_time = \<lambda>_. 1000, te_rand = \<lambda>_. 7, te_seed = \<lambda>k. k\<rparr>"
  have offered: "offered toy_controller ''xiaoming'' = [(''106.13.211.246'', empty_AppItem\<lparr>ai_app_tcp_port := Some 6004\<rparr>)]"
    by (simp add: offered_def toy_controller_def allowed_def dst_of_def get_i32_def to_string_def port_6004)
  have "parse_ticket access_codec (ser_ticket access_codec (new_ticket ?te k ''1.2.3.4'')) = new_ticket ?te k ''1.2.3.4''" for k
    by (simp add: access_codec_def toy_codec_def new_ticket_def c_str_def GET_RANDOM_def)
  from access_list_exact [OF toy_reads toy_pairs(2) toy_reads toy_pairs(1) toy_md5 this,
      of "''xiaoming''" "Some ''wrong''" 9 toy_controller]
  obtain rsp where run: "Con_ConFuncGetAccess toy_ssl access_codec ?te
       \<lparr>gq_account = Some \<lparr>a_acc = Some ''xiaoming'', a_pwd = Some ''wrong''\<rparr>\<rparr>
       \<lparr>socket_info = \<lparr>si_ip = ''1.2.3.4'', si_port = 9\<rparr>\<rparr> toy_controller = Ret (0, \<lparr>gr_access_list = rsp\<rparr>, toy_controller)"
      and items: "map (\<lambda>x. (xi_ip x, xi_app x)) rsp = map (\<lambda>(g, i). (Some g, Some i)) (offered toy_controller ''xiaoming'')"
    by (elim exE conjE) (rule that)
  from arg_cong [OF items, of "map fst"] have "map xi_ip rsp = [Some ''106.13.211.246'']"
    by (simp add: offered comp_def)
  with run show ?thesis by (rule exI [of _ rsp, OF conjI])
qed

text \<open>
  C34. A registration replaces the applications of the gateway that sent it and of no other, and
  grants exactly its destinations to the three users, on top of what was granted before; it
  leaves the white list, the replay cache and the accounts alone. An empty one is refused.
\<close>

theorem register_grants:
  "Con_ConFuncRegisterApp \<lparr>rq_app_list = []\<rparr> extra c = Ret (-1, ConFuncRegisterAppRsp, c) \<and>
   (let ip = si_ip (socket_info extra) in
    \<exists>c'. Con_ConFuncRegisterApp \<lparr>rq_app_list = item # items\<rparr> extra c = Ret (0, ConFuncRegisterAppRsp, c') \<and>
      map_find ip (con_app_map c') = Some (item # items) \<and>
      (\<forall>g. g \<noteq> ip \<longrightarrow> map_find g (con_app_map c') = map_find g (con_app_map c)) \<and>
      allowed c' = allowed c \<union> {''xiaoming'', ''xiaohong'', ''xiaobai''} \<times> dst_of ip ` set (item # items) \<and>
      con_whitelist c' = con_whitelist c \<and> con_seen c' = con_seen c \<and>
      con_user_account_map c' = con_user_account_map c)"
proof -
  have "allowed (RegisterApp ip apps c) = allowed c \<and> con_seen (RegisterApp ip apps c) = con_seen c \<and>
      con_whitelist (RegisterApp ip apps c) = con_whitelist c \<and>
      con_user_account_map (RegisterApp ip apps c) = con_user_account_map c" for ip apps
    by (simp add: RegisterApp_def allowed_def con_seen_def)
  moreover have "con_seen (grant_all pers c') = con_seen c'" for pers c'
    by (simp add: con_seen_def)
  ultimately show ?thesis
    by (simp add: Con_ConFuncRegisterApp_def Let_def grant_all_allowed del: grant_all.simps)
      (simp add: RegisterApp_def)
qed

theorem register_grants_witness:
  "\<exists>c'. Con_ConFuncRegisterApp \<lparr>rq_app_list = [empty_AppItem]\<rparr> \<lparr>socket_info = \<lparr>si_ip = ''g'', si_port = 0\<rparr>\<rparr> toy_controller
          = Ret (0, ConFuncRegisterAppRsp, c') \<and> (''xiaobai'', dst_of ''g'' empty_AppItem) \<in> allowed c'"
  using register_grants [of "\<lparr>socket_info = \<lparr>si_ip = ''g'', si_port = 0\<rparr>\<rparr>" toy_controller empty_AppItem "[]"]
  by (auto simp: Let_def)

end
