(* ===== verification/GatewayConfig.thy ===== *)
theory GatewayConfig
  imports Replay Iptables Proto
begin

text \<open>
  \<open>modules/gateway/sdp_gateway_config\<close>: the gateway's singleton with its white list, its
  replay cache and the black list that the controller sends down.
\<close>

section \<open>State\<close>

record SDPAppGatewayConfig =
  gw_whitelist :: IPWhiteList
  gw_listen_ip :: string
  gw_tcp_port :: int
  gw_udp_port :: int
  gw_app_tcp_port :: int
  gw_md5_map :: "(string, int) stdmap"
  gw_black_list :: "(string, int) stdmap"

text \<open>The listen fields are not initialised; \<open>gw_set_listen_info\<close> writes them before any use.\<close>

definition SDPAppGatewayConfig_new :: "system_call \<Rightarrow> host \<Rightarrow> SDPAppGatewayConfig" where
  "SDPAppGatewayConfig_new sys h =
     \<lparr>gw_whitelist = IPWhiteList_new sys h, gw_listen_ip = [], gw_tcp_port = 0, gw_udp_port = 0,
      gw_app_tcp_port = 0, gw_md5_map = [], gw_black_list = []\<rparr>"

section \<open>Operations\<close>

definition gw_set_listen_info :: "string \<Rightarrow> int \<Rightarrow> int \<Rightarrow> int \<Rightarrow> SDPAppGatewayConfig \<Rightarrow> SDPAppGatewayConfig" where
  "gw_set_listen_info ip tcp_port udp_port app_tcp_port g =
     g\<lparr>gw_listen_ip := ip, gw_tcp_port := tcp_port, gw_udp_port := udp_port, gw_app_tcp_port := app_tcp_port\<rparr>"

definition gw_QueryAndInsertMD5 :: "string \<Rightarrow> SDPAppGatewayConfig \<Rightarrow> int \<times> SDPAppGatewayConfig" where
  "gw_QueryAndInsertMD5 md5 g =
     (case map_find md5 (gw_md5_map g) of
        Some _ \<Rightarrow> (-1, g)
      | None \<Rightarrow> (0, g\<lparr>gw_md5_map := map_insert md5 1 (gw_md5_map g)\<rparr>))"

definition ControllerBlackList_OP :: "int \<Rightarrow> string \<Rightarrow> int \<Rightarrow> SDPAppGatewayConfig \<Rightarrow> int \<times> SDPAppGatewayConfig" where
  "ControllerBlackList_OP op ip port g =
     (let g = (if op = IP_BLACK_LIST_ADD then g\<lparr>gw_black_list := map_insert ip port (gw_black_list g)\<rparr>
               else if op = IP_BLACK_LIST_DEL then g\<lparr>gw_black_list := map_erase ip (gw_black_list g)\<rparr>
               else g)
      in (0, g))"

definition ControllerBlackList_IsIn :: "SDPAppGatewayConfig \<Rightarrow> string \<Rightarrow> int \<Rightarrow> bool" where
  "ControllerBlackList_IsIn g ip port =
     (case map_find ip (gw_black_list g) of Some p \<Rightarrow> p = port | None \<Rightarrow> False)"

section \<open>The replay cache\<close>

definition gw_seen :: "SDPAppGatewayConfig \<Rightarrow> string set" where
  "gw_seen g = {k. map_find k (gw_md5_map g) \<noteq> None}"

interpretation gw_cache: replay_cache gw_QueryAndInsertMD5 gw_seen
  by unfold_locales (auto simp: gw_QueryAndInsertMD5_def gw_seen_def split: option.splits)

lemma gw_Query_simps [simp]:
  "gw_whitelist (snd (gw_QueryAndInsertMD5 m g)) = gw_whitelist g"
  "gw_black_list (snd (gw_QueryAndInsertMD5 m g)) = gw_black_list g"
  "gw_tcp_port (snd (gw_QueryAndInsertMD5 m g)) = gw_tcp_port g"
  "gw_app_tcp_port (snd (gw_QueryAndInsertMD5 m g)) = gw_app_tcp_port g"
  "ControllerBlackList_IsIn (snd (gw_QueryAndInsertMD5 m g)) = ControllerBlackList_IsIn g"
  by (simp_all add: gw_QueryAndInsertMD5_def ControllerBlackList_IsIn_def fun_eq_iff split: option.split)

lemma gw_Query_rejects: "fst (gw_QueryAndInsertMD5 m g) \<noteq> 0 \<Longrightarrow> snd (gw_QueryAndInsertMD5 m g) = g"
  by (simp add: gw_QueryAndInsertMD5_def split: option.splits)

lemma ControllerBlackList_OP_simps [simp]:
  "gw_whitelist (snd (ControllerBlackList_OP op ip port g)) = gw_whitelist g"
  "gw_md5_map (snd (ControllerBlackList_OP op ip port g)) = gw_md5_map g"
  "gw_tcp_port (snd (ControllerBlackList_OP op ip port g)) = gw_tcp_port g"
  "gw_app_tcp_port (snd (ControllerBlackList_OP op ip port g)) = gw_app_tcp_port g"
  "gw_seen (snd (ControllerBlackList_OP op ip port g)) = gw_seen g"
  by (simp_all add: ControllerBlackList_OP_def Let_def gw_seen_def)

text \<open>
  A black list whose entries all carry one port is a set of hosts, which the two operations
  extend and shrink.
\<close>

definition black_port :: "int \<Rightarrow> SDPAppGatewayConfig \<Rightarrow> bool" where
  "black_port port g \<longleftrightarrow> (\<forall>ip p. map_find ip (gw_black_list g) = Some p \<longrightarrow> p = port)"

lemma black_list_step:
  assumes "black_port port g"
  shows "black_port port (snd (ControllerBlackList_OP op ip port g))"
    and "ControllerBlackList_IsIn (snd (ControllerBlackList_OP op ip port g)) h port \<longleftrightarrow>
           (if h = ip \<and> op = IP_BLACK_LIST_ADD then True
            else if h = ip \<and> op = IP_BLACK_LIST_DEL then False
            else ControllerBlackList_IsIn g h port)"
proof -
  show "black_port port (snd (ControllerBlackList_OP op ip port g))"
    using assms by (auto simp: black_port_def ControllerBlackList_OP_def Let_def split: if_splits)
  show "ControllerBlackList_IsIn (snd (ControllerBlackList_OP op ip port g)) h port \<longleftrightarrow>
           (if h = ip \<and> op = IP_BLACK_LIST_ADD then True
            else if h = ip \<and> op = IP_BLACK_LIST_DEL then False
            else ControllerBlackList_IsIn g h port)"
    using assms
    by (auto simp: black_port_def ControllerBlackList_OP_def ControllerBlackList_IsIn_def Let_def
        IP_BLACK_LIST_ADD_def IP_BLACK_LIST_DEL_def split: option.splits)
qed

end
