(* ===== verification/GatewayService.thy ===== *)
theory GatewayService
  imports GatewayConfig Service SpaTools
begin

text \<open>
  \<open>modules/gateway/sdp_gateway_service_impl\<close> and \<open>sdp_gateway.cpp\<close>: the knock with a ticket,
  the black list operation, the notice of the application, and the start-up. \<open>now\<close> is
  what \<open>time(NULL)\<close> returns during the call.
\<close>

section \<open>Operations\<close>

definition gw_OpWhiteList :: "system_call \<Rightarrow> int \<Rightarrow> string \<Rightarrow> SDPAppGatewayConfig \<Rightarrow> int \<times> SDPAppGatewayConfig" where
  "gw_OpWhiteList sys op ip g =
     (let (ret, w) = OpWhiteList sys op ip (gw_app_tcp_port g) (gw_whitelist g)
      in (ret, g\<lparr>gw_whitelist := w\<rparr>))"

text \<open>
  The sum of the two \<open>uint32\<close> fields wraps before it is compared with the signed 64-bit clock.
\<close>

definition ticket_expired :: "SPATicket \<Rightarrow> int \<Rightarrow> bool" where
  "ticket_expired t now \<longleftrightarrow> uint (get_u32 (t_timestamp t) + get_u32 (t_valid_seconds t)) < now"

definition Gate_GateFuncUdpRecv ::
  "'k openssl \<Rightarrow> codec \<Rightarrow> system_call \<Rightarrow> int \<Rightarrow> string \<Rightarrow> string \<Rightarrow> int \<Rightarrow> SDPAppGatewayConfig \<Rightarrow>
     (int \<times> SDPAppGatewayConfig) outcome" where
  "Gate_GateFuncUdpRecv ssl cd sys now msg from_ip from_port g =
     (if ControllerBlackList_IsIn g from_ip (gw_app_tcp_port g) then Ret (1, g)
      else
        let spaTicketPacket = parse_ticket_packet cd msg in
        obind (DecryptTicket ssl cd empty_SPATicket spaTicketPacket RSA_PUB_KEY_CONTROLLER RSA_PRI_KEY_GATEWAY)
          (\<lambda>(ret, spaTicket).
            iAssert ret (Ret (-1, g))
              (let sign_data = get_str (tp_sign_data spaTicketPacket) in
               if get_str (t_ip spaTicket) \<noteq> from_ip then Ret (1, g)
               else if ticket_expired spaTicket now then Ret (1, g)
               else
                 let (ret, g) = gw_QueryAndInsertMD5 sign_data g in
                 if ret \<noteq> 0 then Ret (1, g)
                 else
                   let (ret, g) = gw_OpWhiteList sys IP_WHITE_LIST_ADD from_ip g
                   in Ret (0, g))))"

definition Gate_GateFuncBlackListOp ::
  "system_call \<Rightarrow> GateFuncBlackListOpReq \<Rightarrow> Extra \<Rightarrow> SDPAppGatewayConfig \<Rightarrow>
     (int \<times> GateFuncBlackListOpRsp \<times> SDPAppGatewayConfig) outcome" where
  "Gate_GateFuncBlackListOp sys req extra g =
     (let op = get_i32 (bq_op req);
          from_ip = get_str (bq_ip req);
          app_tcp_port = gw_app_tcp_port g;
          (ret, g) = ControllerBlackList_OP op from_ip app_tcp_port g
      in if op = IP_BLACK_LIST_ADD then
           (let (ret, g) = gw_OpWhiteList sys IP_WHITE_LIST_DEL from_ip g
            in iAssert ret (Ret (-1, GateFuncBlackListOpRsp, g)) (Ret (0, GateFuncBlackListOpRsp, g)))
         else Ret (0, GateFuncBlackListOpRsp, g))"

text \<open>
  The last path ends without a \<open>return\<close>: \<open>junk\<close> is the value that an unoptimised build, the
  default of the build files, leaves in the return register.
\<close>

definition Gate_GateFuncNotice ::
  "system_call \<Rightarrow> int \<Rightarrow> GateFuncNoticeReq \<Rightarrow> Extra \<Rightarrow> SDPAppGatewayConfig \<Rightarrow>
     (int \<times> GateFuncNoticeRsp \<times> SDPAppGatewayConfig) outcome" where
  "Gate_GateFuncNotice sys junk req extra g =
     (let from_ip = si_ip (socket_info extra) in
      if from_ip \<noteq> IP_APPLICATION_PB then Ret (1, GateFuncNoticeRsp, g)
      else if get_i32 (nq_op req) = APP_NOTICE_CLOSE_PORT_FOR_IP then
        (let (ret, g) = gw_OpWhiteList sys IP_WHITE_LIST_DEL (get_str (nq_op_ip req)) g
         in iAssert ret (Ret (-1, GateFuncNoticeRsp, g)) (Ret (junk, GateFuncNoticeRsp, g)))
      else Ret (junk, GateFuncNoticeRsp, g))"

definition gateway_service ::
  "'k openssl \<Rightarrow> codec \<Rightarrow> system_call \<Rightarrow> int \<Rightarrow> int \<Rightarrow> SDPAppGatewayConfig ErpcService" where
  "gateway_service ssl cd sys now junk = base_service\<lparr>
     GateFuncUdpRecv := Gate_GateFuncUdpRecv ssl cd sys now,
     GateFuncBlackListOp := Gate_GateFuncBlackListOp sys,
     GateFuncNotice := Gate_GateFuncNotice sys junk\<rparr>"

section \<open>Start-up\<close>

text \<open>The constructor of \<open>SDPAppGateway\<close>, up to the request that it sends to the controller.\<close>

definition SDPAppGateway_start :: "system_call \<Rightarrow> SDPAppGatewayConfig \<Rightarrow> SDPAppGatewayConfig" where
  "SDPAppGateway_start sys g =
     (let g = gw_set_listen_info IP_APPGATEWAY_IN TCP_PORT_APPGATEWAY UDP_PORT_APPGATEWAY TCP_PORT_APPLICATION g;
          white_vec = [IP_CONTROLLER_PB, IP_APPLICATION_PB];
          g = g\<lparr>gw_whitelist := snd (InitWhiteList sys white_vec (gw_tcp_port g) (gw_whitelist g))\<rparr>;
          white_vec = []
      in g\<lparr>gw_whitelist := snd (InitWhiteList sys white_vec (gw_app_tcp_port g) (gw_whitelist g))\<rparr>)"

definition gateway_register_req :: ConFuncRegisterAppReq where
  "gateway_register_req = \<lparr>rq_app_list =
     [\<lparr>ai_gate_udp_port = Some (word_of_int UDP_PORT_APPGATEWAY),
       ai_app_tcp_port = Some (word_of_int TCP_PORT_APPLICATION),
       ai_appname = Some ''HTTPS'', ai_description = Some ''HTTP over TLS''\<rparr>]\<rparr>"

section \<open>Lemmas\<close>

abbreviation gw_listed :: "SDPAppGatewayConfig \<Rightarrow> string \<Rightarrow> bool" where
  "gw_listed g ip \<equiv> IsIPInWhiteList (gw_whitelist g) ip (gw_app_tcp_port g)"

abbreviation gw_stale :: "SDPAppGatewayConfig \<Rightarrow> string \<Rightarrow> bool" where
  "gw_stale g ip \<equiv> stale_entry (gw_whitelist g) ip (gw_app_tcp_port g)"

abbreviation gw_black :: "SDPAppGatewayConfig \<Rightarrow> string \<Rightarrow> bool" where
  "gw_black g ip \<equiv> ControllerBlackList_IsIn g ip (gw_app_tcp_port g)"

lemma gw_Op_simps [simp]:
  "gw_tcp_port (snd (gw_OpWhiteList sys op ip g)) = gw_tcp_port g"
  "gw_app_tcp_port (snd (gw_OpWhiteList sys op ip g)) = gw_app_tcp_port g"
  "gw_md5_map (snd (gw_OpWhiteList sys op ip g)) = gw_md5_map g"
  "gw_black_list (snd (gw_OpWhiteList sys op ip g)) = gw_black_list g"
  "gw_seen (snd (gw_OpWhiteList sys op ip g)) = gw_seen g"
  "ControllerBlackList_IsIn (snd (gw_OpWhiteList sys op ip g)) = ControllerBlackList_IsIn g"
  "gw_whitelist (snd (gw_OpWhiteList sys op ip g)) = snd (OpWhiteList sys op ip (gw_app_tcp_port g) (gw_whitelist g))"
  "fst (gw_OpWhiteList sys op ip g) = fst (OpWhiteList sys op ip (gw_app_tcp_port g) (gw_whitelist g))"
  by (simp_all add: gw_OpWhiteList_def gw_seen_def ControllerBlackList_IsIn_def fun_eq_iff split: prod.split)

text \<open>The outcomes of a knock that returns, one per exit of the handler.\<close>

lemma gate_knock_cases:
  assumes "Gate_GateFuncUdpRecv ssl cd sys now msg ip port g = Ret (ret, g')"
  obtains (black) "ret = 1" "g' = g" "gw_black g ip"
  | (bad) t where "ret = -1" "g' = g" "\<not> gw_black g ip"
      "DecryptTicket ssl cd empty_SPATicket (parse_ticket_packet cd msg) RSA_PUB_KEY_CONTROLLER RSA_PRI_KEY_GATEWAY = Ret (-1, t)"
  | (denied) t where "ret = 1" "g' = g" "\<not> gw_black g ip"
      "DecryptTicket ssl cd empty_SPATicket (parse_ticket_packet cd msg) RSA_PUB_KEY_CONTROLLER RSA_PRI_KEY_GATEWAY = Ret (0, t)"
      "get_str (t_ip t) \<noteq> ip \<or> ticket_expired t now \<or> get_str (tp_sign_data (parse_ticket_packet cd msg)) \<in> gw_seen g"
  | (passed) t where "ret = 0" "\<not> gw_black g ip"
      "DecryptTicket ssl cd empty_SPATicket (parse_ticket_packet cd msg) RSA_PUB_KEY_CONTROLLER RSA_PRI_KEY_GATEWAY = Ret (0, t)"
      "get_str (t_ip t) = ip" "\<not> ticket_expired t now"
      "get_str (tp_sign_data (parse_ticket_packet cd msg)) \<notin> gw_seen g"
      "g' = snd (gw_OpWhiteList sys IP_WHITE_LIST_ADD ip
                  (snd (gw_QueryAndInsertMD5 (get_str (tp_sign_data (parse_ticket_packet cd msg))) g)))"
proof (cases "gw_black g ip")
  case False
  let ?packet = "parse_ticket_packet cd msg"
  let ?q = "gw_QueryAndInsertMD5 (get_str (tp_sign_data ?packet)) g"
  obtain r t where dec: "DecryptTicket ssl cd empty_SPATicket ?packet RSA_PUB_KEY_CONTROLLER RSA_PRI_KEY_GATEWAY = Ret (r, t)"
    using assms False unfolding Gate_GateFuncUdpRecv_def Let_def by (auto simp: outcome_simps)
  with DecryptTicket_ret have r: "r = 0 \<or> r = -1" by blast
  show ?thesis
  proof (cases "r = 0")
    case True
    have eq: "Gate_GateFuncUdpRecv ssl cd sys now msg ip port g =
       (if get_str (t_ip t) \<noteq> ip \<or> ticket_expired t now \<or> fst ?q \<noteq> 0 then Ret (1, g)
        else Ret (0, snd (gw_OpWhiteList sys IP_WHITE_LIST_ADD ip (snd ?q))))"
      using dec True False gw_Query_rejects [of "get_str (tp_sign_data ?packet)" g]
      by (simp add: Gate_GateFuncUdpRecv_def case_prod_unfold Let_def)
    show ?thesis
    proof (cases "get_str (t_ip t) \<noteq> ip \<or> ticket_expired t now \<or> fst ?q \<noteq> 0")
      case T: True
      with assms eq have "ret = 1" "g' = g" by simp_all
      then show ?thesis using T dec True False by (intro denied) (auto simp: gw_cache.query_fresh)
    next
      case F: False
      with assms eq have "ret = 0" "g' = snd (gw_OpWhiteList sys IP_WHITE_LIST_ADD ip (snd ?q))" by auto
      then show ?thesis using F dec True False by (intro passed) (auto simp: gw_cache.query_fresh)
    qed
  qed (use assms dec r False bad in \<open>simp add: Gate_GateFuncUdpRecv_def\<close>)
qed (use assms black in \<open>auto simp: Gate_GateFuncUdpRecv_def\<close>)

abbreviation gate_knock ::
  "'k openssl \<Rightarrow> codec \<Rightarrow> system_call \<Rightarrow> string \<times> string \<times> int \<times> int \<Rightarrow> SDPAppGatewayConfig \<Rightarrow>
     (int \<times> SDPAppGatewayConfig) outcome" where
  "gate_knock ssl cd sys k \<equiv> (case k of (msg, ip, port, now) \<Rightarrow> Gate_GateFuncUdpRecv ssl cd sys now msg ip port)"

definition ticket_signature :: "codec \<Rightarrow> string \<times> string \<times> int \<times> int \<Rightarrow> string" where
  "ticket_signature cd k = get_str (tp_sign_data (parse_ticket_packet cd (fst k)))"

interpretation gw_guard: replay_guard "gate_knock ssl cd sys" "ticket_signature cd" gw_seen
  for ssl cd sys
proof
  fix e s s' assume "gate_knock ssl cd sys e s = Ret (0, s')"
  then show "ticket_signature cd e \<notin> gw_seen s \<and> ticket_signature cd e \<in> gw_seen s'"
    by (cases e) (auto simp: ticket_signature_def gw_cache.seen_query elim!: gate_knock_cases)
next
  fix e s ret s' assume "gate_knock ssl cd sys e s = Ret (ret, s')"
  then show "gw_seen s \<subseteq> gw_seen s'"
    by (cases e) (auto simp: gw_cache.seen_query elim!: gate_knock_cases)
qed

section \<open>The gateway as a state machine\<close>

text \<open>
  The requests that reach the gateway, in the order in which its one thread serves them; each
  is recorded with the code that its handler returned.
\<close>

datatype gate_event =
    GateKnock string string int int
  | GateBlackList GateFuncBlackListOpReq Extra
  | GateNotice GateFuncNoticeReq Extra

inductive gate_step ::
  "'k openssl \<Rightarrow> codec \<Rightarrow> system_call \<Rightarrow> int \<Rightarrow> SDPAppGatewayConfig \<Rightarrow> gate_event \<Rightarrow> int \<Rightarrow> SDPAppGatewayConfig \<Rightarrow> bool"
  for ssl cd sys junk where
  step_knock: "Gate_GateFuncUdpRecv ssl cd sys now msg ip port g = Ret (ret, g') \<Longrightarrow>
     gate_step ssl cd sys junk g (GateKnock msg ip port now) ret g'"
| step_blacklist: "Gate_GateFuncBlackListOp sys req extra g = Ret (ret, rsp, g') \<Longrightarrow>
     gate_step ssl cd sys junk g (GateBlackList req extra) ret g'"
| step_notice: "Gate_GateFuncNotice sys junk nreq extra g = Ret (ret, nrsp, g') \<Longrightarrow>
     gate_step ssl cd sys junk g (GateNotice nreq extra) ret g'"

inductive_cases gate_step_knockE: "gate_step ssl cd sys junk g (GateKnock msg ip port now) ret g'"
inductive_cases gate_step_blacklistE: "gate_step ssl cd sys junk g (GateBlackList req extra) ret g'"
inductive_cases gate_step_noticeE: "gate_step ssl cd sys junk g (GateNotice req extra) ret g'"

inductive_simps gate_step_knock_iff: "gate_step ssl cd sys junk g (GateKnock msg ip port now) ret g'"

inductive gate_run ::
  "'k openssl \<Rightarrow> codec \<Rightarrow> system_call \<Rightarrow> int \<Rightarrow> (gate_event \<times> int) list \<Rightarrow> SDPAppGatewayConfig \<Rightarrow> bool"
  for ssl cd sys junk where
  run_start: "gate_run ssl cd sys junk [] (SDPAppGateway_start sys (SDPAppGatewayConfig_new sys \<lparr>commands = []\<rparr>))"
| run_step: "gate_run ssl cd sys junk tr g \<Longrightarrow> gate_step ssl cd sys junk g e ret g' \<Longrightarrow>
     gate_run ssl cd sys junk (tr @ [(e, ret)]) g'"

subsection \<open>The effect of each operation on the white list\<close>

lemma blacklist_effect:
  "Gate_GateFuncBlackListOp sys req extra g = Ret (ret, rsp, g') \<Longrightarrow>
     g' = (let g1 = snd (ControllerBlackList_OP (get_i32 (bq_op req)) (get_str (bq_ip req)) (gw_app_tcp_port g) g)
           in if get_i32 (bq_op req) = IP_BLACK_LIST_ADD
              then snd (gw_OpWhiteList sys IP_WHITE_LIST_DEL (get_str (bq_ip req)) g1) else g1)"
  by (auto simp: Gate_GateFuncBlackListOp_def Let_def case_prod_unfold iAssert_def split: if_splits)

lemma blacklist_returns: "\<exists>r g'. Gate_GateFuncBlackListOp sys req extra g = Ret (r, GateFuncBlackListOpRsp, g')"
  unfolding Gate_GateFuncBlackListOp_def Let_def case_prod_unfold iAssert_def by (cases "get_i32 (bq_op req) = IP_BLACK_LIST_ADD") auto

lemma notice_effect:
  "Gate_GateFuncNotice sys junk req extra g = Ret (ret, rsp, g') \<Longrightarrow>
     g' = (if si_ip (socket_info extra) = IP_APPLICATION_PB \<and> get_i32 (nq_op req) = APP_NOTICE_CLOSE_PORT_FOR_IP
           then snd (gw_OpWhiteList sys IP_WHITE_LIST_DEL (get_str (nq_op_ip req)) g) else g)"
  by (auto simp: Gate_GateFuncNotice_def Let_def case_prod_unfold iAssert_def split: if_splits)

subsection \<open>Invariants\<close>

definition gate_initial :: "string set" where
  "gate_initial = {IP_CONTROLLER_PB, IP_APPLICATION_PB}"

definition gate_inv :: "SDPAppGatewayConfig \<Rightarrow> bool" where
  "gate_inv g \<longleftrightarrow>
     gw_app_tcp_port g = TCP_PORT_APPLICATION \<and> black_port TCP_PORT_APPLICATION g \<and>
     fw_sync gate_initial TCP_PORT_APPLICATION (gw_whitelist g) \<and>
     (\<forall>h \<in> gate_initial. stale_entry (gw_whitelist g) h TCP_PORT_APPLICATION) \<and>
     (\<forall>ip. ControllerBlackList_IsIn g ip TCP_PORT_APPLICATION \<longrightarrow>
        \<not> IsIPInWhiteList (gw_whitelist g) ip TCP_PORT_APPLICATION)"

lemma gate_inv_add:
  "gate_inv g \<Longrightarrow> \<not> gw_black g ip \<Longrightarrow> gate_inv (snd (gw_OpWhiteList sys IP_WHITE_LIST_ADD ip g))"
  unfolding gate_inv_def by (auto simp: fw_sync_op wl.stale_allow wl.listed_allow black_port_def)

lemma gate_inv_del: "gate_inv g \<Longrightarrow> gate_inv (snd (gw_OpWhiteList sys IP_WHITE_LIST_DEL ip g))"
  unfolding gate_inv_def by (auto simp: fw_sync_op wl.stale_revoke wl.listed_revoke black_port_def)

lemma gate_inv_query: "gate_inv g \<Longrightarrow> gate_inv (snd (gw_QueryAndInsertMD5 m g))"
  unfolding gate_inv_def by (simp add: black_port_def)

lemma gate_inv_knock:
  assumes "gate_inv g" and "Gate_GateFuncUdpRecv ssl cd sys now msg ip port g = Ret (ret, g')"
  shows "gate_inv g'"
  using assms(2)
proof (cases rule: gate_knock_cases)
  case (passed t)
  then show ?thesis
    by (auto intro!: gate_inv_add gate_inv_query assms(1))
qed (use assms(1) in auto)

lemma gate_inv_blacklist:
  assumes "gate_inv g" and "Gate_GateFuncBlackListOp sys req extra g = Ret (ret, rsp, g')"
  shows "gate_inv g'"
proof -
  let ?ip = "get_str (bq_ip req)" and ?op = "get_i32 (bq_op req)"
  let ?g1 = "snd (ControllerBlackList_OP ?op ?ip TCP_PORT_APPLICATION g)"
  have port: "gw_app_tcp_port g = TCP_PORT_APPLICATION" and bp: "black_port TCP_PORT_APPLICATION g"
    using assms(1) by (simp_all add: gate_inv_def)
  note bl = black_list_step [OF bp, of ?op ?ip]
  show ?thesis
  proof (cases "?op = IP_BLACK_LIST_ADD")
    case True
    then have g': "g' = snd (gw_OpWhiteList sys IP_WHITE_LIST_DEL ?ip ?g1)"
      using blacklist_effect [OF assms(2)] by (simp add: Let_def port)
    show ?thesis
      using assms(1) bl port unfolding gate_inv_def g'
      by (auto simp: black_port_def fw_sync_op wl.stale_revoke wl.listed_revoke split: if_splits)
  next
    case False
    then have "g' = ?g1" using blacklist_effect [OF assms(2)] by (simp add: Let_def port)
    then show ?thesis
      using assms(1) bl port False unfolding gate_inv_def by (auto split: if_splits)
  qed
qed

lemma gate_inv_notice:
  "gate_inv g \<Longrightarrow> Gate_GateFuncNotice sys junk req extra g = Ret (ret, rsp, g') \<Longrightarrow> gate_inv g'"
  by (drule notice_effect) (simp add: gate_inv_del)

interpretation gateway: service_contract "gateway_service ssl cd sys now junk" gate_inv
  for ssl cd sys now junk
  by unfold_locales
    (auto simp: gateway_service_def base_service_def
      dest: gate_inv_knock gate_inv_blacklist gate_inv_notice)

lemma gate_inv_start: "gate_inv (SDPAppGateway_start sys (SDPAppGatewayConfig_new sys' \<lparr>commands = []\<rparr>))"
  by (auto simp: gate_inv_def gate_initial_def SDPAppGateway_start_def SDPAppGatewayConfig_new_def
      gw_set_listen_info_def Let_def black_port_def ControllerBlackList_IsIn_def stale_init
      TCP_PORT_APPLICATION_def IPWhiteList_new_def intro!: fw_sync_init fw_sync_new [unfolded IPWhiteList_new_def])

lemma gate_inv_run: "gate_run ssl cd sys junk tr g \<Longrightarrow> gate_inv g"
  by (induction rule: gate_run.induct)
    (auto intro: gate_inv_start gate_inv_knock gate_inv_blacklist gate_inv_notice elim!: gate_step.cases)

lemma gate_inv_closed:
  "gate_inv g \<Longrightarrow> ip \<notin> gate_initial \<Longrightarrow> \<not> gw_listed g ip \<Longrightarrow>
     net_opened (gw_whitelist g) ip TCP_PORT_APPLICATION = 0"
  by (simp add: gate_inv_def fw_sync_def)

subsection \<open>Where the commands come from\<close>

definition knockers :: "(gate_event \<times> int) list \<Rightarrow> string set" where
  "knockers tr = {ip. \<exists>msg port now. (GateKnock msg ip port now, 0) \<in> set tr}"

definition start_commands :: "string set" where
  "start_commands = {''iptables -Z'', ''iptables -X'', ''iptables -F'', cmd_drop TCP_PORT_APPGATEWAY,
     cmd_unban IP_CONTROLLER_PB TCP_PORT_APPGATEWAY, cmd_unban IP_APPLICATION_PB TCP_PORT_APPGATEWAY,
     cmd_drop TCP_PORT_APPLICATION}"

text \<open>The hosts of \<open>S\<close> are the only ones listed, and the only ones that later commands name.\<close>

definition traced :: "string set \<Rightarrow> SDPAppGatewayConfig \<Rightarrow> bool" where
  "traced S g \<longleftrightarrow>
     gw_app_tcp_port g = TCP_PORT_APPLICATION \<and>
     (\<forall>ip. IsIPInWhiteList (gw_whitelist g) ip TCP_PORT_APPLICATION \<longrightarrow> ip \<in> S) \<and>
     set (commands (iptool (gw_whitelist g))) \<subseteq>
       start_commands \<union> (\<lambda>ip. cmd_unban ip TCP_PORT_APPLICATION) ` S \<union> (\<lambda>ip. cmd_ban ip TCP_PORT_APPLICATION) ` S"

lemma traced_mono: "traced S g \<Longrightarrow> S \<subseteq> S' \<Longrightarrow> traced S' g"
  unfolding traced_def by blast

lemma traced_add: "traced S g \<Longrightarrow> ip \<in> S \<Longrightarrow> traced S (snd (gw_OpWhiteList sys IP_WHITE_LIST_ADD ip g))"
  by (auto simp: traced_def wl.listed_allow) (auto simp: OpWhiteList_add split: if_splits)

lemma traced_del: "traced S g \<Longrightarrow> traced S (snd (gw_OpWhiteList sys IP_WHITE_LIST_DEL ip g))"
  by (auto simp: traced_def wl.listed_revoke) (auto simp: OpWhiteList_del split: if_splits)

lemma traced_cong:
  "gw_whitelist g' = gw_whitelist g \<Longrightarrow> gw_app_tcp_port g' = gw_app_tcp_port g \<Longrightarrow> traced S g' = traced S g"
  by (simp add: traced_def)

lemma traced_start: "traced {} (SDPAppGateway_start sys (SDPAppGatewayConfig_new sys \<lparr>commands = []\<rparr>))"
proof -
  have "\<not> IsIPInWhiteList (gw_whitelist (SDPAppGateway_start sys (SDPAppGatewayConfig_new sys \<lparr>commands = []\<rparr>)))
          ip TCP_PORT_APPLICATION" for ip
    by (simp add: SDPAppGateway_start_def SDPAppGatewayConfig_new_def gw_set_listen_info_def Let_def listed_init
        TCP_PORT_APPLICATION_def)
  then show ?thesis
    by (simp add: traced_def SDPAppGateway_start_def SDPAppGatewayConfig_new_def gw_set_listen_info_def Let_def
        InitWhiteList_eq IPWhiteList_new_commands start_commands_def)
qed

lemma traced_knock:
  assumes "traced S g" and "Gate_GateFuncUdpRecv ssl cd sys now msg ip port g = Ret (ret, g')" and "ret = 0 \<Longrightarrow> ip \<in> S"
  shows "traced S g'"
  using assms(2)
proof (cases rule: gate_knock_cases)
  case (passed t)
  then show ?thesis using assms(1,3)
    by (auto intro!: traced_add simp: traced_cong [of "snd (gw_QueryAndInsertMD5 m g)" g for m])
qed (use assms(1) in auto)

lemma traced_run: "gate_run ssl cd sys junk tr g \<Longrightarrow> traced (knockers tr) g"
proof (induction rule: gate_run.induct)
  case run_start
  then show ?case using traced_start by (simp add: knockers_def)
next
  case (run_step tr g e ret g')
  have S: "traced (knockers (tr @ [(e, ret)])) g"
    by (rule traced_mono [OF run_step.IH]) (auto simp: knockers_def)
  from run_step.hyps(2) show ?case
  proof cases
    case (step_knock now msg ip port)
    then show ?thesis by (intro traced_knock [OF S]) (auto simp: knockers_def)
  next
    case (step_blacklist req extra rsp)
    have "traced (knockers (tr @ [(e, ret)])) (snd (ControllerBlackList_OP op ip p g))" for op ip p
      using S by (simp add: traced_cong [of "snd (ControllerBlackList_OP op ip p g)" g])
    then show ?thesis using blacklist_effect [OF step_blacklist(2)] by (simp add: Let_def traced_del)
  next
    case (step_notice nreq extra nrsp)
    then show ?thesis using notice_effect [OF step_notice(2)] S by (simp add: traced_del)
  qed
qed

lemma traced_opened:
  assumes "traced S g" and "0 < net_opened (gw_whitelist g) ip TCP_PORT_APPLICATION"
  shows "ip \<in> S"
proof -
  have "cmd_unban ip TCP_PORT_APPLICATION \<in> set (commands (iptool (gw_whitelist g)))"
    using assms(2) count_notin [of "cmd_unban ip TCP_PORT_APPLICATION"] by (fastforce simp: net_opened_def)
  moreover have "cmd_unban ip TCP_PORT_APPLICATION \<notin> start_commands"
    by (simp add: start_commands_def const_defs) (simp add: cmd_unban_def)
  ultimately show ?thesis using assms(1) by (auto simp: traced_def)
qed

section \<open>An instance\<close>

text \<open>
  For the witnesses: a codec whose every datagram carries no encrypted data and the digest of
  the empty text, which is read as a ticket for one client.
\<close>

definition gate_codec :: codec where
  "gate_codec = toy_codec\<lparr>
     parse_ticket_packet := \<lambda>msg. \<lparr>tp_enc_data = None, tp_md5_data = Some [CHR 0x00], tp_sign_data = Some msg\<rparr>,
     parse_ticket := \<lambda>_. one_ticket\<rparr>"

abbreviation toy_sys :: system_call where
  "toy_sys \<equiv> \<lambda>_ _. 0"

definition toy_gateway :: SDPAppGatewayConfig where
  "toy_gateway = SDPAppGateway_start toy_sys (SDPAppGatewayConfig_new toy_sys \<lparr>commands = []\<rparr>)"

lemma gate_ticket:
  "DecryptTicket toy_ssl gate_codec empty_SPATicket (parse_ticket_packet gate_codec msg) sign_key enc_key = Ret (0, one_ticket)"
  by (simp add: DecryptTicket_def RSADecrypt_def RSADecrypt_loop.simps limit_size_def MD5Encrypt_def
      RSAVerify_def RSAVerify_loop.simps toy_ssl_def gate_codec_def)

lemma toy_gate_knock:
  assumes "\<not> gw_black g ''47.111.5.82''" and "msg \<notin> gw_seen g" and "now \<le> 1030"
  shows "Gate_GateFuncUdpRecv toy_ssl gate_codec sys now msg ''47.111.5.82'' port g =
     Ret (0, snd (gw_OpWhiteList sys IP_WHITE_LIST_ADD ''47.111.5.82'' (snd (gw_QueryAndInsertMD5 msg g))))"
proof -
  have "fst (gw_QueryAndInsertMD5 msg g) = 0" using assms(2) by (simp add: gw_cache.query_fresh)
  moreover have "get_str (tp_sign_data (parse_ticket_packet gate_codec msg)) = msg"
    by (simp add: gate_codec_def get_str_def)
  moreover have "\<not> ticket_expired one_ticket now" "get_str (t_ip one_ticket) = ''47.111.5.82''"
    using assms(3) by (simp_all add: ticket_expired_def one_ticket_def get_u32_def get_str_def)
  ultimately show ?thesis
    using assms(1) by (simp add: Gate_GateFuncUdpRecv_def gate_ticket case_prod_unfold Let_def)
qed

lemma toy_gate_fresh: "\<not> gw_black toy_gateway ip" "msg \<notin> gw_seen toy_gateway"
  by (simp_all add: toy_gateway_def SDPAppGateway_start_def SDPAppGatewayConfig_new_def gw_set_listen_info_def
      Let_def ControllerBlackList_IsIn_def gw_seen_def)

definition toy_gateway1 :: SDPAppGatewayConfig where
  "toy_gateway1 = snd (gw_OpWhiteList toy_sys IP_WHITE_LIST_ADD ''47.111.5.82'' (snd (gw_QueryAndInsertMD5 ''s'' toy_gateway)))"

lemma toy_knock1: "Gate_GateFuncUdpRecv toy_ssl gate_codec toy_sys 1000 ''s'' ''47.111.5.82'' 9 toy_gateway = Ret (0, toy_gateway1)"
  unfolding toy_gateway1_def by (rule toy_gate_knock [OF toy_gate_fresh]) simp

lemma toy_run: "gate_run toy_ssl gate_codec toy_sys 0 [(GateKnock ''s'' ''47.111.5.82'' 9 1000, 0)] toy_gateway1"
  using run_step [OF run_start step_knock, OF toy_knock1 [unfolded toy_gateway_def]] by simp

lemma toy_gate_port: "gw_app_tcp_port toy_gateway = 6004"
  by (simp add: toy_gateway_def SDPAppGateway_start_def gw_set_listen_info_def Let_def TCP_PORT_APPLICATION_def)

lemma toy_gate_listed: "gw_listed toy_gateway1 ''47.111.5.82''"
proof -
  have "\<not> gw_stale toy_gateway ''47.111.5.82''"
    by (simp add: toy_gateway_def SDPAppGateway_start_def SDPAppGatewayConfig_new_def gw_set_listen_info_def
        Let_def stale_init const_defs)
  then show ?thesis by (simp add: toy_gateway1_def wl.listed_allow)
qed

section \<open>Properties\<close>

text \<open>
  C6. A knock that the gateway accepts comes from an address that is not black-listed and
  carries a ticket that decrypts with the gateway's key to the digest of the packet, is empty or
  starts with a block signed by the controller, is made out to the sender's address, has not
  expired (with the 32-bit sum of its two fields) and has a signature never accepted before;
  the signature is then remembered and the sender listed for the application port.
\<close>

theorem gate_knock_sound:
  assumes "fopen_ok ssl RSA_PUB_KEY_CONTROLLER" and "read_pub ssl RSA_PUB_KEY_CONTROLLER = Some con_pub"
    and "Gate_GateFuncUdpRecv ssl cd sys now msg ip port g = Ret (0, g')"
  shows "\<exists>r plain. let packet = parse_ticket_packet cd msg;
                         t = parse_ticket cd plain;
                         sig = get_str (tp_sign_data packet)
     in RSADecrypt ssl (get_str (tp_enc_data packet)) RSA_PRI_KEY_GATEWAY = Ret (r, plain) \<and>
        snd (MD5Encrypt ssl plain) = get_str (tp_md5_data packet) \<and>
        (plain = [] \<or> rsa_verify ssl con_pub (take (nat (limit_size ssl con_pub)) plain) (take (rsa_size ssl con_pub) sig)) \<and>
        \<not> gw_black g ip \<and> get_str (t_ip t) = ip \<and>
        now \<le> uint (get_u32 (t_timestamp t) + get_u32 (t_valid_seconds t)) \<and>
        sig \<notin> gw_seen g \<and> gw_seen g' = insert sig (gw_seen g) \<and>
        gw_whitelist g' = snd (wl_allow sys (gw_app_tcp_port g) ip (gw_whitelist g))"
  using assms(3)
proof (cases rule: gate_knock_cases)
  case (passed t)
  from ticket_accepted [OF assms(1,2) passed(3)] passed show ?thesis
    by (auto simp: Let_def gw_cache.seen_query ticket_expired_def)
qed simp_all

theorem gate_knock_sound_witness:
  "\<exists>r plain. RSADecrypt toy_ssl [] RSA_PRI_KEY_GATEWAY = Ret (r, plain) \<and>
     get_str (t_ip (parse_ticket gate_codec plain)) = ''47.111.5.82''"
proof -
  from gate_knock_sound [OF _ _ toy_knock1] have "\<exists>r plain.
      RSADecrypt toy_ssl (get_str (tp_enc_data (parse_ticket_packet gate_codec ''s''))) RSA_PRI_KEY_GATEWAY = Ret (r, plain) \<and>
      get_str (t_ip (parse_ticket gate_codec plain)) = ''47.111.5.82''"
    by (auto simp: toy_ssl_def Let_def)
  then show ?thesis by (simp add: gate_codec_def get_str_def)
qed

text \<open>
  What a knock does to the gateway, exit by exit: only an accepted one changes anything, and
  it lists exactly its sender in addition; a black-listed sender is always turned away with 1
  before its ticket is looked at.
\<close>

theorem gate_knock_effect:
  assumes "Gate_GateFuncUdpRecv ssl cd sys now msg ip port g = Ret (ret, g')"
  shows "ret \<in> {0, 1, -1} \<and> (ret \<noteq> 0 \<longrightarrow> g' = g) \<and> (gw_black g ip \<longrightarrow> ret = 1) \<and>
     (ret = 0 \<longrightarrow> (\<forall>h. gw_listed g' h \<longleftrightarrow> gw_listed g h \<or> (h = ip \<and> \<not> gw_stale g ip)) \<and>
        gw_black_list g' = gw_black_list g)"
  using assms by (cases rule: gate_knock_cases) (auto simp: wl.listed_allow)

theorem gate_knock_effect_witness:
  "gw_listed toy_gateway1 ''47.111.5.82'' \<longleftrightarrow>
     gw_listed toy_gateway ''47.111.5.82'' \<or> \<not> gw_stale toy_gateway ''47.111.5.82''"
  using gate_knock_effect [OF toy_knock1] by simp

text \<open>
  C9. In every state the gateway can reach, a black-listed host is not on the white list, and
  the firewall agrees with the list: except for the controller and the application, the
  commands that opened the application port for a host outnumber those that closed it by one
  when it is listed and balance otherwise, so the port is closed for a black-listed host other than
  these two.
\<close>

theorem gateway_black_excludes_white:
  assumes "gate_run ssl cd sys junk tr g"
  shows "(gw_black g ip \<longrightarrow> \<not> gw_listed g ip) \<and>
     (ip \<notin> {IP_CONTROLLER_PB, IP_APPLICATION_PB} \<longrightarrow>
        net_opened (gw_whitelist g) ip TCP_PORT_APPLICATION = of_bool (gw_listed g ip) \<and>
        (gw_black g ip \<longrightarrow> net_opened (gw_whitelist g) ip TCP_PORT_APPLICATION = 0))"
  using gate_inv_run [OF assms] by (auto simp: gate_inv_def fw_sync_def gate_initial_def)

theorem gateway_black_excludes_white_witness:
  "net_opened (gw_whitelist toy_gateway1) ''47.111.5.82'' TCP_PORT_APPLICATION = 1"
  using gateway_black_excludes_white [OF toy_run, of "''47.111.5.82''"] toy_gate_listed
  by (simp add: const_defs)

text \<open>
  C10. Nothing but an accepted knock opens the gateway: in every state it can reach, a listed
  host is the sender of a datagram that was accepted, and every firewall command issued since
  the start-up names such a sender. No text of a remote request reaches the shell: the addresses
  in a black list operation or a notice only select hosts that are listed already.
\<close>

theorem gateway_opened_by_knocks:
  assumes "gate_run ssl cd sys junk tr g"
  shows "(gw_listed g ip \<longrightarrow> (\<exists>msg port now. (GateKnock msg ip port now, 0) \<in> set tr)) \<and>
     (\<forall>c \<in> set (commands (iptool (gw_whitelist g))). c \<in> start_commands \<or>
        (\<exists>msg ip port now. (GateKnock msg ip port now, 0) \<in> set tr \<and>
           c \<in> {cmd_unban ip TCP_PORT_APPLICATION, cmd_ban ip TCP_PORT_APPLICATION}))"
proof -
  have t: "traced (knockers tr) g" by (rule traced_run [OF assms])
  then have "gw_app_tcp_port g = TCP_PORT_APPLICATION" by (simp add: traced_def)
  with t have "gw_listed g ip \<longrightarrow> (\<exists>msg port now. (GateKnock msg ip port now, 0) \<in> set tr)"
    by (simp add: traced_def knockers_def)
  moreover from t have "c \<in> start_commands \<or> (\<exists>ip \<in> knockers tr.
      c \<in> {cmd_unban ip TCP_PORT_APPLICATION, cmd_ban ip TCP_PORT_APPLICATION})"
    if "c \<in> set (commands (iptool (gw_whitelist g)))" for c
    using that by (auto simp: traced_def)
  ultimately show ?thesis by (fastforce simp: knockers_def)
qed

theorem gateway_opened_by_knocks_witness:
  "\<exists>msg port now. (GateKnock msg ''47.111.5.82'' port now, 0) \<in> set [(GateKnock ''s'' ''47.111.5.82'' 9 1000, 0 :: int)]"
  using gateway_opened_by_knocks [OF toy_run, of "''47.111.5.82''"] toy_gate_listed by blast

text \<open>
  C26. The gateway cannot shut out the two hosts of its initial list. In every state it can
  reach, a knock accepted from such a host opens the application port once more but never lists
  the host; black-listing the host fails with -1 and takes back no command, so the port stays
  open for it.
\<close>

theorem initial_host_not_blockable:
  assumes "gate_run ssl cd sys junk tr g" and "h \<in> {IP_CONTROLLER_PB, IP_APPLICATION_PB}"
  shows "(\<forall>g'. Gate_GateFuncUdpRecv ssl cd sys now msg h port g = Ret (0, g') \<longrightarrow>
        net_opened (gw_whitelist g') h TCP_PORT_APPLICATION = net_opened (gw_whitelist g) h TCP_PORT_APPLICATION + 1 \<and>
        \<not> gw_listed g' h) \<and>
     (\<exists>g'. Gate_GateFuncBlackListOp sys \<lparr>bq_op = Some 3, bq_ip = Some h, bq_port = p\<rparr> extra g =
             Ret (-1, GateFuncBlackListOpRsp, g') \<and>
        gw_whitelist g' = gw_whitelist g \<and> gw_black g' h)"
proof -
  have inv: "gate_inv g" by (rule gate_inv_run [OF assms(1)])
  then have port: "gw_app_tcp_port g = TCP_PORT_APPLICATION" and bp: "black_port TCP_PORT_APPLICATION g"
    and stale: "stale_entry (gw_whitelist g) h TCP_PORT_APPLICATION"
    using assms(2) by (auto simp: gate_inv_def gate_initial_def)
  from stale have unlisted: "\<not> IsIPInWhiteList (gw_whitelist g) h TCP_PORT_APPLICATION"
    by (auto simp: stale_entry_def IsIPInWhiteList_def split: option.splits)
  have knock: "net_opened (gw_whitelist g') h TCP_PORT_APPLICATION = net_opened (gw_whitelist g) h TCP_PORT_APPLICATION + 1 \<and>
        \<not> gw_listed g' h" if "Gate_GateFuncUdpRecv ssl cd sys now msg h port g = Ret (0, g')" for g'
    using that by (cases rule: gate_knock_cases)
      (use unlisted stale in \<open>simp_all add: port net_opened_step wl.listed_allow\<close>)
  let ?g = "snd (ControllerBlackList_OP IP_BLACK_LIST_ADD h TCP_PORT_APPLICATION g)"
  have "Gate_GateFuncBlackListOp sys \<lparr>bq_op = Some 3, bq_ip = Some h, bq_port = p\<rparr> extra g =
      Ret (-1, GateFuncBlackListOpRsp, snd (gw_OpWhiteList sys IP_WHITE_LIST_DEL h ?g))"
    using unlisted port
    by (simp add: Gate_GateFuncBlackListOp_def get_i32_def get_str_def IP_BLACK_LIST_ADD_def case_prod_unfold
        Let_def wl.revoke_ret)
  moreover have "gw_black ?g h"
    using black_list_step(2) [OF bp, of IP_BLACK_LIST_ADD h h] by (simp add: port)
  ultimately show ?thesis using knock unlisted port by (simp add: OpWhiteList_del)
qed

theorem initial_host_not_blockable_witness:
  "\<exists>g'. Gate_GateFuncBlackListOp toy_sys \<lparr>bq_op = Some 3, bq_ip = Some IP_CONTROLLER_PB, bq_port = None\<rparr>
          \<lparr>socket_info = \<lparr>si_ip = [], si_port = 0\<rparr>\<rparr> toy_gateway1 = Ret (-1, GateFuncBlackListOpRsp, g') \<and>
        gw_whitelist g' = gw_whitelist toy_gateway1"
  using initial_host_not_blockable [OF toy_run, of IP_CONTROLLER_PB] by blast

text \<open>
  C14. The gateway accepts no ticket twice: in any sequence of datagrams from any state, the
  signatures of the accepted ones are pairwise distinct and new, and after an accepted knock
  every datagram with the same signature is refused, whoever sends it and whenever.
\<close>

theorem gateway_no_replay:
  assumes "accepted_run (gate_knock ssl cd sys) ks g = Ret (acc, g')"
  shows "distinct (map (ticket_signature cd) acc) \<and> ticket_signature cd ` set acc \<inter> gw_seen g = {} \<and>
     (\<forall>k \<in> set acc. \<forall>k' ret g2. ticket_signature cd k' = ticket_signature cd k \<longrightarrow>
        gate_knock ssl cd sys k' g' = Ret (ret, g2) \<longrightarrow> ret \<noteq> 0)"
proof -
  from gw_guard.run_fresh [OF assms] have fresh: "distinct (map (ticket_signature cd) acc)"
      "ticket_signature cd ` set acc \<inter> gw_seen g = {}" "ticket_signature cd ` set acc \<subseteq> gw_seen g'" by auto
  have "ret \<noteq> 0" if "k \<in> set acc" "ticket_signature cd k' = ticket_signature cd k"
      "gate_knock ssl cd sys k' g' = Ret (ret, g2)" for k k' ret g2
    using fresh(3) that gw_guard.guard_fresh [of ssl cd sys k' g' g2] by (cases "ret = 0") auto
  with fresh show ?thesis by blast
qed

theorem gateway_no_replay_witness:
  "\<forall>g2. gate_knock toy_ssl gate_codec toy_sys (''s'', ''47.111.5.82'', 9, 1005) toy_gateway1 \<noteq> Ret (0, g2)"
proof -
  have "accepted_run (gate_knock toy_ssl gate_codec toy_sys) [(''s'', ''47.111.5.82'', 9, 1000)] toy_gateway
      = Ret ([(''s'', ''47.111.5.82'', 9, 1000)], toy_gateway1)"
    by (simp add: toy_knock1)
  from gateway_no_replay [OF this] show ?thesis by (fastforce simp: ticket_signature_def)
qed

end
