(* ===== verification/CommTool.thy ===== *)
theory CommTool
  imports Prelude
begin

text \<open>
  \<open>comm/commdef/comm_tool.cpp\<close>: the MAC address as text and the clock rounded down to a
  minute. The results of \<open>socket\<close>, \<open>ioctl\<close> and \<open>time\<close> are inputs.
\<close>

section \<open>The MAC address\<close>

definition hex_digit :: "nat \<Rightarrow> char" where
  "hex_digit n = (if n < 10 then char_of (48 + n) else char_of (55 + n))"

text \<open>The format \<open>%02X\<close> of an unsigned character.\<close>

definition hex_byte :: "8 word \<Rightarrow> string" where
  "hex_byte b = [hex_digit (unat b div 16), hex_digit (unat b mod 16)]"

text \<open>
  \<open>snprintf\<close> writes at most 31 characters and a null into the buffer of 32, and returns the
  length of the whole text; the result is made of that many characters of the buffer.
\<close>

definition GetMacAddress :: "int \<Rightarrow> int \<Rightarrow> 8 word list \<Rightarrow> string outcome" where
  "GetMacAddress sock ret sa_data =
     (if sock < 0 then Ret []
      else if ret < 0 then Ret []
      else
        let printed = hex_byte (sa_data ! 0) @ '':'' @ hex_byte (sa_data ! 1) @ '':'' @ hex_byte (sa_data ! 2) @ '':'' @
                      hex_byte (sa_data ! 3) @ '':'' @ hex_byte (sa_data ! 4) @ '':'' @ hex_byte (sa_data ! 5);
            mac = take 31 printed @ [CHR 0x00];
            ret = int (length printed)
        in string_of_buf mac ret)"

section \<open>The clock\<close>

text \<open>
  Local time differs from the clock by whole minutes, so the seconds of the broken-down time are
  the clock modulo 60, and \<open>mktime\<close> of the time with its seconds cleared is the clock less them.
\<close>

definition TimeNow_Min :: "int \<Rightarrow> int" where
  "TimeNow_Min seconds = seconds - seconds mod 60"

section \<open>Lemmas\<close>

lemma hex_digit_inj: "m < 16 \<Longrightarrow> n < 16 \<Longrightarrow> hex_digit m = hex_digit n \<Longrightarrow> m = n"
proof -
  assume mn: "m < 16" "n < 16" and eq: "hex_digit m = hex_digit n"
  have val: "of_char (hex_digit k) = (if k < 10 then 48 + k else 55 + k)" if "k < 16" for k
    using that by (simp add: hex_digit_def)
  from arg_cong [OF eq, of "of_char :: char \<Rightarrow> nat"] mn show "m = n"
    by (simp add: val split: if_splits)
qed

lemma hex_byte_inj: "hex_byte a = hex_byte b \<Longrightarrow> a = b"
proof -
  assume eq: "hex_byte a = hex_byte b"
  have lt: "unat x div 16 < 16" for x :: "8 word"
    using unsigned_less [of x, where ?'a = nat] by simp
  from eq have "unat a div 16 = unat b div 16" "unat a mod 16 = unat b mod 16"
    by (auto simp: hex_byte_def dest: hex_digit_inj [OF lt lt] hex_digit_inj [rotated 2])
  then have "unat a = unat b" by (metis div_mult_mod_eq)
  then show "a = b" by (simp only: unsigned_word_eqI)
qed

lemma TimeNow_Min_le: "TimeNow_Min t \<le> t" "t < TimeNow_Min t + 60"
  by (simp_all add: TimeNow_Min_def)

lemma GetMacAddress_text:
  "GetMacAddress sock ret [a, b, c, d, e, f] =
     Ret (if sock < 0 \<or> ret < 0 then [] else
       hex_byte a @ '':'' @ hex_byte b @ '':'' @ hex_byte c @ '':'' @ hex_byte d @ '':'' @ hex_byte e @ '':'' @ hex_byte f)"
  by (simp add: GetMacAddress_def hex_byte_def)

end
