(* ===== verification/Application.thy ===== *)
theory Application
  imports Service CommTool StdMap
begin

text \<open>
  \<open>modules/application\<close>: the protected service, with its limits on the rate and on the idle
  time of a client. A client that breaks a limit is reported to the gateway.

  The environment of one request numbers the calls of \<open>time(NULL)\<close> that it makes and says what
  the notice to the gateway returned. \<open>app_notices\<close> records the notices that were sent.
\<close>

section \<open>State\<close>

definition ACCESS_TOO_LAST_LIMIT :: int where "ACCESS_TOO_LAST_LIMIT = 10"
definition ACCESS_TIMES_LIMIT_ONE_MIN :: int where "ACCESS_TIMES_LIMIT_ONE_MIN = 3"

record Freq =
  freq_times :: int
  freq_min :: "32 word"

record SDPApplicationConfig =
  visist_freq_map :: "(string, Freq) stdmap"
  last_visit_time_map :: "(string, int) stdmap"
  app_notices :: "GateFuncNoticeReq list"

definition SDPApplicationConfig_new :: SDPApplicationConfig where
  "SDPApplicationConfig_new = \<lparr>visist_freq_map = [], last_visit_time_map = [], app_notices = []\<rparr>"

record app_env =
  ae_time :: "nat \<Rightarrow> int"
  ae_notice :: "GateFuncNoticeReq \<Rightarrow> int"

text \<open>The request that both limits send: close the port for the client.\<close>

definition close_port_req :: "string \<Rightarrow> GateFuncNoticeReq" where
  "close_port_req ip = \<lparr>nq_op = Some (word_of_int APP_NOTICE_CLOSE_PORT_FOR_IP), nq_op_ip = Some ip\<rparr>"

definition send_notice :: "app_env \<Rightarrow> GateFuncNoticeReq \<Rightarrow> SDPApplicationConfig \<Rightarrow> int \<times> SDPApplicationConfig" where
  "send_notice env req c = (ae_notice env req, c\<lparr>app_notices := app_notices c @ [req]\<rparr>)"

section \<open>The limits\<close>

text \<open>
  The minute is kept in an \<open>int\<close>, which cuts the 64-bit time to 32 bits; the comparison widens
  it again. Counting past the largest \<open>int\<close> is undefined.
\<close>

definition FrequencyJudgment :: "app_env \<Rightarrow> string \<Rightarrow> SDPApplicationConfig \<Rightarrow> (int \<times> SDPApplicationConfig) outcome" where
  "FrequencyJudgment env ip c =
     (let min_now = TimeNow_Min (ae_time env 0);
          restart = Ret (0, c\<lparr>visist_freq_map := map_assign ip \<lparr>freq_times = 1, freq_min = word_of_int min_now\<rparr>
                                  (visist_freq_map c)\<rparr>)
      in case map_find ip (visist_freq_map c) of
           Some freq \<Rightarrow>
             if sint (freq_min freq) = min_now then
               if freq_times freq = 2147483647 then Undef
               else
                 let freq = freq\<lparr>freq_times := freq_times freq + 1\<rparr>;
                     c = c\<lparr>visist_freq_map := map_assign ip freq (visist_freq_map c)\<rparr>
                 in if freq_times freq > ACCESS_TIMES_LIMIT_ONE_MIN then
                      (let (ret, c) = send_notice env (close_port_req ip) c in Ret (-1, c))
                    else Ret (0, c)
             else restart
         | None \<Rightarrow> restart)"

definition TimeLimitJudgement :: "app_env \<Rightarrow> string \<Rightarrow> SDPApplicationConfig \<Rightarrow> int \<times> SDPApplicationConfig" where
  "TimeLimitJudgement env ip c =
     (let visit = c\<lparr>last_visit_time_map := map_assign ip (ae_time env 2) (last_visit_time_map c)\<rparr>
      in case map_find ip (last_visit_time_map c) of
           Some last_time \<Rightarrow>
             if last_time + ACCESS_TOO_LAST_LIMIT < ae_time env 1 then
               (let (ret, c) = send_notice env (close_port_req ip) visit in (-1, c))
             else (0, visit)
         | None \<Rightarrow> (0, c\<lparr>last_visit_time_map := map_assign ip (ae_time env 1) (last_visit_time_map c)\<rparr>))"

definition HTTPS_HANDLER :: "string \<Rightarrow> int \<times> string" where
  "HTTPS_HANDLER request = (0, ''<html><head></head><body>hello world!</body></html>'')"

definition App_AppFuncHttps ::
  "app_env \<Rightarrow> string \<Rightarrow> Extra \<Rightarrow> SDPApplicationConfig \<Rightarrow> (int \<times> string \<times> SDPApplicationConfig) outcome" where
  "App_AppFuncHttps env request extra c =
     (let from_ip = si_ip (socket_info extra) in
      obind (FrequencyJudgment env from_ip c) (\<lambda>(ret, c).
        if ret < 0 then Ret (-1, [], c)
        else
          let (ret, c) = TimeLimitJudgement env from_ip c in
          if ret < 0 then Ret (-1, [], c)
          else let (ret, response) = HTTPS_HANDLER request in Ret (ret, response, c)))"

definition application_service :: "app_env \<Rightarrow> SDPApplicationConfig ErpcService" where
  "application_service env = base_service\<lparr>AppFuncHttps := App_AppFuncHttps env\<rparr>"

section \<open>Lemmas\<close>

definition in_minute :: "int \<Rightarrow> string \<Rightarrow> SDPApplicationConfig \<Rightarrow> bool" where
  "in_minute m ip c \<longleftrightarrow> (\<exists>f. map_find ip (visist_freq_map c) = Some f \<and> sint (freq_min f) = m)"

definition visits :: "int \<Rightarrow> string \<Rightarrow> SDPApplicationConfig \<Rightarrow> int" where
  "visits m ip c =
     (case map_find ip (visist_freq_map c) of Some f \<Rightarrow> if sint (freq_min f) = m then freq_times f else 0 | None \<Rightarrow> 0)"

definition int32 :: "int \<Rightarrow> bool" where
  "int32 m \<longleftrightarrow> - 2147483648 \<le> m \<and> m < 2147483648"

lemma sint_int32: "int32 m \<Longrightarrow> sint (word_of_int m :: 32 word) = m"
  by (simp add: int32_def int_word_sint)

lemma sint32_int32: "int32 (sint (w :: 32 word))"
  using sint_range_size [of w] by (simp add: int32_def word_size)

text \<open>What the rate limit does when the clock fits 32 bits.\<close>

lemma Frequency_ret:
  assumes "FrequencyJudgment env ip c = Ret (ret, c')" and "TimeNow_Min (ae_time env 0) = m" and "int32 m"
  shows "visits m ip c' = visits m ip c + 1" and "ret = (if visits m ip c < 3 then 0 else -1)"
  using assms
  by (auto simp: FrequencyJudgment_def visits_def send_notice_def Let_def sint_int32
      ACCESS_TIMES_LIMIT_ONE_MIN_def split: option.splits if_splits)

lemma Frequency_keeps:
  "FrequencyJudgment env ip c = Ret (ret, c') \<Longrightarrow>
     last_visit_time_map c' = last_visit_time_map c \<and>
     app_notices c' = app_notices c @ (if ret = 0 then [] else [close_port_req ip])"
  by (auto simp: FrequencyJudgment_def send_notice_def Let_def split: option.splits if_splits)

lemma Frequency_other:
  "FrequencyJudgment env ip c = Ret (ret, c') \<Longrightarrow> h \<noteq> ip \<Longrightarrow> visits m h c' = visits m h c"
  by (auto simp: FrequencyJudgment_def visits_def send_notice_def Let_def split: option.splits if_splits)

lemma TimeLimit_visits [simp]: "visits m h (snd (TimeLimitJudgement env ip c)) = visits m h c"
  by (simp add: TimeLimitJudgement_def visits_def send_notice_def Let_def split: option.split)

lemma Https_cases:
  assumes "App_AppFuncHttps env request extra c = Ret (ret, out, c')"
  obtains (freq) "FrequencyJudgment env (si_ip (socket_info extra)) c = Ret (-1, c')" "ret = -1" "out = []"
  | (idle) c1 where "FrequencyJudgment env (si_ip (socket_info extra)) c = Ret (0, c1)"
      "TimeLimitJudgement env (si_ip (socket_info extra)) c1 = (-1, c')" "ret = -1" "out = []"
  | (served) c1 where "FrequencyJudgment env (si_ip (socket_info extra)) c = Ret (0, c1)"
      "TimeLimitJudgement env (si_ip (socket_info extra)) c1 = (0, c')" "ret = 0" "out = snd (HTTPS_HANDLER request)"
proof -
  obtain r c1 where f: "FrequencyJudgment env (si_ip (socket_info extra)) c = Ret (r, c1)"
    using assms unfolding App_AppFuncHttps_def Let_def by (auto simp: outcome_simps)
  have r: "r = 0 \<or> r = -1"
    using f by (auto simp: FrequencyJudgment_def send_notice_def Let_def split: option.splits if_splits)
  obtain r' c2 where t: "TimeLimitJudgement env (si_ip (socket_info extra)) c1 = (r', c2)" by fastforce
  have r': "r' = 0 \<or> r' = -1"
    using t by (auto simp: TimeLimitJudgement_def send_notice_def Let_def split: option.splits if_splits)
  show ?thesis
    using assms f t r r' freq idle served
    by (auto simp: App_AppFuncHttps_def HTTPS_HANDLER_def split: if_splits)
qed

definition idle :: "int \<Rightarrow> string \<Rightarrow> SDPApplicationConfig \<Rightarrow> bool" where
  "idle now ip c \<longleftrightarrow>
     (case map_find ip (last_visit_time_map c) of Some last_time \<Rightarrow> last_time + 10 < now | None \<Rightarrow> False)"

lemma TimeLimit_eq:
  "fst (TimeLimitJudgement env ip c) = (if idle (ae_time env 1) ip c then -1 else 0)"
  "app_notices (snd (TimeLimitJudgement env ip c)) =
     app_notices c @ (if idle (ae_time env 1) ip c then [close_port_req ip] else [])"
  by (auto simp: TimeLimitJudgement_def send_notice_def idle_def Let_def ACCESS_TOO_LAST_LIMIT_def split: option.split)

lemma TimeLimit_visit:
  "map_find ip (last_visit_time_map (snd (TimeLimitJudgement env ip c))) =
     Some (ae_time env (if map_find ip (last_visit_time_map c) = None then 1 else 2))"
  by (auto simp: TimeLimitJudgement_def send_notice_def Let_def split: option.split)

section \<open>Runs of requests\<close>

text \<open>The clients of the requests in order, each with the code that its request got.\<close>

fun app_run ::
  "(app_env \<times> string \<times> Extra) list \<Rightarrow> SDPApplicationConfig \<Rightarrow> ((string \<times> int) list \<times> SDPApplicationConfig) outcome" where
  "app_run [] c = Ret ([], c)"
| "app_run ((env, request, extra) # reqs) c =
     obind (App_AppFuncHttps env request extra c) (\<lambda>(ret, response, c).
     obind (app_run reqs c) (\<lambda>(rs, c). Ret ((si_ip (socket_info extra), ret) # rs, c)))"

definition served :: "string \<Rightarrow> (string \<times> int) list \<Rightarrow> nat" where
  "served ip rs = length (filter (\<lambda>r. r = (ip, 0)) rs)"

lemma Https_visits:
  assumes "App_AppFuncHttps env request extra c = Ret (ret, out, c')" and "int32 m"
    and "si_ip (socket_info extra) = ip \<Longrightarrow> TimeNow_Min (ae_time env 0) = m"
  shows "visits m ip c' = visits m ip c + of_bool (si_ip (socket_info extra) = ip)"
    and "si_ip (socket_info extra) = ip \<Longrightarrow> ret = 0 \<Longrightarrow> visits m ip c < 3"
proof -
  let ?ip = "si_ip (socket_info extra)"
  obtain r c1 where f: "FrequencyJudgment env ?ip c = Ret (r, c1)" and r: "ret = 0 \<Longrightarrow> r = 0"
    and v: "visits m ip c' = visits m ip c1"
    using assms(1) by (cases rule: Https_cases) (metis TimeLimit_visits snd_conv)+
  show "visits m ip c' = visits m ip c + of_bool (?ip = ip)"
    using f v Frequency_ret(1) [OF f] Frequency_other [OF f, of ip m] assms(2,3) by (cases "?ip = ip") auto
  show "ret = 0 \<Longrightarrow> visits m ip c < 3" if "?ip = ip"
    using r Frequency_ret(2) [OF f assms(3) [OF that] assms(2)] that by (auto split: if_splits)
qed

lemma app_run_served:
  assumes "app_run reqs c = Ret (rs, c')" and "int32 m"
    and "\<And>env request extra. (env, request, extra) \<in> set reqs \<Longrightarrow> si_ip (socket_info extra) = ip \<Longrightarrow>
           TimeNow_Min (ae_time env 0) = m"
  shows "int (served ip rs) \<le> max 0 (3 - visits m ip c)"
  using assms(1,3)
proof (induction reqs arbitrary: c rs)
  case (Cons q reqs)
  obtain env request extra where q: "q = (env, request, extra)" by (cases q)
  from Cons.prems(1) obtain ret out c1 rs1
    where h: "App_AppFuncHttps env request extra c = Ret (ret, out, c1)" and run: "app_run reqs c1 = Ret (rs1, c')"
      and rs: "rs = (si_ip (socket_info extra), ret) # rs1"
    by (auto simp: q outcome_simps)
  have min: "si_ip (socket_info extra) = ip \<Longrightarrow> TimeNow_Min (ae_time env 0) = m"
    using Cons.prems(2) by (auto simp: q)
  note v = Https_visits [where ip = ip, OF h assms(2) min]
  have "int (served ip rs1) \<le> max 0 (3 - visits m ip c1)"
    by (rule Cons.IH [OF run Cons.prems(2)]) auto
  then show ?case using v
    by (cases "si_ip (socket_info extra) = ip"; cases "ret = 0") (auto simp: rs served_def)
qed (simp add: served_def)

section \<open>The contract\<close>

definition app_inv :: "SDPApplicationConfig \<Rightarrow> bool" where
  "app_inv c \<longleftrightarrow> map_wf (visist_freq_map c) \<and> map_wf (last_visit_time_map c) \<and>
     (\<forall>ip f. map_find ip (visist_freq_map c) = Some f \<longrightarrow> 1 \<le> freq_times f)"

lemma app_inv_https:
  assumes "app_inv c" and "App_AppFuncHttps env request extra c = Ret (ret, out, c')"
  shows "app_inv c'"
proof -
  have f: "app_inv c1" if "FrequencyJudgment env ip c = Ret (r, c1)" for r c1 ip
  proof -
    have le: "map_find h (visist_freq_map c) = Some f \<Longrightarrow> 1 \<le> freq_times f" for h f
      using assms(1) by (simp add: app_inv_def)
    show ?thesis
      using that assms(1) unfolding FrequencyJudgment_def app_inv_def send_notice_def Let_def
      by (auto split: option.splits if_splits dest!: le)
  qed
  have t: "app_inv c1 \<Longrightarrow> app_inv (snd (TimeLimitJudgement env ip c1))" for c1 ip
    unfolding TimeLimitJudgement_def app_inv_def send_notice_def Let_def by (simp split: option.split)
  from assms(2) show ?thesis
    by (cases rule: Https_cases) (metis f t snd_conv)+
qed

interpretation application: service_contract "application_service env" app_inv for env
  by unfold_locales (auto simp: application_service_def base_service_def dest: app_inv_https)

section \<open>Properties\<close>

text \<open>
  C19. A client is served at most three times in one minute: in any sequence of requests, from
  whatever clients, if all those of one client fall into the same minute of a clock that fits
  32 bits, at most three of them are answered.
\<close>

theorem three_per_minute:
  assumes "app_run reqs SDPApplicationConfig_new = Ret (rs, c')" and "- 2147483648 \<le> m" and "m < 2147483648"
    and "\<And>env request extra. (env, request, extra) \<in> set reqs \<Longrightarrow> si_ip (socket_info extra) = ip \<Longrightarrow>
           TimeNow_Min (ae_time env 0) = m"
  shows "length (filter (\<lambda>r. r = (ip, 0)) rs) \<le> 3"
proof -
  have "visits m ip SDPApplicationConfig_new = 0" by (simp add: visits_def SDPApplicationConfig_new_def)
  moreover have "int (served ip rs) \<le> max 0 (3 - visits m ip SDPApplicationConfig_new)"
    by (rule app_run_served [OF assms(1)]) (use assms(2-4) in \<open>auto simp: int32_def\<close>)
  ultimately show ?thesis by (simp add: served_def)
qed

definition toy_app_env :: app_env where
  "toy_app_env = \<lparr>ae_time = \<lambda>_. 60, ae_notice = \<lambda>_. 0\<rparr>"

definition toy_extra :: Extra where
  "toy_extra = \<lparr>socket_info = \<lparr>si_ip = ''c'', si_port = 9\<rparr>\<rparr>"

theorem three_per_minute_witness:
  "\<exists>rs c'. app_run (replicate 4 (toy_app_env, ''GET'', toy_extra)) SDPApplicationConfig_new = Ret (rs, c') \<and>
     length rs = 4 \<and> length (filter (\<lambda>r. r = (''c'', 0)) rs) \<le> 3"
proof -
  let ?reqs = "replicate 4 (toy_app_env, ''GET'', toy_extra)"
  have "\<exists>rs c'. app_run ?reqs SDPApplicationConfig_new = Ret (rs, c') \<and> length rs = 4"
    by (simp add: eval_nat_numeral App_AppFuncHttps_def FrequencyJudgment_def TimeLimitJudgement_def HTTPS_HANDLER_def
        send_notice_def toy_app_env_def toy_extra_def SDPApplicationConfig_new_def TimeNow_Min_def Let_def
        ACCESS_TIMES_LIMIT_ONE_MIN_def ACCESS_TOO_LAST_LIMIT_def)
  then obtain rs c' where run: "app_run ?reqs SDPApplicationConfig_new = Ret (rs, c')" and "length rs = 4" by blast
  moreover have "length (filter (\<lambda>r. r = (''c'', 0)) rs) \<le> 3"
    by (rule three_per_minute [OF run, of 60]) (simp_all add: toy_app_env_def TimeNow_Min_def)
  ultimately show ?thesis by blast
qed

text \<open>
  C20. Exactly when a request is answered: with a clock that fits 32 bits, when its client has
  made fewer than three requests this minute and has not been silent for more than ten seconds.
  It is then answered with the page; otherwise it gets no text, and exactly one notice, naming
  its client, goes to the gateway.
\<close>

theorem app_request_exact:
  assumes "App_AppFuncHttps env request extra c = Ret (ret, out, c')"
    and "TimeNow_Min (ae_time env 0) = m" and "- 2147483648 \<le> m" and "m < 2147483648"
  shows "let ip = si_ip (socket_info extra) in
     ret = (if visits m ip c < 3 \<and> \<not> idle (ae_time env 1) ip c then 0 else -1) \<and>
     out = (if ret = 0 then ''<html><head></head><body>hello world!</body></html>'' else []) \<and>
     app_notices c' = app_notices c @ (if ret = 0 then [] else
       [\<lparr>nq_op = Some (word_of_int APP_NOTICE_CLOSE_PORT_FOR_IP), nq_op_ip = Some ip\<rparr>]) \<and>
     visits m ip c' = visits m ip c + 1"
proof -
  let ?ip = "si_ip (socket_info extra)"
  have m: "int32 m" using assms(3,4) by (simp add: int32_def)
  have same: "idle now ?ip c1 = idle now ?ip c" if "FrequencyJudgment env ?ip c = Ret (r, c1)" for now c1 r
    using Frequency_keeps [OF that] by (simp add: idle_def)
  from assms(1) show ?thesis
  proof (cases rule: Https_cases)
    case freq
    then show ?thesis
      using Frequency_ret [OF freq(1) assms(2) m] Frequency_keeps [OF freq(1)]
      by (simp add: close_port_req_def split: if_splits)
  next
    case (idle c1)
    with TimeLimit_eq [of env ?ip c1] TimeLimit_visits [of m ?ip env ?ip c1] same [OF idle(1)]
    have "idle (ae_time env 1) ?ip c" "app_notices c' = app_notices c1 @ [close_port_req ?ip]"
      "visits m ?ip c' = visits m ?ip c1" by (simp_all split: if_splits)
    then show ?thesis
      using Frequency_ret(1) [OF idle(1) assms(2) m] Frequency_keeps [OF idle(1)] idle(3,4)
      by (simp add: close_port_req_def)
  next
    case (served c1)
    with TimeLimit_eq [of env ?ip c1] TimeLimit_visits [of m ?ip env ?ip c1] same [OF served(1)]
    have "\<not> idle (ae_time env 1) ?ip c" "app_notices c' = app_notices c1"
      "visits m ?ip c' = visits m ?ip c1" by (simp_all split: if_splits)
    then show ?thesis
      using Frequency_ret [OF served(1) assms(2) m] Frequency_keeps [OF served(1)] served(3,4)
      by (simp add: HTTPS_HANDLER_def split: if_splits)
  qed
qed

theorem app_request_exact_witness:
  "\<exists>c'. App_AppFuncHttps toy_app_env ''GET'' toy_extra SDPApplicationConfig_new =
     Ret (0, ''<html><head></head><body>hello world!</body></html>'', c') \<and> app_notices c' = []"
proof -
  obtain ret out c' where run: "App_AppFuncHttps toy_app_env ''GET'' toy_extra SDPApplicationConfig_new = Ret (ret, out, c')"
    by (simp add: App_AppFuncHttps_def FrequencyJudgment_def TimeLimitJudgement_def HTTPS_HANDLER_def
        SDPApplicationConfig_new_def Let_def)
  from app_request_exact [OF this, of 60] run show ?thesis
    by (auto simp: Let_def toy_app_env_def TimeNow_Min_def visits_def idle_def SDPApplicationConfig_new_def)
qed

text \<open>
  The rate limit ends with the 32-bit clock: from 2038 on (and before 1901) the stored
  minute never equals the current one, and every request passes the check as the first one of
  its minute.
\<close>

theorem no_limit_after_2038:
  assumes "TimeNow_Min (ae_time env 0) \<ge> 2147483648 \<or> TimeNow_Min (ae_time env 0) < - 2147483648"
  shows "\<exists>c'. FrequencyJudgment env ip c = Ret (0, c') \<and> map_find ip (visist_freq_map c') =
     Some \<lparr>freq_times = 1, freq_min = word_of_int (TimeNow_Min (ae_time env 0))\<rparr>"
proof -
  have "sint w \<noteq> TimeNow_Min (ae_time env 0)" for w :: "32 word"
    using sint32_int32 [of w] assms by (auto simp: int32_def)
  then show ?thesis by (simp add: FrequencyJudgment_def Let_def split: option.split)
qed

theorem no_limit_after_2038_witness:
  "\<exists>c'. FrequencyJudgment \<lparr>ae_time = \<lambda>_. 2147483700, ae_notice = \<lambda>_. 0\<rparr> ''c''
     \<lparr>visist_freq_map = [(''c'', \<lparr>freq_times = 1000, freq_min = word_of_int 2147483640\<rparr>)],
      last_visit_time_map = [], app_notices = []\<rparr> = Ret (0, c')"
proof -
  have "TimeNow_Min (ae_time \<lparr>ae_time = \<lambda>_. 2147483700, ae_notice = \<lambda>_. 0\<rparr> 0) \<ge> 2147483648"
    by (simp add: TimeNow_Min_def)
  from no_limit_after_2038 [OF disjI1, OF this] show ?thesis by blast
qed

end
