(* ===== verification/Servers.thy ===== *)
theory Servers
  imports Dispatcher ControllerService GatewayService Application
begin

text \<open>
  The three servers of \<open>modules/\<close>: each is the dispatcher with its service registered, and
  keeps its service's invariant for every sequence of events from its start-up on.
\<close>

section \<open>Configurations\<close>

text \<open>
  What a service reads of its surroundings during one event. The gateway reads the clock and
  returns whatever a missing \<open>return\<close> leaves behind; the application reads the clock and the
  result of its notice.
\<close>

definition gateway_config ::
  "'k openssl \<Rightarrow> codec \<Rightarrow> system_call \<Rightarrow> int \<times> int \<Rightarrow> SDPAppGatewayConfig ErpcConfig" where
  "gateway_config ssl cd sys e =
     RegisterService (gateway_service ssl cd sys (fst e) (snd e)) SSL_CRT_GATEWAY SSL_KEY_GATEWAY
       \<lparr>cfg_service = base_service, server_cert = [], server_key = []\<rparr>"

definition controller_config ::
  "'k openssl \<Rightarrow> codec \<Rightarrow> system_call \<Rightarrow> ticket_env \<Rightarrow> SDPControllerConfig ErpcConfig" where
  "controller_config ssl cd sys te =
     RegisterService (controller_service ssl cd sys te) SSL_CRT_CONTROLLER SSL_KEY_CONTROLLER
       \<lparr>cfg_service = base_service, server_cert = [], server_key = []\<rparr>"

definition application_config :: "app_env \<Rightarrow> SDPApplicationConfig ErpcConfig" where
  "application_config env =
     RegisterService (application_service env) SSL_CRT_APPLICATION SSL_KEY_APPLICATION
       \<lparr>cfg_service = base_service, server_cert = [], server_key = []\<rparr>"

section \<open>The servers keep their invariants\<close>

interpretation gateway_server: server_contract "gateway_config ssl cd sys" gate_inv
  for ssl cd sys
  by (rule server_contract.intro)
    (simp add: gateway_config_def RegisterService_def SetServerCert_def SetServiceObj_def
      gateway.service_contract_axioms)

interpretation controller_server: server_contract "controller_config ssl cd sys" "con_inv initial"
  for ssl cd sys initial
  by (rule server_contract.intro)
    (simp add: controller_config_def RegisterService_def SetServerCert_def SetServiceObj_def
      controller.service_contract_axioms)

interpretation application_server: server_contract application_config app_inv
  by (rule server_contract.intro)
    (simp add: application_config_def RegisterService_def SetServerCert_def SetServiceObj_def
      application.service_contract_axioms)

section \<open>Properties\<close>

text \<open>
  C7. The gateway's program is safe against every input: from its start-up, whatever datagrams,
  connections, resets and requests its event loop is given, as long as it runs no black-listed
  host is on the white list, and the port of the application is open for exactly the listed
  hosts, the controller and the application apart.
\<close>

theorem gateway_program_safe:
  assumes "Run cd' (gateway_config ssl cd sys) batches server
             (SDPAppGateway_start sys' (SDPAppGatewayConfig_new sys' \<lparr>commands = []\<rparr>)) = Ret (Waiting logged (d, g))"
  shows "(gw_black g ip \<longrightarrow> \<not> gw_listed g ip) \<and>
     (ip \<notin> {IP_CONTROLLER_PB, IP_APPLICATION_PB} \<longrightarrow>
        net_opened (gw_whitelist g) ip TCP_PORT_APPLICATION = of_bool (gw_listed g ip))"
  using gateway_server.inv_Run [OF assms gate_inv_start]
  by (auto simp: gate_inv_def fw_sync_def gate_initial_def)

definition toy_server :: ErpcServer where
  "toy_server = \<lparr>es_id = ID_GATEWAY, es_listen_ip = IP_APPGATEWAY_IN, es_tcp_port = 6003, es_udp_port = 6001,
     es_dispatcher = toy_dispatcher\<rparr>"

definition knock_event :: "(int \<times> int) event" where
  "knock_event = \<lparr>ev_fd = 5, ev_type = EPOLLIN, ev_del_err = 0,
     ev_recv = (5, EAGAIN, \<lparr>dg_data = le32 201 @ ''s'', dg_ip = ''47.111.5.82'', dg_port = 9\<rparr>),
     ev_accept = (8, ''1.2.3.4'', 9), ev_tls = toy_tls\<lparr>tls_accept := 1\<rparr>, ev_uninit = empty_fd_data, ev_add = 0,
     ev_read = \<lparr>io_n = 0, io_errno = EAGAIN, io_data = []\<rparr>, ev_writes = [], ev_del = 0, ev_env = (1000, 0)\<rparr>"

lemma knock_event_handled:
  "Run toy_codec (gateway_config toy_ssl gate_codec toy_sys) [(1, [knock_event])] toy_server toy_gateway =
     Ret (Waiting [] (toy_dispatcher, toy_gateway1))"
proof -
  let ?svc = "cfg_service (gateway_config toy_ssl gate_codec toy_sys (1000, 0))"
  have svc: "GateFuncUdpRecv ?svc = Gate_GateFuncUdpRecv toy_ssl gate_codec toy_sys 1000"
    by (simp add: gateway_config_def RegisterService_def SetServerCert_def SetServiceObj_def gateway_service_def)
  have "HandleUDPRequest ?svc 5 EAGAIN \<lparr>dg_data = le32 201 @ ''s'', dg_ip = ''47.111.5.82'', dg_port = 9\<rparr> toy_gateway =
      Ret (0, toy_gateway1)"
    by (simp add: HandleUDPRequest_def UDPRecv_def MemoryCorpToObject_def svc toy_knock1 const_defs)
  then show ?thesis
    using masks by (simp add: Run_def Dispatch_def Dispatch_event_def erase_on_error_def toy_server_def knock_event_def
        toy_dispatcher_def)
qed

theorem gateway_program_safe_witness:
  "net_opened (gw_whitelist toy_gateway1) ''47.111.5.82'' TCP_PORT_APPLICATION = 1"
  using gateway_program_safe [OF knock_event_handled [unfolded toy_gateway_def], of "''47.111.5.82''"] toy_gate_listed
  by (simp add: const_defs)

text \<open>
  C8. The controller's data keep their type: from its construction and start-up, whatever events
  its loop is given, its tables stay ordered with one entry per key, no account is left with an
  empty set of destinations and no gateway with an empty list of applications; each entry of the
  descriptor table is filed under its own descriptor or is the empty one that a lookup makes up;
  and the RPC port is open for exactly the listed hosts, the gateway apart.
\<close>

theorem controller_program_well_formed:
  assumes "Run cd' (controller_config ssl cd sys) batches
             (ErpcServer_new i lip tcp_port udp_port (\<lambda>i. EpollDispatcher_new create_ret calloc_ok mk_tcp mk_udp i d0))
             (SDPController_start sys' (SDPControllerConfig_new sys' \<lparr>commands = []\<rparr>)) = Ret (Waiting logged (d, c))"
  shows "tables_ok c \<and> fdmap_ok d \<and>
     (ip \<noteq> IP_APPGATEWAY_PB \<longrightarrow> net_opened (con_whitelist c) ip TCP_PORT_CONTROLLER = of_bool (con_listed c ip))"
proof -
  have "con_inv {IP_APPGATEWAY_PB} c"
    using controller_server.inv_Run [OF assms] con_inv_start by simp
  moreover have "fdmap_ok d"
    by (rule fdmap_ok_Run [OF assms]) (simp add: ErpcServer_new_def fdmap_ok_new)
  ultimately show ?thesis by (simp add: con_inv_def fw_sync_def)
qed

text \<open>A packet sealed for one block, opened again with a longer signature.\<close>

lemma padded_ticket_throws:
  assumes "reads_keys ssl sign_pub_file sign_pub sign_pri_file sign_pri" and "sign_pair ssl sign_pri sign_pub"
    and "reads_keys ssl enc_pub_file enc_pub enc_pri_file enc_pri" and "rsa_pair ssl enc_pub enc_pri" and "md5_works ssl"
    and "ser_ticket cd t \<noteq> []" and "int (length (ser_ticket cd t)) < limit_size ssl sign_pub" and "pad \<noteq> []"
  shows "\<exists>p'. EncryptTicket ssl cd seed p t sign_pri_file enc_pub_file = Ret (0, p') \<and>
     DecryptTicket ssl cd t0 (p'\<lparr>tp_sign_data := Some (get_str (tp_sign_data p') @ pad)\<rparr>) sign_pub_file enc_pri_file =
       Throw OutOfRange"
proof -
  let ?text = "ser_ticket cd t"
  have size: "rsa_size ssl sign_pri = rsa_size ssl sign_pub" "length ?text \<le> rsa_size ssl sign_pub - 42"
    using assms(2,7) by (auto simp: sign_pair_def limit_size_def)
  then obtain s where s: "rsa_sign ssl sign_pri ?text = Some s" "length s = rsa_size ssl sign_pub" "rsa_verify ssl sign_pub ?text s"
    using assms(2) by (auto simp: sign_pair_def)
  have "RSASign ssl ?text sign_pri_file = Ret (0, s)"
    using assms(1,2,6,7) size(1) s(1)
    by (simp add: RSASign_def reads_keys_def limit_size_def RSASign_loop.simps sign_pair_def)
  moreover have "RSAVerify ssl (s @ pad) ?text sign_pub_file = Throw OutOfRange"
    by (rule padded_signature_throws) (use assms s in \<open>simp_all add: reads_keys_def\<close>)
  moreover obtain c where "RSAEncrypt ssl seed ?text enc_pub_file = Ret (0, c)" "RSADecrypt ssl c enc_pri_file = Ret (0, ?text)"
    using rsa_file_roundtrip [OF assms(3,4)] by blast
  ultimately show ?thesis
    using assms(5) by (simp add: EncryptTicket_def DecryptTicket_def MD5Encrypt_works)
qed

text \<open>
  C13. Whoever ever got a ticket can bring the gateway down: a ticket of the controller shorter than
  an RSA block, whoever it is for and however old, sent in its packet with one byte or more
  added to the signature, makes the verifier throw; nothing catches the exception, so the
  gateway's process ends with this datagram, whatever its state, unless it black-lists the sender.
\<close>

theorem padded_ticket_ends_gateway:
  assumes "reads_keys ssl RSA_PUB_KEY_CONTROLLER sign_pub RSA_PRI_KEY_CONTROLLER sign_pri" and "sign_pair ssl sign_pri sign_pub"
    and "reads_keys ssl RSA_PUB_KEY_GATEWAY enc_pub RSA_PRI_KEY_GATEWAY enc_pri" and "rsa_pair ssl enc_pub enc_pri"
    and "md5_works ssl" and "ser_ticket cd t \<noteq> []" and "int (length (ser_ticket cd t)) < limit_size ssl sign_pub"
    and "EncryptTicket ssl cd seed empty_SPATicketPacket t RSA_PRI_KEY_CONTROLLER RSA_PUB_KEY_GATEWAY = Ret (0, p)"
    and "parse_ticket_packet cd msg = p\<lparr>tp_sign_data := Some (get_str (tp_sign_data p) @ pad)\<rparr>" and "pad \<noteq> []"
    and "\<not> gw_black g ip"
    and "ev_fd ev = udp_fd (es_dispatcher server)" and "ev_type ev = EPOLLIN"
    and "ev_recv ev = (int (length (le32 201 @ msg)), err, \<lparr>dg_data = le32 201 @ msg, dg_ip = ip, dg_port = port\<rparr>)"
  shows "Run cd' (gateway_config ssl cd sys) ((1, [ev]) # batches) server g = Throw OutOfRange"
proof -
  have "Gate_GateFuncUdpRecv ssl cd sys now msg ip port g = Throw OutOfRange" for now
    using padded_ticket_throws [where seed = seed and p = empty_SPATicketPacket and ?t0.0 = empty_SPATicket, OF assms(1-7,10)]
      assms(8,9,11) by (simp add: Gate_GateFuncUdpRecv_def Let_def)
  moreover have "GateFuncUdpRecv (cfg_service (gateway_config ssl cd sys e)) = Gate_GateFuncUdpRecv ssl cd sys (fst e)" for e
    by (simp add: gateway_config_def RegisterService_def SetServerCert_def SetServiceObj_def gateway_service_def)
  ultimately have "HandleUDPRequest (cfg_service (gateway_config ssl cd sys e)) (int (length (le32 201 @ msg))) err
      \<lparr>dg_data = le32 201 @ msg, dg_ip = ip, dg_port = port\<rparr> g = Throw OutOfRange" for e
    by (simp add: HandleUDPRequest_def UDPRecv_def MemoryCorpToObject_def const_defs)
  then show ?thesis
    using assms(12-14) masks by (simp add: Run_def Dispatch_def Dispatch_event_def erase_on_error_def case_prod_unfold)
qed

lemma Run_first_knock:
  assumes "ev_fd ev = udp_fd (es_dispatcher server)" and "ev_type ev = EPOLLIN"
    and "ev_recv ev = (int (length (le32 cmd @ msg)), err, \<lparr>dg_data = le32 cmd @ msg, dg_ip = ip, dg_port = port\<rparr>)"
    and "HandleUDPRequest (cfg_service (cfg (ev_env ev))) (int (length (le32 cmd @ msg))) err
           \<lparr>dg_data = le32 cmd @ msg, dg_ip = ip, dg_port = port\<rparr> s = Undef"
  shows "Run cd cfg ((1, [ev]) # batches) server s = Undef"
  using assms masks by (simp add: Run_def Dispatch_def Dispatch_event_def erase_on_error_def)

text \<open>
  C12. No ticket and no password is needed to corrupt the memory of a server: a knock whose
  ciphertext is cut short, or whose first block decrypts to more bytes than the buffer holds (which
  anyone can encrypt with the public key), is undefined behaviour in the controller, whatever its
  state, and in the gateway, unless it black-lists the sender.
\<close>

theorem hostile_knock_undefined:
  assumes "overruns ssl RSA_PRI_KEY_GATEWAY (get_str (tp_enc_data (parse_ticket_packet cd msg)))" and "\<not> gw_black g ip"
    and "overruns ssl RSA_PRI_KEY_CONTROLLER (get_str (vp_enc_data (parse_voucher_packet cd msg')))"
    and "ev_fd ev = udp_fd (es_dispatcher server)" and "ev_type ev = EPOLLIN"
    and "ev_recv ev = (int (length (le32 201 @ msg)), err, \<lparr>dg_data = le32 201 @ msg, dg_ip = ip, dg_port = port\<rparr>)"
    and "ev_fd ev' = udp_fd (es_dispatcher server')" and "ev_type ev' = EPOLLIN"
    and "ev_recv ev' = (int (length (le32 101 @ msg')), err', \<lparr>dg_data = le32 101 @ msg', dg_ip = ip', dg_port = port'\<rparr>)"
  shows "Run cd' (gateway_config ssl cd sys) ((1, [ev]) # batches) server g = Undef \<and>
     Run cd' (controller_config ssl cd sys) ((1, [ev']) # batches') server' c = Undef"
proof
  have "GateFuncUdpRecv (cfg_service (gateway_config ssl cd sys e)) = Gate_GateFuncUdpRecv ssl cd sys (fst e)" for e
    by (simp add: gateway_config_def RegisterService_def SetServerCert_def SetServiceObj_def gateway_service_def)
  then show "Run cd' (gateway_config ssl cd sys) ((1, [ev]) # batches) server g = Undef"
    using RSADecrypt_overruns [OF assms(1)] assms(2)
    by (intro Run_first_knock [OF assms(4-6)])
      (simp add: HandleUDPRequest_def UDPRecv_def MemoryCorpToObject_def const_defs Gate_GateFuncUdpRecv_def DecryptTicket_def)
  have "ConFuncUdpRecv (cfg_service (controller_config ssl cd sys te)) = Con_ConFuncUdpRecv ssl cd sys" for te
    by (simp add: controller_config_def RegisterService_def SetServerCert_def SetServiceObj_def controller_service_def)
  then show "Run cd' (controller_config ssl cd sys) ((1, [ev']) # batches') server' c = Undef"
    using RSADecrypt_overruns [OF assms(3)]
    by (intro Run_first_knock [OF assms(7-9)])
      (simp add: HandleUDPRequest_def UDPRecv_def MemoryCorpToObject_def const_defs Con_ConFuncUdpRecv_def DecryptVoucher_def)
qed

text \<open>The application likewise: its two tables stay ordered, and every client on record has a request.\<close>

theorem application_program_well_formed:
  assumes "Run cd application_config batches
             (ErpcServer_new i lip tcp_port udp_port (\<lambda>i. EpollDispatcher_new_application create_ret calloc_ok mk_tcp i d0))
             s = Ret (Waiting logged (d, c))" and "visist_freq_map s = []" and "last_visit_time_map s = []"
  shows "app_inv c \<and> fdmap_ok d"
proof
  show "app_inv c" by (rule application_server.inv_Run [OF assms(1)]) (simp add: app_inv_def assms(2,3))
  show "fdmap_ok d" by (rule fdmap_ok_Run [OF assms(1)]) (simp add: ErpcServer_new_def fdmap_ok_new)
qed

text \<open>A controller that accepts a connection and serves a registration on it.\<close>

definition register_codec :: codec where
  "register_codec = toy_codec\<lparr>parse_register_req := \<lambda>_. \<lparr>rq_app_list = [empty_AppItem]\<rparr>\<rparr>"

definition toy_make :: "int \<Rightarrow> make_env" where
  "toy_make n = \<lparr>mk_socket = n, mk_setsockopt = 0, mk_bind = 0, mk_listen = 0, mk_ctl = 0\<rparr>"

definition register_event :: "int \<Rightarrow> ticket_env event" where
  "register_event n = \<lparr>ev_fd = n, ev_type = EPOLLIN, ev_del_err = 0,
     ev_recv = (0, EAGAIN, \<lparr>dg_data = [], dg_ip = [], dg_port = 0\<rparr>),
     ev_accept = (8, ''1.2.3.4'', 9), ev_tls = toy_tls\<lparr>tls_accept := 1\<rparr>, ev_uninit = empty_fd_data, ev_add = 0,
     ev_read = \<lparr>io_n = 5, io_errno = EAGAIN, io_data = le32 103 @ ''r''\<rparr>, ev_writes = [(59, EAGAIN)], ev_del = 0,
     ev_env = \<lparr>te_time = \<lambda>_. 0, te_rand = \<lambda>_. 0, te_seed = \<lambda>_. 0\<rparr>\<rparr>"

lemma register_accepted:
  "\<exists>c. ssl_handle c = Some True \<and>
     HandleRPCAccept (toy_tls\<lparr>tls_accept := 1\<rparr>) cfg 8 ''1.2.3.4'' 9 x = Ret (0, \<lparr>fd = 8, event_type = EPOLLIN OR EPOLLET,
       fd_socket_info = \<lparr>si_ip = ''1.2.3.4'', si_port = 9\<rparr>, connector = Some c\<rparr>)"
  by (simp add: HandleRPCAccept_def SSLConnector_new_def SSL_Init_def SSL_LoadCertificate_def SSLAccept_def toy_tls_def Let_def)

lemma register_answered:
  assumes "connector x = Some conn" and "ssl_handle conn = Some True" and "si_ip (fd_socket_info x) = ''1.2.3.4''"
  shows "\<exists>bytes. HandleRPCRequest register_codec (controller_service ssl cd sys te) x
      \<lparr>io_n = 5, io_errno = EAGAIN, io_data = le32 103 @ ''r''\<rparr> [(59, EAGAIN)] c
    = Ret (0, bytes, grant_all [dst_of ''1.2.3.4'' empty_AppItem] (RegisterApp ''1.2.3.4'' [empty_AppItem] c))"
proof -
  have "length (le32 103 @ ''r'') = 5" by (simp add: le32_def)
  moreover have "length (PackDataToString \<lparr>p_cmdid = 103, p_header = \<lparr>ret_code = 0, ret_msg = ''Request OK''\<rparr>, p_body = ''s''\<rparr> 1) = 59"
    by (simp add: Pack_header le32_def wire_msg_def HEADER_RET_MSG_LIMIT_SIZE_def)
  ultimately show ?thesis using assms
    by (simp add: HandleRPCRequest_def HandleRead_pos ParseRequestAndForward_def Parse_no_header RequestForwardWithCmd_def
        const_defs forward_returning_zero_def RPC_CALL_FORWARD_def controller_service_def Con_ConFuncRegisterApp_def
        register_codec_def toy_codec_def empty_Packet_def Let_def HandleWrite_def)
qed

definition toy_controller_server :: ErpcServer where
  "toy_controller_server = ErpcServer_new ID_CONTROLLER IP_CONTROLLER_IN 6002 6000
     (\<lambda>i. EpollDispatcher_new 3 True (toy_make 4) (toy_make 5) i toy_dispatcher)"

lemma toy_controller_dispatcher:
  "es_dispatcher toy_controller_server = \<lparr>listen_fd = 4, udp_fd = 5, ed_id = ID_CONTROLLER,
     epoll_data = \<lparr>epollfd = 3, fdmap = [(4, fd_data_for 4), (5, fd_data_for 5)], events_allocated = True\<rparr>\<rparr>"
  by (simp add: toy_controller_server_def ErpcServer_new_def EpollDispatcher_new_def EpollDispatcher_base_def DispatcherInit_def
      MakeListenFd_def MakeUdpFd_def DispatcherAdd_def toy_make_def toy_dispatcher_def fd_data_for_def Let_def map_assign_def)

lemma register_run:
  "\<exists>logged d. Run register_codec (controller_config ssl cd sys) [(2, [register_event 4, register_event 8])] toy_controller_server c
     = Ret (Waiting logged (d, grant_all [dst_of ''1.2.3.4'' empty_AppItem] (RegisterApp ''1.2.3.4'' [empty_AppItem] c)))"
proof -
  let ?te = "\<lparr>te_time = \<lambda>_. 0, te_rand = \<lambda>_. 0, te_seed = \<lambda>_. 0\<rparr> :: ticket_env"
  let ?cfg = "controller_config ssl cd sys"
  have svc: "cfg_service (?cfg te) = controller_service ssl cd sys te" for te
    by (simp add: controller_config_def RegisterService_def SetServerCert_def SetServiceObj_def)
  let ?x = "\<lambda>conn. \<lparr>fd = 8, event_type = EPOLLIN OR EPOLLET, fd_socket_info = \<lparr>si_ip = ''1.2.3.4'', si_port = 9\<rparr>,
     connector = Some conn\<rparr>"
  obtain conn where conn: "ssl_handle conn = Some True"
      "HandleRPCAccept (toy_tls\<lparr>tls_accept := 1\<rparr>) (?cfg ?te) 8 ''1.2.3.4'' 9 empty_fd_data = Ret (0, ?x conn)"
    using register_accepted by blast
  obtain bytes where "HandleRPCRequest register_codec (controller_service ssl cd sys ?te) (?x conn)
      \<lparr>io_n = 5, io_errno = EAGAIN, io_data = le32 103 @ ''r''\<rparr> [(59, EAGAIN)] c
    = Ret (0, bytes, grant_all [dst_of ''1.2.3.4'' empty_AppItem] (RegisterApp ''1.2.3.4'' [empty_AppItem] c))"
    using register_answered [of "?x conn" conn ssl cd sys ?te c] conn(1) by (auto simp del: grant_all.simps)
  then show ?thesis
    using masks conn unfolding Run_def toy_controller_dispatcher
    by (simp add: Dispatch_def Dispatch_event_def erase_on_error_def register_event_def svc DispatcherAdd_def
        map_assign_def ID_CONTROLLER_def ID_APPLICATION_def del: grant_all.simps)
qed

theorem controller_program_well_formed_witness:
  "\<exists>logged d c. Run register_codec (controller_config toy_ssl toy_codec toy_sys) [(2, [register_event 4, register_event 8])]
       toy_controller_server (SDPController_start toy_sys (SDPControllerConfig_new toy_sys \<lparr>commands = []\<rparr>))
     = Ret (Waiting logged (d, c)) \<and> map_find ''1.2.3.4'' (con_app_map c) = Some [empty_AppItem] \<and> tables_ok c \<and> fdmap_ok d"
proof -
  let ?c = "SDPController_start toy_sys (SDPControllerConfig_new toy_sys \<lparr>commands = []\<rparr>)"
  obtain logged d where run: "Run register_codec (controller_config toy_ssl toy_codec toy_sys) [(2, [register_event 4, register_event 8])]
      toy_controller_server ?c
    = Ret (Waiting logged (d, grant_all [dst_of ''1.2.3.4'' empty_AppItem] (RegisterApp ''1.2.3.4'' [empty_AppItem] ?c)))"
    using register_run by blast
  have "map_find ''1.2.3.4'' (con_app_map (grant_all pers (RegisterApp ''1.2.3.4'' [empty_AppItem] ?c))) = Some [empty_AppItem]" for pers
    by (simp add: RegisterApp_def del: grant_all.simps)
  with controller_program_well_formed [OF run [unfolded toy_controller_server_def]] run show ?thesis by blast
qed

text \<open>The packet of a ticket of one byte, with a byte added to its signature.\<close>

definition padded_codec :: codec where
  "padded_codec = toy_codec\<lparr>parse_ticket_packet :=
     \<lambda>_. \<lparr>tp_enc_data = Some (char_of (1 :: nat) # ''t'' @ replicate 126 CHR 0x00),
          tp_md5_data = Some [char_of (1 :: nat)],
          tp_sign_data = Some ((char_of (1 :: nat) # ''t'' @ replicate 126 CHR 0x01) @ ''!'')\<rparr>\<rparr>"

theorem padded_ticket_ends_gateway_witness:
  "Run toy_codec (gateway_config toy_ssl padded_codec toy_sys) [(1, [knock_event])] toy_server toy_gateway = Throw OutOfRange"
proof (rule padded_ticket_ends_gateway [OF toy_reads toy_pairs(2) toy_reads toy_pairs(1) toy_md5])
  let ?p = "\<lparr>tp_enc_data = Some (char_of (1 :: nat) # ''t'' @ replicate 126 CHR 0x00), tp_md5_data = Some [char_of (1 :: nat)],
     tp_sign_data = Some (char_of (1 :: nat) # ''t'' @ replicate 126 CHR 0x01)\<rparr>"
  show "EncryptTicket toy_ssl padded_codec 0 empty_SPATicketPacket one_ticket RSA_PRI_KEY_CONTROLLER RSA_PUB_KEY_GATEWAY = Ret (0, ?p)"
    by (simp add: EncryptTicket_def RSAEncrypt_def RSAEncrypt_loop.simps RSASign_def RSASign_loop.simps limit_size_def
        MD5Encrypt_def toy_ssl_def toy_codec_def padded_codec_def empty_SPATicketPacket_def)
  show "parse_ticket_packet padded_codec ''s'' = ?p\<lparr>tp_sign_data := Some (get_str (tp_sign_data ?p) @ ''!'')\<rparr>"
    by (simp add: padded_codec_def)
  show "ev_recv knock_event = (int (length (le32 201 @ ''s'')), EAGAIN, \<lparr>dg_data = le32 201 @ ''s'', dg_ip = ''47.111.5.82'', dg_port = 9\<rparr>)"
    by (simp add: knock_event_def le32_def)
qed (simp_all add: padded_codec_def toy_codec_def toy_ssl_def limit_size_def toy_gate_fresh knock_event_def toy_server_def
    toy_dispatcher_def)

text \<open>A first block that decrypts to 117 bytes, where the buffer holds 86.\<close>

definition hostile_text :: string where
  "hostile_text = char_of (117 :: nat) # replicate 127 CHR ''x''"

definition hostile_codec :: codec where
  "hostile_codec = toy_codec\<lparr>
     parse_ticket_packet := \<lambda>_. \<lparr>tp_enc_data = Some hostile_text, tp_md5_data = None, tp_sign_data = None\<rparr>,
     parse_voucher_packet := \<lambda>_. \<lparr>vp_enc_data = Some hostile_text, vp_md5_data = None\<rparr>\<rparr>"

lemma hostile_overruns: "overruns toy_ssl key hostile_text"
  by (simp add: overruns_def hostile_text_def toy_ssl_def limit_size_def)

definition hostile_event :: "ticket_env event" where
  "hostile_event = register_event 5\<lparr>ev_recv := (5, EAGAIN, \<lparr>dg_data = le32 101 @ ''s'', dg_ip = ''1.2.3.4'', dg_port = 9\<rparr>)\<rparr>"

theorem hostile_knock_undefined_witness:
  "Run toy_codec (gateway_config toy_ssl hostile_codec toy_sys) [(1, [knock_event])] toy_server toy_gateway = Undef \<and>
   Run toy_codec (controller_config toy_ssl hostile_codec toy_sys) [(1, [hostile_event])] toy_server toy_controller = Undef"
proof (rule hostile_knock_undefined)
  show "ev_recv knock_event = (int (length (le32 201 @ ''s'')), EAGAIN, \<lparr>dg_data = le32 201 @ ''s'', dg_ip = ''47.111.5.82'', dg_port = 9\<rparr>)"
    by (simp add: knock_event_def le32_def)
  show "ev_recv hostile_event = (int (length (le32 101 @ ''s'')), EAGAIN, \<lparr>dg_data = le32 101 @ ''s'', dg_ip = ''1.2.3.4'', dg_port = 9\<rparr>)"
    by (simp add: hostile_event_def le32_def)
qed (simp_all add: hostile_codec_def hostile_overruns toy_gate_fresh knock_event_def hostile_event_def register_event_def
    toy_server_def toy_dispatcher_def)

end
