(* ===== verification/Client.thy ===== *)
theory Client
  imports Service CommTool ControllerService
begin

text \<open>
  The client half: \<open>ClientRPCRequest\<close> and \<open>ClientTCPRequest\<close> of \<open>erpc_handler.cpp\<close>,
  \<open>comm/erpc/erpc_client.cpp\<close>, the clients of \<open>modules/client\<close> and the requests that the
  controller itself sends (\<open>sdp_controller_tool.cpp\<close>, \<open>sdp_controller_runner.cpp\<close>).

  A network gives, for each address and port, what the system calls of one connection to it
  return; the read of a response depends on the bytes that the server got.
\<close>

section \<open>One connection\<close>

record client_env =
  ce_socket :: int
  ce_connect :: int
  ce_tls :: tls_env
  ce_writes :: "(int \<times> errno) list"
  ce_read :: "string \<Rightarrow> io_result"

type_synonym network = "string \<Rightarrow> int \<Rightarrow> client_env"

text \<open>A short or failed write is only logged.\<close>

definition ClientRPCRequest :: "client_env \<Rightarrow> Packet \<Rightarrow> Packet \<Rightarrow> SSLConnector \<Rightarrow> (int \<times> Packet) outcome" where
  "ClientRPCRequest env PacketReq PacketRsp conn =
     iAssert (ce_connect env) (Ret (-1, PacketRsp))
       (let (ret, conn) = SSLConnect (ce_tls env) (ce_socket env) conn in
        iAssert ret (Ret (-1, PacketRsp))
          (let PacketReqStr = PackDataToString PacketReq 0 in
           obind (run_loop (HandleWrite (Some conn) (ce_writes env) PacketReqStr)) (\<lambda>(ret, sent).
           obind (HandleRead (Some conn) (ce_read env sent) []) (\<lambda>(ret, PacketRspStr).
             iAssert ret (Ret (-1, PacketRsp))
               (obind (ParseDataFromString PacketRsp PacketRspStr 1) (\<lambda>(ret, PacketRsp).
                  iAssert ret (Ret (-1, PacketRsp)) (Ret (0, PacketRsp))))))))"

text \<open>
  This one ends without a \<open>return\<close>: \<open>junk\<close> is the value that an unoptimised build leaves in
  the return register.
\<close>

definition ClientTCPRequest :: "client_env \<Rightarrow> int \<Rightarrow> string \<Rightarrow> string \<Rightarrow> SSLConnector \<Rightarrow> (int \<times> string) outcome" where
  "ClientTCPRequest env junk request response conn =
     iAssert (ce_connect env) (Ret (-1, response))
       (let (ret, conn) = SSLConnect (ce_tls env) (ce_socket env) conn in
        iAssert ret (Ret (-1, response))
          (obind (run_loop (HandleWrite (Some conn) (ce_writes env) request)) (\<lambda>(ret, sent).
           obind (HandleRead (Some conn) (ce_read env sent) response) (\<lambda>(ret, response).
             iAssert ret (Ret (-1, response)) (Ret (junk, response))))))"

section \<open>The client object\<close>

record ErpcClient =
  cl_cert :: string
  cl_key :: string

text \<open>What the five RPC calls have in common, around the serialised request.\<close>

definition rpc_call ::
  "network \<Rightarrow> ErpcClient \<Rightarrow> string \<Rightarrow> int \<Rightarrow> int \<Rightarrow> string \<Rightarrow> (int \<times> Packet) outcome" where
  "rpc_call net cl ip port cmd body =
     obind (SSLConnector_new (ce_tls (net ip port)) (cl_cert cl) (cl_key cl) 0) (\<lambda>conn.
       ClientRPCRequest (net ip port) (empty_Packet\<lparr>p_cmdid := word_of_int cmd, p_body := body\<rparr>) empty_Packet conn)"

definition TestFuncReverseRequest ::
  "codec \<Rightarrow> network \<Rightarrow> ErpcClient \<Rightarrow> TestFuncReverseReq \<Rightarrow> TestFuncReverseRsp \<Rightarrow> Header \<Rightarrow>
     (int \<times> TestFuncReverseRsp \<times> Header) outcome" where
  "TestFuncReverseRequest cd net cl objReq objRsp header =
     obind (rpc_call net cl IP_CONTROLLER_PB TCP_PORT_CONTROLLER CMD_RPC_TEST_FUNC_REVERSE (ser_test_req cd objReq))
       (\<lambda>(ret, p). iAssert ret (Ret (-1, objRsp, header)) (Ret (0, parse_test_rsp cd (p_body p), p_header p)))"

definition GateFuncBlackListOpRequest ::
  "codec \<Rightarrow> network \<Rightarrow> ErpcClient \<Rightarrow> GateFuncBlackListOpReq \<Rightarrow> GateFuncBlackListOpRsp \<Rightarrow> Header \<Rightarrow>
     (int \<times> GateFuncBlackListOpRsp \<times> Header) outcome" where
  "GateFuncBlackListOpRequest cd net cl objReq objRsp header =
     obind (rpc_call net cl IP_APPGATEWAY_PB TCP_PORT_APPGATEWAY CMD_RPC_APPGATEWAY_FUNC_BLACK_LIST_OP
              (ser_blacklist_req cd objReq))
       (\<lambda>(ret, p). iAssert ret (Ret (-1, objRsp, header)) (Ret (0, parse_blacklist_rsp cd (p_body p), p_header p)))"

definition GateFuncNoticeRequest ::
  "codec \<Rightarrow> network \<Rightarrow> ErpcClient \<Rightarrow> GateFuncNoticeReq \<Rightarrow> GateFuncNoticeRsp \<Rightarrow> Header \<Rightarrow>
     (int \<times> GateFuncNoticeRsp \<times> Header) outcome" where
  "GateFuncNoticeRequest cd net cl objReq objRsp header =
     obind (rpc_call net cl IP_APPGATEWAY_PB TCP_PORT_APPGATEWAY CMD_RPC_APPGATEWAY_FUNC_NOTICE
              (ser_notice_req cd objReq))
       (\<lambda>(ret, p). iAssert ret (Ret (-1, objRsp, header)) (Ret (0, parse_notice_rsp cd (p_body p), p_header p)))"

definition ConFuncGetAccessRequest ::
  "codec \<Rightarrow> network \<Rightarrow> ErpcClient \<Rightarrow> ConFuncGetAccessReq \<Rightarrow> ConFuncGetAccessRsp \<Rightarrow> Header \<Rightarrow>
     (int \<times> ConFuncGetAccessRsp \<times> Header) outcome" where
  "ConFuncGetAccessRequest cd net cl objReq objRsp header =
     obind (rpc_call net cl IP_CONTROLLER_PB TCP_PORT_CONTROLLER CMD_RPC_CONTROLLER_FUNC_GET_ACCESS
              (ser_access_req cd objReq))
       (\<lambda>(ret, p). iAssert ret (Ret (-1, objRsp, header)) (Ret (0, parse_access_rsp cd (p_body p), p_header p)))"

definition ConFuncRegisterAppRequest ::
  "codec \<Rightarrow> network \<Rightarrow> ErpcClient \<Rightarrow> ConFuncRegisterAppReq \<Rightarrow> ConFuncRegisterAppRsp \<Rightarrow> Header \<Rightarrow>
     (int \<times> ConFuncRegisterAppRsp \<times> Header) outcome" where
  "ConFuncRegisterAppRequest cd net cl objReq objRsp header =
     obind (rpc_call net cl IP_CONTROLLER_PB TCP_PORT_CONTROLLER CMD_RPC_CONTROLLER_FUNC_REGISTER_APP
              (ser_register_req cd objReq))
       (\<lambda>(ret, p). iAssert ret (Ret (-1, objRsp, header)) (Ret (0, parse_register_rsp cd (p_body p), p_header p)))"

text \<open>The connection is looked up under the text that \<open>c_str\<close> gives.\<close>

definition AppFuncHttpsRequest ::
  "network \<Rightarrow> int \<Rightarrow> ErpcClient \<Rightarrow> string \<Rightarrow> string \<Rightarrow> string \<Rightarrow> int \<Rightarrow> (int \<times> string) outcome" where
  "AppFuncHttpsRequest net junk cl request response ip port =
     obind (SSLConnector_new (ce_tls (net (c_str ip) port)) (cl_cert cl) (cl_key cl) 0) (\<lambda>conn.
     obind (ClientTCPRequest (net (c_str ip) port) junk request response conn) (\<lambda>(ret, response).
       iAssert ret (Ret (-1, response)) (Ret (0, response))))"

text \<open>
  A datagram: \<open>udp ip port\<close> gives the results of \<open>socket\<close> and \<open>sendto\<close>. The last component is the
  datagram with its destination, if it was sent.
\<close>

type_synonym udp_network = "string \<Rightarrow> int \<Rightarrow> int \<times> int"
type_synonym sent_datagrams = "(string \<times> int \<times> string) list"

definition UDPFuncRequest :: "udp_network \<Rightarrow> int \<Rightarrow> string \<Rightarrow> string \<Rightarrow> int \<Rightarrow> int \<times> sent_datagrams" where
  "UDPFuncRequest udp cmdid msg ip port =
     (let (ret, wire) = ClientUDPRequest (fst (udp ip port)) (snd (udp ip port)) (word_of_int cmdid) msg;
          out = (case wire of None \<Rightarrow> [] | Some bytes \<Rightarrow> [(ip, port, bytes)])
      in iAssert ret (-1, out) (0, out))"

section \<open>The verifying client\<close>

definition client_credentials :: ErpcClient where
  "client_credentials = \<lparr>cl_cert = SSL_CRT_CLIENT, cl_key = SSL_KEY_CLIENT\<rparr>"

definition empty_SPAVoucherPacket :: SPAVoucherPacket where
  "empty_SPAVoucherPacket = \<lparr>vp_enc_data = None, vp_md5_data = None\<rparr>"

definition SPAKnockingController ::
  "'k openssl \<Rightarrow> codec \<Rightarrow> udp_network \<Rightarrow> nat \<Rightarrow> SPAVoucher \<Rightarrow> string \<Rightarrow> int \<Rightarrow> (int \<times> sent_datagrams) outcome" where
  "SPAKnockingController ssl cd udp seed voucher ip port =
     obind (EncryptVoucher ssl cd seed empty_SPAVoucherPacket voucher RSA_PUB_KEY_CONTROLLER) (\<lambda>(ret, packet).
       iAssert ret (Ret (-1, []))
         (let (ret, out) = UDPFuncRequest udp CMD_UDP_CONTROLLER_FUNC_RECV (ser_voucher_packet cd packet) ip port
          in iAssert ret (Ret (-1, out)) (Ret (0, out))))"

definition SPAKnockingGateway ::
  "codec \<Rightarrow> udp_network \<Rightarrow> SPATicketPacket \<Rightarrow> string \<Rightarrow> int \<Rightarrow> int \<times> sent_datagrams" where
  "SPAKnockingGateway cd udp packet ip port =
     (let (ret, out) = UDPFuncRequest udp CMD_UDP_APPGATEWAY_FUNC_RECV (ser_ticket_packet cd packet) ip port
      in iAssert ret (-1, out) (0, out))"

text \<open>
  The loop over the access list: a knock that cannot be sent ends it. Asking an item for its
  application through \<open>mutable_app\<close> creates an empty one where there is none.
\<close>

fun knock_items ::
  "codec \<Rightarrow> udp_network \<Rightarrow> AccessItem list \<Rightarrow> AccessItem list \<Rightarrow> sent_datagrams \<Rightarrow>
     int \<times> AccessItem list \<times> sent_datagrams" where
  "knock_items cd udp [] found out = (0, found, out)"
| "knock_items cd udp (item # items) found out =
     (let app = get_app (xi_app item);
          item = item\<lparr>xi_app := Some app\<rparr>;
          (ret, sent) = SPAKnockingGateway cd udp (get_ticket_packet (xi_ticket_packet item)) (get_str (xi_ip item))
                          (get_i32 (ai_gate_udp_port app))
      in iAssert ret (-1, found, out @ sent) (knock_items cd udp items (found @ [item]) (out @ sent)))"

definition GetAccessibleAppList ::
  "'k openssl \<Rightarrow> codec \<Rightarrow> network \<Rightarrow> udp_network \<Rightarrow> nat \<Rightarrow> AccessItem list \<Rightarrow> SPAVoucher \<Rightarrow>
     (int \<times> AccessItem list \<times> sent_datagrams) outcome" where
  "GetAccessibleAppList ssl cd net udp seed found voucher =
     obind (SPAKnockingController ssl cd udp seed voucher IP_CONTROLLER_PB UDP_PORT_CONTROLLER) (\<lambda>(ret, out).
       iAssert ret (Ret (-1, found, out))
         (obind (ConFuncGetAccessRequest cd net client_credentials \<lparr>gq_account = Some (get_account (v_account voucher))\<rparr>
                   \<lparr>gr_access_list = []\<rparr> \<lparr>ret_code = 0, ret_msg = []\<rparr>) (\<lambda>(ret, rsp, header).
           iAssert ret (Ret (-1, found, out))
             (let (ret, found, out) = knock_items cd udp (gr_access_list rsp) found out
              in iAssert ret (Ret (-1, found, out)) (Ret (0, found, out))))))"

section \<open>The accessing client\<close>

fun find_https :: "AccessItem list \<Rightarrow> AccessItem option" where
  "find_https [] = None"
| "find_https (item # items) =
     (if get_str (ai_appname (get_app (xi_app item))) = ''HTTPS'' then Some item else find_https items)"

definition AccessApplication_HTTPS :: "network \<Rightarrow> int \<Rightarrow> AccessItem list \<Rightarrow> (int \<times> string) outcome" where
  "AccessApplication_HTTPS net junk items =
     (case find_https items of
        None \<Rightarrow> Ret (-1, [])
      | Some item \<Rightarrow>
          obind (AppFuncHttpsRequest net junk client_credentials ''https://www.sdpverificaton.com/test'' []
                   (get_str (xi_ip item)) (get_i32 (ai_app_tcp_port (get_app (xi_app item))))) (\<lambda>(ret, response).
            iAssert ret (Ret (-1, response)) (Ret (0, response))))"

text \<open>\<open>client_test.cpp\<close>: the voucher of a user and the two clients one after the other.\<close>

definition test_voucher :: "string \<Rightarrow> int \<Rightarrow> int \<Rightarrow> string \<Rightarrow> string \<Rightarrow> SPAVoucher" where
  "test_voucher mac now rand acc passwd =
     \<lparr>v_account = Some \<lparr>a_acc = Some acc, a_pwd = Some passwd\<rparr>, v_mac = Some mac, v_address = Some ''ChengDu'',
      v_timestamp = Some (word_of_int now), v_random = Some (word_of_int (GET_RANDOM rand))\<rparr>"

definition Access_Test ::
  "'k openssl \<Rightarrow> codec \<Rightarrow> network \<Rightarrow> udp_network \<Rightarrow> nat \<Rightarrow> int \<Rightarrow> string outcome \<Rightarrow> int \<Rightarrow> int \<Rightarrow> string \<Rightarrow> string \<Rightarrow>
     (int \<times> string) outcome" where
  "Access_Test ssl cd net udp seed junk mac_address now rand acc passwd =
     obind mac_address (\<lambda>mac.
     obind (GetAccessibleAppList ssl cd net udp seed [] (test_voucher mac now rand acc passwd)) (\<lambda>(ret, items, out).
       iAssert ret (Ret (-1, []))
         (obind (AccessApplication_HTTPS net junk items) (\<lambda>(ret, response).
           iAssert ret (Ret (-1, response)) (Ret (0, response))))))"

definition client_main ::
  "'k openssl \<Rightarrow> codec \<Rightarrow> network \<Rightarrow> udp_network \<Rightarrow> nat \<Rightarrow> int \<Rightarrow> string outcome \<Rightarrow> int \<Rightarrow> int \<Rightarrow> int outcome" where
  "client_main ssl cd net udp seed junk mac_address now rand =
     obind (Access_Test ssl cd net udp seed junk mac_address now rand ''xiaoming'' ''123456'') (\<lambda>(ret, response).
       iAssert ret (Ret (-1)) (Ret 0))"

section \<open>The requests of the controller\<close>

definition controller_credentials :: ErpcClient where
  "controller_credentials = \<lparr>cl_cert = SSL_CRT_CONTROLLER, cl_key = SSL_KEY_CONTROLLER\<rparr>"

definition AddUserBlackList :: "codec \<Rightarrow> network \<Rightarrow> int \<Rightarrow> string \<Rightarrow> int \<Rightarrow> int outcome" where
  "AddUserBlackList cd net op ip port =
     obind (GateFuncBlackListOpRequest cd net controller_credentials
              \<lparr>bq_op = Some (word_of_int op), bq_ip = Some ip, bq_port = Some (word_of_int port)\<rparr>
              GateFuncBlackListOpRsp \<lparr>ret_code = 0, ret_msg = []\<rparr>) (\<lambda>(ret, rsp, header).
       iAssert ret (Ret (-1)) (Ret 0))"

text \<open>
  One round of the scanning thread: the two requests it sends, 30 seconds apart. Their results
  are only logged, and the thread repeats the round for ever.
\<close>

definition scan_add_req :: GateFuncBlackListOpReq where
  "scan_add_req = \<lparr>bq_op = Some (word_of_int IP_BLACK_LIST_ADD), bq_ip = Some IP_CLIENT_PB,
     bq_port = Some (word_of_int TCP_PORT_APPLICATION)\<rparr>"

definition scan_del_req :: GateFuncBlackListOpReq where
  "scan_del_req = scan_add_req\<lparr>bq_op := Some (word_of_int IP_BLACK_LIST_DEL)\<rparr>"

fun scanning :: "nat \<Rightarrow> GateFuncBlackListOpReq list" where
  "scanning 0 = []"
| "scanning (Suc rounds) = scan_add_req # scan_del_req # scanning rounds"

section \<open>Lemmas\<close>

lemma UDPFuncRequest_sent:
  "0 \<le> fst (udp ip port) \<Longrightarrow> 0 \<le> snd (udp ip port) \<Longrightarrow>
     UDPFuncRequest udp cmd msg ip port = (0, [(ip, port, le32 (word_of_int cmd) @ msg)])"
  by (simp add: UDPFuncRequest_def ClientUDPRequest_def UDPSend_def MemoryCopyToString_def)

text \<open>
  A connection on which the handshake succeeds, the request is written completely and the
  response is the one that a server's process gives to it.
\<close>

definition answered_by ::
  "client_env \<Rightarrow> ErpcClient \<Rightarrow> string \<Rightarrow> string \<Rightarrow> bool" where
  "answered_by env cl req reply \<longleftrightarrow>
     0 \<le> ce_connect env \<and>
     (\<exists>conn conn'. SSLConnector_new (ce_tls env) (cl_cert cl) (cl_key cl) 0 = Ret conn \<and>
        SSLConnect (ce_tls env) (ce_socket env) conn = (0, conn') \<and>
        HandleWrite (Some conn') (ce_writes env) req = Some (Ret (int (length req), req))) \<and>
     io_n (ce_read env req) = int (length reply) \<and> io_data (ce_read env req) = reply"

lemma rpc_call_answered:
  assumes "answered_by (net ip port) cl (le32 (word_of_int cmd) @ body) reply"
    and "reply = PackDataToString p 1"
  shows "rpc_call net cl ip port cmd body = Ret (0, \<lparr>p_cmdid = p_cmdid p,
     p_header = \<lparr>ret_code = ret_code (p_header p), ret_msg = wire_msg (ret_msg (p_header p))\<rparr>, p_body = p_body p\<rparr>)"
proof -
  let ?env = "net ip port"
  obtain conn conn' where conn: "SSLConnector_new (ce_tls ?env) (cl_cert cl) (cl_key cl) 0 = Ret conn"
      "SSLConnect (ce_tls ?env) (ce_socket ?env) conn = (0, conn')"
    and io: "0 \<le> ce_connect ?env"
      "HandleWrite (Some conn') (ce_writes ?env) (le32 (word_of_int cmd) @ body) =
         Some (Ret (int (length (le32 (word_of_int cmd) @ body)), le32 (word_of_int cmd) @ body))"
      "io_n (ce_read ?env (le32 (word_of_int cmd) @ body)) = int (length reply)"
      "io_data (ce_read ?env (le32 (word_of_int cmd) @ body)) = reply"
    using assms(1) by (auto simp: answered_by_def)
  have "0 < length reply" by (simp add: assms(2) Pack_header)
  then have "HandleRead (Some conn') (ce_read ?env (le32 (word_of_int cmd) @ body)) [] = Ret (int (length reply), reply)"
    using io(3,4) has_ssl_handshake(1) [of "ce_tls ?env" "ce_socket ?env" conn] by (simp add: conn(2) HandleRead_pos)
  then have "ClientRPCRequest ?env (empty_Packet\<lparr>p_cmdid := word_of_int cmd, p_body := body\<rparr>) empty_Packet conn =
      Ret (0, \<lparr>p_cmdid = p_cmdid p, p_header = \<lparr>ret_code = ret_code (p_header p), ret_msg = wire_msg (ret_msg (p_header p))\<rparr>,
               p_body = p_body p\<rparr>)"
    using conn(2) io(1,2)
    by (simp add: ClientRPCRequest_def case_prod_unfold Let_def Pack_no_header assms(2) Pack_header Parse_header)
  then show ?thesis by (simp add: rpc_call_def conn(1))
qed

lemma known_request_reply:
  assumes "ParseRequestAndForward cd svc (le32 c @ body) [] extra s = Ret (ret, reply, s')"
    and "sint c \<in> rpc_commands"
  shows "\<exists>out. RequestForwardWithCmd cd svc (sint c) body [] extra s = Ret (0, out, s') \<and>
     reply = PackDataToString \<lparr>p_cmdid = c, p_header = \<lparr>ret_code = 0, ret_msg = ''Request OK''\<rparr>, p_body = out\<rparr> 1"
proof -
  obtain r out t where f: "RequestForwardWithCmd cd svc (sint c) body [] extra s = Ret (r, out, t)"
    using assms(1) by (auto simp: ParseRequestAndForward_def Parse_no_header outcome_simps Let_def split: if_splits)
  then have "r = 0" using assms(2) by (rule forward_known [rotated])
  with f assms(1) show ?thesis
    by (auto simp: ParseRequestAndForward_def Parse_no_header Let_def empty_Packet_def)
qed

section \<open>Properties\<close>

text \<open>
  A client is always told that its call succeeded: over a connection that works, a request
  for the access list that the controller's process serves returns 0 with a header of code 0
  and exactly the response that the service method made, whatever code the method returned.
\<close>

theorem client_told_ok:
  assumes "ConFuncGetAccess svc req extra s = Ret (r, rsp, s')"
    and "ParseRequestAndForward cd svc (le32 102 @ ser_access_req cd req) [] extra s = Ret (ret, reply, s'')"
    and "answered_by (net IP_CONTROLLER_PB TCP_PORT_CONTROLLER) cl (le32 102 @ ser_access_req cd req) reply"
    and "parse_access_req cd (ser_access_req cd req) = req" and "parse_access_rsp cd (ser_access_rsp cd rsp) = rsp"
  shows "ConFuncGetAccessRequest cd net cl req rsp0 header0 =
     Ret (0, rsp, \<lparr>ret_code = 0, ret_msg = ''Request OK'' @ replicate 40 CHR 0x00\<rparr>) \<and> s'' = s'"
proof -
  have "sint (102 :: 32 word) \<in> rpc_commands" by (simp add: rpc_commands_def const_defs)
  from known_request_reply [OF assms(2) this]
  obtain out where f: "RequestForwardWithCmd cd svc 102 (ser_access_req cd req) [] extra s = Ret (0, out, s'')"
    and reply: "reply = PackDataToString \<lparr>p_cmdid = 102,
      p_header = \<lparr>ret_code = 0, ret_msg = ''Request OK''\<rparr>, p_body = out\<rparr> 1" by auto
  from f assms(1,4) have out: "out = ser_access_rsp cd rsp" "s'' = s'"
    by (simp_all add: RequestForwardWithCmd_def const_defs forward_returning_zero_def RPC_CALL_FORWARD_def)
  have "rpc_call net cl IP_CONTROLLER_PB TCP_PORT_CONTROLLER 102 (ser_access_req cd req) =
      Ret (0, \<lparr>p_cmdid = 102, p_header = \<lparr>ret_code = 0, ret_msg = wire_msg ''Request OK''\<rparr>, p_body = out\<rparr>)"
    using rpc_call_answered [OF _ reply, of net IP_CONTROLLER_PB TCP_PORT_CONTROLLER cl 102] assms(3) by simp
  then show ?thesis
    using assms(5) out
    by (simp add: ConFuncGetAccessRequest_def CMD_RPC_CONTROLLER_FUNC_GET_ACCESS_def wire_msg_def
        HEADER_RET_MSG_LIMIT_SIZE_def)
qed

definition toy_reply :: string where
  "toy_reply = PackDataToString \<lparr>p_cmdid = 102, p_header = \<lparr>ret_code = 0, ret_msg = ''Request OK''\<rparr>, p_body = ''b''\<rparr> 1"

definition toy_net :: network where
  "toy_net = (\<lambda>_ _. \<lparr>ce_socket = 3, ce_connect = 0,
     ce_tls = \<lparr>ctx_new = (\<lambda>_. True), use_certificate = (\<lambda>_. 1), use_private_key = (\<lambda>_. 1), check_private_key = 1,
               tls_new = True, tls_set_fd = (\<lambda>_. 1), tls_connect = 1, tls_accept = 1\<rparr>,
     ce_writes = [(5, EAGAIN)],
     ce_read = (\<lambda>_. \<lparr>io_n = int (length toy_reply), io_errno = EAGAIN, io_data = toy_reply\<rparr>)\<rparr>)"

theorem client_told_ok_witness:
  "ConFuncGetAccessRequest toy_codec toy_net client_credentials \<lparr>gq_account = v_account one_voucher\<rparr>
     \<lparr>gr_access_list = []\<rparr> \<lparr>ret_code = 0, ret_msg = []\<rparr> =
   Ret (0, \<lparr>gr_access_list = []\<rparr>, \<lparr>ret_code = 0, ret_msg = ''Request OK'' @ replicate 40 CHR 0x00\<rparr>)"
proof -
  let ?req = "\<lparr>gq_account = v_account one_voucher\<rparr>" and ?extra = "\<lparr>socket_info = \<lparr>si_ip = [], si_port = 0\<rparr>\<rparr>"
  have ser: "ser_access_req toy_codec ?req = ''a''" "parse_access_req toy_codec x = ?req"
      "ser_access_rsp toy_codec y = ''b''" "parse_access_rsp toy_codec x = \<lparr>gr_access_list = []\<rparr>" for x y
    by (simp_all add: toy_codec_def)
  have replies: "ConFuncGetAccess base_service ?req ?extra () = Ret (kErrServiceNotFound, \<lparr>gr_access_list = []\<rparr>, ())"
    by (simp add: base_service_def)
  have reached: "ParseRequestAndForward toy_codec base_service (le32 102 @ ser_access_req toy_codec ?req) [] ?extra ()
      = Ret (0, toy_reply, ())"
    by (simp add: ParseRequestAndForward_def Parse_no_header RequestForwardWithCmd_def const_defs ser
        forward_returning_zero_def RPC_CALL_FORWARD_def base_service_def Let_def toy_reply_def empty_Packet_def)
  have len: "length (le32 102 @ ''a'') = 5" by (simp add: le32_def)
  have answered: "answered_by (toy_net IP_CONTROLLER_PB TCP_PORT_CONTROLLER) client_credentials
      (le32 102 @ ser_access_req toy_codec ?req) toy_reply"
    using len by (simp add: answered_by_def toy_net_def ser SSLConnector_new_def SSL_Init_def SSL_LoadCertificate_def
        SSLConnect_def HandleWrite_def Let_def)
  show ?thesis
    by (rule client_told_ok [where net = toy_net, OF replies reached answered, THEN conjunct1]) (simp_all add: ser)
qed

end
