(* ===== verification/Admission.thy ===== *)
theory Admission
  imports Servers Client
begin

text \<open>
  From the client's programs through the servers' processes: the knock at the controller, the
  knock at the gateway, and the whole session of an honest client.
\<close>

section \<open>Datagrams to the servers\<close>

lemma udp_to_controller:
  "HandleUDPRequest svc (int (length (le32 101 @ msg))) err \<lparr>dg_data = le32 101 @ msg, dg_ip = ip, dg_port = port\<rparr> s =
     obind (ConFuncUdpRecv svc msg ip port s) (\<lambda>(ret, s). iAssert ret (Ret (-1, s)) (Ret (0, s)))"
  by (simp add: HandleUDPRequest_def UDPRecv_def MemoryCorpToObject_def const_defs)

lemma udp_to_gateway:
  "HandleUDPRequest svc (int (length (le32 201 @ msg))) err \<lparr>dg_data = le32 201 @ msg, dg_ip = ip, dg_port = port\<rparr> s =
     obind (GateFuncUdpRecv svc msg ip port s) (\<lambda>(ret, s). iAssert ret (Ret (-1, s)) (Ret (0, s)))"
  by (simp add: HandleUDPRequest_def UDPRecv_def MemoryCorpToObject_def const_defs)

lemma knock_accepted:
  assumes "DecryptVoucher ssl cd empty_SPAVoucher (parse_voucher_packet cd msg) RSA_PRI_KEY_CONTROLLER = Ret (0, v)"
    and "get_account (v_account v) = \<lparr>a_acc = Some acc, a_pwd = Some pwd\<rparr>"
    and "map_find acc (con_user_account_map c) = Some pwd" and "(acc, dst) \<in> allowed c"
    and "get_str (vp_md5_data (parse_voucher_packet cd msg)) \<notin> con_seen c"
  shows "Con_ConFuncUdpRecv ssl cd sys msg ip port c =
     Ret (0, con_OpWhiteList sys IP_WHITE_LIST_ADD ip
        (snd (con_QueryAndInsertMD5 (get_str (vp_md5_data (parse_voucher_packet cd msg))) c)))"
proof -
  have "CheckUserPasswd c acc pwd = 0" "CheckUserPermission_Exists c acc = 0"
    using assms(3,4) by (auto simp: Passwd_iff Exists_iff)
  moreover have "fst (con_QueryAndInsertMD5 (get_str (vp_md5_data (parse_voucher_packet cd msg))) c) = 0"
    using assms(5) by (simp add: con_cache.query_fresh)
  ultimately show ?thesis
    using assms(1,2) by (simp add: Con_ConFuncUdpRecv_def HANDLE_VERIFY_FAILD_def case_prod_unfold Let_def)
qed

text \<open>The voucher of an honest user, as the client's program sends it and the controller takes it.\<close>

lemma voucher_admitted:
  assumes "reads_keys ssl RSA_PUB_KEY_CONTROLLER pub RSA_PRI_KEY_CONTROLLER pri" and "rsa_pair ssl pub pri" and "md5_works ssl"
    and "parse_voucher cd (ser_voucher cd v) = v"
    and "\<And>p. EncryptVoucher ssl cd seed empty_SPAVoucherPacket v RSA_PUB_KEY_CONTROLLER = Ret (0, p) \<Longrightarrow>
           parse_voucher_packet cd (ser_voucher_packet cd p) = p"
    and "get_account (v_account v) = \<lparr>a_acc = Some acc, a_pwd = Some pwd\<rparr>"
    and "map_find acc (con_user_account_map c) = Some pwd" and "(acc, dst) \<in> allowed c"
    and "md5_value ssl (ser_voucher cd v) \<notin> con_seen c"
  obtains bytes where
    "SPAKnockingController ssl cd (\<lambda>_ _. (0, 0)) seed v IP_CONTROLLER_PB UDP_PORT_CONTROLLER =
       Ret (0, [(IP_CONTROLLER_PB, UDP_PORT_CONTROLLER, bytes)])"
    "HandleUDPRequest (controller_service ssl cd sys te) (int (length bytes)) err
       \<lparr>dg_data = bytes, dg_ip = ip, dg_port = port\<rparr> c =
     Ret (0, con_OpWhiteList sys IP_WHITE_LIST_ADD ip (snd (con_QueryAndInsertMD5 (md5_value ssl (ser_voucher cd v)) c)))"
proof -
  obtain p where enc: "EncryptVoucher ssl cd seed empty_SPAVoucherPacket v RSA_PUB_KEY_CONTROLLER = Ret (0, p)"
      "DecryptVoucher ssl cd empty_SPAVoucher p RSA_PRI_KEY_CONTROLLER = Ret (0, v)"
      "get_str (vp_md5_data p) = md5_value ssl (ser_voucher cd v)"
    using voucher_survives [OF assms(1-4)] by blast
  have "Con_ConFuncUdpRecv ssl cd sys (ser_voucher_packet cd p) ip port c =
      Ret (0, con_OpWhiteList sys IP_WHITE_LIST_ADD ip (snd (con_QueryAndInsertMD5 (md5_value ssl (ser_voucher cd v)) c)))"
    using knock_accepted [of ssl cd "ser_voucher_packet cd p" v acc pwd c dst] enc assms(5) [OF enc(1)] assms(6-9) by simp
  then show thesis
    using that [of "le32 101 @ ser_voucher_packet cd p"] enc(1)
    by (simp add: SPAKnockingController_def UDPFuncRequest_sent CMD_UDP_CONTROLLER_FUNC_RECV_def udp_to_controller
        controller_service_def del: length_append)
qed

text \<open>A working ticket packet, as the client's program sends it and the gateway takes it.\<close>

lemma ticket_knock:
  assumes "DecryptTicket ssl cd empty_SPATicket (parse_ticket_packet cd msg) RSA_PUB_KEY_CONTROLLER RSA_PRI_KEY_GATEWAY = Ret (0, new_ticket te k ip)"
    and "CHR 0x00 \<notin> set ip" and "0 \<le> te_time te k \<and> te_time te k + 30 < 2 ^ 32 \<and> now \<le> te_time te k + 30"
    and "\<not> gw_black g ip" and "get_str (tp_sign_data (parse_ticket_packet cd msg)) \<notin> gw_seen g"
  shows "Gate_GateFuncUdpRecv ssl cd sys now msg ip port g = Ret (0, snd (gw_OpWhiteList sys IP_WHITE_LIST_ADD ip
     (snd (gw_QueryAndInsertMD5 (get_str (tp_sign_data (parse_ticket_packet cd msg))) g))))"
proof -
  have ip: "get_str (t_ip (new_ticket te k ip)) = ip"
    using assms(2) by (simp add: new_ticket_def c_str_id)
  have "uint (word_of_int (te_time te k) + 30 :: 32 word) = te_time te k + 30"
    using assms(3) by (simp add: uint_word_ariths uint_word_of_int_eq take_bit_eq_mod)
  then have fresh: "\<not> ticket_expired (new_ticket te k ip) now"
    using assms(3) by (simp add: ticket_expired_def new_ticket_def)
  have "fst (gw_QueryAndInsertMD5 (get_str (tp_sign_data (parse_ticket_packet cd msg))) g) = 0"
    using assms(5) by (simp add: gw_cache.query_fresh)
  then show ?thesis
    using assms(1,4) ip fresh by (simp add: Gate_GateFuncUdpRecv_def case_prod_unfold Let_def)
qed

lemma ticket_admitted:
  assumes "DecryptTicket ssl cd empty_SPATicket p RSA_PUB_KEY_CONTROLLER RSA_PRI_KEY_GATEWAY = Ret (0, new_ticket te k ip)"
    and "parse_ticket_packet cd (ser_ticket_packet cd p) = p" and "CHR 0x00 \<notin> set ip"
    and "0 \<le> te_time te k \<and> te_time te k + 30 < 2 ^ 32 \<and> now \<le> te_time te k + 30"
    and "\<not> gw_black g ip" and "\<not> gw_stale g ip" and "get_str (tp_sign_data p) \<notin> gw_seen g"
  shows "\<exists>g'. HandleUDPRequest (gateway_service ssl cd sys now junk) (int (length (le32 201 @ ser_ticket_packet cd p))) err
       \<lparr>dg_data = le32 201 @ ser_ticket_packet cd p, dg_ip = ip, dg_port = port\<rparr> g = Ret (0, g') \<and> gw_listed g' ip"
proof -
  have svc: "GateFuncUdpRecv (gateway_service ssl cd sys now junk) = Gate_GateFuncUdpRecv ssl cd sys now"
    by (simp add: gateway_service_def)
  show ?thesis
    unfolding udp_to_gateway svc using ticket_knock [of ssl cd "ser_ticket_packet cd p" te k ip now g sys port] assms
    by (simp add: wl.listed_allow)
qed

lemma knock_sent:
  "SPAKnockingGateway cd (\<lambda>_ _. (0, 0)) p gate_ip gate_port = (0, [(gate_ip, gate_port, le32 201 @ ser_ticket_packet cd p)])"
  by (simp add: SPAKnockingGateway_def UDPFuncRequest_sent CMD_UDP_APPGATEWAY_FUNC_RECV_def)

section \<open>The session of an honest client\<close>

text \<open>
  What the session rests on: the key files of both servers hold pairs, and the serialiser brings
  back the messages of the session.
\<close>

definition keys_in_place :: "'k openssl \<Rightarrow> bool" where
  "keys_in_place ssl \<longleftrightarrow> md5_works ssl \<and>
     (\<exists>pub pri. reads_keys ssl RSA_PUB_KEY_CONTROLLER pub RSA_PRI_KEY_CONTROLLER pri \<and>
        rsa_pair ssl pub pri \<and> sign_pair ssl pri pub) \<and>
     (\<exists>pub pri. reads_keys ssl RSA_PUB_KEY_GATEWAY pub RSA_PRI_KEY_GATEWAY pri \<and> rsa_pair ssl pub pri)"

definition access_request :: "SPAVoucher \<Rightarrow> ConFuncGetAccessReq" where
  "access_request v = \<lparr>gq_account = Some (get_account (v_account v))\<rparr>"

definition carries_session ::
  "'k openssl \<Rightarrow> codec \<Rightarrow> nat \<Rightarrow> SPAVoucher \<Rightarrow> ticket_env \<Rightarrow> string \<Rightarrow> AccessItem list \<Rightarrow> bool" where
  "carries_session ssl cd seed v te ip items \<longleftrightarrow>
     parse_voucher cd (ser_voucher cd v) = v \<and>
     (\<forall>p. EncryptVoucher ssl cd seed empty_SPAVoucherPacket v RSA_PUB_KEY_CONTROLLER = Ret (0, p) \<longrightarrow>
        parse_voucher_packet cd (ser_voucher_packet cd p) = p) \<and>
     parse_access_req cd (ser_access_req cd (access_request v)) = access_request v \<and>
     parse_access_rsp cd (ser_access_rsp cd \<lparr>gr_access_list = items\<rparr>) = \<lparr>gr_access_list = items\<rparr> \<and>
     (\<forall>k. parse_ticket cd (ser_ticket cd (new_ticket te k ip)) = new_ticket te k ip) \<and>
     (\<forall>x \<in> set items. parse_ticket_packet cd (ser_ticket_packet cd (get_ticket_packet (xi_ticket_packet x))) =
        get_ticket_packet (xi_ticket_packet x))"

text \<open>The bytes of the controller's answer, and the datagram of one item of the access list.\<close>

definition access_reply :: "codec \<Rightarrow> AccessItem list \<Rightarrow> string" where
  "access_reply cd items = PackDataToString
     \<lparr>p_cmdid = 102, p_header = \<lparr>ret_code = 0, ret_msg = ''Request OK''\<rparr>,
      p_body = ser_access_rsp cd \<lparr>gr_access_list = items\<rparr>\<rparr> 1"

definition ticket_datagram :: "codec \<Rightarrow> AccessItem \<Rightarrow> string \<times> int \<times> string" where
  "ticket_datagram cd x = (get_str (xi_ip x), get_i32 (ai_gate_udp_port (get_app (xi_app x))),
     le32 201 @ ser_ticket_packet cd (get_ticket_packet (xi_ticket_packet x)))"

text \<open>The access list depends on the registered applications and the permissions only.\<close>

lemma access_apps_cong:
  assumes "con_permission_map c' = con_permission_map c"
  shows "access_apps ssl cd te c' acc user_ip g items k rsp = access_apps ssl cd te c acc user_ip g items k rsp"
  by (induction items arbitrary: k rsp)
    (simp_all add: CheckUserPermission_Allowed_def assms Let_def cong: if_cong)

lemma access_gateways_cong:
  assumes "con_permission_map c' = con_permission_map c"
  shows "access_gateways ssl cd te c' acc user_ip gs k rsp = access_gateways ssl cd te c acc user_ip gs k rsp"
proof (induction gs arbitrary: k rsp)
  case (Cons gi gs)
  then show ?case by (cases gi) (simp add: access_apps_cong [OF assms])
qed simp

lemma access_after_knock:
  assumes "Con_ConFuncGetAccess ssl cd te req extra c = Ret (ret, rsp, c)"
  shows "Con_ConFuncGetAccess ssl cd te req extra (con_OpWhiteList sys op ip (snd (con_QueryAndInsertMD5 md5 c))) =
     Ret (ret, rsp, con_OpWhiteList sys op ip (snd (con_QueryAndInsertMD5 md5 c)))"
proof -
  let ?c = "con_OpWhiteList sys op ip (snd (con_QueryAndInsertMD5 md5 c))"
  have same: "con_permission_map ?c = con_permission_map c" "con_app_map ?c = con_app_map c"
    by (simp_all add: con_OpWhiteList_def con_QueryAndInsertMD5_def split: option.split)
  then show ?thesis
    using assms unfolding Con_ConFuncGetAccess_def Let_def access_gateways_cong [OF same(1)] same(2)
    by (auto simp: outcome_simps)
qed

lemma access_answered:
  assumes "Con_ConFuncGetAccess ssl cd te req extra c = Ret (0, \<lparr>gr_access_list = items\<rparr>, c)"
    and "parse_access_req cd (ser_access_req cd req) = req"
  shows "ParseRequestAndForward cd (controller_service ssl cd sys te) (le32 102 @ ser_access_req cd req) [] extra c =
     Ret (0, access_reply cd items, c)"
  using assms by (simp add: ParseRequestAndForward_def Parse_no_header RequestForwardWithCmd_def const_defs
      forward_returning_zero_def RPC_CALL_FORWARD_def controller_service_def Let_def empty_Packet_def access_reply_def)

lemma access_received:
  assumes "answered_by (net IP_CONTROLLER_PB TCP_PORT_CONTROLLER) cl (le32 102 @ ser_access_req cd req) (access_reply cd items)"
    and "parse_access_rsp cd (ser_access_rsp cd \<lparr>gr_access_list = items\<rparr>) = \<lparr>gr_access_list = items\<rparr>"
  obtains header where "ConFuncGetAccessRequest cd net cl req rsp0 header0 = Ret (0, \<lparr>gr_access_list = items\<rparr>, header)"
  using rpc_call_answered [OF _ access_reply_def, of net IP_CONTROLLER_PB TCP_PORT_CONTROLLER cl 102 "ser_access_req cd req" cd items]
    assms by (simp add: ConFuncGetAccessRequest_def CMD_RPC_CONTROLLER_FUNC_GET_ACCESS_def)

lemma access_items:
  assumes "tickets_work ssl cd te ip"
    and "Con_ConFuncGetAccess ssl cd te req \<lparr>socket_info = \<lparr>si_ip = ip, si_port = port\<rparr>\<rparr> c = Ret (ret, \<lparr>gr_access_list = items\<rparr>, c')"
  shows "\<forall>x \<in> set items. xi_app x \<noteq> None \<and> good_item ssl cd te ip x"
proof -
  let ?o = "map (\<lambda>(g, i). (Some g, Some i)) (offered c (get_str (a_acc (get_account (gq_account req)))))"
  have "map (\<lambda>x. (xi_ip x, xi_app x)) items = ?o" "\<forall>x \<in> set items. good_item ssl cd te ip x"
    using GetAccess_works [of ssl cd te "\<lparr>socket_info = \<lparr>si_ip = ip, si_port = port\<rparr>\<rparr>" req c] assms by auto
  moreover have "snd y \<noteq> None" if "y \<in> set ?o" for y using that by auto
  ultimately show ?thesis by (metis (no_types, lifting) image_eqI list.set_map snd_conv)
qed

lemma knock_items_sent:
  assumes "\<forall>x \<in> set items. xi_app x \<noteq> None"
  shows "knock_items cd (\<lambda>_ _. (0, 0)) items found out = (0, found @ items, out @ map (ticket_datagram cd) items)"
  using assms by (induction items arbitrary: found out)
    (auto simp: knock_sent ticket_datagram_def get_app_def)

text \<open>The signature that the gateway remembers of an item's ticket, and the state that its knock leads to.\<close>

definition item_signature :: "AccessItem \<Rightarrow> string" where
  "item_signature x = get_str (tp_sign_data (get_ticket_packet (xi_ticket_packet x)))"

lemma item_served:
  assumes "good_item ssl cd te ip x"
    and "parse_ticket_packet cd (ser_ticket_packet cd (get_ticket_packet (xi_ticket_packet x))) = get_ticket_packet (xi_ticket_packet x)"
    and "CHR 0x00 \<notin> set ip" and "\<And>k. 0 \<le> te_time te k \<and> te_time te k + 30 < 2 ^ 32 \<and> now \<le> te_time te k + 30"
    and "\<not> gw_black g ip" and "item_signature x \<notin> gw_seen g"
  shows "let bytes = snd (snd (ticket_datagram cd x)) in
     HandleUDPRequest (gateway_service ssl cd sys now junk) (int (length bytes)) err
       \<lparr>dg_data = bytes, dg_ip = ip, dg_port = port\<rparr> g =
     Ret (0, snd (gw_OpWhiteList sys IP_WHITE_LIST_ADD ip (snd (gw_QueryAndInsertMD5 (item_signature x) g))))"
proof -
  obtain k p where p: "xi_ticket_packet x = Some p"
      "DecryptTicket ssl cd empty_SPATicket p RSA_PUB_KEY_CONTROLLER RSA_PRI_KEY_GATEWAY = Ret (0, new_ticket te k ip)"
    using assms(1) by (auto simp: good_item_def)
  have svc: "GateFuncUdpRecv (gateway_service ssl cd sys now junk) = Gate_GateFuncUdpRecv ssl cd sys now"
    by (simp add: gateway_service_def)
  have "snd (snd (ticket_datagram cd x)) = le32 201 @ ser_ticket_packet cd p" by (simp add: ticket_datagram_def p(1))
  then show ?thesis
    using ticket_knock [of ssl cd "ser_ticket_packet cd p" te k ip now g sys port] assms p
    by (simp add: udp_to_gateway svc item_signature_def del: length_append)
qed

lemma item_admitted:
  assumes "good_item ssl cd te ip x" and "ticket_datagram cd x = (gate_ip, gate_port, bytes)"
    and "parse_ticket_packet cd (ser_ticket_packet cd (get_ticket_packet (xi_ticket_packet x))) = get_ticket_packet (xi_ticket_packet x)"
    and "CHR 0x00 \<notin> set ip" and "\<And>k. 0 \<le> te_time te k \<and> te_time te k + 30 < 2 ^ 32 \<and> now \<le> te_time te k + 30"
    and "\<not> gw_black g ip" and "\<not> gw_stale g ip" and "get_str (tp_sign_data (get_ticket_packet (xi_ticket_packet x))) \<notin> gw_seen g"
  shows "\<exists>g'. HandleUDPRequest (gateway_service ssl cd sys now junk) (int (length bytes)) err
       \<lparr>dg_data = bytes, dg_ip = ip, dg_port = port\<rparr> g = Ret (0, g') \<and> gw_listed g' ip"
  using item_served [OF assms(1,3-6), of sys junk err port] assms(2,7,8)
  by (simp add: item_signature_def wl.listed_allow)

text \<open>Datagrams of one sender, served one after the other, each with its code.\<close>

fun serve_in_turn ::
  "'s ErpcService \<Rightarrow> errno \<Rightarrow> string \<Rightarrow> int \<Rightarrow> string list \<Rightarrow> 's \<Rightarrow> (int list \<times> 's) outcome" where
  "serve_in_turn svc err ip port [] s = Ret ([], s)"
| "serve_in_turn svc err ip port (d # ds) s =
     obind (HandleUDPRequest svc (int (length d)) err \<lparr>dg_data = d, dg_ip = ip, dg_port = port\<rparr> s) (\<lambda>(ret, s).
     obind (serve_in_turn svc err ip port ds s) (\<lambda>(rets, s). Ret (ret # rets, s)))"

lemma items_in_turn:
  assumes "\<And>x. x \<in> set items \<Longrightarrow> good_item ssl cd te ip x \<and>
      parse_ticket_packet cd (ser_ticket_packet cd (get_ticket_packet (xi_ticket_packet x))) = get_ticket_packet (xi_ticket_packet x)"
    and "CHR 0x00 \<notin> set ip" and "\<And>k. 0 \<le> te_time te k \<and> te_time te k + 30 < 2 ^ 32 \<and> now \<le> te_time te k + 30"
    and "distinct (map item_signature items)"
  shows "\<not> gw_black g ip \<Longrightarrow> \<not> gw_stale g ip \<Longrightarrow> item_signature ` set items \<inter> gw_seen g = {} \<Longrightarrow>
     \<exists>g'. serve_in_turn (gateway_service ssl cd sys now junk) err ip port (map (\<lambda>x. snd (snd (ticket_datagram cd x))) items) g =
         Ret (replicate (length items) 0, g') \<and> (items \<noteq> [] \<or> gw_listed g ip \<longrightarrow> gw_listed g' ip) \<and>
       gw_seen g' = gw_seen g \<union> item_signature ` set items"
  using assms(1,4)
proof (induction items arbitrary: g)
  case (Cons x items)
  let ?g = "snd (gw_OpWhiteList sys IP_WHITE_LIST_ADD ip (snd (gw_QueryAndInsertMD5 (item_signature x) g)))"
  have new: "item_signature x \<notin> gw_seen g" using Cons.prems(3) by simp
  have seen: "gw_seen ?g = insert (item_signature x) (gw_seen g)" by (simp add: gw_cache.seen_query)
  have "\<exists>g'. serve_in_turn (gateway_service ssl cd sys now junk) err ip port (map (\<lambda>x. snd (snd (ticket_datagram cd x))) items) ?g =
         Ret (replicate (length items) 0, g') \<and> (items \<noteq> [] \<or> gw_listed ?g ip \<longrightarrow> gw_listed g' ip) \<and>
       gw_seen g' = gw_seen ?g \<union> item_signature ` set items"
    by (rule Cons.IH) (use Cons.prems seen in \<open>auto simp: wl.stale_allow\<close>)
  moreover have "gw_listed ?g ip" using Cons.prems(2) by (simp add: wl.listed_allow)
  ultimately show ?case
    using item_served [of ssl cd te ip x now g sys junk err port] Cons.prems(1,4) new assms(2,3) seen
    by (auto simp: Let_def)
qed simp

section \<open>Properties\<close>

text \<open>
  An honest client gets to the controller: the datagram that the client's program sends for
  the voucher of a user with the right password and a permission is accepted by the controller's
  handler, and the client's address is then on its white list, unless the one-byte digest of the
  voucher was used before or the address is one of the initial list.
\<close>

theorem honest_knock_admitted:
  assumes "reads_keys ssl RSA_PUB_KEY_CONTROLLER pub RSA_PRI_KEY_CONTROLLER pri" and "rsa_pair ssl pub pri" and "md5_works ssl"
    and "parse_voucher cd (ser_voucher cd v) = v"
    and "\<And>p. EncryptVoucher ssl cd seed empty_SPAVoucherPacket v RSA_PUB_KEY_CONTROLLER = Ret (0, p) \<Longrightarrow>
           parse_voucher_packet cd (ser_voucher_packet cd p) = p"
    and "get_account (v_account v) = \<lparr>a_acc = Some acc, a_pwd = Some pwd\<rparr>"
    and "map_find acc (con_user_account_map c) = Some pwd" and "(acc, dst) \<in> allowed c"
    and "md5_value ssl (ser_voucher cd v) \<notin> con_seen c"
    and "\<not> stale_entry (con_whitelist c) ip (con_tcp_port c)"
  shows "\<exists>bytes c'. SPAKnockingController ssl cd (\<lambda>_ _. (0, 0)) seed v IP_CONTROLLER_PB UDP_PORT_CONTROLLER =
       Ret (0, [(IP_CONTROLLER_PB, UDP_PORT_CONTROLLER, bytes)]) \<and>
     HandleUDPRequest (controller_service ssl cd sys te) (int (length bytes)) err
       \<lparr>dg_data = bytes, dg_ip = ip, dg_port = port\<rparr> c = Ret (0, c') \<and>
     con_listed c' ip"
proof -
  obtain bytes where "SPAKnockingController ssl cd (\<lambda>_ _. (0, 0)) seed v IP_CONTROLLER_PB UDP_PORT_CONTROLLER =
       Ret (0, [(IP_CONTROLLER_PB, UDP_PORT_CONTROLLER, bytes)])"
    "HandleUDPRequest (controller_service ssl cd sys te) (int (length bytes)) err
       \<lparr>dg_data = bytes, dg_ip = ip, dg_port = port\<rparr> c = Ret (0, con_OpWhiteList sys IP_WHITE_LIST_ADD ip
         (snd (con_QueryAndInsertMD5 (md5_value ssl (ser_voucher cd v)) c)))"
    by (rule voucher_admitted [OF assms(1-9)])
  moreover have "con_listed (con_OpWhiteList sys IP_WHITE_LIST_ADD ip
         (snd (con_QueryAndInsertMD5 (md5_value ssl (ser_voucher cd v)) c))) ip"
    using assms(10) by (simp add: wl.listed_allow)
  ultimately show ?thesis by blast
qed

text \<open>
  An honest client gets through the gateway: every item of the access list that the
  controller answers with carries a ticket with which the client's datagram is accepted by the
  gateway's handler within the 30 seconds, and the client's address is then on the white list of
  the application port, unless the address is black-listed, belongs to the initial list, or the
  ticket's signature was used before.
\<close>

theorem honest_ticket_admitted:
  assumes "reads_keys ssl RSA_PUB_KEY_CONTROLLER sign_pub RSA_PRI_KEY_CONTROLLER sign_pri" and "sign_pair ssl sign_pri sign_pub"
    and "reads_keys ssl RSA_PUB_KEY_GATEWAY enc_pub RSA_PRI_KEY_GATEWAY enc_pri" and "rsa_pair ssl enc_pub enc_pri"
    and "md5_works ssl" and "\<And>k. parse_ticket cd (ser_ticket cd (new_ticket te k ip)) = new_ticket te k ip"
    and "parse_ticket_packet cd (ser_ticket_packet cd (get_ticket_packet (xi_ticket_packet x))) = get_ticket_packet (xi_ticket_packet x)"
    and "Con_ConFuncGetAccess ssl cd te req \<lparr>socket_info = \<lparr>si_ip = ip, si_port = port\<rparr>\<rparr> c = Ret (ret, \<lparr>gr_access_list = items\<rparr>, c')"
    and "x \<in> set items" and "CHR 0x00 \<notin> set ip"
    and "\<And>k. 0 \<le> te_time te k \<and> te_time te k + 30 < 2 ^ 32 \<and> now \<le> te_time te k + 30"
    and "\<not> gw_black g ip" and "\<not> gw_stale g ip" and "get_str (tp_sign_data (get_ticket_packet (xi_ticket_packet x))) \<notin> gw_seen g"
  shows "\<exists>bytes g'. SPAKnockingGateway cd (\<lambda>_ _. (0, 0)) (get_ticket_packet (xi_ticket_packet x)) gate_ip gate_port =
       (0, [(gate_ip, gate_port, bytes)]) \<and>
     HandleUDPRequest (gateway_service ssl cd sys now junk) (int (length bytes)) err
       \<lparr>dg_data = bytes, dg_ip = ip, dg_port = port'\<rparr> g = Ret (0, g') \<and>
     gw_listed g' ip"
proof -
  have "good_item ssl cd te ip x"
    using access_items [OF tickets_work_intro [OF assms(1-6)] assms(8)] assms(9) by blast
  then have "\<exists>g'. HandleUDPRequest (gateway_service ssl cd sys now junk)
       (int (length (le32 201 @ ser_ticket_packet cd (get_ticket_packet (xi_ticket_packet x))))) err
       \<lparr>dg_data = le32 201 @ ser_ticket_packet cd (get_ticket_packet (xi_ticket_packet x)), dg_ip = ip, dg_port = port'\<rparr> g
       = Ret (0, g') \<and> gw_listed g' ip"
    by (rule item_admitted [OF _ ticket_datagram_def assms(7,10-14)])
  then show ?thesis by (simp add: knock_sent)
qed

text \<open>One session, from the voucher to the tickets.\<close>

lemma session_succeeds:
  assumes "keys_in_place ssl" and "carries_session ssl cd seed v te ip items"
    and "get_account (v_account v) = \<lparr>a_acc = Some acc, a_pwd = Some pwd\<rparr>"
    and "map_find acc (con_user_account_map c) = Some pwd" and "(acc, dst) \<in> allowed c"
    and "md5_value ssl (ser_voucher cd v) \<notin> con_seen c" and "\<not> stale_entry (con_whitelist c) ip (con_tcp_port c)"
    and "Con_ConFuncGetAccess ssl cd te (access_request v) \<lparr>socket_info = \<lparr>si_ip = ip, si_port = port\<rparr>\<rparr> c =
           Ret (0, \<lparr>gr_access_list = items\<rparr>, c)"
    and "answered_by (net IP_CONTROLLER_PB TCP_PORT_CONTROLLER) client_credentials
           (le32 102 @ ser_access_req cd (access_request v)) (access_reply cd items)"
    and "CHR 0x00 \<notin> set ip" and "\<And>k. 0 \<le> te_time te k \<and> te_time te k + 30 < 2 ^ 32 \<and> now \<le> te_time te k + 30"
    and "\<not> gw_black g ip" and "\<not> gw_stale g ip"
    and "distinct (map item_signature items)" and "item_signature ` set items \<inter> gw_seen g = {}"
  shows "\<exists>voucher c1 g'.
     GetAccessibleAppList ssl cd net (\<lambda>_ _. (0, 0)) seed [] v =
       Ret (0, items, (IP_CONTROLLER_PB, UDP_PORT_CONTROLLER, voucher) # map (ticket_datagram cd) items) \<and>
     HandleUDPRequest (controller_service ssl cd sys te) (int (length voucher)) err
       \<lparr>dg_data = voucher, dg_ip = ip, dg_port = port\<rparr> c = Ret (0, c1) \<and> con_listed c1 ip \<and>
     ParseRequestAndForward cd (controller_service ssl cd sys te) (le32 102 @ ser_access_req cd (access_request v)) []
       \<lparr>socket_info = \<lparr>si_ip = ip, si_port = port\<rparr>\<rparr> c1 = Ret (0, access_reply cd items, c1) \<and>
     serve_in_turn (gateway_service ssl cd sys' now junk) err ip port (map (\<lambda>x. snd (snd (ticket_datagram cd x))) items) g =
       Ret (replicate (length items) 0, g') \<and> (items \<noteq> [] \<longrightarrow> gw_listed g' ip) \<and>
     gw_seen g' = gw_seen g \<union> item_signature ` set items"
proof -
  obtain cpub cpri gpub gpri where keys:
      "reads_keys ssl RSA_PUB_KEY_CONTROLLER cpub RSA_PRI_KEY_CONTROLLER cpri" "rsa_pair ssl cpub cpri"
      "sign_pair ssl cpri cpub" "reads_keys ssl RSA_PUB_KEY_GATEWAY gpub RSA_PRI_KEY_GATEWAY gpri"
      "rsa_pair ssl gpub gpri" "md5_works ssl"
    using assms(1) by (auto simp: keys_in_place_def)
  have carries: "parse_voucher cd (ser_voucher cd v) = v"
      "\<And>p. EncryptVoucher ssl cd seed empty_SPAVoucherPacket v RSA_PUB_KEY_CONTROLLER = Ret (0, p) \<Longrightarrow>
        parse_voucher_packet cd (ser_voucher_packet cd p) = p"
      "parse_access_req cd (ser_access_req cd (access_request v)) = access_request v"
      "parse_access_rsp cd (ser_access_rsp cd \<lparr>gr_access_list = items\<rparr>) = \<lparr>gr_access_list = items\<rparr>"
      "\<And>k. parse_ticket cd (ser_ticket cd (new_ticket te k ip)) = new_ticket te k ip"
      "\<And>x. x \<in> set items \<Longrightarrow> parse_ticket_packet cd (ser_ticket_packet cd (get_ticket_packet (xi_ticket_packet x))) =
        get_ticket_packet (xi_ticket_packet x)"
    using assms(2) by (auto simp: carries_session_def)
  let ?c1 = "con_OpWhiteList sys IP_WHITE_LIST_ADD ip (snd (con_QueryAndInsertMD5 (md5_value ssl (ser_voucher cd v)) c))"
  obtain voucher where sent: "SPAKnockingController ssl cd (\<lambda>_ _. (0, 0)) seed v IP_CONTROLLER_PB UDP_PORT_CONTROLLER =
       Ret (0, [(IP_CONTROLLER_PB, UDP_PORT_CONTROLLER, voucher)])"
    and knock: "HandleUDPRequest (controller_service ssl cd sys te) (int (length voucher)) err
       \<lparr>dg_data = voucher, dg_ip = ip, dg_port = port\<rparr> c = Ret (0, ?c1)"
    by (rule voucher_admitted [OF keys(1,2,6) carries(1,2) assms(3-6)])
  have listed: "con_listed ?c1 ip" using assms(7) by (simp add: wl.listed_allow)
  have answer: "ParseRequestAndForward cd (controller_service ssl cd sys te) (le32 102 @ ser_access_req cd (access_request v)) []
       \<lparr>socket_info = \<lparr>si_ip = ip, si_port = port\<rparr>\<rparr> ?c1 = Ret (0, access_reply cd items, ?c1)"
    by (rule access_answered [OF access_after_knock [OF assms(8)] carries(3)])
  have items: "\<forall>x \<in> set items. xi_app x \<noteq> None \<and> good_item ssl cd te ip x"
    by (rule access_items [OF tickets_work_intro [OF keys(1,3,4,5,6) carries(5)] assms(8)])
  obtain header where "ConFuncGetAccessRequest cd net client_credentials (access_request v) \<lparr>gr_access_list = []\<rparr>
       \<lparr>ret_code = 0, ret_msg = []\<rparr> = Ret (0, \<lparr>gr_access_list = items\<rparr>, header)"
    by (rule access_received [where net = net, OF assms(9) carries(4)])
  then have run: "GetAccessibleAppList ssl cd net (\<lambda>_ _. (0, 0)) seed [] v =
       Ret (0, items, (IP_CONTROLLER_PB, UDP_PORT_CONTROLLER, voucher) # map (ticket_datagram cd) items)"
    using items by (simp add: GetAccessibleAppList_def sent access_request_def knock_items_sent)
  obtain g' where "serve_in_turn (gateway_service ssl cd sys' now junk) err ip port
         (map (\<lambda>x. snd (snd (ticket_datagram cd x))) items) g = Ret (replicate (length items) 0, g')"
      "items \<noteq> [] \<or> gw_listed g ip \<longrightarrow> gw_listed g' ip" "gw_seen g' = gw_seen g \<union> item_signature ` set items"
    using items_in_turn [of items ssl cd te ip now g sys' junk err port] items carries(6) assms(10-15) by blast
  with run knock listed answer show ?thesis by blast
qed

text \<open>
  C11. An honest client's session succeeds from end to end. For a user with the right password and
  a permission, over a connection that carries the controller's answer, the client's program
  returns 0 with exactly the access list that the controller makes, having sent the voucher and
  then one datagram per item. The controller accepts the voucher, lists the client, and gives
  that answer in the state the voucher left. The gateway serves the datagrams one after the other
  within 30 seconds: it accepts every ticket, remembers its signature and lists the client.
\<close>

theorem honest_session:
  assumes "keys_in_place ssl" and "carries_session ssl cd seed v te ip items"
    and "get_account (v_account v) = \<lparr>a_acc = Some acc, a_pwd = Some pwd\<rparr>"
    and "map_find acc (con_user_account_map c) = Some pwd" and "(acc, dst) \<in> allowed c"
    and "md5_value ssl (ser_voucher cd v) \<notin> con_seen c" and "\<not> stale_entry (con_whitelist c) ip (con_tcp_port c)"
    and "Con_ConFuncGetAccess ssl cd te (access_request v) \<lparr>socket_info = \<lparr>si_ip = ip, si_port = port\<rparr>\<rparr> c =
           Ret (0, \<lparr>gr_access_list = items\<rparr>, c)"
    and "answered_by (net IP_CONTROLLER_PB TCP_PORT_CONTROLLER) client_credentials
           (le32 102 @ ser_access_req cd (access_request v)) (access_reply cd items)"
    and "CHR 0x00 \<notin> set ip" and "\<And>k. 0 \<le> te_time te k \<and> te_time te k + 30 < 2 ^ 32 \<and> now \<le> te_time te k + 30"
    and "\<not> gw_black g ip" and "\<not> gw_stale g ip"
    and "distinct (map item_signature items)" and "item_signature ` set items \<inter> gw_seen g = {}"
  shows "\<exists>voucher c1 g'.
     GetAccessibleAppList ssl cd net (\<lambda>_ _. (0, 0)) seed [] v =
       Ret (0, items, (IP_CONTROLLER_PB, UDP_PORT_CONTROLLER, voucher) # map (ticket_datagram cd) items) \<and>
     HandleUDPRequest (controller_service ssl cd sys te) (int (length voucher)) err
       \<lparr>dg_data = voucher, dg_ip = ip, dg_port = port\<rparr> c = Ret (0, c1) \<and> con_listed c1 ip \<and>
     ParseRequestAndForward cd (controller_service ssl cd sys te) (le32 102 @ ser_access_req cd (access_request v)) []
       \<lparr>socket_info = \<lparr>si_ip = ip, si_port = port\<rparr>\<rparr> c1 = Ret (0, access_reply cd items, c1) \<and>
     serve_in_turn (gateway_service ssl cd sys' now junk) err ip port (map (\<lambda>x. snd (snd (ticket_datagram cd x))) items) g =
       Ret (replicate (length items) 0, g') \<and> (items \<noteq> [] \<longrightarrow> gw_listed g' ip) \<and>
     gw_seen g' = gw_seen g \<union> item_signature ` set items"
  by (rule session_succeeds [where net = net, OF assms])

section \<open>Witnesses of the admission\<close>

definition sealed_v :: SPAVoucherPacket where
  "sealed_v = \<lparr>vp_enc_data = Some (char_of (1 :: nat) # CHR ''v'' # replicate 126 CHR 0x00),
               vp_md5_data = Some [char_of (1 :: nat)]\<rparr>"

definition sealed_t :: SPATicketPacket where
  "sealed_t = \<lparr>tp_enc_data = Some (char_of (1 :: nat) # CHR ''t'' # replicate 126 CHR 0x00),
               tp_md5_data = Some [char_of (1 :: nat)],
               tp_sign_data = Some (char_of (1 :: nat) # CHR ''t'' # replicate 126 CHR 0x01)\<rparr>"

definition toy_item :: AccessItem where
  "toy_item = \<lparr>xi_ip = Some ''106.13.211.246'', xi_app = Some (empty_AppItem\<lparr>ai_app_tcp_port := Some 6004\<rparr>),
     xi_ticket_packet = Some sealed_t\<rparr>"

definition admission_codec :: codec where
  "admission_codec = access_codec\<lparr>parse_voucher_packet := \<lambda>_. sealed_v, parse_ticket_packet := \<lambda>_. sealed_t,
     parse_access_rsp := \<lambda>_. \<lparr>gr_access_list = [toy_item]\<rparr>\<rparr>"

lemma sealed_voucher:
  "EncryptVoucher toy_ssl admission_codec seed p one_voucher f = Ret (0, p') \<longleftrightarrow> p' = sealed_v"
  by (auto simp: EncryptVoucher_def RSAEncrypt_def RSAEncrypt_loop.simps limit_size_def MD5Encrypt_def
      toy_ssl_def toy_codec_def access_codec_def admission_codec_def sealed_v_def)

lemma toy_user:
  "get_account (v_account one_voucher) = \<lparr>a_acc = Some ''xiaoming'', a_pwd = Some ''123456''\<rparr>"
  "map_find ''xiaoming'' (con_user_account_map toy_controller) = Some ''123456''"
  "(''xiaoming'', ''106.13.211.246:6004'') \<in> allowed toy_controller"
  "md5 \<notin> con_seen toy_controller"
  "\<not> stale_entry (con_whitelist toy_controller) ''1.2.3.4'' (con_tcp_port toy_controller)"
  by (simp_all add: one_voucher_def toy_controller_def SDPController_start_def SDPControllerConfig_new_def con_set_listen_info_def
      allowed_def con_seen_def stale_init const_defs)

lemma toy_gate_not_stale: "\<not> gw_stale toy_gateway ''1.2.3.4''"
  by (simp add: toy_gateway_def SDPAppGateway_start_def SDPAppGatewayConfig_new_def gw_set_listen_info_def
      Let_def stale_init const_defs)

theorem honest_knock_admitted_witness:
  "\<exists>bytes c'. HandleUDPRequest (controller_service toy_ssl admission_codec toy_sys \<lparr>te_time = \<lambda>_. 0, te_rand = \<lambda>_. 0, te_seed = \<lambda>_. 0\<rparr>)
       (int (length bytes)) EAGAIN \<lparr>dg_data = bytes, dg_ip = ''1.2.3.4'', dg_port = 9\<rparr> toy_controller = Ret (0, c') \<and>
     con_listed c' ''1.2.3.4''"
proof -
  let ?te = "\<lparr>te_time = \<lambda>_. 0, te_rand = \<lambda>_. 0, te_seed = \<lambda>_. 0\<rparr>"
  have "\<exists>bytes c'. SPAKnockingController toy_ssl admission_codec (\<lambda>_ _. (0, 0)) 0 one_voucher IP_CONTROLLER_PB UDP_PORT_CONTROLLER =
       Ret (0, [(IP_CONTROLLER_PB, UDP_PORT_CONTROLLER, bytes)]) \<and>
     HandleUDPRequest (controller_service toy_ssl admission_codec toy_sys ?te) (int (length bytes)) EAGAIN
       \<lparr>dg_data = bytes, dg_ip = ''1.2.3.4'', dg_port = 9\<rparr> toy_controller = Ret (0, c') \<and>
     con_listed c' ''1.2.3.4''"
  proof (rule honest_knock_admitted [OF toy_reads toy_pairs(1) toy_md5])
    show "(''xiaoming'', ''106.13.211.246:6004'') \<in> allowed toy_controller" by (rule toy_user)
  qed (simp_all add: sealed_voucher toy_user, simp_all add: admission_codec_def access_codec_def toy_codec_def)
  then show ?thesis by blast
qed

lemma sealed_ticket:
  "EncryptTicket toy_ssl admission_codec seed p t f f' = Ret (0, p\<lparr>tp_enc_data := tp_enc_data sealed_t,
     tp_md5_data := tp_md5_data sealed_t, tp_sign_data := tp_sign_data sealed_t\<rparr>)"
  by (simp add: EncryptTicket_def RSAEncrypt_def RSAEncrypt_loop.simps RSASign_def RSASign_loop.simps limit_size_def
      MD5Encrypt_def toy_ssl_def toy_codec_def access_codec_def admission_codec_def sealed_t_def)

definition admission_te :: ticket_env where
  "admission_te = \<lparr>te_time = \<lambda>_. 1000, te_rand = \<lambda>_. 7, te_seed = \<lambda>k. k\<rparr>"

lemma toy_access:
  "Con_ConFuncGetAccess toy_ssl admission_codec admission_te \<lparr>gq_account = v_account one_voucher\<rparr>
     \<lparr>socket_info = \<lparr>si_ip = ''1.2.3.4'', si_port = 9\<rparr>\<rparr> toy_controller
   = Ret (0, \<lparr>gr_access_list = [toy_item]\<rparr>, toy_controller)"
proof -
  have "con_app_map toy_controller = [(''106.13.211.246'', [empty_AppItem\<lparr>ai_app_tcp_port := Some 6004\<rparr>])]"
    by (simp add: toy_controller_def)
  moreover have "CheckUserPermission_Allowed toy_controller ''xiaoming''
      (dst_of ''106.13.211.246'' (empty_AppItem\<lparr>ai_app_tcp_port := Some 6004\<rparr>)) = 0"
    by (simp add: CheckUserPermission_Allowed_def toy_controller_def dst_of_def to_string_def port_6004)
  ultimately show ?thesis
    by (simp add: Con_ConFuncGetAccess_def one_voucher_def sealed_ticket toy_item_def Let_def empty_SPATicketPacket_def
        sealed_t_def)
qed

theorem honest_ticket_admitted_witness:
  "\<exists>bytes g'. HandleUDPRequest (gateway_service toy_ssl admission_codec toy_sys 1020 0) (int (length bytes)) EAGAIN
       \<lparr>dg_data = bytes, dg_ip = ''1.2.3.4'', dg_port = 9\<rparr> toy_gateway = Ret (0, g') \<and> gw_listed g' ''1.2.3.4''"
proof -
  have "\<exists>bytes g'. SPAKnockingGateway admission_codec (\<lambda>_ _. (0, 0)) (get_ticket_packet (xi_ticket_packet toy_item))
       IP_APPGATEWAY_PB UDP_PORT_APPGATEWAY = (0, [(IP_APPGATEWAY_PB, UDP_PORT_APPGATEWAY, bytes)]) \<and>
     HandleUDPRequest (gateway_service toy_ssl admission_codec toy_sys 1020 0) (int (length bytes)) EAGAIN
       \<lparr>dg_data = bytes, dg_ip = ''1.2.3.4'', dg_port = 9\<rparr> toy_gateway = Ret (0, g') \<and> gw_listed g' ''1.2.3.4''"
  proof (rule honest_ticket_admitted [OF toy_reads toy_pairs(2) toy_reads toy_pairs(1) toy_md5 _ _ toy_access])
    show "parse_ticket admission_codec (ser_ticket admission_codec (new_ticket admission_te k ''1.2.3.4'')) =
        new_ticket admission_te k ''1.2.3.4''" for k
      by (simp add: admission_codec_def access_codec_def toy_codec_def new_ticket_def c_str_def GET_RANDOM_def admission_te_def)
    show "parse_ticket_packet admission_codec (ser_ticket_packet admission_codec (get_ticket_packet (xi_ticket_packet toy_item)))
        = get_ticket_packet (xi_ticket_packet toy_item)"
      by (simp add: admission_codec_def toy_item_def)
  qed (simp_all add: toy_gate_fresh toy_gate_not_stale admission_te_def)
  then show ?thesis by blast
qed

lemma toy_session:
  "keys_in_place toy_ssl"
  "carries_session toy_ssl admission_codec 0 one_voucher admission_te ''1.2.3.4'' [toy_item]"
  "answered_by (toy_net IP_CONTROLLER_PB TCP_PORT_CONTROLLER) client_credentials
     (le32 102 @ ser_access_req admission_codec (access_request one_voucher)) (access_reply admission_codec [toy_item])"
proof -
  show "keys_in_place toy_ssl" using toy_reads toy_pairs toy_md5 by (auto simp: keys_in_place_def)
  show "carries_session toy_ssl admission_codec 0 one_voucher admission_te ''1.2.3.4'' [toy_item]"
    by (simp add: carries_session_def sealed_voucher)
      (simp add: admission_codec_def access_codec_def toy_codec_def new_ticket_def c_str_def GET_RANDOM_def admission_te_def
        toy_item_def access_request_def one_voucher_def get_account_def)
  have "access_reply admission_codec [toy_item] = toy_reply"
    by (simp add: access_reply_def toy_reply_def admission_codec_def access_codec_def toy_codec_def)
  moreover have "ser_access_req admission_codec r = ''a''" "length (le32 102 @ ''a'') = 5" for r
    by (simp_all add: admission_codec_def access_codec_def toy_codec_def le32_def)
  ultimately show "answered_by (toy_net IP_CONTROLLER_PB TCP_PORT_CONTROLLER) client_credentials
     (le32 102 @ ser_access_req admission_codec (access_request one_voucher)) (access_reply admission_codec [toy_item])"
    by (simp add: answered_by_def toy_net_def SSLConnector_new_def SSL_Init_def SSL_LoadCertificate_def
        SSLConnect_def HandleWrite_def Let_def)
qed

lemma toy_access_request:
  "Con_ConFuncGetAccess toy_ssl admission_codec admission_te (access_request one_voucher)
     \<lparr>socket_info = \<lparr>si_ip = ''1.2.3.4'', si_port = 9\<rparr>\<rparr> toy_controller = Ret (0, \<lparr>gr_access_list = [toy_item]\<rparr>, toy_controller)"
  using toy_access by (simp add: access_request_def one_voucher_def get_account_def)

theorem honest_session_witness:
  "\<exists>voucher g'. GetAccessibleAppList toy_ssl admission_codec toy_net (\<lambda>_ _. (0, 0)) 0 [] one_voucher =
     Ret (0, [toy_item], [(IP_CONTROLLER_PB, UDP_PORT_CONTROLLER, voucher), (''106.13.211.246'', 0, le32 201 @ ''q'')]) \<and>
   serve_in_turn (gateway_service toy_ssl admission_codec toy_sys 1020 0) EAGAIN ''1.2.3.4'' 9 [le32 201 @ ''q''] toy_gateway =
     Ret ([0], g') \<and> gw_listed g' ''1.2.3.4''"
proof -
  have hyps: "\<not> gw_black toy_gateway ''1.2.3.4''" "\<And>k. 0 \<le> te_time admission_te k \<and> te_time admission_te k + 30 < 2 ^ 32 \<and> 1020 \<le> te_time admission_te k + 30"
    "CHR 0x00 \<notin> set ''1.2.3.4''" "distinct (map item_signature [toy_item])" "item_signature ` set [toy_item] \<inter> gw_seen toy_gateway = {}"
    by (simp_all add: toy_gate_fresh admission_te_def)
  note session = honest_session [where net = toy_net and now = 1020 and sys' = toy_sys and junk = 0 and err = EAGAIN,
      OF toy_session(1,2) toy_user toy_access_request toy_session(3) hyps(3,2,1) toy_gate_not_stale hyps(4,5)]
  have "ticket_datagram admission_codec toy_item = (''106.13.211.246'', 0, le32 201 @ ''q'')"
    by (simp add: ticket_datagram_def toy_item_def admission_codec_def access_codec_def toy_codec_def get_app_def empty_AppItem_def)
  then show ?thesis using session by (simp del: serve_in_turn.simps) blast
qed

end
