(* ===== verification/SslSpec.thy ===== *)
theory SslSpec
  imports SslTools
begin

text \<open>
  What the block loops of \<open>SslTools\<close> compute, without loops: the text is cut into blocks, each
  block goes through the primitive, and the results are put together.
\<close>

section \<open>Blocks\<close>

text \<open>The blocks of \<open>l\<close> bytes of a text; the last one may be shorter.\<close>

fun chunks :: "nat \<Rightarrow> 'a list \<Rightarrow> 'a list list" where
  "chunks l xs = (if l = 0 \<or> xs = [] then [] else take l xs # chunks l (drop l xs))"

declare chunks.simps [simp del]

lemma chunks_Nil [simp]: "chunks l [] = []"
  by (simp add: chunks.simps)

lemma chunks_Cons: "0 < l \<Longrightarrow> xs \<noteq> [] \<Longrightarrow> chunks l xs = take l xs # chunks l (drop l xs)"
  by (subst chunks.simps) simp

lemma chunks_one: "xs \<noteq> [] \<Longrightarrow> length xs \<le> l \<Longrightarrow> chunks l xs = [xs]"
  using chunks_Cons [of l xs] by (cases "l = 0") simp_all

lemma concat_chunks: "0 < l \<Longrightarrow> concat (chunks l xs) = xs"
proof (induction l xs rule: chunks.induct)
  case (1 l xs)
  then show ?case using chunks_Cons [of l xs] by (cases "xs = []") simp_all
qed

lemma chunks_eq_Nil [simp]: "0 < l \<Longrightarrow> chunks l xs = [] \<longleftrightarrow> xs = []"
  using chunks_Cons [of l xs] by (cases "xs = []") simp_all

section \<open>The reference\<close>

text \<open>Encryption numbers its random paddings and stops at the first block that fails.\<close>

fun encrypt_blocks :: "'k openssl \<Rightarrow> 'k \<Rightarrow> nat \<Rightarrow> string list \<Rightarrow> string \<Rightarrow> int \<times> string" where
  "encrypt_blocks ssl rsa seed [] out = (0, out)"
| "encrypt_blocks ssl rsa seed (b # bs) out =
     (case pub_enc ssl rsa seed b of
        None \<Rightarrow> (-1, out)
      | Some c \<Rightarrow> encrypt_blocks ssl rsa (Suc seed) bs (out @ c))"

fun decrypt_blocks :: "'k openssl \<Rightarrow> 'k \<Rightarrow> string list \<Rightarrow> string \<Rightarrow> (int \<times> string) outcome" where
  "decrypt_blocks ssl rsa [] out = Ret (0, out)"
| "decrypt_blocks ssl rsa (c # cs) out =
     (case pri_dec ssl rsa c of
        None \<Rightarrow> Ret (-1, out)
      | Some p \<Rightarrow> if limit_size ssl rsa < int (length p) then Undef else decrypt_blocks ssl rsa cs (out @ p))"

definition sign_block :: "'k openssl \<Rightarrow> 'k \<Rightarrow> string \<Rightarrow> string" where
  "sign_block ssl rsa b = (case rsa_sign ssl rsa b of None \<Rightarrow> [] | Some s \<Rightarrow> s)"

text \<open>The blocks of a text against those of a signature, as far as the shorter of the two goes.\<close>

definition verify_blocks :: "'k openssl \<Rightarrow> 'k \<Rightarrow> string list \<Rightarrow> string list \<Rightarrow> bool" where
  "verify_blocks ssl rsa bs ss \<longleftrightarrow> (\<forall>(b, s) \<in> set (zip bs ss). rsa_verify ssl rsa b s)"

section \<open>The loops meet the reference\<close>

lemma encrypt_loop_blocks:
  assumes "42 < rsa_size ssl rsa"
  shows "RSAEncrypt_loop ssl rsa seed src out =
     Some (Ret (encrypt_blocks ssl rsa seed (chunks (rsa_size ssl rsa - 42) src) out))"
proof (induction src arbitrary: seed out rule: length_induct)
  case (1 src)
  define l where "l = rsa_size ssl rsa - 42"
  have l: "limit_size ssl rsa = int l" "0 < l" using assms by (simp_all add: limit_size_pos l_def)
  consider "src = []" | "src \<noteq> []" "length src \<le> l" | "src \<noteq> []" "l < length src" by linarith
  then show ?case
  proof cases
    case 3
    then have "length (drop l src) < length src" using l by simp
    with "1" show ?thesis
      using 3 l chunks_Cons [OF l(2) 3(1)]
      by (subst RSAEncrypt_loop.simps) (auto simp: l_def [symmetric] split: option.split)
  qed (use l in \<open>subst RSAEncrypt_loop.simps; auto simp: chunks_one l_def [symmetric] split: option.split\<close>)+
qed

lemma sign_loop_blocks:
  assumes "42 < rsa_size ssl rsa"
  shows "RSASign_loop ssl rsa src out =
     Some (Ret (0, out @ concat (map (sign_block ssl rsa) (chunks (rsa_size ssl rsa - 42) src))))"
proof (induction src arbitrary: out rule: length_induct)
  case (1 src)
  define l where "l = rsa_size ssl rsa - 42"
  have l: "limit_size ssl rsa = int l" "0 < l" using assms by (simp_all add: limit_size_pos l_def)
  consider "src = []" | "src \<noteq> []" "length src \<le> l" | "src \<noteq> []" "l < length src" by linarith
  then show ?case
  proof cases
    case 3
    then have "length (drop l src) < length src" using l by simp
    with "1" show ?thesis
      using 3 l chunks_Cons [OF l(2) 3(1)]
      by (subst RSASign_loop.simps) (simp add: l_def [symmetric] sign_block_def [symmetric] Let_def)
  qed (use l in \<open>subst RSASign_loop.simps; auto simp: chunks_one l_def [symmetric] sign_block_def Let_def\<close>)+
qed

lemma decrypt_loop_blocks:
  assumes "42 < rsa_size ssl rsa" and "rsa_size ssl rsa dvd length src"
  shows "RSADecrypt_loop ssl rsa src out = Some (decrypt_blocks ssl rsa (chunks (rsa_size ssl rsa) src) out)"
  using assms(2)
proof (induction src arbitrary: out rule: length_induct)
  case (1 src)
  let ?n = "rsa_size ssl rsa"
  show ?case
  proof (cases "src = []")
    case False
    with "1.prems" have n: "?n \<le> length src" by (simp add: dvd_imp_le)
    have "length (drop ?n src) < length src" "?n dvd length (drop ?n src)"
      using False assms(1) "1.prems" n by (simp_all add: diff_less)
    with "1.IH" show ?thesis
      using False n assms(1) chunks_Cons [of ?n src] by (subst RSADecrypt_loop.simps) (auto split: option.split)
  qed (simp add: RSADecrypt_loop.simps)
qed

text \<open>
  A signature of \<open>k\<close> whole blocks, no more than the text has: the loop compares block by block and
  never looks past the last block of the signature.
\<close>

lemma verify_loop_blocks:
  assumes "42 < rsa_size ssl rsa"
  shows "length sig = Suc k * rsa_size ssl rsa \<Longrightarrow> Suc k \<le> length (chunks (rsa_size ssl rsa - 42) src) \<Longrightarrow>
     RSAVerify_loop ssl rsa src sig =
       Some (Ret (verify_blocks ssl rsa (chunks (rsa_size ssl rsa - 42) src) (chunks (rsa_size ssl rsa) sig)))"
proof (induction k arbitrary: src sig)
  let ?n = "rsa_size ssl rsa"
  define l where "l = ?n - 42"
  have l: "limit_size ssl rsa = int l" "0 < l" using assms by (simp_all add: limit_size_pos l_def)
  {
    case 0
    then have "sig \<noteq> []" "src \<noteq> []" using assms by auto
    moreover from this have "chunks ?n sig = [sig]" using 0 by (intro chunks_one) simp_all
    moreover obtain bs where "chunks l src = take l src # bs" using chunks_Cons [OF l(2) \<open>src \<noteq> []\<close>] by blast
    ultimately show ?case using 0 l
      by (subst RSAVerify_loop.simps) (simp add: verify_blocks_def l_def [symmetric])
  next
    case (Suc k)
    then have src: "src \<noteq> []" by auto
    have sig: "chunks ?n sig = take ?n sig # chunks ?n (drop ?n sig)" "?n < length sig"
      using Suc.prems(1) assms by (auto intro!: chunks_Cons)
    have cs: "chunks l src = take l src # chunks l (drop l src)" using l(2) src by (rule chunks_Cons)
    then have more: "drop l src \<noteq> []" using Suc.prems(2) by (auto simp: l_def [symmetric])
    have "RSAVerify_loop ssl rsa (drop l src) (drop ?n sig) =
        Some (Ret (verify_blocks ssl rsa (chunks l (drop l src)) (chunks ?n (drop ?n sig))))"
      unfolding l_def by (rule Suc.IH) (use Suc.prems cs in \<open>simp_all add: l_def [symmetric]\<close>)
    then show ?case
      using src sig l more by (subst RSAVerify_loop.simps) (simp add: verify_blocks_def l_def [symmetric] cs)
  }
qed

section \<open>Properties\<close>

text \<open>
  C25. The block loops compute their block-wise reference: for a key of more than 42 bytes,
  encryption and signing treat the blocks of the text in order and put the results together,
  decryption those of the ciphertext, and verification accepts exactly when each block of the
  signature verifies the block of the text in its place, whatever comes after.
\<close>

theorem rsa_loops_blockwise:
  assumes "fopen_ok ssl key" and "read_pub ssl key = Some pub" and "read_pri ssl key' = Some pri" and "fopen_ok ssl key'"
    and "42 < rsa_size ssl pub" and "42 < rsa_size ssl pri"
    and "rsa_size ssl pri dvd length c"
    and "length sig = Suc k * rsa_size ssl pub" and "Suc k \<le> length (chunks (rsa_size ssl pub - 42) msg)"
  shows "RSAEncrypt ssl seed msg key = Ret (encrypt_blocks ssl pub seed (chunks (rsa_size ssl pub - 42) msg) []) \<and>
     RSADecrypt ssl c key' = decrypt_blocks ssl pri (chunks (rsa_size ssl pri) c) [] \<and>
     RSASign ssl msg key' = Ret (0, concat (map (sign_block ssl pri) (chunks (rsa_size ssl pri - 42) msg))) \<and>
     RSAVerify ssl sig msg key =
       Ret (if verify_blocks ssl pub (chunks (rsa_size ssl pub - 42) msg) (chunks (rsa_size ssl pub) sig) then 0 else -1)"
  using assms encrypt_loop_blocks [OF assms(5)] sign_loop_blocks [OF assms(6)] decrypt_loop_blocks [OF assms(6,7)]
    verify_loop_blocks [OF assms(5,8,9)] limit_size_pos [OF assms(6)]
  by (simp add: RSAEncrypt_def RSADecrypt_def RSASign_def RSAVerify_def)

theorem rsa_loops_blockwise_witness:
  "RSAVerify toy_ssl (CHR ''s'' # replicate 127 CHR 0x01) (replicate 87 CHR ''x'') ''pub'' = Ret (-1)"
proof -
  have c: "chunks 86 (replicate 87 CHR ''x'') = [replicate 86 CHR ''x'', ''x'']"
    using chunks_Cons [of 86 "replicate 87 CHR ''x''"] chunks_one [of "''x''" 86] by (simp add: numeral_eq_Suc)
  have "RSAVerify toy_ssl (CHR ''s'' # replicate 127 CHR 0x01) (replicate 87 CHR ''x'') ''pub'' =
      Ret (if verify_blocks toy_ssl () (chunks (rsa_size toy_ssl () - 42) (replicate 87 CHR ''x''))
                (chunks (rsa_size toy_ssl ()) (CHR ''s'' # replicate 127 CHR 0x01)) then 0 else -1)"
    using rsa_loops_blockwise [of toy_ssl "''pub''" "()" "''pri''" "()" "[]" "CHR ''s'' # replicate 127 CHR 0x01" 0
        "replicate 87 CHR ''x''" 0] c
    by (simp add: toy_ssl_def)
  moreover have "\<not> verify_blocks toy_ssl () (chunks (rsa_size toy_ssl () - 42) (replicate 87 CHR ''x''))
                (chunks (rsa_size toy_ssl ()) (CHR ''s'' # replicate 127 CHR 0x01))"
    by (simp add: toy_ssl_def c chunks_one verify_blocks_def char_of_def)
  ultimately show ?thesis by simp
qed

end
