(* ===== verification/Authorization.thy ===== *)
theory Authorization
  imports Admission SslSpec
begin

text \<open>
  The controller, the gateway and the application behind it as one system, among hosts that may send
  them anything: which hosts get through the gateway's firewall. What the network cannot do is said by the rules of the
  relation: pass a firewall that is not open, and forge a signature of the controller.
\<close>

section \<open>The system\<close>

text \<open>
  What can happen, in the order in which it happens. Each event is recorded with the code that its
  handler returned, a request for the access list with its answer too.
\<close>

datatype sys_event =
    ConKnock string string int
  | ConConnect string
  | ConAccess ConFuncGetAccessReq string int ticket_env "AccessItem list"
  | ConRegister ConFuncRegisterAppReq string int
  | Gateway gate_event
  | AppConnect string
  | AppRequest string string int string

type_synonym sys_trace = "(sys_event \<times> int) list"

text \<open>
  The tickets that the controller makes for one request, by the host they are made out to and the
  account they are made for: one per item of the answer, in order.
\<close>

fun issued_by :: "sys_event \<Rightarrow> (string \<times> string \<times> SPATicket) set" where
  "issued_by (ConAccess req ip port te items) =
     {(ip, get_str (a_acc (get_account (gq_account req))), new_ticket te k ip) |k. k < length items}"
| "issued_by _ = {}"

definition issued :: "sys_trace \<Rightarrow> (string \<times> string \<times> SPATicket) set" where
  "issued tr = (\<Union>e \<in> set tr. issued_by (fst e))"

text \<open>
  Signatures are not forged: the first signature of a ticket packet verifies no block that is not a
  block of a ticket the controller has made before.
\<close>

fun unforged :: "'k openssl \<Rightarrow> codec \<Rightarrow> sys_trace \<Rightarrow> gate_event \<Rightarrow> bool" where
  "unforged ssl cd tr (GateKnock msg ip port now) \<longleftrightarrow>
     (\<forall>pub b. read_pub ssl RSA_PUB_KEY_CONTROLLER = Some pub \<longrightarrow>
        rsa_verify ssl pub b (take (rsa_size ssl pub) (get_str (tp_sign_data (parse_ticket_packet cd msg)))) \<longrightarrow>
        (\<exists>(h, acc, t) \<in> issued tr. b \<in> set (chunks (rsa_size ssl pub - 42) (ser_ticket cd t))))"
| "unforged ssl cd tr _ \<longleftrightarrow> True"

text \<open>
  A connection needs an open port at the moment it is made, and its requests may be served at any
  time after; the application runs on the gateway's host, behind the gateway's firewall. Orders and
  notices may reach the gateway from anywhere and at any time. Addresses come from
  \<open>inet_ntoa\<close>: they contain no zero.
\<close>

inductive sys_run ::
  "'k openssl \<Rightarrow> codec \<Rightarrow> system_call \<Rightarrow> system_call \<Rightarrow> int \<Rightarrow>
     sys_trace \<Rightarrow> SDPControllerConfig \<Rightarrow> SDPAppGatewayConfig \<Rightarrow> SDPApplicationConfig \<Rightarrow> bool"
  for ssl cd sys sys' junk where
  sys_start: "sys_run ssl cd sys sys' junk []
     (SDPController_start sys (SDPControllerConfig_new sys \<lparr>commands = []\<rparr>))
     (SDPAppGateway_start sys' (SDPAppGatewayConfig_new sys' \<lparr>commands = []\<rparr>)) SDPApplicationConfig_new"
| sys_knock: "sys_run ssl cd sys sys' junk tr c g a \<Longrightarrow> Con_ConFuncUdpRecv ssl cd sys msg ip port c = Ret (ret, c') \<Longrightarrow>
     sys_run ssl cd sys sys' junk (tr @ [(ConKnock msg ip port, ret)]) c' g a"
| sys_connect: "sys_run ssl cd sys sys' junk tr c g a \<Longrightarrow> 0 < net_opened (con_whitelist c) ip (con_tcp_port c) \<Longrightarrow>
     CHR 0x00 \<notin> set ip \<Longrightarrow> sys_run ssl cd sys sys' junk (tr @ [(ConConnect ip, 0)]) c g a"
| sys_access: "sys_run ssl cd sys sys' junk tr c g a \<Longrightarrow> (ConConnect ip, 0) \<in> set tr \<Longrightarrow>
     Con_ConFuncGetAccess ssl cd te req \<lparr>socket_info = \<lparr>si_ip = ip, si_port = port\<rparr>\<rparr> c = Ret (ret, rsp, c') \<Longrightarrow>
     sys_run ssl cd sys sys' junk (tr @ [(ConAccess req ip port te (gr_access_list rsp), ret)]) c' g a"
| sys_register: "sys_run ssl cd sys sys' junk tr c g a \<Longrightarrow> (ConConnect ip, 0) \<in> set tr \<Longrightarrow>
     Con_ConFuncRegisterApp rreq \<lparr>socket_info = \<lparr>si_ip = ip, si_port = port\<rparr>\<rparr> c = Ret (ret, rrsp, c') \<Longrightarrow>
     sys_run ssl cd sys sys' junk (tr @ [(ConRegister rreq ip port, ret)]) c' g a"
| sys_gateway: "sys_run ssl cd sys sys' junk tr c g a \<Longrightarrow> gate_step ssl cd sys' junk g e ret g' \<Longrightarrow> unforged ssl cd tr e \<Longrightarrow>
     sys_run ssl cd sys sys' junk (tr @ [(Gateway e, ret)]) c g' a"
| sys_visit: "sys_run ssl cd sys sys' junk tr c g a \<Longrightarrow> 0 < net_opened (gw_whitelist g) ip TCP_PORT_APPLICATION \<Longrightarrow>
     ip \<noteq> [] \<Longrightarrow> sys_run ssl cd sys sys' junk (tr @ [(AppConnect ip, 0)]) c g a"
| sys_request: "sys_run ssl cd sys sys' junk tr c g a \<Longrightarrow> (AppConnect ip, 0) \<in> set tr \<Longrightarrow>
     App_AppFuncHttps env request \<lparr>socket_info = \<lparr>si_ip = ip, si_port = port\<rparr>\<rparr> a = Ret (ret, out, a') \<Longrightarrow>
     sys_run ssl cd sys sys' junk (tr @ [(AppRequest request ip port out, ret)]) c g a'"

inductive_cases sys_run_snocE: "sys_run ssl cd sys sys' junk (tr @ [e]) c g a"

section \<open>Lemmas\<close>

text \<open>\<open>issued_by\<close> misses no ticket: every packet of an answer was made from one of its tickets.\<close>

lemma access_apps_made:
  assumes "access_apps ssl cd te c acc user_ip g items k rsp = Ret (ret, k', rsp')"
  shows "\<exists>new. rsp' = rsp @ new \<and> k' = k + length new \<and>
     (\<forall>n < length new. \<forall>p. xi_ticket_packet (new ! n) = Some p \<longrightarrow>
        EncryptTicket ssl cd (te_seed te (k + n)) empty_SPATicketPacket (new_ticket te (k + n) user_ip)
          RSA_PRI_KEY_CONTROLLER RSA_PUB_KEY_GATEWAY = Ret (0, p))"
  using assms
proof (induction items arbitrary: k rsp)
  case (Cons i items)
  show ?case
  proof (cases "CheckUserPermission_Allowed c acc (dst_of g i) = 0")
    case True
    let ?x = "\<lparr>xi_ip = Some g, xi_app = Some i, xi_ticket_packet = None\<rparr>"
    obtain r p where enc: "EncryptTicket ssl cd (te_seed te k) empty_SPATicketPacket (new_ticket te k user_ip)
          RSA_PRI_KEY_CONTROLLER RSA_PUB_KEY_GATEWAY = Ret (r, p)"
      using Cons.prems True by (auto simp: Let_def outcome_simps)
    show ?thesis
    proof (cases "0 \<le> r")
      case False
      then show ?thesis using Cons.prems True enc by (intro exI [of _ "[?x]"]) (simp add: Let_def)
    next
      case ok: True
      then have "access_apps ssl cd te c acc user_ip g items (Suc k) (rsp @ [?x\<lparr>xi_ticket_packet := Some p\<rparr>]) = Ret (ret, k', rsp')"
        using Cons.prems True enc by (simp add: Let_def)
      from Cons.IH [OF this] obtain new where new: "rsp' = (rsp @ [?x\<lparr>xi_ticket_packet := Some p\<rparr>]) @ new" "k' = Suc k + length new"
          "\<forall>n < length new. \<forall>q. xi_ticket_packet (new ! n) = Some q \<longrightarrow>
             EncryptTicket ssl cd (te_seed te (Suc k + n)) empty_SPATicketPacket (new_ticket te (Suc k + n) user_ip)
               RSA_PRI_KEY_CONTROLLER RSA_PUB_KEY_GATEWAY = Ret (0, q)" by blast
      moreover have "r = 0" using enc ok by (rule EncryptTicket_ret)
      ultimately show ?thesis
        using enc by (intro exI [of _ "?x\<lparr>xi_ticket_packet := Some p\<rparr> # new"]) (auto simp: nth_Cons less_Suc_eq_0_disj split: nat.split)
    qed
  qed (use Cons in \<open>simp add: Let_def\<close>)
qed simp

lemma access_gateways_made:
  assumes "access_gateways ssl cd te c acc user_ip gs k rsp = Ret (ret, k', rsp')"
  shows "\<exists>new. rsp' = rsp @ new \<and> k' = k + length new \<and>
     (\<forall>n < length new. \<forall>p. xi_ticket_packet (new ! n) = Some p \<longrightarrow>
        EncryptTicket ssl cd (te_seed te (k + n)) empty_SPATicketPacket (new_ticket te (k + n) user_ip)
          RSA_PRI_KEY_CONTROLLER RSA_PUB_KEY_GATEWAY = Ret (0, p))"
  using assms
proof (induction gs arbitrary: k rsp)
  case (Cons gi gs)
  obtain g items where gi: "gi = (g, items)" by (cases gi)
  obtain r k1 rsp1 where 1: "access_apps ssl cd te c acc user_ip g items k rsp = Ret (r, k1, rsp1)"
    using Cons.prems by (auto simp: gi outcome_simps)
  note apps = access_apps_made [OF this]
  show ?case
  proof (cases "0 \<le> r")
    case True
    with Cons.prems 1 have "access_gateways ssl cd te c acc user_ip gs k1 rsp1 = Ret (ret, k', rsp')" by (simp add: gi)
    from Cons.IH [OF this] obtain new' where new': "rsp' = rsp1 @ new'" "k' = k1 + length new'"
        "\<And>n p. n < length new' \<Longrightarrow> xi_ticket_packet (new' ! n) = Some p \<Longrightarrow>
           EncryptTicket ssl cd (te_seed te (k1 + n)) empty_SPATicketPacket (new_ticket te (k1 + n) user_ip)
             RSA_PRI_KEY_CONTROLLER RSA_PUB_KEY_GATEWAY = Ret (0, p)" by blast
    from apps obtain new where new: "rsp1 = rsp @ new" "k1 = k + length new"
        "\<And>n p. n < length new \<Longrightarrow> xi_ticket_packet (new ! n) = Some p \<Longrightarrow>
           EncryptTicket ssl cd (te_seed te (k + n)) empty_SPATicketPacket (new_ticket te (k + n) user_ip)
             RSA_PRI_KEY_CONTROLLER RSA_PUB_KEY_GATEWAY = Ret (0, p)" by blast
    show ?thesis
    proof (intro exI [of _ "new @ new'"] conjI allI impI)
      fix n p assume "n < length (new @ new')" and p: "xi_ticket_packet ((new @ new') ! n) = Some p"
      then show "EncryptTicket ssl cd (te_seed te (k + n)) empty_SPATicketPacket (new_ticket te (k + n) user_ip)
             RSA_PRI_KEY_CONTROLLER RSA_PUB_KEY_GATEWAY = Ret (0, p)"
        using new(3) [of n p] new'(3) [of "n - length new" p] new(2) by (cases "n < length new") (simp_all add: nth_append)
    qed (simp_all add: new(1,2) new'(1,2))
  qed (use Cons.prems 1 apps in \<open>simp add: gi\<close>)
qed simp

lemma access_made:
  assumes "Con_ConFuncGetAccess ssl cd te req \<lparr>socket_info = \<lparr>si_ip = ip, si_port = port\<rparr>\<rparr> c = Ret (ret, rsp, c')"
    and "x \<in> set (gr_access_list rsp)" and "xi_ticket_packet x = Some p"
  shows "\<exists>acc t seed. (ip, acc, t) \<in> issued_by (ConAccess req ip port te (gr_access_list rsp)) \<and>
     EncryptTicket ssl cd seed empty_SPATicketPacket t RSA_PRI_KEY_CONTROLLER RSA_PUB_KEY_GATEWAY = Ret (0, p)"
proof -
  obtain n where n: "n < length (gr_access_list rsp)" "x = gr_access_list rsp ! n"
    using assms(2) by (auto simp: in_set_conv_nth)
  have "\<forall>n < length (gr_access_list rsp). \<forall>p. xi_ticket_packet (gr_access_list rsp ! n) = Some p \<longrightarrow>
        EncryptTicket ssl cd (te_seed te n) empty_SPATicketPacket (new_ticket te n ip)
          RSA_PRI_KEY_CONTROLLER RSA_PUB_KEY_GATEWAY = Ret (0, p)"
    using assms(1) by (auto simp: Con_ConFuncGetAccess_def outcome_simps dest!: access_gateways_made)
  with n assms(3) show ?thesis by auto
qed

text \<open>An answer with an item offers something that the account may access.\<close>

lemma access_apps_offer:
  assumes "access_apps ssl cd te c acc user_ip g items k rsp = Ret (ret, k', rsp')" and "\<forall>dst. (acc, dst) \<notin> allowed c"
  shows "rsp' = rsp \<and> ret = 0"
  using assms(1) by (induction items arbitrary: k rsp) (auto simp: Let_def Allowed_iff assms(2))

lemma access_gateways_offer:
  assumes "access_gateways ssl cd te c acc user_ip gs k rsp = Ret (ret, k', rsp')" and "\<forall>dst. (acc, dst) \<notin> allowed c"
  shows "rsp' = rsp"
  using assms(1)
proof (induction gs arbitrary: k rsp)
  case (Cons gi gs)
  then show ?case
    by (cases gi) (auto simp: outcome_simps iAssert_def dest!: access_apps_offer [OF _ assms(2)] split: if_splits)
qed simp

lemma access_needs_permission:
  assumes "Con_ConFuncGetAccess ssl cd te req extra c = Ret (ret, rsp, c')" and "gr_access_list rsp \<noteq> []"
  shows "\<exists>dst. (get_str (a_acc (get_account (gq_account req))), dst) \<in> allowed c"
  using assms access_gateways_offer by (fastforce simp: Con_ConFuncGetAccess_def outcome_simps)

subsection \<open>What holds in every state\<close>

text \<open>The accounts are those of the constructor, in every state.\<close>

definition accounts :: "string \<Rightarrow> string option" where
  "accounts acc = map_find acc (con_user_account_map (SDPControllerConfig_new (\<lambda>_ _. 0) \<lparr>commands = []\<rparr>))"

text \<open>\<open>ip\<close> has knocked at the controller with the voucher of \<open>acc\<close> and its password, and was accepted.\<close>

definition knocked :: "'k openssl \<Rightarrow> codec \<Rightarrow> sys_trace \<Rightarrow> string \<Rightarrow> string \<Rightarrow> bool" where
  "knocked ssl cd tr ip acc \<longleftrightarrow>
     (\<exists>msg port v. (ConKnock msg ip port, 0) \<in> set tr \<and>
        DecryptVoucher ssl cd empty_SPAVoucher (parse_voucher_packet cd msg) RSA_PRI_KEY_CONTROLLER = Ret (0, v) \<and>
        get_str (a_acc (get_account (v_account v))) = acc \<and>
        accounts acc = Some (get_str (a_pwd (get_account (v_account v)))))"

lemma knocked_snoc: "knocked ssl cd tr ip acc \<Longrightarrow> knocked ssl cd (tr @ tr') ip acc"
  by (auto simp: knocked_def)

definition con_sound :: "'k openssl \<Rightarrow> codec \<Rightarrow> sys_trace \<Rightarrow> SDPControllerConfig \<Rightarrow> bool" where
  "con_sound ssl cd tr c \<longleftrightarrow>
     con_inv {IP_APPGATEWAY_PB} c \<and> (\<forall>acc. map_find acc (con_user_account_map c) = accounts acc) \<and>
     (\<forall>ip. con_listed c ip \<longrightarrow> (\<exists>acc. knocked ssl cd tr ip acc))"

lemma con_sound_start:
  "con_sound ssl cd [] (SDPController_start sys (SDPControllerConfig_new sys \<lparr>commands = []\<rparr>))"
proof -
  have "map_find acc (con_user_account_map (SDPController_start sys (SDPControllerConfig_new sys \<lparr>commands = []\<rparr>))) = accounts acc" for acc
    by (simp add: accounts_def SDPController_start_def SDPControllerConfig_new_def con_set_listen_info_def Let_def)
  moreover have "\<not> con_listed (SDPController_start sys (SDPControllerConfig_new sys \<lparr>commands = []\<rparr>)) ip" for ip
    by (simp add: SDPController_start_def SDPControllerConfig_new_def con_set_listen_info_def Let_def listed_init TCP_PORT_CONTROLLER_def)
  ultimately show ?thesis by (simp add: con_sound_def con_inv_start)
qed

lemma con_sound_other: "con_sound ssl cd tr c \<Longrightarrow> con_sound ssl cd (tr @ [e]) c"
  unfolding con_sound_def by (metis knocked_snoc)

lemma con_sound_knock:
  assumes "con_sound ssl cd tr c" and "Con_ConFuncUdpRecv ssl cd sys msg ip port c = Ret (ret, c')"
  shows "con_sound ssl cd (tr @ [(ConKnock msg ip port, ret)]) c'"
proof -
  have inv: "con_inv {IP_APPGATEWAY_PB} c'" using assms con_inv_knock by (auto simp: con_sound_def)
  from assms(2) show ?thesis
  proof (cases rule: knock_cases)
    case (passed v)
    then have "knocked ssl cd (tr @ [(ConKnock msg ip port, ret)]) ip (get_str (a_acc (get_account (v_account v))))"
      using assms(1) unfolding knocked_def con_sound_def by auto
    then show ?thesis
      using assms(1) inv passed unfolding con_sound_def by (auto simp: wl.listed_allow) (metis knocked_snoc)+
  next
    case denied
    then show ?thesis
      using assms(1) inv unfolding con_sound_def by (auto simp: wl.listed_revoke) (metis knocked_snoc)+
  qed (use assms(1) in \<open>auto intro: con_sound_other\<close>)
qed

lemma con_sound_register:
  assumes "con_sound ssl cd tr c" and "Con_ConFuncRegisterApp req extra c = Ret (ret, rsp, c')"
  shows "con_sound ssl cd (tr @ [(ConRegister req ip port, ret)]) c' \<and> allowed c \<subseteq> allowed c'"
proof -
  have "con_whitelist c' = con_whitelist c \<and> con_tcp_port c' = con_tcp_port c \<and> con_user_account_map c' = con_user_account_map c \<and>
      allowed c \<subseteq> allowed c'"
    using assms(2) by (auto simp: Con_ConFuncRegisterApp_def RegisterApp_keeps Let_def grant_all_allowed RegisterApp_allowed split: if_splits)
  moreover have "con_inv {IP_APPGATEWAY_PB} c'" using assms con_inv_register by (auto simp: con_sound_def)
  ultimately show ?thesis using assms(1) unfolding con_sound_def by (metis knocked_snoc)
qed

lemma sys_con_sound: "sys_run ssl cd sys sys' junk tr c g a \<Longrightarrow> con_sound ssl cd tr c"
  by (induction rule: sys_run.induct)
    (auto intro: con_sound_start con_sound_knock con_sound_other dest: con_sound_register con_inv_access)

text \<open>What the gateway sees of a run is a run of the gateway.\<close>

fun gateway_part :: "sys_trace \<Rightarrow> (gate_event \<times> int) list" where
  "gateway_part [] = []"
| "gateway_part ((Gateway e, ret) # tr) = (e, ret) # gateway_part tr"
| "gateway_part (_ # tr) = gateway_part tr"

lemma gateway_part_append: "gateway_part (tr @ tr') = gateway_part tr @ gateway_part tr'"
  by (induction tr rule: gateway_part.induct) auto

lemma gateway_part_in: "(e, ret) \<in> set (gateway_part tr) \<longleftrightarrow> (Gateway e, ret) \<in> set tr"
  by (induction tr rule: gateway_part.induct) auto

lemma sys_gate_run: "sys_run ssl cd sys sys' junk tr c g a \<Longrightarrow> gate_run ssl cd sys' junk (gateway_part tr) g"
  by (induction rule: sys_run.induct) (auto simp: gateway_part_append intro: gate_run.intros)

lemma sys_gw_opened:
  assumes "sys_run ssl cd sys sys' junk tr c g a" and "0 < net_opened (gw_whitelist g) ip TCP_PORT_APPLICATION"
  shows "\<exists>msg port now. (Gateway (GateKnock msg ip port now), 0) \<in> set tr"
proof -
  have "traced (knockers (gateway_part tr)) g" by (rule traced_run [OF sys_gate_run [OF assms(1)]])
  from traced_opened [OF this assms(2)] show ?thesis by (auto simp: knockers_def gateway_part_in)
qed

text \<open>Every prefix of a run is a run, and permissions are never taken back.\<close>

lemma sys_run_prefix:
  assumes "sys_run ssl cd sys sys' junk tr c g a" and "tr = before @ after"
  shows "\<exists>c1 g1 a1. sys_run ssl cd sys sys' junk before c1 g1 a1 \<and> allowed c1 \<subseteq> allowed c"
  using assms
proof (induction after arbitrary: tr c g a rule: rev_induct)
  case (snoc e after)
  obtain c0 g0 a0 where "sys_run ssl cd sys sys' junk (before @ after) c0 g0 a0" "allowed c0 \<subseteq> allowed c"
  proof -
    have "sys_run ssl cd sys sys' junk ((before @ after) @ [e]) c g a" using snoc.prems by simp
    then show thesis
    proof cases
      case (sys_knock tr0 c0 msg ip port ret)
      moreover from sys_knock(3) have "allowed c = allowed c0" by (rule knock_cases) (simp_all add: allowed_def)
      ultimately show thesis using that by blast
    next
      case (sys_register tr0 c0 ip rreq port ret rrsp)
      moreover have "allowed c0 \<subseteq> allowed c"
        using sys_register(4) by (auto simp: Con_ConFuncRegisterApp_def grant_all_allowed Let_def split: if_splits)
      ultimately show thesis using that by blast
    next
      case (sys_access tr0 c0 ip te req port ret rsp)
      then show thesis using that con_inv_access [OF sys_access(4)] by simp
    qed (use that in auto)
  qed
  with snoc.IH show ?case by (metis order_trans)
qed auto

subsection \<open>What must have happened before\<close>

text \<open>A connection: the host has knocked, or it is the gateway, which the controller lets in from the start.\<close>

lemma connected_after_knock:
  assumes "sys_run ssl cd sys sys' junk tr c g a" and "(ConConnect ip, r) \<in> set tr"
  shows "CHR 0x00 \<notin> set ip \<and> (ip \<noteq> IP_APPGATEWAY_PB \<longrightarrow> (\<exists>acc. knocked ssl cd tr ip acc))"
proof -
  obtain before after where tr: "tr = before @ (ConConnect ip, r) # after" using assms(2) by (auto dest: split_list)
  then obtain c1 g1 a1 where "sys_run ssl cd sys sys' junk (before @ [(ConConnect ip, r)]) c1 g1 a1"
    using sys_run_prefix [OF assms(1), of "before @ [(ConConnect ip, r)]" after] by auto
  then have "sys_run ssl cd sys sys' junk before c1 g1 a1" and port: "0 < net_opened (con_whitelist c1) ip (con_tcp_port c1)" "CHR 0x00 \<notin> set ip"
    by (auto elim!: sys_run_snocE)
  from sys_con_sound [OF this(1)] have sound: "con_sound ssl cd before c1" .
  have "\<exists>acc. knocked ssl cd before ip acc" if "ip \<noteq> IP_APPGATEWAY_PB"
  proof -
    have "con_listed c1 ip"
      using sound that port(1) by (auto simp: con_sound_def con_inv_def fw_sync_def split: if_splits)
    then show ?thesis using sound by (auto simp: con_sound_def)
  qed
  then show ?thesis using port(2) tr knocked_snoc by blast
qed

text \<open>A ticket: its host had connected before, and its account had a permission.\<close>

lemma issued_after_connect:
  assumes "sys_run ssl cd sys sys' junk tr c g a" and "(ip, acc, t) \<in> issued tr"
  obtains before access after where "tr = before @ access # after" "(ip, acc, t) \<in> issued_by (fst access)"
    "get_str (t_ip t) = ip" "\<exists>dst. (acc, dst) \<in> allowed c"
    "ip \<noteq> IP_APPGATEWAY_PB \<longrightarrow> (\<exists>acc'. knocked ssl cd before ip acc')"
proof -
  obtain access where "access \<in> set tr" and made: "(ip, acc, t) \<in> issued_by (fst access)"
    using assms(2) by (auto simp: issued_def)
  then obtain before after where tr: "tr = before @ access # after" by (auto dest: split_list)
  obtain req port te items ret k where access: "access = (ConAccess req ip port te items, ret)" "k < length items"
      "acc = get_str (a_acc (get_account (gq_account req)))" "t = new_ticket te k ip"
    using made by (cases access; cases "fst access") auto
  obtain c1 g1 a1 where run: "sys_run ssl cd sys sys' junk (before @ [access]) c1 g1 a1" and sub: "allowed c1 \<subseteq> allowed c"
    using sys_run_prefix [OF assms(1), of "before @ [access]" after] tr by auto
  from run access(1) obtain c0 rsp where step: "sys_run ssl cd sys sys' junk before c0 g1 a1" "(ConConnect ip, 0) \<in> set before"
      "Con_ConFuncGetAccess ssl cd te req \<lparr>socket_info = \<lparr>si_ip = ip, si_port = port\<rparr>\<rparr> c0 = Ret (ret, rsp, c1)"
      "items = gr_access_list rsp"
    by (auto elim!: sys_run_snocE)
  have "c1 = c0" using step(3) by (rule con_inv_access)
  with access_needs_permission [OF step(3)] access(2,3) step(4) sub have "\<exists>dst. (acc, dst) \<in> allowed c" by fastforce
  moreover have "get_str (t_ip t) = ip"
    using connected_after_knock [OF step(1,2)] access(4) by (simp add: new_ticket_def c_str_id)
  ultimately show thesis
    using that [OF tr made] connected_after_knock [OF step(1,2)] by blast
qed

text \<open>An accepted knock: its ticket is one that the controller has made, when tickets are shorter than a block.\<close>

lemma ticket_authentic:
  assumes "Gate_GateFuncUdpRecv ssl cd sys now msg ip port g = Ret (0, g')" and "unforged ssl cd tr (GateKnock msg ip port now)"
    and "ip \<noteq> []" and "fopen_ok ssl RSA_PUB_KEY_CONTROLLER" and "read_pub ssl RSA_PUB_KEY_CONTROLLER = Some pub"
    and "parse_ticket cd [] = empty_SPATicket"
    and "\<And>h acc t. (h, acc, t) \<in> issued tr \<Longrightarrow>
           length (ser_ticket cd t) < rsa_size ssl pub - 42 \<and> parse_ticket cd (ser_ticket cd t) = t"
  obtains h acc t where "(h, acc, t) \<in> issued tr" "get_str (t_ip t) = ip" "\<not> ticket_expired t now"
    "rsa_verify ssl pub (ser_ticket cd t) (get_str (tp_sign_data (parse_ticket_packet cd msg)))"
proof -
  let ?packet = "parse_ticket_packet cd msg" and ?l = "rsa_size ssl pub - 42"
  from assms(1) obtain t where dec: "DecryptTicket ssl cd empty_SPATicket ?packet RSA_PUB_KEY_CONTROLLER RSA_PRI_KEY_GATEWAY = Ret (0, t)"
      and t: "get_str (t_ip t) = ip" "\<not> ticket_expired t now"
    by (auto elim: gate_knock_cases)
  from dec obtain plain r where "RSAVerify ssl (get_str (tp_sign_data ?packet)) plain RSA_PUB_KEY_CONTROLLER = Ret r" "0 \<le> r"
      and parsed: "t = parse_ticket cd plain" by (rule DecryptTicket_ok)
  then have verified: "RSAVerify ssl (get_str (tp_sign_data ?packet)) plain RSA_PUB_KEY_CONTROLLER = Ret 0"
    using RSAVerify_ret by fastforce
  note plain = parsed RSAVerify_accepts [OF assms(4,5) verified]
  have "plain \<noteq> []" using plain(1) t(1) assms(3,6) by (auto simp: empty_SPATicket_def)
  moreover have "nat (limit_size ssl pub) = ?l" by (simp add: limit_size_def)
  ultimately obtain h acc t' where t': "(h, acc, t') \<in> issued tr" "take ?l plain \<in> set (chunks ?l (ser_ticket cd t'))"
    using plain(2) assms(2,5) by auto
  note short = assms(7) [OF t'(1)]
  have "ser_ticket cd t' \<noteq> []" using t'(2) by auto
  then have "take ?l plain = ser_ticket cd t'" using chunks_one [of "ser_ticket cd t'" ?l] short t'(2) by simp
  moreover from this have "take ?l plain = plain" using short by (metis length_take min_less_iff_disj nat_less_le take_all_iff)
  ultimately have same: "plain = ser_ticket cd t'" "t = t'" using plain(1) short by simp_all
  have "int (length plain) < limit_size ssl pub" using short [THEN conjunct1] by (simp add: same(1) limit_size_def)
  then have "rsa_verify ssl pub plain (get_str (tp_sign_data ?packet))"
    using verify_short [OF assms(4,5) verified \<open>plain \<noteq> []\<close>] by simp
  then show thesis using that t'(1) t same by blast
qed

text \<open>The way of a host to an open port, as the property below states it.\<close>

lemma opened_after_access:
  assumes "sys_run ssl cd sys sys' junk tr c g a" and "0 < net_opened (gw_whitelist g) ip TCP_PORT_APPLICATION" and "ip \<noteq> []"
    and "fopen_ok ssl RSA_PUB_KEY_CONTROLLER" and "read_pub ssl RSA_PUB_KEY_CONTROLLER = Some pub"
    and "parse_ticket cd [] = empty_SPATicket"
    and "\<And>h acc t. (h, acc, t) \<in> issued tr \<Longrightarrow>
           length (ser_ticket cd t) < rsa_size ssl pub - 42 \<and> parse_ticket cd (ser_ticket cd t) = t"
  shows "\<exists>before access between msg port now after acc t.
     tr = before @ access # between @ (Gateway (GateKnock msg ip port now), 0) # after \<and>
     (ip, acc, t) \<in> issued_by (fst access) \<and> \<not> ticket_expired t now \<and> (\<exists>dst. (acc, dst) \<in> allowed c) \<and>
     (ip \<noteq> IP_APPGATEWAY_PB \<longrightarrow> (\<exists>acc'. knocked ssl cd before ip acc'))"
proof -
  obtain msg port now where "(Gateway (GateKnock msg ip port now), 0) \<in> set tr"
    using sys_gw_opened [OF assms(1,2)] by blast
  then obtain tr1 after where tr: "tr = tr1 @ (Gateway (GateKnock msg ip port now), 0) # after" by (auto dest: split_list)
  then obtain c1 g1 a1 where run: "sys_run ssl cd sys sys' junk (tr1 @ [(Gateway (GateKnock msg ip port now), 0)]) c1 g1 a1"
      and sub: "allowed c1 \<subseteq> allowed c"
    using sys_run_prefix [OF assms(1), of "tr1 @ [(Gateway (GateKnock msg ip port now), 0)]" after] by auto
  then obtain g0 where step: "sys_run ssl cd sys sys' junk tr1 c1 g0 a1" "unforged ssl cd tr1 (GateKnock msg ip port now)"
      "Gate_GateFuncUdpRecv ssl cd sys' now msg ip port g0 = Ret (0, g1)"
    by (auto elim!: sys_run_snocE gate_step_knockE simp del: unforged.simps)
  have "\<And>h acc t. (h, acc, t) \<in> issued tr1 \<Longrightarrow>
      length (ser_ticket cd t) < rsa_size ssl pub - 42 \<and> parse_ticket cd (ser_ticket cd t) = t"
    using assms(7) by (auto simp: tr issued_def)
  then obtain h acc t where t: "(h, acc, t) \<in> issued tr1" "get_str (t_ip t) = ip" "\<not> ticket_expired t now"
      "rsa_verify ssl pub (ser_ticket cd t) (get_str (tp_sign_data (parse_ticket_packet cd msg)))"
    by (rule ticket_authentic [OF step(3,2) assms(3-6)])
  obtain before access between where "tr1 = before @ access # between" "(h, acc, t) \<in> issued_by (fst access)"
      "get_str (t_ip t) = h" "\<exists>dst. (acc, dst) \<in> allowed c1" "h \<noteq> IP_APPGATEWAY_PB \<longrightarrow> (\<exists>acc'. knocked ssl cd before h acc')"
    using issued_after_connect [OF step(1) t(1)] by blast
  with t(2,3) sub tr show ?thesis by (intro exI [of _ before] exI [of _ access] exI [of _ between]) auto
qed

section \<open>Properties\<close>

text \<open>
  C1. Only authorized hosts get in. When nobody forges signatures of the controller or passes a
  closed port, every host for which the gateway's firewall lets connections to the application
  through has gone the whole way: it knocked at the controller with an account and its password,
  then connected and was given a ticket for an account with a permission, and then knocked at the
  gateway while that ticket, made out to it, was valid. One address is exempt from the first of the
  three steps: the gateway's own (\<open>IP_APPGATEWAY_PB\<close>), which the controller's initial white list
  lets in without a knock; it needs the ticket and the knock at the gateway like every other. The
  account of the ticket may be another than that of the voucher. Assumed of the serialiser: an empty text is an empty ticket, and tickets,
  shorter than an RSA block, are parsed back.
\<close>

theorem only_authorized_hosts:
  assumes "sys_run ssl cd sys sys' junk tr c g a" and "0 < net_opened (gw_whitelist g) ip TCP_PORT_APPLICATION" and "ip \<noteq> []"
    and "fopen_ok ssl RSA_PUB_KEY_CONTROLLER" and "read_pub ssl RSA_PUB_KEY_CONTROLLER = Some pub"
    and "parse_ticket cd [] = empty_SPATicket"
    and "\<And>h acc t. (h, acc, t) \<in> issued tr \<Longrightarrow>
           length (ser_ticket cd t) < rsa_size ssl pub - 42 \<and> parse_ticket cd (ser_ticket cd t) = t"
  shows "\<exists>before access between msg port now after acc t.
     tr = before @ access # between @ (Gateway (GateKnock msg ip port now), 0) # after \<and>
     (ip, acc, t) \<in> issued_by (fst access) \<and> \<not> ticket_expired t now \<and> (\<exists>dst. (acc, dst) \<in> allowed c) \<and>
     (ip \<noteq> IP_APPGATEWAY_PB \<longrightarrow> (\<exists>acc'. knocked ssl cd before ip acc'))"
  by (rule opened_after_access [OF assms])

section \<open>A run\<close>

text \<open>The gateway registers its application, a client knocks, gets its access list and knocks at the gateway.\<close>

definition toy_app :: AppItem where
  "toy_app = empty_AppItem\<lparr>ai_app_tcp_port := Some 6004\<rparr>"

definition run_con0 :: SDPControllerConfig where
  "run_con0 = SDPController_start toy_sys (SDPControllerConfig_new toy_sys \<lparr>commands = []\<rparr>)"

definition run_con1 :: SDPControllerConfig where
  "run_con1 = grant_all [dst_of IP_APPGATEWAY_PB toy_app] (RegisterApp IP_APPGATEWAY_PB [toy_app] run_con0)"

definition run_con2 :: SDPControllerConfig where
  "run_con2 = con_OpWhiteList toy_sys IP_WHITE_LIST_ADD ''1.2.3.4''
     (snd (con_QueryAndInsertMD5 (get_str (vp_md5_data sealed_v)) run_con1))"

lemma run_con0_facts:
  "0 < net_opened (con_whitelist run_con0) IP_APPGATEWAY_PB (con_tcp_port run_con0)"
  "map_find ''xiaoming'' (con_user_account_map run_con0) = Some ''123456''" "con_seen run_con0 = {}"
  "\<not> stale_entry (con_whitelist run_con0) ''1.2.3.4'' (con_tcp_port run_con0)"
  by (simp_all add: run_con0_def SDPController_start_def SDPControllerConfig_new_def con_set_listen_info_def Let_def
      net_opened_init net_opened_new con_seen_def stale_init const_defs)

lemma run_con1_facts:
  "con_whitelist run_con1 = con_whitelist run_con0" "con_tcp_port run_con1 = con_tcp_port run_con0"
  "con_user_account_map run_con1 = con_user_account_map run_con0" "con_seen run_con1 = con_seen run_con0"
  "(''xiaoming'', dst_of IP_APPGATEWAY_PB toy_app) \<in> allowed run_con1"
  unfolding run_con1_def grant_all_allowed
  by (simp_all add: RegisterApp_keeps con_seen_def del: grant_all.simps) (simp add: RegisterApp_def)

lemma run_knock: "Con_ConFuncUdpRecv toy_ssl admission_codec toy_sys msg ''1.2.3.4'' port run_con1 = Ret (0, run_con2)"
proof -
  have packet: "parse_voucher_packet admission_codec msg = sealed_v" by (simp add: admission_codec_def)
  have "DecryptVoucher toy_ssl admission_codec empty_SPAVoucher sealed_v RSA_PRI_KEY_CONTROLLER = Ret (0, one_voucher)"
    by (simp add: DecryptVoucher_def RSADecrypt_def RSADecrypt_loop.simps limit_size_def MD5Encrypt_def toy_ssl_def
        sealed_v_def admission_codec_def access_codec_def toy_codec_def)
  from knock_accepted [of toy_ssl admission_codec msg one_voucher "''xiaoming''" "''123456''" run_con1, OF _ toy_user(1)] this packet
  show ?thesis using run_con0_facts run_con1_facts by (simp add: run_con2_def)
qed

lemma run_access:
  "\<exists>rsp. Con_ConFuncGetAccess toy_ssl admission_codec admission_te (access_request one_voucher)
     \<lparr>socket_info = \<lparr>si_ip = ''1.2.3.4'', si_port = 9\<rparr>\<rparr> run_con2 = Ret (0, rsp, run_con2) \<and> gr_access_list rsp \<noteq> []"
proof -
  have parsed: "parse_ticket admission_codec (ser_ticket admission_codec (new_ticket admission_te k ''1.2.3.4'')) =
      new_ticket admission_te k ''1.2.3.4''" for k
    by (simp add: admission_codec_def access_codec_def toy_codec_def new_ticket_def c_str_def GET_RANDOM_def admission_te_def)
  have "con_app_map run_con2 = [(IP_APPGATEWAY_PB, [toy_app])]"
    by (simp add: run_con2_def run_con1_def run_con0_def SDPController_start_def SDPControllerConfig_new_def
        con_set_listen_info_def RegisterApp_def map_assign_def del: grant_all.simps)
  moreover have "allowed run_con2 = allowed run_con1" by (simp add: run_con2_def allowed_def)
  ultimately have "offered run_con2 ''xiaoming'' \<noteq> []" using run_con1_facts(5) by (simp add: offered_def)
  moreover have "get_str (a_acc (get_account (gq_account (access_request one_voucher)))) = ''xiaoming''"
    by (simp add: access_request_def one_voucher_def get_account_def)
  ultimately show ?thesis
    using GetAccess_works [of toy_ssl admission_codec admission_te "\<lparr>socket_info = \<lparr>si_ip = ''1.2.3.4'', si_port = 9\<rparr>\<rparr>"
        "access_request one_voucher" run_con2] tickets_work_intro [OF toy_reads toy_pairs(2) toy_reads toy_pairs(1) toy_md5 parsed]
    by (metis (no_types, lifting) ConFuncGetAccessRsp.select_convs(1) Extra.select_convs(1) SocketInfo.select_convs(1) list.map_disc_iff)
qed

lemma run_ticket:
  "\<exists>g'. Gate_GateFuncUdpRecv toy_ssl admission_codec toy_sys 1020 msg ''1.2.3.4'' port toy_gateway = Ret (0, g') \<and> gw_listed g' ''1.2.3.4''"
proof -
  have packet: "parse_ticket_packet admission_codec msg = sealed_t" by (simp add: admission_codec_def)
  have "DecryptTicket toy_ssl admission_codec empty_SPATicket sealed_t RSA_PUB_KEY_CONTROLLER RSA_PRI_KEY_GATEWAY =
      Ret (0, new_ticket admission_te 0 ''1.2.3.4'')"
    by (simp add: DecryptTicket_def RSADecrypt_def RSADecrypt_loop.simps RSAVerify_def RSAVerify_loop.simps limit_size_def
        MD5Encrypt_def toy_ssl_def sealed_t_def admission_codec_def access_codec_def toy_codec_def new_ticket_def c_str_def
        GET_RANDOM_def admission_te_def)
  then show ?thesis
    using ticket_knock [of toy_ssl admission_codec msg admission_te 0 "''1.2.3.4''" 1020 toy_gateway toy_sys port] packet
      toy_gate_not_stale by (simp add: toy_gate_fresh admission_te_def wl.listed_allow)
qed

text \<open>The toy library's signature of one byte is the signature of that byte only.\<close>

lemma toy_signature: "rsa_verify toy_ssl pub b (take 128 (get_str (tp_sign_data sealed_t))) \<Longrightarrow> b = ''t''"
proof -
  assume "rsa_verify toy_ssl pub b (take 128 (get_str (tp_sign_data sealed_t)))"
  then have eq: "CHR ''t'' # replicate 126 CHR 0x01 = b @ replicate (127 - length b) CHR 0x01" "char_of (length b) = (char_of (1 :: nat) :: char)"
    by (simp_all add: toy_ssl_def sealed_t_def)
  have "127 = length b + (127 - length b)" using arg_cong [OF eq(1), of length] by simp
  then have "length b mod 256 = length b" by (intro mod_less) linarith
  moreover have "length b mod 256 = 1" using arg_cong [OF eq(2), of "of_char :: char \<Rightarrow> nat"] by simp
  ultimately have "length b = 1" by simp
  with eq(1) show "b = ''t''" by (cases b) auto
qed

lemma run_listed: "con_listed run_con2 ''1.2.3.4''"
  using run_con0_facts(4) run_con1_facts by (simp add: run_con2_def wl.listed_allow)

lemma run_issued:
  "issued_by (ConAccess (access_request one_voucher) ''1.2.3.4'' 9 admission_te items) =
     (if items = [] then {} else {(''1.2.3.4'', ''xiaoming'', new_ticket admission_te 0 ''1.2.3.4'')})"
proof -
  have "get_str (a_acc (get_account (gq_account (access_request one_voucher)))) = ''xiaoming''"
    by (simp add: access_request_def one_voucher_def get_account_def)
  moreover have "new_ticket admission_te k ''1.2.3.4'' = new_ticket admission_te 0 ''1.2.3.4''" for k
    by (simp add: new_ticket_def admission_te_def)
  ultimately show ?thesis by auto
qed

definition run_trace :: "AccessItem list \<Rightarrow> sys_trace" where
  "run_trace items =
     [(ConConnect IP_APPGATEWAY_PB, 0), (ConRegister \<lparr>rq_app_list = [toy_app]\<rparr> IP_APPGATEWAY_PB 7, 0),
      (ConKnock ''p'' ''1.2.3.4'' 8, 0), (ConConnect ''1.2.3.4'', 0),
      (ConAccess (access_request one_voucher) ''1.2.3.4'' 9 admission_te items, 0),
      (Gateway (GateKnock ''q'' ''1.2.3.4'' 8 1020), 0)]"

lemma run_exists:
  "\<exists>items g. items \<noteq> [] \<and> gw_listed g ''1.2.3.4'' \<and>
     sys_run toy_ssl admission_codec toy_sys toy_sys 0 (run_trace items) run_con2 g SDPApplicationConfig_new"
proof -
  obtain rsp where access: "Con_ConFuncGetAccess toy_ssl admission_codec admission_te (access_request one_voucher)
      \<lparr>socket_info = \<lparr>si_ip = ''1.2.3.4'', si_port = 9\<rparr>\<rparr> run_con2 = Ret (0, rsp, run_con2)" "gr_access_list rsp \<noteq> []"
    using run_access by blast
  obtain g where ticket: "Gate_GateFuncUdpRecv toy_ssl admission_codec toy_sys 1020 ''q'' ''1.2.3.4'' 8 toy_gateway = Ret (0, g)"
      "gw_listed g ''1.2.3.4''" using run_ticket by blast
  let ?run = "sys_run toy_ssl admission_codec toy_sys toy_sys 0"
  let ?t1 = "[] @ [(ConConnect IP_APPGATEWAY_PB, 0)]"
  let ?t2 = "?t1 @ [(ConRegister \<lparr>rq_app_list = [toy_app]\<rparr> IP_APPGATEWAY_PB 7, 0)]"
  let ?t3 = "?t2 @ [(ConKnock ''p'' ''1.2.3.4'' 8, 0)]"
  let ?t4 = "?t3 @ [(ConConnect ''1.2.3.4'', 0)]"
  let ?t5 = "?t4 @ [(ConAccess (access_request one_voucher) ''1.2.3.4'' 9 admission_te (gr_access_list rsp), 0)]"
  have "?run [] run_con0 toy_gateway SDPApplicationConfig_new" unfolding run_con0_def toy_gateway_def by (rule sys_start)
  then have t1: "?run ?t1 run_con0 toy_gateway SDPApplicationConfig_new"
    by (rule sys_connect) (use run_con0_facts in \<open>simp_all add: const_defs\<close>)
  have "Con_ConFuncRegisterApp \<lparr>rq_app_list = [toy_app]\<rparr> \<lparr>socket_info = \<lparr>si_ip = IP_APPGATEWAY_PB, si_port = 7\<rparr>\<rparr> run_con0 =
      Ret (0, ConFuncRegisterAppRsp, run_con1)"
    by (simp add: Con_ConFuncRegisterApp_def run_con1_def del: grant_all.simps)
  from sys_register [OF t1 _ this] have "?run ?t2 run_con1 toy_gateway SDPApplicationConfig_new" by simp
  from sys_knock [OF this run_knock] have t3: "?run ?t3 run_con2 toy_gateway SDPApplicationConfig_new" .
  then have "0 < net_opened (con_whitelist run_con2) ''1.2.3.4'' (con_tcp_port run_con2)"
    using run_listed by (auto dest!: sys_con_sound simp: con_sound_def con_inv_def fw_sync_def const_defs)
  from sys_connect [OF t3 this] have "?run ?t4 run_con2 toy_gateway SDPApplicationConfig_new" by simp
  from sys_access [OF this _ access(1)] have t5: "?run ?t5 run_con2 toy_gateway SDPApplicationConfig_new" by simp
  have "unforged toy_ssl admission_codec ?t5 (GateKnock ''q'' ''1.2.3.4'' 8 1020)"
    using access(2) toy_signature chunks_one [of "''t''" 86]
    by (auto simp: issued_def run_issued simp del: issued_by.simps)
      (simp_all add: toy_ssl_def admission_codec_def access_codec_def toy_codec_def)
  from sys_gateway [OF t5 step_knock [OF ticket(1)] this] ticket(2) access(2) show ?thesis
    unfolding run_trace_def by (intro exI [of _ "gr_access_list rsp"] exI [of _ g]) simp
qed

theorem only_authorized_hosts_witness:
  "\<exists>tr before access between msg port now after acc t.
     tr = before @ access # between @ (Gateway (GateKnock msg ''1.2.3.4'' port now), 0) # after \<and>
     (''1.2.3.4'', acc, t) \<in> issued_by (fst access) \<and> \<not> ticket_expired t now \<and>
     (\<exists>acc'. knocked toy_ssl admission_codec before ''1.2.3.4'' acc')"
proof -
  obtain items g where run: "sys_run toy_ssl admission_codec toy_sys toy_sys 0 (run_trace items) run_con2 g SDPApplicationConfig_new"
      "gw_listed g ''1.2.3.4''" "items \<noteq> []" using run_exists by blast
  have "gate_inv g" by (rule gate_inv_run [OF sys_gate_run [OF run(1)]])
  then have opened: "0 < net_opened (gw_whitelist g) ''1.2.3.4'' TCP_PORT_APPLICATION"
    using run(2) by (auto simp: gate_inv_def fw_sync_def gate_initial_def const_defs)
  have tickets: "(h, acc, t) \<in> issued (run_trace items) \<Longrightarrow> t = new_ticket admission_te 0 ''1.2.3.4''" for h acc t
    using run(3) by (auto simp: issued_def run_trace_def run_issued simp del: issued_by.simps(1))
  have empty: "parse_ticket admission_codec [] = empty_SPATicket" by (simp add: admission_codec_def access_codec_def)
  have "''1.2.3.4'' \<noteq> IP_APPGATEWAY_PB" by (simp add: const_defs)
  moreover have "length (ser_ticket admission_codec t) < rsa_size toy_ssl pub - 42 \<and>
      parse_ticket admission_codec (ser_ticket admission_codec t) = t" if "(h, acc, t) \<in> issued (run_trace items)" for h acc t pub
    using tickets [OF that] by (simp add: toy_ssl_def toy_codec_def admission_codec_def access_codec_def toy_codec_def new_ticket_def c_str_def
        GET_RANDOM_def admission_te_def)
  ultimately show ?thesis
    using only_authorized_hosts [OF run(1) opened _ _ _ empty, of "()"] by (simp add: toy_ssl_def) blast
qed

end
