(* ===== verification/Deployment.thy ===== *)
theory Deployment
  imports Authorization
begin

text \<open>
  The four programs from start-up to the page: the gateway registers its application, a client
  goes through its whole run (\<open>Access_Test\<close>), and every server does its part.
\<close>

section \<open>The start\<close>

abbreviation controller_init :: "system_call \<Rightarrow> SDPControllerConfig" where
  "controller_init sys \<equiv> SDPController_start sys (SDPControllerConfig_new sys \<lparr>commands = []\<rparr>)"

abbreviation gateway_init :: "system_call \<Rightarrow> SDPAppGatewayConfig" where
  "gateway_init sys \<equiv> SDPAppGateway_start sys (SDPAppGatewayConfig_new sys \<lparr>commands = []\<rparr>)"

lemma controller_init_facts:
  "map_find acc (con_user_account_map (controller_init sys)) = accounts acc"
  "con_seen (controller_init sys) = {}" "con_app_map (controller_init sys) = []" "con_tcp_port (controller_init sys) = TCP_PORT_CONTROLLER"
  "ip \<noteq> IP_APPGATEWAY_PB \<Longrightarrow> \<not> stale_entry (con_whitelist (controller_init sys)) ip TCP_PORT_CONTROLLER"
  by (simp_all add: accounts_def SDPController_start_def SDPControllerConfig_new_def con_set_listen_info_def Let_def
      con_seen_def stale_init)

lemma gateway_init_facts:
  "\<not> gw_black (gateway_init sys) ip" "gw_seen (gateway_init sys) = {}"
  "ip \<notin> {IP_CONTROLLER_PB, IP_APPLICATION_PB} \<Longrightarrow> \<not> gw_stale (gateway_init sys) ip"
  by (auto simp: SDPAppGateway_start_def SDPAppGatewayConfig_new_def gw_set_listen_info_def Let_def
      ControllerBlackList_IsIn_def gw_seen_def stale_init)

section \<open>Registration\<close>

text \<open>The one application of the gateway, as it is registered and as it is offered with a ticket.\<close>

definition gateway_app :: AppItem where
  "gateway_app = hd (rq_app_list gateway_register_req)"

definition deployed_items :: "SPATicketPacket \<Rightarrow> AccessItem list" where
  "deployed_items p = [\<lparr>xi_ip = Some IP_APPGATEWAY_PB, xi_app = Some gateway_app, xi_ticket_packet = Some p\<rparr>]"

definition registered :: "system_call \<Rightarrow> SDPControllerConfig" where
  "registered sys = grant_all [dst_of IP_APPGATEWAY_PB gateway_app]
     (RegisterApp IP_APPGATEWAY_PB [gateway_app] (controller_init sys))"

lemma register_req: "rq_app_list gateway_register_req = [gateway_app]"
  by (simp add: gateway_register_req_def gateway_app_def)

lemma registered_facts:
  "con_whitelist (registered sys) = con_whitelist (controller_init sys)" "con_tcp_port (registered sys) = TCP_PORT_CONTROLLER"
  "con_user_account_map (registered sys) = con_user_account_map (controller_init sys)" "con_seen (registered sys) = {}"
  "con_app_map (registered sys) = [(IP_APPGATEWAY_PB, [gateway_app])]"
  using controller_init_facts(2,3,4) [of sys]
  by (simp_all add: registered_def RegisterApp_keeps con_seen_def del: grant_all.simps)
    (simp_all add: RegisterApp_def map_assign_def)

lemma registered_permission:
  assumes "accounts acc = Some pwd"
  shows "(acc, dst_of IP_APPGATEWAY_PB gateway_app) \<in> allowed (registered sys)"
proof -
  have "acc \<in> {''xiaoming'', ''xiaohong'', ''xiaobai''}"
    using assms by (auto simp: accounts_def SDPControllerConfig_new_def split: if_splits)
  then show ?thesis by (auto simp: registered_def grant_all_allowed simp del: grant_all.simps)
qed

lemma registration_answered:
  assumes "parse_register_req cd (ser_register_req cd gateway_register_req) = gateway_register_req"
  shows "\<exists>reply. ParseRequestAndForward cd (controller_service ssl cd sys te) (le32 103 @ ser_register_req cd gateway_register_req) []
     \<lparr>socket_info = \<lparr>si_ip = IP_APPGATEWAY_PB, si_port = port\<rparr>\<rparr> (controller_init sys') = Ret (0, reply, registered sys')"
  using assms
  by (simp add: ParseRequestAndForward_def Parse_no_header RequestForwardWithCmd_def const_defs
      forward_returning_zero_def RPC_CALL_FORWARD_def controller_service_def Con_ConFuncRegisterApp_def empty_Packet_def
      register_req registered_def Let_def del: grant_all.simps)

text \<open>The access list of an account after it: the application, with the first ticket.\<close>

lemma registered_access:
  assumes "accounts acc = Some pwd" and "get_account (v_account v) = \<lparr>a_acc = Some acc, a_pwd = Some pwd\<rparr>"
    and "EncryptTicket ssl cd (te_seed te 0) empty_SPATicketPacket (new_ticket te 0 ip) RSA_PRI_KEY_CONTROLLER RSA_PUB_KEY_GATEWAY =
           Ret (0, p)"
  shows "Con_ConFuncGetAccess ssl cd te (access_request v) \<lparr>socket_info = \<lparr>si_ip = ip, si_port = port\<rparr>\<rparr> (registered sys) =
     Ret (0, \<lparr>gr_access_list = deployed_items p\<rparr>, registered sys)"
proof -
  have "CheckUserPermission_Allowed (registered sys) acc (dst_of IP_APPGATEWAY_PB gateway_app) = 0"
    using registered_permission [OF assms(1)] by (simp add: Allowed_iff)
  then show ?thesis
    using assms(2,3) by (simp add: Con_ConFuncGetAccess_def access_request_def registered_facts deployed_items_def Let_def
        get_account_def)
qed

section \<open>The page\<close>

definition test_url :: string where
  "test_url = ''https://www.sdpverificaton.com/test''"

definition page :: string where
  "page = snd (HTTPS_HANDLER test_url)"

lemma page_answered:
  assumes "has_ssl (connector x)"
  shows "\<exists>a. HandleApplicationRequest (application_service env) x
     \<lparr>io_n = int (length test_url), io_errno = err, io_data = test_url\<rparr> [(int (length page), err')] SDPApplicationConfig_new =
       Ret (0, page, a) \<and> app_notices a = []"
proof -
  have "\<exists>a. App_AppFuncHttps env test_url \<lparr>socket_info = fd_socket_info x\<rparr> SDPApplicationConfig_new = Ret (0, page, a) \<and> app_notices a = []"
    by (simp add: App_AppFuncHttps_def FrequencyJudgment_def TimeLimitJudgement_def SDPApplicationConfig_new_def page_def
        HTTPS_HANDLER_def Let_def)
  moreover have "HandleRead (connector x) \<lparr>io_n = int (length test_url), io_errno = err, io_data = test_url\<rparr> [] =
      Ret (int (length test_url), test_url)"
    using assms by (simp add: HandleRead_pos test_url_def)
  ultimately show ?thesis
    using assms by (auto simp: HandleApplicationRequest_def application_service_def test_url_def HandleWrite_def Let_def)
qed

lemma request_answered:
  assumes "answered_by (net (c_str ip) port) cl req reply" and "reply \<noteq> []"
  shows "AppFuncHttpsRequest net junk cl req [] ip port = Ret (if junk < 0 then -1 else 0, reply)"
proof -
  let ?env = "net (c_str ip) port"
  obtain conn conn' where conn: "SSLConnector_new (ce_tls ?env) (cl_cert cl) (cl_key cl) 0 = Ret conn"
      "SSLConnect (ce_tls ?env) (ce_socket ?env) conn = (0, conn')" "0 \<le> ce_connect ?env"
      "HandleWrite (Some conn') (ce_writes ?env) req = Some (Ret (int (length req), req))"
      "io_n (ce_read ?env req) = int (length reply)" "io_data (ce_read ?env req) = reply"
    using assms(1) by (auto simp: answered_by_def)
  moreover from this assms(2) have "HandleRead (Some conn') (ce_read ?env req) [] = Ret (int (length reply), reply)"
    using has_ssl_handshake(1) [of "ce_tls ?env" "ce_socket ?env" conn] by (simp add: HandleRead_pos)
  ultimately show ?thesis
    by (simp add: AppFuncHttpsRequest_def ClientTCPRequest_def case_prod_unfold Let_def iAssert_def)
qed

lemma deployed_page:
  assumes "answered_by (net IP_APPGATEWAY_PB TCP_PORT_APPLICATION) client_credentials test_url page"
  shows "AccessApplication_HTTPS net junk (deployed_items p) = Ret (if junk < 0 then -1 else 0, page)"
proof -
  have "c_str IP_APPGATEWAY_PB = IP_APPGATEWAY_PB" "page \<noteq> []" by (simp_all add: c_str_id const_defs page_def HTTPS_HANDLER_def)
  then show ?thesis
    using request_answered [of net IP_APPGATEWAY_PB TCP_PORT_APPLICATION client_credentials test_url page junk] assms
    by (simp add: AccessApplication_HTTPS_def deployed_items_def gateway_app_def gateway_register_req_def get_app_def
        test_url_def iAssert_def const_defs)
qed

lemma deployed_datagram:
  "ticket_datagram cd (hd (deployed_items p)) = (IP_APPGATEWAY_PB, UDP_PORT_APPGATEWAY, le32 201 @ ser_ticket_packet cd p)"
  by (simp add: ticket_datagram_def deployed_items_def gateway_app_def gateway_register_req_def get_app_def
      get_ticket_packet_def const_defs)

text \<open>A host that a datagram has listed finds the port open.\<close>

lemma deployed_ports:
  "HandleUDPRequest (controller_service ssl cd sys te) n err d (registered sys') = Ret (r, c) \<Longrightarrow> con_listed c ip \<Longrightarrow>
     ip \<noteq> IP_APPGATEWAY_PB \<Longrightarrow> net_opened (con_whitelist c) ip TCP_PORT_CONTROLLER = 1"
  "HandleUDPRequest (gateway_service ssl cd sys now junk) n err d (gateway_init sys') = Ret (r, g) \<Longrightarrow> gw_listed g ip \<Longrightarrow>
     ip \<notin> {IP_CONTROLLER_PB, IP_APPLICATION_PB} \<Longrightarrow> net_opened (gw_whitelist g) ip TCP_PORT_APPLICATION = 1"
proof -
  have "con_inv {IP_APPGATEWAY_PB} (registered sys')"
    using con_inv_register [OF con_inv_start, of "\<lparr>commands = []\<rparr>" gateway_register_req
        "\<lparr>socket_info = \<lparr>si_ip = IP_APPGATEWAY_PB, si_port = 0\<rparr>\<rparr>"]
    by (simp add: Con_ConFuncRegisterApp_def register_req registered_def Let_def del: grant_all.simps)
  then show "net_opened (con_whitelist c) ip TCP_PORT_CONTROLLER = 1"
    if "HandleUDPRequest (controller_service ssl cd sys te) n err d (registered sys') = Ret (r, c)" "con_listed c ip" "ip \<noteq> IP_APPGATEWAY_PB"
    using controller.inv_HandleUDPRequest [OF _ that(1), of "{IP_APPGATEWAY_PB}"] that(2,3) by (auto simp: con_inv_def fw_sync_def)
  show "net_opened (gw_whitelist g) ip TCP_PORT_APPLICATION = 1"
    if "HandleUDPRequest (gateway_service ssl cd sys now junk) n err d (gateway_init sys') = Ret (r, g)" "gw_listed g ip"
      "ip \<notin> {IP_CONTROLLER_PB, IP_APPLICATION_PB}"
    using gateway.inv_HandleUDPRequest [OF gate_inv_start that(1)] that(2,3)
    by (auto simp: gate_inv_def fw_sync_def gate_initial_def)
qed

section \<open>Properties\<close>

text \<open>
  C2. The deployment serves its users. From the start-up of all four programs, after the gateway
  has registered its application: the whole run of the client's program, for any of the accounts
  and from any host but the servers', ends with the page of the application (its return code is the
  sign of the undefined result of \<open>ClientTCPRequest\<close>). It sends one voucher and one ticket; the
  controller accepts the voucher, and its port is then open for the client, and answers with the
  one application; the gateway accepts the ticket, and the port of the application is then open;
  the application answers with the page and complains about nobody. Assumed: key pairs in their files, a
  serialiser that carries the messages, connections that carry what the servers answer, and a
  ticket that is used within 30 seconds.
\<close>

theorem deployment_serves:
  assumes "keys_in_place ssl" and "accounts acc = Some pwd" and "v = test_voucher mac clock rand acc pwd"
    and "EncryptTicket ssl cd (te_seed te 0) empty_SPATicketPacket (new_ticket te 0 ip) RSA_PRI_KEY_CONTROLLER RSA_PUB_KEY_GATEWAY =
           Ret (0, p)"
    and "carries_session ssl cd seed v te ip (deployed_items p)"
    and "parse_register_req cd (ser_register_req cd gateway_register_req) = gateway_register_req"
    and "answered_by (net IP_CONTROLLER_PB TCP_PORT_CONTROLLER) client_credentials
           (le32 102 @ ser_access_req cd (access_request v)) (access_reply cd (deployed_items p))"
    and "answered_by (net IP_APPGATEWAY_PB TCP_PORT_APPLICATION) client_credentials test_url page"
    and "CHR 0x00 \<notin> set ip" and "ip \<notin> {IP_APPGATEWAY_PB, IP_CONTROLLER_PB, IP_APPLICATION_PB}"
    and "\<And>k. 0 \<le> te_time te k \<and> te_time te k + 30 < 2 ^ 32 \<and> now \<le> te_time te k + 30"
    and "has_ssl (connector x)"
  shows "\<exists>reply c1 voucher c2 ticket g a.
     ParseRequestAndForward cd (controller_service ssl cd sys te) (le32 103 @ ser_register_req cd gateway_register_req) []
       \<lparr>socket_info = \<lparr>si_ip = IP_APPGATEWAY_PB, si_port = port'\<rparr>\<rparr> (controller_init sys) = Ret (0, reply, c1) \<and>
     HandleUDPRequest (controller_service ssl cd sys te) (int (length voucher)) err
       \<lparr>dg_data = voucher, dg_ip = ip, dg_port = port\<rparr> c1 = Ret (0, c2) \<and>
     net_opened (con_whitelist c2) ip TCP_PORT_CONTROLLER = 1 \<and>
     ParseRequestAndForward cd (controller_service ssl cd sys te) (le32 102 @ ser_access_req cd (access_request v)) []
       \<lparr>socket_info = \<lparr>si_ip = ip, si_port = port\<rparr>\<rparr> c2 = Ret (0, access_reply cd (deployed_items p), c2) \<and>
     HandleUDPRequest (gateway_service ssl cd sys' now junk) (int (length ticket)) err
       \<lparr>dg_data = ticket, dg_ip = ip, dg_port = port\<rparr> (gateway_init sys') = Ret (0, g) \<and>
     net_opened (gw_whitelist g) ip TCP_PORT_APPLICATION = 1 \<and>
     HandleApplicationRequest (application_service env) x \<lparr>io_n = int (length test_url), io_errno = err, io_data = test_url\<rparr>
       [(int (length page), err)] SDPApplicationConfig_new = Ret (0, page, a) \<and> app_notices a = [] \<and>
     GetAccessibleAppList ssl cd net (\<lambda>_ _. (0, 0)) seed [] v = Ret (0, deployed_items p,
       [(IP_CONTROLLER_PB, UDP_PORT_CONTROLLER, voucher), (IP_APPGATEWAY_PB, UDP_PORT_APPGATEWAY, ticket)]) \<and>
     Access_Test ssl cd net (\<lambda>_ _. (0, 0)) seed junk' (Ret mac) clock rand acc pwd = Ret (if junk' < 0 then -1 else 0, page)"
proof -
  have v: "get_account (v_account v) = \<lparr>a_acc = Some acc, a_pwd = Some pwd\<rparr>"
    by (simp add: assms(3) test_voucher_def get_account_def)
  have user: "map_find acc (con_user_account_map (registered sys)) = Some pwd"
    by (simp add: registered_facts controller_init_facts assms(2))
  have fresh: "\<not> stale_entry (con_whitelist (registered sys)) ip (con_tcp_port (registered sys))"
    using assms(10) by (simp add: registered_facts controller_init_facts)
  have gate: "\<not> gw_stale (gateway_init sys') ip" by (rule gateway_init_facts) (use assms(10) in simp)
  have distinct: "distinct (map item_signature (deployed_items p))" by (simp add: deployed_items_def)
  obtain voucher c2 where run: "GetAccessibleAppList ssl cd net (\<lambda>_ _. (0, 0)) seed [] v =
        Ret (0, deployed_items p, (IP_CONTROLLER_PB, UDP_PORT_CONTROLLER, voucher) # map (ticket_datagram cd) (deployed_items p))"
      and con: "HandleUDPRequest (controller_service ssl cd sys te) (int (length voucher)) err
        \<lparr>dg_data = voucher, dg_ip = ip, dg_port = port\<rparr> (registered sys) = Ret (0, c2)" "con_listed c2 ip"
      and answer: "ParseRequestAndForward cd (controller_service ssl cd sys te) (le32 102 @ ser_access_req cd (access_request v)) []
        \<lparr>socket_info = \<lparr>si_ip = ip, si_port = port\<rparr>\<rparr> c2 = Ret (0, access_reply cd (deployed_items p), c2)"
      and tickets: "\<exists>g'. serve_in_turn (gateway_service ssl cd sys' now junk) err ip port
          (map (\<lambda>x. snd (snd (ticket_datagram cd x))) (deployed_items p)) (gateway_init sys') =
            Ret (replicate (length (deployed_items p)) 0, g') \<and> (deployed_items p \<noteq> [] \<longrightarrow> gw_listed g' ip)"
    using session_succeeds [where net = net, OF assms(1,5) v user registered_permission [OF assms(2)] _ fresh
        registered_access [OF assms(2) v assms(4)] assms(7,9,11) gateway_init_facts(1) gate distinct]
    by (simp add: registered_facts gateway_init_facts del: serve_in_turn.simps) blast
  let ?ticket = "le32 201 @ ser_ticket_packet cd p"
  have sent: "map (ticket_datagram cd) (deployed_items p) = [(IP_APPGATEWAY_PB, UDP_PORT_APPGATEWAY, ?ticket)]"
    using deployed_datagram [of cd p] by (simp add: deployed_items_def)
  obtain g where gw: "HandleUDPRequest (gateway_service ssl cd sys' now junk) (int (length ?ticket)) err
       \<lparr>dg_data = ?ticket, dg_ip = ip, dg_port = port\<rparr> (gateway_init sys') = Ret (0, g)" "gw_listed g ip"
    using tickets deployed_datagram [of cd p] by (auto simp: deployed_items_def outcome_simps simp del: length_append)
  have open1: "net_opened (con_whitelist c2) ip TCP_PORT_CONTROLLER = 1"
    using deployed_ports(1) [OF con] assms(10) by simp
  have open2: "net_opened (gw_whitelist g) ip TCP_PORT_APPLICATION = 1"
    using deployed_ports(2) [OF gw] assms(10) by simp
  have access: "Access_Test ssl cd net (\<lambda>_ _. (0, 0)) seed junk' (Ret mac) clock rand acc pwd = Ret (if junk' < 0 then -1 else 0, page)"
    using run deployed_page [where net = net, OF assms(8), of junk' p] by (simp add: Access_Test_def assms(3) iAssert_def)
  show ?thesis
    using registration_answered [OF assms(6), of ssl sys te port' sys] con(1) answer open1 open2 gw(1) run sent access
      page_answered [OF assms(12), of env err err] by (simp del: length_append) blast
qed

text \<open>A client of the account \<open>xiaoming\<close>, over connections that carry the two answers.\<close>

definition deploy_voucher :: SPAVoucher where
  "deploy_voucher = test_voucher ''m'' 1000 7 ''xiaoming'' ''123456''"

definition deploy_codec :: codec where
  "deploy_codec = admission_codec\<lparr>parse_voucher := \<lambda>_. deploy_voucher,
     parse_access_req := \<lambda>_. access_request deploy_voucher,
     parse_access_rsp := \<lambda>_. \<lparr>gr_access_list = deployed_items sealed_t\<rparr>,
     parse_register_req := \<lambda>_. gateway_register_req\<rparr>"

definition deploy_net :: network where
  "deploy_net = (\<lambda>ip port. let reply = if port = TCP_PORT_CONTROLLER then access_reply deploy_codec (deployed_items sealed_t) else page in
     (toy_net ip port)\<lparr>ce_writes := [(if port = TCP_PORT_CONTROLLER then 5 else int (length test_url), EAGAIN)],
       ce_read := \<lambda>_. \<lparr>io_n = int (length reply), io_errno = EAGAIN, io_data = reply\<rparr>\<rparr>)"

lemma deploy_carries: "carries_session toy_ssl deploy_codec 0 deploy_voucher admission_te ''1.2.3.4'' (deployed_items sealed_t)"
  by (simp add: carries_session_def deploy_codec_def admission_codec_def access_codec_def toy_codec_def new_ticket_def c_str_def
      GET_RANDOM_def admission_te_def deployed_items_def get_ticket_packet_def)
    (simp add: EncryptVoucher_def RSAEncrypt_def RSAEncrypt_loop.simps limit_size_def MD5Encrypt_def toy_ssl_def sealed_v_def)

lemma deploy_ticket:
  "EncryptTicket toy_ssl deploy_codec seed empty_SPATicketPacket t f f' = Ret (0, sealed_t)"
  by (simp add: EncryptTicket_def RSAEncrypt_def RSAEncrypt_loop.simps RSASign_def RSASign_loop.simps limit_size_def
      MD5Encrypt_def toy_ssl_def toy_codec_def access_codec_def admission_codec_def deploy_codec_def sealed_t_def
      empty_SPATicketPacket_def)

lemma deploy_answers:
  "answered_by (deploy_net IP_CONTROLLER_PB TCP_PORT_CONTROLLER) client_credentials
     (le32 102 @ ser_access_req deploy_codec (access_request deploy_voucher)) (access_reply deploy_codec (deployed_items sealed_t))"
  "answered_by (deploy_net IP_APPGATEWAY_PB TCP_PORT_APPLICATION) client_credentials test_url page"
proof -
  have "ser_access_req deploy_codec r = ''a''" "length (le32 102 @ ''a'') = 5" for r
    by (simp_all add: deploy_codec_def admission_codec_def access_codec_def toy_codec_def le32_def)
  then show "answered_by (deploy_net IP_CONTROLLER_PB TCP_PORT_CONTROLLER) client_credentials
     (le32 102 @ ser_access_req deploy_codec (access_request deploy_voucher)) (access_reply deploy_codec (deployed_items sealed_t))"
    by (simp add: answered_by_def deploy_net_def toy_net_def SSLConnector_new_def SSL_Init_def SSL_LoadCertificate_def
        SSLConnect_def HandleWrite_def Let_def)
  show "answered_by (deploy_net IP_APPGATEWAY_PB TCP_PORT_APPLICATION) client_credentials test_url page"
    by (simp add: answered_by_def deploy_net_def toy_net_def SSLConnector_new_def SSL_Init_def SSL_LoadCertificate_def
        SSLConnect_def HandleWrite_def Let_def TCP_PORT_APPLICATION_def TCP_PORT_CONTROLLER_def)
qed

theorem deployment_serves_witness:
  "Access_Test toy_ssl deploy_codec deploy_net (\<lambda>_ _. (0, 0)) 0 1 (Ret ''m'') 1000 7 ''xiaoming'' ''123456'' = Ret (0, page) \<and>
   client_main toy_ssl deploy_codec deploy_net (\<lambda>_ _. (0, 0)) 0 1 (Ret ''m'') 1000 7 = Ret 0"
proof -
  have user: "accounts ''xiaoming'' = Some ''123456''" by (simp add: accounts_def SDPControllerConfig_new_def)
  have keys: "keys_in_place toy_ssl" using toy_reads toy_pairs toy_md5 by (auto simp: keys_in_place_def)
  have req: "parse_register_req deploy_codec (ser_register_req deploy_codec gateway_register_req) = gateway_register_req"
    by (simp add: deploy_codec_def)
  have ip: "CHR 0x00 \<notin> set ''1.2.3.4''" "''1.2.3.4'' \<notin> {IP_APPGATEWAY_PB, IP_CONTROLLER_PB, IP_APPLICATION_PB}"
    by (simp_all add: const_defs)
  have clock: "0 \<le> te_time admission_te k \<and> te_time admission_te k + 30 < 2 ^ 32 \<and> 1020 \<le> te_time admission_te k + 30" for k
    by (simp add: admission_te_def)
  have "has_ssl (connector toy_fd_data)" by (simp add: toy_fd_data_def)
  from deployment_serves [where net = deploy_net and junk' = 1 and sys = toy_sys and sys' = toy_sys and port' = 7 and port = 8
        and err = EAGAIN and junk = 0 and env = toy_app_env,
      OF keys user deploy_voucher_def deploy_ticket deploy_carries req deploy_answers ip clock this]
  have "Access_Test toy_ssl deploy_codec deploy_net (\<lambda>_ _. (0, 0)) 0 1 (Ret ''m'') 1000 7 ''xiaoming'' ''123456'' = Ret (0, page)"
    by auto
  then show ?thesis by (simp add: client_main_def)
qed

end
