(* ===== verification/Tickets.thy ===== *)
theory Tickets
  imports Authorization
begin

text \<open>
  Further guarantees on the runs of \<open>Authorization\<close>: what a request to the application presupposes,
  how often a ticket opens the gateway, and how long a notice keeps a client out.
\<close>

section \<open>Requests to the application\<close>

lemma request_after_connect:
  assumes "sys_run ssl cd sys sys' junk tr c g a" and "tr = before @ (AppRequest request ip port out, ret) # after"
  obtains tr0 tr1 c0 g0 a0 where "before = tr0 @ (AppConnect ip, 0) # tr1" "sys_run ssl cd sys sys' junk tr0 c0 g0 a0"
    "0 < net_opened (gw_whitelist g0) ip TCP_PORT_APPLICATION" "ip \<noteq> []" "allowed c0 \<subseteq> allowed c"
proof -
  obtain c1 g1 a1 where "sys_run ssl cd sys sys' junk (before @ [(AppRequest request ip port out, ret)]) c1 g1 a1"
      and sub: "allowed c1 \<subseteq> allowed c"
    using sys_run_prefix [OF assms(1), of "before @ [(AppRequest request ip port out, ret)]" after] assms(2) by auto
  then obtain a0 where run: "sys_run ssl cd sys sys' junk before c1 g1 a0" "(AppConnect ip, 0) \<in> set before"
    by (auto elim!: sys_run_snocE)
  then obtain tr0 tr1 where before: "before = tr0 @ (AppConnect ip, 0) # tr1" by (auto dest: split_list)
  obtain c2 g2 a2 where "sys_run ssl cd sys sys' junk (tr0 @ [(AppConnect ip, 0)]) c2 g2 a2" "allowed c2 \<subseteq> allowed c1"
    using sys_run_prefix [OF run(1), of "tr0 @ [(AppConnect ip, 0)]" tr1] before by auto
  with sub show thesis by (auto elim!: sys_run_snocE intro: that [OF before])
qed

section \<open>One opening for each ticket\<close>

text \<open>A key signs a text in one way only.\<close>

definition one_signature :: "'k openssl \<Rightarrow> 'k \<Rightarrow> bool" where
  "one_signature ssl pub \<longleftrightarrow> (\<forall>b s s'. rsa_verify ssl pub b s \<longrightarrow> rsa_verify ssl pub b s' \<longrightarrow> s = s')"

text \<open>The knocks that the gateway accepted, in order.\<close>

fun accepted_knocks :: "sys_trace \<Rightarrow> (string \<times> string \<times> int \<times> int) list" where
  "accepted_knocks [] = []"
| "accepted_knocks ((Gateway (GateKnock msg ip port now), ret) # tr) =
     (if ret = 0 then (msg, ip, port, now) # accepted_knocks tr else accepted_knocks tr)"
| "accepted_knocks (_ # tr) = accepted_knocks tr"

lemma accepted_knocks_append: "accepted_knocks (tr @ tr') = accepted_knocks tr @ accepted_knocks tr'"
  by (induction tr rule: accepted_knocks.induct) auto

lemma gate_step_seen: "gate_step ssl cd sys junk g e ret g' \<Longrightarrow> gw_seen g \<subseteq> gw_seen g'"
proof (induction rule: gate_step.induct)
  case (step_knock now msg ip port g ret g')
  then show ?case using gw_guard.guard_mono [of ssl cd sys "(msg, ip, port, now)" g ret g'] by simp
next
  case (step_blacklist req extra g ret rsp g')
  then show ?case by (auto simp: Let_def dest!: blacklist_effect)
next
  case (step_notice nreq extra g ret nrsp g')
  then show ?case by (auto dest!: notice_effect)
qed

text \<open>An accepted knock was opened with the ticket \<open>t\<close>.\<close>

definition opened_with :: "'k openssl \<Rightarrow> 'k \<Rightarrow> codec \<Rightarrow> sys_trace \<Rightarrow> string \<times> string \<times> int \<times> int \<Rightarrow> SPATicket \<Rightarrow> bool" where
  "opened_with ssl pub cd tr k t \<longleftrightarrow>
     rsa_verify ssl pub (ser_ticket cd t) (ticket_signature cd k) \<and>
     (\<exists>acc. (fst (snd k), acc, t) \<in> issued tr) \<and> \<not> ticket_expired t (snd (snd (snd k)))"

definition matched :: "'k openssl \<Rightarrow> 'k \<Rightarrow> codec \<Rightarrow> sys_trace \<Rightarrow> SDPAppGatewayConfig \<Rightarrow> bool" where
  "matched ssl pub cd tr g \<longleftrightarrow> ticket_signature cd ` set (accepted_knocks tr) \<subseteq> gw_seen g \<and>
     (\<exists>ts. distinct ts \<and> list_all2 (opened_with ssl pub cd tr) (accepted_knocks tr) ts)"

lemma issued_append: "issued (tr @ tr') = issued tr \<union> issued tr'"
  by (auto simp: issued_def)

lemma opened_with_append: "opened_with ssl pub cd tr k t \<Longrightarrow> opened_with ssl pub cd (tr @ tr') k t"
  by (auto simp: opened_with_def issued_append)

lemma matched_other:
  assumes "matched ssl pub cd tr g" and "accepted_knocks [x] = []" and "gw_seen g \<subseteq> gw_seen g'"
  shows "matched ssl pub cd (tr @ [x]) g'"
  using assms by (auto simp: matched_def accepted_knocks_append intro: list_all2_mono opened_with_append)

lemma matched_knock:
  assumes "matched ssl pub cd tr g" and "one_signature ssl pub" and "opened_with ssl pub cd tr (msg, ip, port, now) t"
    and "Gate_GateFuncUdpRecv ssl cd sys now msg ip port g = Ret (0, g')"
  shows "matched ssl pub cd (tr @ [(Gateway (GateKnock msg ip port now), 0)]) g'"
proof -
  let ?k = "(msg, ip, port, now)" and ?x = "(Gateway (GateKnock msg ip port now), 0)"
  obtain ts where ts: "ticket_signature cd ` set (accepted_knocks tr) \<subseteq> gw_seen g" "distinct ts"
      "list_all2 (opened_with ssl pub cd tr) (accepted_knocks tr) ts" using assms(1) by (auto simp: matched_def)
  have new: "ticket_signature cd ?k \<notin> gw_seen g" "ticket_signature cd ?k \<in> gw_seen g'" "gw_seen g \<subseteq> gw_seen g'"
    using gw_guard.guard_fresh [of ssl cd sys ?k g g'] gw_guard.guard_mono [of ssl cd sys ?k g 0 g'] assms(4) by simp_all
  have "t \<notin> set ts"
  proof
    assume "t \<in> set ts"
    then obtain i where i: "i < length ts" "t = ts ! i" by (auto simp: in_set_conv_nth)
    with ts(3) have "opened_with ssl pub cd tr (accepted_knocks tr ! i) t" "accepted_knocks tr ! i \<in> set (accepted_knocks tr)"
      by (simp_all add: list_all2_conv_all_nth)
    with assms(2,3) have "ticket_signature cd ?k \<in> ticket_signature cd ` set (accepted_knocks tr)"
      unfolding one_signature_def opened_with_def by blast
    then show False using ts(1) new(1) by blast
  qed
  moreover have "list_all2 (opened_with ssl pub cd (tr @ [?x])) (accepted_knocks tr @ [?k]) (ts @ [t])"
    by (intro list_all2_appendI list_all2_mono [OF ts(3)])
      (use assms(3) in \<open>auto intro: opened_with_append\<close>)
  ultimately show ?thesis
    using ts(1,2) new unfolding matched_def
    by (intro conjI exI [of _ "ts @ [t]"]) (auto simp: accepted_knocks_append)
qed

lemma run_matched:
  assumes "sys_run ssl cd sys sys' junk tr c g a"
    and "fopen_ok ssl RSA_PUB_KEY_CONTROLLER" and "read_pub ssl RSA_PUB_KEY_CONTROLLER = Some pub" and "one_signature ssl pub"
    and "parse_ticket cd [] = empty_SPATicket" and "\<forall>k \<in> set (accepted_knocks tr). fst (snd k) \<noteq> []"
    and "\<forall>(h, acc, t) \<in> issued tr. length (ser_ticket cd t) < rsa_size ssl pub - 42 \<and> parse_ticket cd (ser_ticket cd t) = t"
  shows "matched ssl pub cd tr g"
  using assms(1,6,7)
proof (induction rule: sys_run.induct)
  case sys_start
  show ?case by (simp add: matched_def)
next
  case (sys_gateway tr c g a e ret g')
  have IH: "matched ssl pub cd tr g" using sys_gateway.IH sys_gateway.prems by (simp add: accepted_knocks_append issued_append)
  show ?case
  proof (cases "\<exists>msg ip port now. e = GateKnock msg ip port now \<and> ret = 0")
    case False
    then have "accepted_knocks [(Gateway e, ret)] = []" by (cases e) auto
    with IH show ?thesis by (rule matched_other) (rule gate_step_seen [OF sys_gateway.hyps(2)])
  next
    case True
    then obtain msg ip port now where e: "e = GateKnock msg ip port now" "ret = 0" by blast
    have knock: "Gate_GateFuncUdpRecv ssl cd sys' now msg ip port g = Ret (0, g')"
      using sys_gateway.hyps(2) by (simp add: e gate_step_knock_iff)
    have ip: "ip \<noteq> []" using sys_gateway.prems(1) by (simp add: accepted_knocks_append e)
    have "length (ser_ticket cd t) < rsa_size ssl pub - 42 \<and> parse_ticket cd (ser_ticket cd t) = t"
      if "(h, acc, t) \<in> issued tr" for h acc t using sys_gateway.prems(2) that unfolding issued_append by blast
    then obtain h acc t where t: "(h, acc, t) \<in> issued tr" "get_str (t_ip t) = ip" "\<not> ticket_expired t now"
        "rsa_verify ssl pub (ser_ticket cd t) (get_str (tp_sign_data (parse_ticket_packet cd msg)))"
      by (rule ticket_authentic [OF knock sys_gateway.hyps(3) [unfolded e(1)] ip assms(2,3,5)])
    have "h = ip" using issued_after_connect [OF sys_gateway.hyps(1) t(1)] t(2) by metis
    with t have "opened_with ssl pub cd tr (msg, ip, port, now) t" by (auto simp: opened_with_def ticket_signature_def)
    with IH assms(4) show ?thesis unfolding e by (rule matched_knock [OF _ _ _ knock])
  qed
qed (auto simp: accepted_knocks_append issued_append intro: matched_other)

section \<open>Shutting a host out\<close>

text \<open>The orders that close the port for \<open>ip\<close>: the application's notice and the black list.\<close>

fun shuts :: "string \<Rightarrow> gate_event \<Rightarrow> bool" where
  "shuts ip (GateNotice req extra) \<longleftrightarrow> si_ip (socket_info extra) = IP_APPLICATION_PB \<and>
     get_i32 (nq_op req) = APP_NOTICE_CLOSE_PORT_FOR_IP \<and> get_str (nq_op_ip req) = ip"
| "shuts ip (GateBlackList req extra) \<longleftrightarrow> get_i32 (bq_op req) = IP_BLACK_LIST_ADD \<and> get_str (bq_ip req) = ip"
| "shuts ip (GateKnock _ _ _ _) \<longleftrightarrow> False"

lemma black_keeps_listed [simp]: "gw_listed (snd (ControllerBlackList_OP op h port g)) ip \<longleftrightarrow> gw_listed g ip"
  by simp

lemma gate_step_shuts:
  assumes "gate_step ssl cd sys junk g e ret g'" and "shuts ip e"
  shows "\<not> gw_listed g' ip"
  using assms by (induction rule: gate_step.induct) (auto simp: Let_def wl.listed_revoke dest!: blacklist_effect notice_effect split: if_splits)

lemma gate_step_unlisted:
  assumes "gate_step ssl cd sys junk g e ret g'" and "\<not> gw_listed g ip" and "\<nexists>msg port now. e = GateKnock msg ip port now \<and> ret = 0"
  shows "\<not> gw_listed g' ip"
  using assms
proof (induction rule: gate_step.induct)
  case (step_knock now msg ip' port g ret g')
  from step_knock(1) show ?case
    by (cases rule: gate_knock_cases) (use step_knock(2,3) in \<open>auto simp: wl.listed_allow\<close>)
next
  case (step_blacklist req extra g ret rsp g')
  then show ?case
    using blacklist_effect [OF step_blacklist(1)]
    by (cases "get_i32 (bq_op req) = IP_BLACK_LIST_ADD") (simp_all add: Let_def wl.listed_revoke)
next
  case (step_notice nreq extra g ret nrsp g')
  then show ?case using notice_effect [OF step_notice(1)] by (simp add: wl.listed_revoke)
qed

lemma shut_until_knock:
  assumes "sys_run ssl cd sys sys' junk (before @ (Gateway e, r) # after) c g a" and "shuts ip e" and "ip \<notin> gate_initial"
    and "\<forall>msg port now. (Gateway (GateKnock msg ip port now), 0) \<notin> set after"
  shows "\<not> gw_listed g ip \<and> (AppConnect ip, 0) \<notin> set after"
  using assms(1,4)
proof (induction after arbitrary: c g a rule: rev_induct)
  case Nil
  then show ?case using assms(2) by (auto elim!: sys_run_snocE dest: gate_step_shuts)
next
  case (snoc x after)
  let ?tr = "before @ (Gateway e, r) # after"
  have "sys_run ssl cd sys sys' junk (?tr @ [x]) c g a" using snoc.prems(1) by simp
  moreover have IH: "\<not> gw_listed g1 ip \<and> (AppConnect ip, 0) \<notin> set after" if "sys_run ssl cd sys sys' junk ?tr c1 g1 a1" for c1 g1 a1
    using snoc.IH [OF that] snoc.prems(2) by simp
  ultimately show ?case
  proof cases
    case (sys_gateway tr0 g0 e' ret)
    then have "\<not> gw_listed g ip"
      using IH gate_step_unlisted [OF sys_gateway(3), of ip] snoc.prems(2) by auto
    then show ?thesis using sys_gateway IH by auto
  next
    case (sys_visit tr0 ip')
    have "gate_inv g" using sys_visit by (auto intro: gate_inv_run sys_gate_run)
    then have "ip' \<noteq> ip" using gate_inv_closed [OF _ assms(3)] sys_visit IH by fastforce
    then show ?thesis using sys_visit IH by auto
  qed (use IH in auto)
qed

section \<open>Properties\<close>

text \<open>
  C3. The application serves authorized hosts only. A request of a host that the application handles,
  whatever it answers, comes over a connection before which the host had gone the whole way, in this
  order: the knock at the controller with an account and its password (the gateway's own address,
  which the controller lets in from its start-up, needs none), the ticket made out to it for an account with a permission, the knock at the gateway
  while that ticket was valid, the connection. Nobody forges signatures of the controller or passes
  a closed port.
\<close>

theorem request_authorized:
  assumes "sys_run ssl cd sys sys' junk tr c g a" and "tr = before @ (AppRequest request ip port out, ret) # after"
    and "fopen_ok ssl RSA_PUB_KEY_CONTROLLER" and "read_pub ssl RSA_PUB_KEY_CONTROLLER = Some pub"
    and "parse_ticket cd [] = empty_SPATicket"
    and "\<forall>(h, acc, t) \<in> issued tr.
           length (ser_ticket cd t) < rsa_size ssl pub - 42 \<and> parse_ticket cd (ser_ticket cd t) = t"
  shows "\<exists>start access between msg port' now rest rest' acc t.
     before = start @ access # between @ (Gateway (GateKnock msg ip port' now), 0) # rest @ (AppConnect ip, 0) # rest' \<and>
     (ip, acc, t) \<in> issued_by (fst access) \<and> \<not> ticket_expired t now \<and> (\<exists>dst. (acc, dst) \<in> allowed c) \<and>
     (ip \<noteq> IP_APPGATEWAY_PB \<longrightarrow> (\<exists>acc'. knocked ssl cd start ip acc'))"
proof -
  obtain tr0 tr1 c0 g0 a0 where before: "before = tr0 @ (AppConnect ip, 0) # tr1" and run: "sys_run ssl cd sys sys' junk tr0 c0 g0 a0"
      and opened: "0 < net_opened (gw_whitelist g0) ip TCP_PORT_APPLICATION" "ip \<noteq> []" and sub: "allowed c0 \<subseteq> allowed c"
    using request_after_connect [OF assms(1,2)] by blast
  have "issued tr0 \<subseteq> issued tr" by (auto simp: assms(2) before issued_append)
  then have "\<exists>start access between msg port' now rest acc t.
      tr0 = start @ access # between @ (Gateway (GateKnock msg ip port' now), 0) # rest \<and>
      (ip, acc, t) \<in> issued_by (fst access) \<and> \<not> ticket_expired t now \<and> (\<exists>dst. (acc, dst) \<in> allowed c0) \<and>
      (ip \<noteq> IP_APPGATEWAY_PB \<longrightarrow> (\<exists>acc'. knocked ssl cd start ip acc'))"
    by (intro opened_after_access [OF run opened assms(3-5)]) (use assms(6) in blast)
  then obtain start access between msg port' now rest acc t where
      "tr0 = start @ access # between @ (Gateway (GateKnock msg ip port' now), 0) # rest"
      "(ip, acc, t) \<in> issued_by (fst access)" "\<not> ticket_expired t now" "\<exists>dst. (acc, dst) \<in> allowed c0"
      "ip \<noteq> IP_APPGATEWAY_PB \<longrightarrow> (\<exists>acc'. knocked ssl cd start ip acc')" by blast
  with sub before show ?thesis
    by (intro exI [of _ start] exI [of _ access] exI [of _ between] exI [of _ msg] exI [of _ port'] exI [of _ now]
        exI [of _ rest] exI [of _ tr1] exI [of _ acc] exI [of _ t]) auto
qed

text \<open>
  C4. Every opening of the gateway takes a ticket of its own. In every run in which the controller's
  key signs a text in one way only, the knocks that the gateway accepted can be matched, one to one,
  with tickets that the controller has made: the ticket of a knock is made out to its sender, was
  valid at that time and is the one whose signature the knock carried. So a stolen or repeated
  datagram opens nothing, and the gateway opens at most as often as tickets are made.
\<close>

theorem tickets_single_use:
  assumes "sys_run ssl cd sys sys' junk tr c g a"
    and "fopen_ok ssl RSA_PUB_KEY_CONTROLLER" and "read_pub ssl RSA_PUB_KEY_CONTROLLER = Some pub" and "one_signature ssl pub"
    and "parse_ticket cd [] = empty_SPATicket" and "\<And>msg port now. (msg, [], port, now) \<notin> set (accepted_knocks tr)"
    and "\<forall>(h, acc, t) \<in> issued tr.
           length (ser_ticket cd t) < rsa_size ssl pub - 42 \<and> parse_ticket cd (ser_ticket cd t) = t"
  shows "\<exists>ts. distinct ts \<and> length ts = length (accepted_knocks tr) \<and>
     (\<forall>i < length ts. case accepted_knocks tr ! i of (msg, ip, port, now) \<Rightarrow>
        (\<exists>acc. (ip, acc, ts ! i) \<in> issued tr) \<and> \<not> ticket_expired (ts ! i) now \<and>
        rsa_verify ssl pub (ser_ticket cd (ts ! i)) (get_str (tp_sign_data (parse_ticket_packet cd msg))))"
proof -
  have "matched ssl pub cd tr g"
    by (rule run_matched [OF assms(1-5)]) (use assms(6,7) in fastforce)+
  then obtain ts where "distinct ts" "list_all2 (opened_with ssl pub cd tr) (accepted_knocks tr) ts"
    by (auto simp: matched_def)
  then show ?thesis
    by (intro exI [of _ ts])
      (fastforce simp: list_all2_conv_all_nth opened_with_def ticket_signature_def split: prod.split)
qed

text \<open>
  C5. A host that was shut out stays out until it shows a new ticket. After a notice of the
  application for a host, or an order that puts it on the black list, its port is closed and it
  makes no new connection to the application as long as the gateway accepts no knock of it, in
  every run and whatever the other hosts do; only the controller's and the application's own hosts
  are exempt. When the requests over a connection made before are served is left open.
\<close>

theorem shut_out_until_new_ticket:
  assumes "sys_run ssl cd sys sys' junk (before @ (Gateway e, r) # after) c g a" and "shuts ip e"
    and "ip \<notin> {IP_CONTROLLER_PB, IP_APPLICATION_PB}"
    and "\<And>msg port now. (Gateway (GateKnock msg ip port now), 0) \<notin> set after"
  shows "net_opened (gw_whitelist g) ip TCP_PORT_APPLICATION = 0 \<and> (AppConnect ip, 0) \<notin> set after"
proof -
  have "gate_inv g" by (rule gate_inv_run [OF sys_gate_run [OF assms(1)]])
  then show ?thesis
    using shut_until_knock [OF assms(1,2)] assms(3,4) gate_inv_closed [of g ip] by (simp add: gate_initial_def)
qed

section \<open>A run\<close>

text \<open>The client of \<open>run_trace\<close> connects to the application and asks for the page.\<close>

definition visit_trace :: "AccessItem list \<Rightarrow> string \<Rightarrow> sys_trace" where
  "visit_trace items out = run_trace items @ [(AppConnect ''1.2.3.4'', 0), (AppRequest ''GET'' ''1.2.3.4'' 9 out, 0)]"

lemma visit_answered:
  "\<exists>out a. App_AppFuncHttps env ''GET'' \<lparr>socket_info = \<lparr>si_ip = ''1.2.3.4'', si_port = 9\<rparr>\<rparr> SDPApplicationConfig_new = Ret (0, out, a)"
  by (simp add: App_AppFuncHttps_def FrequencyJudgment_def TimeLimitJudgement_def SDPApplicationConfig_new_def
      HTTPS_HANDLER_def Let_def)

lemma visit_exists:
  "\<exists>items out g a. items \<noteq> [] \<and> sys_run toy_ssl admission_codec toy_sys toy_sys 0 (visit_trace items out) run_con2 g a"
proof -
  let ?run = "sys_run toy_ssl admission_codec toy_sys toy_sys 0"
  obtain items g where run: "?run (run_trace items) run_con2 g SDPApplicationConfig_new" "gw_listed g ''1.2.3.4''" "items \<noteq> []"
    using run_exists by blast
  have "gate_inv g" by (rule gate_inv_run [OF sys_gate_run [OF run(1)]])
  then have "0 < net_opened (gw_whitelist g) ''1.2.3.4'' TCP_PORT_APPLICATION"
    using run(2) by (auto simp: gate_inv_def fw_sync_def gate_initial_def const_defs)
  from sys_visit [OF run(1) this] have v: "?run (run_trace items @ [(AppConnect ''1.2.3.4'', 0)]) run_con2 g SDPApplicationConfig_new" by simp
  obtain out a where "App_AppFuncHttps undefined ''GET'' \<lparr>socket_info = \<lparr>si_ip = ''1.2.3.4'', si_port = 9\<rparr>\<rparr> SDPApplicationConfig_new = Ret (0, out, a)"
    using visit_answered by blast
  from sys_request [OF v _ this] run(3) show ?thesis unfolding visit_trace_def by auto
qed

lemma visit_tickets:
  assumes "items \<noteq> []" and "(h, acc, t) \<in> issued (visit_trace items out)"
  shows "h = ''1.2.3.4'' \<and> t = new_ticket admission_te 0 ''1.2.3.4''"
  using assms by (auto simp: issued_def visit_trace_def run_trace_def run_issued simp del: issued_by.simps(1))

lemma toy_fits:
  "length (ser_ticket admission_codec (new_ticket admission_te 0 ''1.2.3.4'')) < rsa_size toy_ssl pub - 42 \<and>
   parse_ticket admission_codec (ser_ticket admission_codec (new_ticket admission_te 0 ''1.2.3.4'')) = new_ticket admission_te 0 ''1.2.3.4''"
  by (simp add: toy_ssl_def toy_codec_def admission_codec_def access_codec_def toy_codec_def new_ticket_def c_str_def
      GET_RANDOM_def admission_te_def)

lemma visit_fits:
  assumes "items \<noteq> []"
  shows "\<forall>(h, acc, t) \<in> issued (visit_trace items out).
     length (ser_ticket admission_codec t) < rsa_size toy_ssl () - 42 \<and> parse_ticket admission_codec (ser_ticket admission_codec t) = t"
  using visit_tickets [OF assms] toy_fits by blast

lemma toy_key: "fopen_ok toy_ssl f" "read_pub toy_ssl f = Some ()"
  by (simp_all add: toy_ssl_def)

lemma toy_one_signature: "one_signature toy_ssl pub"
  by (simp add: one_signature_def toy_ssl_def)

lemma toy_empty: "parse_ticket admission_codec [] = empty_SPATicket"
  by (simp add: admission_codec_def access_codec_def)

theorem request_authorized_witness:
  "\<exists>items out start access between msg port now rest rest' acc t.
     visit_trace items out =
       start @ access # between @ (Gateway (GateKnock msg ''1.2.3.4'' port now), 0) # rest @ (AppConnect ''1.2.3.4'', 0) # rest' @
         [(AppRequest ''GET'' ''1.2.3.4'' 9 out, 0)] \<and>
     (''1.2.3.4'', acc, t) \<in> issued_by (fst access) \<and>
     (\<exists>acc'. knocked toy_ssl admission_codec start ''1.2.3.4'' acc')"
proof -
  obtain items out g a where run: "items \<noteq> []"
      "sys_run toy_ssl admission_codec toy_sys toy_sys 0 (visit_trace items out) run_con2 g a" using visit_exists by blast
  let ?before = "run_trace items @ [(AppConnect ''1.2.3.4'', 0)]"
  have tr: "visit_trace items out = ?before @ (AppRequest ''GET'' ''1.2.3.4'' 9 out, 0) # []" by (simp add: visit_trace_def)
  have "''1.2.3.4'' \<noteq> IP_APPGATEWAY_PB" by (simp add: const_defs)
  with request_authorized [OF run(2) tr toy_key toy_empty visit_fits [OF run(1)]]
  obtain start access between msg port now rest rest' acc t where
      "?before = start @ access # between @ (Gateway (GateKnock msg ''1.2.3.4'' port now), 0) # rest @ (AppConnect ''1.2.3.4'', 0) # rest'"
      "(''1.2.3.4'', acc, t) \<in> issued_by (fst access)" "\<exists>acc'. knocked toy_ssl admission_codec start ''1.2.3.4'' acc'"
    by blast
  moreover from this(1) have "visit_trace items out =
      start @ access # between @ (Gateway (GateKnock msg ''1.2.3.4'' port now), 0) # rest @ (AppConnect ''1.2.3.4'', 0) # rest' @
        [(AppRequest ''GET'' ''1.2.3.4'' 9 out, 0)]" by (simp add: tr)
  ultimately show ?thesis by blast
qed

theorem tickets_single_use_witness:
  "\<exists>items out ts. accepted_knocks (visit_trace items out) = [(''q'', ''1.2.3.4'', 8, 1020)] \<and> length ts = 1 \<and>
     (\<exists>acc. (''1.2.3.4'', acc, ts ! 0) \<in> issued (visit_trace items out)) \<and> \<not> ticket_expired (ts ! 0) 1020"
proof -
  obtain items out g a where run: "items \<noteq> []"
      "sys_run toy_ssl admission_codec toy_sys toy_sys 0 (visit_trace items out) run_con2 g a" using visit_exists by blast
  have acc: "accepted_knocks (visit_trace items out) = [(''q'', ''1.2.3.4'', 8, 1020)]"
    by (simp add: visit_trace_def run_trace_def)
  with tickets_single_use [OF run(2) toy_key toy_one_signature toy_empty _ visit_fits [OF run(1)]]
  obtain ts where "length ts = 1" "(\<exists>acc. (''1.2.3.4'', acc, ts ! 0) \<in> issued (visit_trace items out)) \<and> \<not> ticket_expired (ts ! 0) 1020"
    by (auto simp: acc)
  with acc show ?thesis by blast
qed

text \<open>Then the application complains of the client.\<close>

abbreviation toy_notice :: gate_event where
  "toy_notice \<equiv> GateNotice (close_port_req ''1.2.3.4'') \<lparr>socket_info = \<lparr>si_ip = IP_APPLICATION_PB, si_port = 9\<rparr>\<rparr>"

lemma notice_returns: "\<exists>r rsp g'. Gate_GateFuncNotice sys junk req extra g = Ret (r, rsp, g')"
  by (simp add: Gate_GateFuncNotice_def Let_def case_prod_unfold iAssert_def)

lemma toy_shuts: "shuts ''1.2.3.4'' toy_notice"
  by (simp add: close_port_req_def get_str_def get_i32_def APP_NOTICE_CLOSE_PORT_FOR_IP_def)

theorem shut_out_until_new_ticket_witness:
  "\<exists>items out r c g a.
     sys_run toy_ssl admission_codec toy_sys toy_sys 0 (visit_trace items out @ [(Gateway toy_notice, r)]) c g a \<and>
     net_opened (gw_whitelist g) ''1.2.3.4'' TCP_PORT_APPLICATION = 0"
proof -
  obtain items out g a where run: "sys_run toy_ssl admission_codec toy_sys toy_sys 0 (visit_trace items out) run_con2 g a"
    using visit_exists by blast
  obtain r rsp g' where "Gate_GateFuncNotice toy_sys 0 (close_port_req ''1.2.3.4'')
      \<lparr>socket_info = \<lparr>si_ip = IP_APPLICATION_PB, si_port = 9\<rparr>\<rparr> g = Ret (r, rsp, g')"
    using notice_returns by blast
  from sys_gateway [OF run step_notice [OF this]]
  have "sys_run toy_ssl admission_codec toy_sys toy_sys 0 (visit_trace items out @ (Gateway toy_notice, r) # []) run_con2 g' a" by simp
  moreover from shut_out_until_new_ticket [OF this toy_shuts]
  have "net_opened (gw_whitelist g') ''1.2.3.4'' TCP_PORT_APPLICATION = 0" by (simp add: const_defs)
  ultimately show ?thesis by fast
qed

end
