(* ===== verification/Programs.thy ===== *)
theory Programs
  imports Servers Client
begin

text \<open>
  The \<open>main\<close> functions of the three servers (\<open>sdp_controller_runner\<close>, \<open>sdp_gateway_runner\<close>,
  \<open>sdp_application_runner\<close>): the object of the program is constructed, which makes its server, fills the configuration
  and the firewall, and registers the service; then its \<open>Run\<close> is the server's. The singletons of
  the configurations are constructed before \<open>main\<close>.
\<close>

section \<open>Constructors\<close>

text \<open>What the system calls return while the server's sockets are made, and the memory it starts from.\<close>

record boot_env =
  bt_create :: int
  bt_calloc :: bool
  bt_tcp :: make_env
  bt_udp :: make_env
  bt_memory :: EpollDispatcher
  bt_udp_port :: int

definition two_port_server :: "boot_env \<Rightarrow> int \<Rightarrow> string \<Rightarrow> int \<Rightarrow> int \<Rightarrow> ErpcServer" where
  "two_port_server b self_id ip tcp_port udp_port =
     ErpcServer_new self_id ip tcp_port udp_port
       (\<lambda>i. EpollDispatcher_new (bt_create b) (bt_calloc b) (bt_tcp b) (bt_udp b) i (bt_memory b))"

text \<open>The constructor without a UDP port leaves the member as it was.\<close>

definition one_port_server :: "boot_env \<Rightarrow> int \<Rightarrow> string \<Rightarrow> int \<Rightarrow> ErpcServer" where
  "one_port_server b self_id ip tcp_port =
     ErpcServer_new self_id ip tcp_port (bt_udp_port b)
       (\<lambda>i. EpollDispatcher_new_application (bt_create b) (bt_calloc b) (bt_tcp b) i (bt_memory b))"

text \<open>
  The gateway registers its application last. A failure is only logged: \<open>iAssertNoReturn\<close>. The response
  and the header that it passes are its own and are not looked at.
\<close>

definition gateway_credentials :: ErpcClient where
  "gateway_credentials = \<lparr>cl_cert = SSL_CRT_GATEWAY, cl_key = SSL_KEY_GATEWAY\<rparr>"

definition SDPAppGateway_new ::
  "codec \<Rightarrow> network \<Rightarrow> system_call \<Rightarrow> boot_env \<Rightarrow> Header \<Rightarrow> SDPAppGatewayConfig \<Rightarrow> (ErpcServer \<times> SDPAppGatewayConfig) outcome" where
  "SDPAppGateway_new cd net sys b header g =
     (let server = two_port_server b ID_GATEWAY IP_APPGATEWAY_IN TCP_PORT_APPGATEWAY UDP_PORT_APPGATEWAY;
          g = SDPAppGateway_start sys g;
          req = gateway_register_req
      in obind (ConFuncRegisterAppRequest cd net gateway_credentials req ConFuncRegisterAppRsp header)
           (\<lambda>(ret, rsp, header). Ret (server, g)))"

definition SDPController_new :: "system_call \<Rightarrow> boot_env \<Rightarrow> SDPControllerConfig \<Rightarrow> ErpcServer \<times> SDPControllerConfig" where
  "SDPController_new sys b c =
     (two_port_server b ID_CONTROLLER IP_CONTROLLER_IN TCP_PORT_CONTROLLER UDP_PORT_CONTROLLER, SDPController_start sys c)"

text \<open>
  The other function of the gateway's tool file has an empty body and is called nowhere; it returns what
  the register held.
\<close>

definition CheckUserPermissions :: "int \<Rightarrow> SPAVoucher \<Rightarrow> int" where
  "CheckUserPermissions junk spaVoucher = junk"

section \<open>Main\<close>

definition gateway_main ::
  "'k openssl \<Rightarrow> codec \<Rightarrow> network \<Rightarrow> system_call \<Rightarrow> boot_env \<Rightarrow> Header \<Rightarrow> (int \<times> (int \<times> int) event list) list \<Rightarrow>
     (EpollDispatcher \<times> SDPAppGatewayConfig) run_state outcome" where
  "gateway_main ssl cd net sys b header batches =
     obind (SDPAppGateway_new cd net sys b header (SDPAppGatewayConfig_new sys \<lparr>commands = []\<rparr>))
       (\<lambda>(server, g). Run cd (gateway_config ssl cd sys) batches server g)"

definition controller_main ::
  "'k openssl \<Rightarrow> codec \<Rightarrow> system_call \<Rightarrow> boot_env \<Rightarrow> (int \<times> ticket_env event list) list \<Rightarrow>
     (EpollDispatcher \<times> SDPControllerConfig) run_state outcome" where
  "controller_main ssl cd sys b batches =
     (let (server, c) = SDPController_new sys b (SDPControllerConfig_new sys \<lparr>commands = []\<rparr>)
      in Run cd (controller_config ssl cd sys) batches server c)"

definition application_main ::
  "codec \<Rightarrow> boot_env \<Rightarrow> (int \<times> app_env event list) list \<Rightarrow> (EpollDispatcher \<times> SDPApplicationConfig) run_state outcome" where
  "application_main cd b batches =
     Run cd application_config batches (one_port_server b ID_APPLICATION IP_APPLICATION_IN TCP_PORT_APPLICATION)
       SDPApplicationConfig_new"

section \<open>Lemmas\<close>

text \<open>
  The gateway serves whether or not its application could be registered: every result of the
  request leads to the same program, which is never tried again.
\<close>

lemma gateway_serves_unregistered:
  assumes "ConFuncRegisterAppRequest cd net gateway_credentials gateway_register_req ConFuncRegisterAppRsp header = Ret (ret, rsp, header')"
  shows "gateway_main ssl cd net sys b header batches =
     Run cd (gateway_config ssl cd sys) batches
       (two_port_server b ID_GATEWAY IP_APPGATEWAY_IN TCP_PORT_APPGATEWAY UDP_PORT_APPGATEWAY)
       (SDPAppGateway_start sys (SDPAppGatewayConfig_new sys \<lparr>commands = []\<rparr>))"
  using assms by (simp add: gateway_main_def SDPAppGateway_new_def Let_def)

text \<open>What the programs keep, from \<open>main\<close> on.\<close>

lemma gateway_main_inv:
  assumes "gateway_main ssl cd net sys b header batches = Ret (Waiting logged (d, g))"
  shows "gate_inv g \<and> fdmap_ok d"
proof -
  obtain server g0 where new: "SDPAppGateway_new cd net sys b header (SDPAppGatewayConfig_new sys \<lparr>commands = []\<rparr>) = Ret (server, g0)"
      and run: "Run cd (gateway_config ssl cd sys) batches server g0 = Ret (Waiting logged (d, g))"
    using assms by (auto simp: gateway_main_def outcome_simps)
  from new have "g0 = SDPAppGateway_start sys (SDPAppGatewayConfig_new sys \<lparr>commands = []\<rparr>)" "fdmap_ok (es_dispatcher server)"
    by (auto simp: SDPAppGateway_new_def Let_def outcome_simps two_port_server_def ErpcServer_new_def fdmap_ok_new)
  then show ?thesis using gateway_server.inv_Run [OF run] gate_inv_start fdmap_ok_Run [OF run] by simp
qed

lemma controller_main_inv:
  assumes "controller_main ssl cd sys b batches = Ret (Waiting logged (d, c))"
  shows "con_inv {IP_APPGATEWAY_PB} c \<and> fdmap_ok d"
proof -
  have run: "Run cd (controller_config ssl cd sys) batches
      (two_port_server b ID_CONTROLLER IP_CONTROLLER_IN TCP_PORT_CONTROLLER UDP_PORT_CONTROLLER)
      (SDPController_start sys (SDPControllerConfig_new sys \<lparr>commands = []\<rparr>)) = Ret (Waiting logged (d, c))"
    using assms by (simp add: controller_main_def SDPController_new_def)
  have "fdmap_ok (es_dispatcher (two_port_server b i ip tcp udp))" for i ip tcp udp
    by (simp add: two_port_server_def ErpcServer_new_def fdmap_ok_new)
  then show ?thesis using controller_server.inv_Run [OF run con_inv_start] fdmap_ok_Run [OF run] by simp
qed

lemma application_main_inv:
  assumes "application_main cd b batches = Ret (Waiting logged (d, c))"
  shows "app_inv c \<and> fdmap_ok d"
proof -
  note run = assms [unfolded application_main_def]
  have "app_inv c" by (rule application_server.inv_Run [OF run]) (simp add: app_inv_def SDPApplicationConfig_new_def)
  moreover have "fdmap_ok d"
    by (rule fdmap_ok_Run [OF run]) (simp add: one_port_server_def ErpcServer_new_def fdmap_ok_new)
  ultimately show ?thesis ..
qed

text \<open>None of them returns: the end of each \<open>main\<close> is never reached.\<close>

lemma main_never_returns:
  "gateway_main ssl cd net sys b header batches \<noteq> Ret (Returned r)"
  "controller_main ssl cd sys b batches' \<noteq> Ret (Returned r)"
  "application_main cd b batches'' \<noteq> Ret (Returned r)"
  by (auto simp: gateway_main_def controller_main_def application_main_def SDPController_new_def Run_no_return outcome_simps)

end
