(* ===== verification/TestPrograms.thy ===== *)
theory TestPrograms
  imports Servers Client
begin

text \<open>
  The test programs of the repository: \<open>spa_test.cpp\<close>, \<open>ssl_test.cpp\<close>,
  \<open>erpc_test_server.cpp\<close> and \<open>erpc_test_client.cpp\<close>. With working keys they pass; the
  datagram method of the test server does not, because it decrypts with a public key.
\<close>

section \<open>Vouchers and tickets\<close>

definition spa_test_main :: "'k openssl \<Rightarrow> codec \<Rightarrow> nat \<Rightarrow> int \<Rightarrow> int outcome" where
  "spa_test_main ssl cd seed now =
     (let spaVoucher = \<lparr>v_account = Some \<lparr>a_acc = Some ''arashi'', a_pwd = Some ''123321''\<rparr>, v_mac = Some ''127.0.0.1'',
            v_address = Some ''ChengDu'', v_timestamp = Some (word_of_int now), v_random = None\<rparr> in
      obind (EncryptVoucher ssl cd seed empty_SPAVoucherPacket spaVoucher RSA_PUB_KEY_CONTROLLER) (\<lambda>(ret, packet).
      iAssert ret (Ret (-1))
     (obind (DecryptVoucher ssl cd empty_SPAVoucher packet RSA_PRI_KEY_CONTROLLER) (\<lambda>(ret, de_voucher).
      iAssert ret (Ret (-1))
     (let spaTicket = empty_SPATicket\<lparr>t_ip := Some ''127.0.0.1'', t_timestamp := Some (word_of_int now)\<rparr> in
      obind (EncryptTicket ssl cd seed empty_SPATicketPacket spaTicket RSA_PRI_KEY_CONTROLLER RSA_PUB_KEY_GATEWAY)
        (\<lambda>(ret, spaTicketPacket).
      iAssert ret (Ret (-1))
     (obind (DecryptTicket ssl cd empty_SPATicket spaTicketPacket RSA_PUB_KEY_CONTROLLER RSA_PRI_KEY_GATEWAY)
        (\<lambda>(ret, spaTicket_de). iAssert ret (Ret (-1)) (Ret 0)))))))))"

lemma spa_test_passes:
  assumes "reads_keys ssl RSA_PUB_KEY_CONTROLLER con_pub RSA_PRI_KEY_CONTROLLER con_pri"
    and "rsa_pair ssl con_pub con_pri" and "sign_pair ssl con_pri con_pub"
    and "reads_keys ssl RSA_PUB_KEY_GATEWAY gate_pub RSA_PRI_KEY_GATEWAY gate_pri" and "rsa_pair ssl gate_pub gate_pri"
    and "md5_works ssl" and "\<And>v. parse_voucher cd (ser_voucher cd v) = v" and "\<And>t. parse_ticket cd (ser_ticket cd t) = t"
  shows "spa_test_main ssl cd seed now = Ret 0"
proof -
  let ?v = "\<lparr>v_account = Some \<lparr>a_acc = Some ''arashi'', a_pwd = Some ''123321''\<rparr>, v_mac = Some ''127.0.0.1'',
            v_address = Some ''ChengDu'', v_timestamp = Some (word_of_int now), v_random = None\<rparr>"
  let ?t = "empty_SPATicket\<lparr>t_ip := Some ''127.0.0.1'', t_timestamp := Some (word_of_int now)\<rparr>"
  obtain p where p: "EncryptVoucher ssl cd seed empty_SPAVoucherPacket ?v RSA_PUB_KEY_CONTROLLER = Ret (0, p)"
      "DecryptVoucher ssl cd empty_SPAVoucher p RSA_PRI_KEY_CONTROLLER = Ret (0, ?v)"
    using voucher_survives [OF assms(1,2,6,7)] by blast
  obtain q where q: "EncryptTicket ssl cd seed empty_SPATicketPacket ?t RSA_PRI_KEY_CONTROLLER RSA_PUB_KEY_GATEWAY = Ret (0, q)"
      "DecryptTicket ssl cd empty_SPATicket q RSA_PUB_KEY_CONTROLLER RSA_PRI_KEY_GATEWAY = Ret (0, ?t)"
    using ticket_survives [OF assms(1,3,4,5,6,8)] by blast
  show ?thesis unfolding spa_test_main_def Let_def by (simp add: p q)
qed

section \<open>RSA and digests\<close>

text \<open>
  The results of the calls are not checked; they are given back here with what the calls made.
\<close>

definition ssl_test_text :: string where
  "ssl_test_text = concat (replicate 100 ''hello world '')"

definition ssl_test_main :: "'k openssl \<Rightarrow> nat \<Rightarrow> (string \<times> string \<times> string \<times> int \<times> string) outcome" where
  "ssl_test_main ssl seed =
     obind (RSAEncrypt ssl seed ssl_test_text RSA_PUB_KEY_CONTROLLER) (\<lambda>(ret, en_text).
     obind (RSADecrypt ssl en_text RSA_PRI_KEY_CONTROLLER) (\<lambda>(ret, de_text).
     obind (RSASign ssl de_text RSA_PRI_KEY_CONTROLLER) (\<lambda>(ret, sign_text).
     obind (RSAVerify ssl sign_text de_text RSA_PUB_KEY_CONTROLLER) (\<lambda>ver.
     let (ret, md5_result) = MD5Encrypt ssl ssl_test_text
     in Ret (en_text, de_text, sign_text, ver, md5_result)))))"

lemma ssl_test_passes:
  assumes "reads_keys ssl RSA_PUB_KEY_CONTROLLER pub RSA_PRI_KEY_CONTROLLER pri"
    and "rsa_pair ssl pub pri" and "sign_pair ssl pri pub"
  shows "\<exists>en sig md5. ssl_test_main ssl seed = Ret (en, ssl_test_text, sig, 0, md5)"
proof -
  obtain c where "RSAEncrypt ssl seed ssl_test_text RSA_PUB_KEY_CONTROLLER = Ret (0, c)"
      "RSADecrypt ssl c RSA_PRI_KEY_CONTROLLER = Ret (0, ssl_test_text)"
    using rsa_file_roundtrip [OF assms(1,2)] by blast
  moreover obtain s where "RSASign ssl ssl_test_text RSA_PRI_KEY_CONTROLLER = Ret (0, s)"
      "RSAVerify ssl s ssl_test_text RSA_PUB_KEY_CONTROLLER = Ret 0"
    using sign_file_roundtrip [OF assms(1,3)] by blast
  ultimately show ?thesis by (simp add: ssl_test_main_def case_prod_unfold Let_def)
qed

section \<open>The test server\<close>

definition Test_TestFuncReverse ::
  "TestFuncReverseReq \<Rightarrow> Extra \<Rightarrow> 's \<Rightarrow> (int \<times> TestFuncReverseRsp \<times> 's) outcome" where
  "Test_TestFuncReverse objReq extra s =
     (let str = rev (get_str (tq_str objReq)) in Ret (0, \<lparr>tr_str = Some str\<rparr>, s))"

definition Test_TestFuncUdpRecv ::
  "'k openssl \<Rightarrow> codec \<Rightarrow> string \<Rightarrow> string \<Rightarrow> int \<Rightarrow> 's \<Rightarrow> (int \<times> 's) outcome" where
  "Test_TestFuncUdpRecv ssl cd msg ip port s =
     obind (DecryptVoucher ssl cd empty_SPAVoucher (parse_voucher_packet cd msg) RSA_PUB_KEY_CONTROLLER)
       (\<lambda>(ret, voucher). iAssert ret (Ret (-1, s)) (Ret (0, s)))"

definition test_service :: "'k openssl \<Rightarrow> codec \<Rightarrow> unit ErpcService" where
  "test_service ssl cd = base_service\<lparr>
     TestFuncReverse := Test_TestFuncReverse,
     TestFuncUdpRecv := Test_TestFuncUdpRecv ssl cd\<rparr>"

interpretation test_server: service_contract "test_service ssl cd" "\<lambda>_. True" for ssl cd
  by unfold_locales simp_all

definition test_server_main :: "'k openssl \<Rightarrow> codec \<Rightarrow> (int \<Rightarrow> EpollDispatcher) \<Rightarrow> ErpcServer \<times> unit ErpcConfig" where
  "test_server_main ssl cd new_dispatcher =
     (ErpcServer_new ID_TESTSERVER IP_CONTROLLER_IN TCP_PORT_CONTROLLER UDP_PORT_CONTROLLER new_dispatcher,
      RegisterService (test_service ssl cd) SSL_CRT_CONTROLLER SSL_KEY_CONTROLLER
        \<lparr>cfg_service = base_service, server_cert = [], server_key = []\<rparr>)"

text \<open>No private key can be read from the file of a public key, so the datagram method always fails.\<close>

lemma test_udp_fails:
  "read_pri ssl RSA_PUB_KEY_CONTROLLER = None \<Longrightarrow> Test_TestFuncUdpRecv ssl cd msg ip port s = Ret (-1, s)"
  by (simp add: Test_TestFuncUdpRecv_def DecryptVoucher_def RSADecrypt_def)

section \<open>The test client\<close>

text \<open>The call, its code and the response and header that are logged after a success.\<close>

definition test_client_main :: "codec \<Rightarrow> network \<Rightarrow> (int \<times> TestFuncReverseRsp \<times> Header) outcome" where
  "test_client_main cd net =
     obind (TestFuncReverseRequest cd net client_credentials \<lparr>tq_str = Some ''hello world''\<rparr> \<lparr>tr_str = None\<rparr>
              \<lparr>ret_code = 0, ret_msg = []\<rparr>) (\<lambda>(ret, rsp, header).
       iAssert ret (Ret (-1, rsp, header)) (Ret (0, rsp, header)))"

text \<open>Against the test server the client gets its text back reversed.\<close>

lemma test_client_reversed:
  assumes "ParseRequestAndForward cd (test_service ssl cd)
             (le32 2 @ ser_test_req cd \<lparr>tq_str = Some ''hello world''\<rparr>) [] extra () = Ret (ret, reply, ())"
    and "answered_by (net IP_CONTROLLER_PB TCP_PORT_CONTROLLER) client_credentials
           (le32 2 @ ser_test_req cd \<lparr>tq_str = Some ''hello world''\<rparr>) reply"
    and "\<And>m. parse_test_req cd (ser_test_req cd m) = m" and "\<And>m. parse_test_rsp cd (ser_test_rsp cd m) = m"
  shows "\<exists>header. test_client_main cd net = Ret (0, \<lparr>tr_str = Some ''dlrow olleh''\<rparr>, header) \<and> ret_code header = 0"
proof -
  have "sint (2 :: 32 word) \<in> rpc_commands" by (simp add: rpc_commands_def const_defs)
  from known_request_reply [OF assms(1) this]
  obtain out where f: "RequestForwardWithCmd cd (test_service ssl cd) 2 (ser_test_req cd \<lparr>tq_str = Some ''hello world''\<rparr>) [] extra () = Ret (0, out, ())"
    and reply: "reply = PackDataToString \<lparr>p_cmdid = 2,
      p_header = \<lparr>ret_code = 0, ret_msg = ''Request OK''\<rparr>, p_body = out\<rparr> 1" by auto
  from f have out: "out = ser_test_rsp cd \<lparr>tr_str = Some ''dlrow olleh''\<rparr>"
    by (simp add: RequestForwardWithCmd_def const_defs forward_returning_zero_def RPC_CALL_FORWARD_def assms(3)
        test_service_def Test_TestFuncReverse_def)
  have "rpc_call net client_credentials IP_CONTROLLER_PB TCP_PORT_CONTROLLER 2 (ser_test_req cd \<lparr>tq_str = Some ''hello world''\<rparr>) =
      Ret (0, \<lparr>p_cmdid = 2, p_header = \<lparr>ret_code = 0, ret_msg = wire_msg ''Request OK''\<rparr>, p_body = out\<rparr>)"
    using rpc_call_answered [OF _ reply, of net IP_CONTROLLER_PB TCP_PORT_CONTROLLER client_credentials 2] assms(2) by simp
  then show ?thesis
    by (simp add: test_client_main_def TestFuncReverseRequest_def CMD_RPC_TEST_FUNC_REVERSE_def out assms(4))
qed

section \<open>The small programs\<close>

text \<open>
  \<open>mini_epoll_proc\<close> and \<open>mini_client_ssl\<close> end without a \<open>return\<close> after their last check;
  \<open>junk\<close> is the value they then leave.
\<close>

record mini_env =
  mi_socket :: int
  mi_setsockopt :: int
  mi_bind :: int
  mi_listen :: int
  mi_epoll_create :: int
  mi_epoll_ctl :: int
  mi_calloc_ok :: bool
  mi_epoll_wait :: int
  mi_accept :: int
  mi_connect :: int
  mi_tls :: tls_env

definition mini_epoll_proc :: "mini_env \<Rightarrow> int \<Rightarrow> int" where
  "mini_epoll_proc env junk =
     iAssert (mi_socket env) (-1)
    (iAssert (mi_bind env) (-1)
    (iAssert (mi_listen env) (-1)
    (iAssert (mi_epoll_create env) (-1)
    (iAssert (mi_epoll_ctl env) (-1)
    (iAssertNull (\<not> mi_calloc_ok env) (-1)
    (iAssert (mi_epoll_wait env) (-1) junk))))))"

definition mini_server_ssl :: "mini_env \<Rightarrow> int outcome" where
  "mini_server_ssl env =
     iAssert (mi_socket env) (Ret (-1))
    (iAssert (mi_setsockopt env) (Ret (-1))
    (iAssert (mi_bind env) (Ret (-1))
    (iAssert (mi_listen env) (Ret (-1))
    (obind (SSLConnector_new (mi_tls env) SSL_CRT_GATEWAY SSL_KEY_GATEWAY 1) (\<lambda>conn.
      let (ret, conn) = SSLAccept (mi_tls env) (mi_accept env) conn
      in iAssert ret (Ret (-1)) (Ret 0))))))"

definition mini_client_ssl :: "mini_env \<Rightarrow> int \<Rightarrow> int outcome" where
  "mini_client_ssl env junk =
     iAssert (mi_connect env) (Ret (-1))
    (obind (SSLConnector_new (mi_tls env) SSL_CRT_CONTROLLER SSL_KEY_CONTROLLER 0) (\<lambda>conn.
      let (ret, conn) = SSLConnect (mi_tls env) (mi_socket env) conn
      in iAssert ret (Ret (-1)) (Ret junk)))"

end
