(* ===== verification/Tlog.thy ===== *)
theory Tlog
  imports Prelude
begin

text \<open>
  \<open>comm/tlog\<close>: the level switch, the prefix of a line and the buffer that cuts a message. The
  text that the format and its arguments give is an input (\<open>None\<close> for a null format); the
  standard output is the list of the lines printed.
\<close>

section \<open>Levels\<close>

definition LOG_LEVEL_SWITCH :: int where "LOG_LEVEL_SWITCH = 4"
definition LOG_BUFF_SIZE :: nat where "LOG_BUFF_SIZE = 1024"

definition ERR :: int where "ERR = 1"
definition WARN :: int where "WARN = 2"
definition MSG :: int where "MSG = 3"
definition DEBUG :: int where "DEBUG = 4"

lemmas level_defs = LOG_LEVEL_SWITCH_def ERR_def WARN_def MSG_def DEBUG_def

definition log_level :: "string list" where
  "log_level = ['' '', ''ERROR'', ''WARN-'', ''MSG--'', ''DEBUG'', ''NODEF'']"

record TLog =
  level_of :: int
  line_of :: int
  file_of :: string
  func_of :: string

section \<open>Printing\<close>

text \<open>The level indexes an array of six names.\<close>

definition TLOGPRINT :: "TLog \<Rightarrow> string \<Rightarrow> string list \<Rightarrow> string list outcome" where
  "TLOGPRINT t msg out =
     (if level_of t < 0 \<or> int (length log_level) \<le> level_of t then Undef
      else
        let prefix = log_level ! nat (level_of t)
        in Ret (out @ [''['' @ prefix @ ''] '' @ c_str msg @ [CHR 0x0A]]))"

definition LOGOUT :: "TLog \<Rightarrow> string option \<Rightarrow> string list \<Rightarrow> string list outcome" where
  "LOGOUT t fmt out =
     (let buf = (case fmt of None \<Rightarrow> [] | Some printed \<Rightarrow> take (LOG_BUFF_SIZE - 1) printed)
      in TLOGPRINT t buf out)"

section \<open>Macros\<close>

definition TLOG :: "int \<Rightarrow> string option \<Rightarrow> string list \<Rightarrow> string list outcome" where
  "TLOG lev wrap out =
     (if lev > LOG_LEVEL_SWITCH then Ret out
      else LOGOUT \<lparr>level_of = lev, line_of = 0, file_of = [], func_of = []\<rparr> wrap out)"

definition TLOG_DBG :: "string option \<Rightarrow> string list \<Rightarrow> string list outcome" where
  "TLOG_DBG wrap = TLOG DEBUG wrap"

definition TLOG_ERR :: "string option \<Rightarrow> string list \<Rightarrow> string list outcome" where
  "TLOG_ERR wrap = TLOG ERR wrap"

definition TLOG_MSG :: "string option \<Rightarrow> string list \<Rightarrow> string list outcome" where
  "TLOG_MSG wrap = TLOG MSG wrap"

definition TLOG_WARN :: "string option \<Rightarrow> string list \<Rightarrow> string list outcome" where
  "TLOG_WARN wrap = TLOG WARN wrap"

definition TJ :: "string list \<Rightarrow> string list outcome" where
  "TJ = TLOG_DBG (Some '' XXXX XXXX XXXX XXXX XXXX '')"

text \<open>The check that only logs, and the one that leaves a function without a result.\<close>

definition iAssertNoReturn :: "int \<Rightarrow> string option \<Rightarrow> string list \<Rightarrow> string list outcome" where
  "iAssertNoReturn ret wrap out = (if ret < 0 then TLOG_ERR wrap out else Ret out)"

definition iAssertVoidReturn ::
  "int \<Rightarrow> string option \<Rightarrow> (string list \<Rightarrow> string list outcome) \<Rightarrow> string list \<Rightarrow> string list outcome" where
  "iAssertVoidReturn ret wrap k out = (if ret < 0 then TLOG_ERR wrap out else k out)"

section \<open>Messages\<close>

text \<open>
  \<open>commdef/comm_tool\<close>: a protocol message as JSON, and the macros that print it behind the name of
  the variable (\<open>name\<close>). What the generated code of a message appends to the text is the parameter
  \<open>to_json\<close>; its status is not looked at.
\<close>

definition Proto2Json :: "('m \<Rightarrow> string) \<Rightarrow> 'm \<Rightarrow> string" where
  "Proto2Json to_json proto = (let json = [] in json @ to_json proto)"

definition MSG_PROTO :: "string \<Rightarrow> ('m \<Rightarrow> string) \<Rightarrow> 'm \<Rightarrow> string list \<Rightarrow> string list outcome" where
  "MSG_PROTO name to_json proto = TLOG_MSG (Some (name @ '':'' @ c_str (Proto2Json to_json proto)))"

definition DBG_PROTO :: "string \<Rightarrow> ('m \<Rightarrow> string) \<Rightarrow> 'm \<Rightarrow> string list \<Rightarrow> string list outcome" where
  "DBG_PROTO name to_json proto = TLOG_DBG (Some (name @ '':'' @ c_str (Proto2Json to_json proto)))"

section \<open>The test program\<close>

text \<open>\<open>tlog_test.cpp\<close>, with the texts that its formats give.\<close>

definition tlog_test_main :: "string list \<Rightarrow> string list outcome" where
  "tlog_test_main out =
     obind (TLOG DEBUG (Some ''my age is 8'') out) (\<lambda>out.
     obind (TLOG_DBG (Some ''my age is 8'') out) (\<lambda>out.
     obind (TLOG_ERR (Some ''my age is 8'') out) (\<lambda>out.
     obind (TLOG_WARN (Some ''my age is 8'') out) (\<lambda>out.
     obind (TLOG_MSG (Some ''my age is 8'') out) (\<lambda>out.
     obind (TLOG_MSG (Some []) out) (\<lambda>out.
     TLOG_DBG (Some (''i'' @ [CHR 0x27] @ ''m 20 years old.'')) out))))))"

section \<open>Lemmas\<close>

text \<open>
  Every line of the four macros is the level's name of five letters and at most 1023 characters
  of the message, none of them a zero byte; nothing is undefined, and earlier lines stay.
\<close>

lemma TLOG_line:
  assumes "lev \<in> {ERR, WARN, MSG, DEBUG}"
  shows "\<exists>prefix m. TLOG lev (Some printed) out = Ret (out @ [''['' @ prefix @ ''] '' @ m @ [CHR 0x0A]]) \<and>
     length prefix = 5 \<and> m = c_str (take 1023 printed) \<and> length m \<le> 1023"
proof -
  have "length (c_str (take 1023 printed)) \<le> 1023"
    unfolding c_str_def using length_takeWhile_le [of _ "take 1023 printed"] by (rule order_trans) simp
  then show ?thesis
    using assms by (auto simp: TLOG_def LOGOUT_def TLOGPRINT_def LOG_BUFF_SIZE_def log_level_def level_defs Let_def
        eval_nat_numeral)
qed

text \<open>
  Both macros print, at the level of the repository's switch: a message whose JSON text is short and
  without a zero byte goes to the standard output as it is, so the log of the controller, which
  prints the decrypted voucher, holds the password.
\<close>

lemma proto_printed:
  assumes "length name + length (to_json proto) < 1023" and "CHR 0x00 \<notin> set (name @ to_json proto)"
  shows "\<exists>prefix. DBG_PROTO name to_json proto out = Ret (out @ [prefix @ name @ '':'' @ to_json proto @ [CHR 0x0A]])"
    and "\<exists>prefix. MSG_PROTO name to_json proto out = Ret (out @ [prefix @ name @ '':'' @ to_json proto @ [CHR 0x0A]])"
  using assms
  by (auto simp: DBG_PROTO_def MSG_PROTO_def Proto2Json_def TLOG_DBG_def TLOG_MSG_def TLOG_def LOGOUT_def TLOGPRINT_def
      LOG_BUFF_SIZE_def log_level_def level_defs c_str_id Let_def eval_nat_numeral)

text \<open>A level above the switch prints nothing.\<close>

lemma TLOG_switch: "LOG_LEVEL_SWITCH < lev \<Longrightarrow> TLOG lev wrap out = Ret out"
  by (simp add: TLOG_def)

text \<open>The test program prints its seven lines, whatever was printed before.\<close>

lemma tlog_test_prints:
  "\<exists>lines. tlog_test_main out = Ret (out @ lines) \<and> length lines = 7 \<and> hd lines = ''[DEBUG] my age is 8'' @ [CHR 0x0A]"
  by (simp add: tlog_test_main_def TLOG_DBG_def TLOG_ERR_def TLOG_WARN_def TLOG_MSG_def TLOG_def LOGOUT_def TLOGPRINT_def
      LOG_BUFF_SIZE_def log_level_def level_defs c_str_def Let_def eval_nat_numeral)

end
