(* ===== verification/Md32.thy ===== *)
theory Md32
  imports Prelude
begin

text \<open>
  The digest collector of the OpenSSL copy under \<open>lib3rd\<close> (\<open>crypto/md32_common.h\<close> with the
  context of \<open>openssl/md5.h\<close>), which is what \<open>MD5Encrypt\<close> runs through \<open>MD5_Update\<close> and
  \<open>MD5_Final\<close>: it cuts a text that arrives in pieces into blocks of 64 bytes, counts its bits
  in two words, and pads the last block.

  The compression of one block and the text made of the last state are not in the repository:
  they are the parameters \<open>blk\<close> and \<open>mk\<close>. \<open>big\<close> chooses the byte order (MD5 is little-endian).
\<close>

section \<open>The context\<close>

definition HASH_CBLOCK :: nat where "HASH_CBLOCK = 64"

record 's HASH_CTX =
  h_state :: 's
  Nl :: "32 word"
  Nh :: "32 word"
  h_data :: string
  h_num :: nat

text \<open>\<open>memcpy(p + n, src, length src)\<close> into an array \<open>p\<close>.\<close>

definition memcpy_at :: "string \<Rightarrow> nat \<Rightarrow> string \<Rightarrow> string outcome" where
  "memcpy_at p n src =
     (if n + length src \<le> length p then Ret (take n p @ src @ drop (n + length src) p) else Undef)"

text \<open>\<open>HASH_BLOCK_DATA_ORDER\<close> on \<open>n\<close> blocks.\<close>

fun block_data_order :: "('s \<Rightarrow> string \<Rightarrow> 's) \<Rightarrow> 's \<Rightarrow> string \<Rightarrow> nat \<Rightarrow> 's" where
  "block_data_order blk s data 0 = s"
| "block_data_order blk s data (Suc n) =
     block_data_order blk (blk s (take HASH_CBLOCK data)) (drop HASH_CBLOCK data) n"

section \<open>Operations\<close>

text \<open>The second half of \<open>HASH_UPDATE\<close>: whole blocks, and a rest that is kept.\<close>

definition HASH_UPDATE_blocks ::
  "('s \<Rightarrow> string \<Rightarrow> 's) \<Rightarrow> string \<Rightarrow> 's HASH_CTX \<Rightarrow> (int \<times> 's HASH_CTX) outcome" where
  "HASH_UPDATE_blocks blk data c =
     (let n = length data div HASH_CBLOCK;
          c = (if 0 < n then c\<lparr>h_state := block_data_order blk (h_state c) data n\<rparr> else c);
          data = drop (n * HASH_CBLOCK) data
      in if data \<noteq> [] then
           obind (memcpy_at (h_data c) 0 data) (\<lambda>p. Ret (1, c\<lparr>h_num := length data, h_data := p\<rparr>))
         else Ret (1, c))"

definition HASH_UPDATE ::
  "('s \<Rightarrow> string \<Rightarrow> 's) \<Rightarrow> string \<Rightarrow> 's HASH_CTX \<Rightarrow> (int \<times> 's HASH_CTX) outcome" where
  "HASH_UPDATE blk data c =
     (let len = length data in
      if len = 0 then Ret (1, c)
      else
        let l = Nl c + push_bit 3 (word_of_nat len);
            c = (if l < Nl c then c\<lparr>Nh := Nh c + 1\<rparr> else c);
            c = c\<lparr>Nh := Nh c + word_of_nat (len div 2 ^ 29), Nl := l\<rparr>;
            n = h_num c
        in if n \<noteq> 0 then
             if HASH_CBLOCK \<le> len \<or> HASH_CBLOCK \<le> len + n then
               obind (memcpy_at (h_data c) n (take (HASH_CBLOCK - n) data)) (\<lambda>p.
                 HASH_UPDATE_blocks blk (drop (HASH_CBLOCK - n) data)
                   (c\<lparr>h_state := block_data_order blk (h_state c) p 1, h_num := 0,
                      h_data := replicate HASH_CBLOCK CHR 0x00\<rparr>))
             else obind (memcpy_at (h_data c) n data) (\<lambda>p. Ret (1, c\<lparr>h_data := p, h_num := h_num c + len\<rparr>))
           else HASH_UPDATE_blocks blk data c)"

definition HASH_TRANSFORM :: "('s \<Rightarrow> string \<Rightarrow> 's) \<Rightarrow> string \<Rightarrow> 's HASH_CTX \<Rightarrow> 's HASH_CTX" where
  "HASH_TRANSFORM blk data c = c\<lparr>h_state := block_data_order blk (h_state c) data 1\<rparr>"

definition HOST_l2c :: "bool \<Rightarrow> 32 word \<Rightarrow> string" where
  "HOST_l2c big l = (if big then rev (le32 l) else le32 l)"

definition HASH_FINAL ::
  "bool \<Rightarrow> ('s \<Rightarrow> string \<Rightarrow> 's) \<Rightarrow> ('s \<Rightarrow> string) \<Rightarrow> 's HASH_CTX \<Rightarrow> (int \<times> string \<times> 's HASH_CTX) outcome" where
  "HASH_FINAL big blk mk c =
     obind (memcpy_at (h_data c) (h_num c) [CHR 0x80]) (\<lambda>p.
       let n = Suc (h_num c);
           (p, n, c) = (if HASH_CBLOCK - 8 < n
                        then (let p = take n p @ replicate (HASH_CBLOCK - n) CHR 0x00
                              in (p, 0, c\<lparr>h_state := block_data_order blk (h_state c) p 1\<rparr>))
                        else (p, n, c));
           p = take n p @ replicate (HASH_CBLOCK - 8 - n) CHR 0x00
               @ (if big then HOST_l2c big (Nh c) @ HOST_l2c big (Nl c)
                  else HOST_l2c big (Nl c) @ HOST_l2c big (Nh c));
           s = block_data_order blk (h_state c) p 1
       in Ret (1, mk s, c\<lparr>h_state := s, h_num := 0, h_data := replicate HASH_CBLOCK CHR 0x00\<rparr>))"

text \<open>The context of \<open>MD5_Init\<close> over an initial state, and a text that arrives in pieces.\<close>

definition HASH_INIT :: "'s \<Rightarrow> 's HASH_CTX" where
  "HASH_INIT s = \<lparr>h_state = s, Nl = 0, Nh = 0, h_data = replicate HASH_CBLOCK CHR 0x00, h_num = 0\<rparr>"

fun hash_updates :: "('s \<Rightarrow> string \<Rightarrow> 's) \<Rightarrow> string list \<Rightarrow> 's HASH_CTX \<Rightarrow> 's HASH_CTX outcome" where
  "hash_updates blk [] c = Ret c"
| "hash_updates blk (d # ds) c = obind (HASH_UPDATE blk d c) (\<lambda>(ret, c). hash_updates blk ds c)"

definition hash_pieces ::
  "bool \<Rightarrow> ('s \<Rightarrow> string \<Rightarrow> 's) \<Rightarrow> ('s \<Rightarrow> string) \<Rightarrow> 's \<Rightarrow> string list \<Rightarrow> string outcome" where
  "hash_pieces big blk mk s0 ds =
     obind (hash_updates blk ds (HASH_INIT s0)) (\<lambda>c.
     obind (HASH_FINAL big blk mk c) (\<lambda>(ret, md, c). Ret md))"

section \<open>The reference\<close>

text \<open>
  RFC 1321: the message is followed by a bit 1, zeros up to 56 bytes past a multiple of 64, and
  its length in bits modulo \<open>2 ^ 64\<close>; the blocks of this are absorbed one after the other.
\<close>

definition md_length :: "bool \<Rightarrow> string \<Rightarrow> string" where
  "md_length big m =
     (let lo = word_of_nat (8 * length m); hi = word_of_nat (8 * length m div 2 ^ 32)
      in if big then HOST_l2c big hi @ HOST_l2c big lo else HOST_l2c big lo @ HOST_l2c big hi)"

definition md_pad :: "bool \<Rightarrow> string \<Rightarrow> string" where
  "md_pad big m = m @ CHR 0x80 # replicate ((119 - length m mod 64) mod 64) CHR 0x00 @ md_length big m"

fun absorb :: "('s \<Rightarrow> string \<Rightarrow> 's) \<Rightarrow> 's \<Rightarrow> string \<Rightarrow> 's" where
  "absorb blk s m = (if length m < 64 then s else absorb blk (blk s (take 64 m)) (drop 64 m))"

declare absorb.simps [simp del]

definition md_hash :: "bool \<Rightarrow> ('s \<Rightarrow> string \<Rightarrow> 's) \<Rightarrow> ('s \<Rightarrow> string) \<Rightarrow> 's \<Rightarrow> string \<Rightarrow> string" where
  "md_hash big blk mk s0 m = mk (absorb blk s0 (md_pad big m))"

section \<open>Lemmas\<close>

lemma absorb_short [simp]: "length m < 64 \<Longrightarrow> absorb blk s m = s"
  by (simp add: absorb.simps)

lemma absorb_block: "length b = 64 \<Longrightarrow> absorb blk s (b @ m) = absorb blk (blk s b) m"
  by (subst absorb.simps) simp

lemma absorb_one: "length b = 64 \<Longrightarrow> absorb blk s b = blk s b"
  using absorb_block [of b blk s "[]"] by simp

lemma absorb_append:
  assumes "64 dvd length xs"
  shows "absorb blk s (xs @ ys) = absorb blk (absorb blk s xs) ys"
  using assms
proof (induction xs arbitrary: s rule: length_induct)
  case (1 xs)
  show ?case
  proof (cases "xs = []")
    case False
    with "1.prems" have len: "64 \<le> length xs" by (simp add: dvd_imp_le)
    then have "64 dvd length (drop 64 xs)" "length (drop 64 xs) < length xs"
      using "1.prems" by auto
    with "1.IH" have "absorb blk s' (drop 64 xs @ ys) = absorb blk (absorb blk s' (drop 64 xs)) ys" for s'
      by blast
    then show ?thesis using len by (simp add: absorb.simps [of blk s])
  qed simp
qed

lemma block_data_order_absorb:
  "64 * n \<le> length data \<Longrightarrow> block_data_order blk s data n = absorb blk s (take (64 * n) data)"
proof (induction n arbitrary: s data)
  case (Suc n)
  then have "take (64 * Suc n) data = take 64 data @ take (64 * n) (drop 64 data)"
    by (metis mult_Suc_right take_add)
  moreover have "length (take 64 data) = 64" using Suc.prems by simp
  ultimately show ?case using Suc by (simp add: absorb_block HASH_CBLOCK_def)
qed simp

lemma memcpy_at_Ret: "n + length src \<le> length p \<Longrightarrow> memcpy_at p n src = Ret (take n p @ src @ drop (n + length src) p)"
  by (simp add: memcpy_at_def)

text \<open>
  What the context knows of the text \<open>m\<close> that has arrived: all whole blocks are absorbed, the
  rest is kept, the bits are counted.
\<close>

definition collected :: "('s \<Rightarrow> string \<Rightarrow> 's) \<Rightarrow> 's \<Rightarrow> string \<Rightarrow> 's HASH_CTX \<Rightarrow> bool" where
  "collected blk s0 m c \<longleftrightarrow>
     (\<exists>whole rest. m = whole @ rest \<and> 64 dvd length whole \<and> length rest < 64 \<and>
        h_state c = absorb blk s0 whole \<and> h_num c = length rest \<and>
        length (h_data c) = 64 \<and> take (length rest) (h_data c) = rest) \<and>
     Nl c = word_of_nat (8 * length m) \<and> Nh c = word_of_nat (8 * length m div 2 ^ 32)"

lemma collected_init: "collected blk s0 [] (HASH_INIT s0)"
  by (simp add: collected_def HASH_INIT_def HASH_CBLOCK_def)

text \<open>The two counting words.\<close>

lemma count_low: "word_of_nat (8 * a) + push_bit 3 (word_of_nat b :: 32 word) = word_of_nat (8 * (a + b))"
  by (simp add: push_bit_eq_mult algebra_simps)

lemma len_32: "LENGTH(32) = 32"
  by simp

lemma count_high:
  fixes a b :: nat
  defines "l \<equiv> (word_of_nat (8 * (a + b)) :: 32 word)"
  shows "(if l < word_of_nat (8 * a) then word_of_nat (8 * a div 2 ^ 32) + 1 else word_of_nat (8 * a div 2 ^ 32)) +
      word_of_nat (b div 2 ^ 29) = (word_of_nat (8 * (a + b) div 2 ^ 32) :: 32 word)"
proof -
  let ?M = "2 ^ 32 :: nat"
  define x y where "x = 8 * a mod ?M" and "y = 8 * b mod ?M"
  have xy: "x < ?M" "y < ?M" by (simp_all add: x_def y_def)
  have b: "b div 2 ^ 29 = 8 * b div ?M"
    using div_mult_mult1 [of 8 b "2 ^ 29"] by simp
  have sum: "8 * (a + b) div ?M = 8 * a div ?M + 8 * b div ?M + (x + y) div ?M"
    unfolding x_def y_def distrib_left by (rule div_add1_eq)
  have less: "l < word_of_nat (8 * a) \<longleftrightarrow> (x + y) mod ?M < x"
    unfolding l_def x_def y_def word_less_nat_alt unat_of_nat take_bit_eq_mod distrib_left mod_add_eq
    by (simp only: len_32)
  have carry: "(x + y) div ?M = (if (x + y) mod ?M < x then 1 else 0)"
  proof (cases "x + y < ?M")
    case False
    then have "(x + y) div ?M = 1" "(x + y) mod ?M = x + y - ?M"
      using xy by (simp_all add: div_nat_eqI le_mod_geq)
    then show ?thesis using xy False by simp
  qed simp
  show ?thesis unfolding less b sum carry by simp
qed


lemma update_blocks:
  assumes "length (h_data c) = 64" and "h_num c = 0"
  shows "\<exists>c'. HASH_UPDATE_blocks blk data c = Ret (1, c') \<and> Nl c' = Nl c \<and> Nh c' = Nh c \<and>
     (\<exists>whole rest. data = whole @ rest \<and> 64 dvd length whole \<and> length rest < 64 \<and>
        h_state c' = absorb blk (h_state c) whole \<and> h_num c' = length rest \<and>
        length (h_data c') = 64 \<and> take (length rest) (h_data c') = rest)"
proof -
  let ?n = "length data div 64"
  let ?whole = "take (64 * ?n) data" and ?rest = "drop (64 * ?n) data"
  have n: "64 * ?n \<le> length data" by simp
  have rest: "length ?rest < 64" by (simp add: minus_mult_div_eq_mod)
  have whole: "length ?whole = 64 * ?n" using n by simp
  have "\<exists>c'. HASH_UPDATE_blocks blk data c = Ret (1, c') \<and> Nl c' = Nl c \<and> Nh c' = Nh c \<and>
      h_state c' = absorb blk (h_state c) ?whole \<and> h_num c' = length ?rest \<and>
      length (h_data c') = 64 \<and> take (length ?rest) (h_data c') = ?rest"
    using assms rest block_data_order_absorb [OF n, of blk "h_state c"]
    by (cases "?rest = []")
      (auto simp: HASH_UPDATE_blocks_def HASH_CBLOCK_def Let_def memcpy_at_Ret mult.commute)
  moreover have "data = ?whole @ ?rest" "64 dvd length ?whole" using whole by (simp_all only: append_take_drop_id dvd_triv_left)
  ultimately show ?thesis using rest by metis
qed

text \<open>From an empty buffer, with the bits counted already.\<close>

lemma collected_blocks:
  assumes "length (h_data c) = 64" and "h_num c = 0" and "h_state c = absorb blk s0 whole" and "64 dvd length whole"
    and "Nl c = word_of_nat (8 * length (whole @ data))" and "Nh c = word_of_nat (8 * length (whole @ data) div 2 ^ 32)"
  shows "\<exists>c'. HASH_UPDATE_blocks blk data c = Ret (1, c') \<and> collected blk s0 (whole @ data) c'"
proof -
  obtain c' whole' rest where c': "HASH_UPDATE_blocks blk data c = Ret (1, c')" "Nl c' = Nl c" "Nh c' = Nh c"
      "data = whole' @ rest" "64 dvd length whole'" "length rest < 64"
      "h_state c' = absorb blk (h_state c) whole'" "h_num c' = length rest" "length (h_data c') = 64"
      "take (length rest) (h_data c') = rest"
    using update_blocks [OF assms(1,2), of blk data] by blast
  then have "collected blk s0 (whole @ data) c'"
    unfolding collected_def using assms(3-6)
    by (intro conjI exI [of _ "whole @ whole'"] exI [of _ rest]) (simp_all add: absorb_append)
  with c'(1) show ?thesis by blast
qed

lemma collected_update:
  assumes "collected blk s0 m c"
  shows "\<exists>c'. HASH_UPDATE blk data c = Ret (1, c') \<and> collected blk s0 (m @ data) c'"
proof (cases "data = []")
  case True
  then show ?thesis using assms by (simp add: HASH_UPDATE_def)
next
  case False
  define l where "l = Nl c + push_bit 3 (word_of_nat (length data))"
  define h where "h = (if l < Nl c then Nh c + 1 else Nh c) + word_of_nat (length data div 2 ^ 29)"
  define c1 where "c1 = c\<lparr>Nh := h, Nl := l\<rparr>"
  obtain whole rest where m: "m = whole @ rest" "64 dvd length whole" "length rest < 64"
      "h_state c = absorb blk s0 whole" "h_num c = length rest" "length (h_data c) = 64"
      "take (length rest) (h_data c) = rest"
    and cnt: "Nl c = word_of_nat (8 * length m)" "Nh c = word_of_nat (8 * length m div 2 ^ 32)"
    using assms unfolding collected_def by blast
  have l: "l = word_of_nat (8 * length (m @ data))" unfolding l_def cnt length_append by (rule count_low)
  have h: "h = word_of_nat (8 * length (m @ data) div 2 ^ 32)" unfolding h_def l cnt length_append by (rule count_high)
  have upd: "(let c = (if l < Nl c then c\<lparr>Nh := Nh c + 1\<rparr> else c)
      in c\<lparr>Nh := Nh c + word_of_nat (length data div 2 ^ 29), Nl := l\<rparr>) = c1"
    by (simp add: c1_def h_def Let_def)
  consider (empty) "rest = []" | (full) "rest \<noteq> []" "64 \<le> length rest + length data"
    | (short) "rest \<noteq> []" "length rest + length data < 64" by linarith
  then show ?thesis
  proof cases
    case empty
    have "HASH_UPDATE blk data c = HASH_UPDATE_blocks blk data c1"
      using False m(5) empty upd by (simp add: HASH_UPDATE_def l_def [symmetric] Let_def)
    then show ?thesis using collected_blocks [of c1 blk s0 whole data] m empty l h by (simp add: c1_def)
  next
    case full
    let ?k = "64 - length rest"
    let ?block = "rest @ take ?k data"
    define c2 where "c2 = c1\<lparr>h_state := blk (h_state c) ?block, h_num := 0, h_data := replicate 64 CHR 0x00\<rparr>"
    have block: "length ?block = 64" using full m(3) by simp
    have all: "m @ data = (whole @ ?block) @ drop ?k data" using m(1) by simp
    have "h_state c2 = absorb blk s0 (whole @ ?block)"
      by (simp only: absorb_append [OF m(2)] absorb_one [OF block]) (simp add: c2_def m(4))
    moreover have "64 dvd length (whole @ ?block)" using m(2) block by (simp only: length_append) simp
    ultimately have "\<exists>c'. HASH_UPDATE_blocks blk (drop ?k data) c2 = Ret (1, c') \<and> collected blk s0 (m @ data) c'"
      unfolding all by (intro collected_blocks) (use l h all in \<open>simp_all add: c2_def c1_def\<close>)
    moreover have "HASH_UPDATE blk data c = HASH_UPDATE_blocks blk (drop ?k data) c2"
      using False m full upd block
      by (simp add: HASH_UPDATE_def l_def [symmetric] Let_def HASH_CBLOCK_def c2_def c1_def h_def add.commute memcpy_at_Ret)
    ultimately show ?thesis by simp
  next
    case short
    let ?c = "c1\<lparr>h_data := rest @ data @ drop (length rest + length data) (h_data c), h_num := length rest + length data\<rparr>"
    have "HASH_UPDATE blk data c = Ret (1, ?c)"
      using False m short upd
      by (simp add: HASH_UPDATE_def l_def [symmetric] Let_def HASH_CBLOCK_def memcpy_at_Ret c1_def h_def)
    moreover have "collected blk s0 (m @ data) ?c"
      unfolding collected_def using m short l h
      by (intro conjI exI [of _ whole] exI [of _ "rest @ data"]) (simp_all add: c1_def)
    ultimately show ?thesis by blast
  qed
qed

lemma length_HOST_l2c [simp]: "length (HOST_l2c big l) = 4"
  by (simp add: HOST_l2c_def)

lemma collected_final:
  assumes "collected blk s0 m c"
  shows "\<exists>c'. HASH_FINAL big blk mk c = Ret (1, md_hash big blk mk s0 m, c')"
proof -
  obtain whole rest where m: "m = whole @ rest" "64 dvd length whole" "length rest < 64"
      "h_state c = absorb blk s0 whole" "h_num c = length rest" "length (h_data c) = 64"
      "take (length rest) (h_data c) = rest"
    and cnt: "Nl c = word_of_nat (8 * length m)" "Nh c = word_of_nat (8 * length m div 2 ^ 32)"
    using assms unfolding collected_def by blast
  let ?r = "length rest"
  let ?len = "if big then HOST_l2c big (Nh c) @ HOST_l2c big (Nl c) else HOST_l2c big (Nl c) @ HOST_l2c big (Nh c)"
  have len: "?len = md_length big m" by (simp only: md_length_def Let_def cnt)
  have len8: "length (md_length big m) = 8" by (simp add: md_length_def Let_def)
  have mod: "length m mod 64 = ?r" using m(1-3) by auto
  have copy: "memcpy_at (h_data c) ?r [CHR 0x80] = Ret (rest @ CHR 0x80 # drop (Suc ?r) (h_data c))"
    using m(3,6,7) by (simp add: memcpy_at_Ret)
  show ?thesis
  proof (cases "?r < 56")
    case True
    let ?last = "rest @ CHR 0x80 # replicate (55 - ?r) CHR 0x00 @ md_length big m"
    have "(119 - ?r) mod 64 = 55 - ?r" using True by (simp add: le_mod_geq)
    then have "md_pad big m = whole @ ?last" unfolding md_pad_def mod by (simp add: m(1))
    moreover have "length ?last = 64" using True len8 by simp
    ultimately have "absorb blk s0 (md_pad big m) = blk (h_state c) ?last"
      by (simp only: m(4) absorb_append [OF m(2)] absorb_one)
    with True \<open>length ?last = 64\<close> len show ?thesis
      by (cases big) (simp_all add: HASH_FINAL_def copy m(5) HASH_CBLOCK_def Let_def md_hash_def)
  next
    case False
    let ?b1 = "rest @ CHR 0x80 # replicate (63 - ?r) CHR 0x00"
      and ?b2 = "replicate 56 CHR 0x00 @ md_length big m"
    have "replicate (119 - ?r) CHR 0x00 = replicate (63 - ?r) CHR 0x00 @ replicate 56 CHR 0x00"
      using m(3) by (subst replicate_add [symmetric]) simp
    then have "md_pad big m = whole @ ?b1 @ ?b2" using False m(3) unfolding md_pad_def mod by (simp add: m(1))
    moreover have b: "length ?b1 = 64" "length ?b2 = 64" using m(3) len8 by simp_all
    ultimately have "absorb blk s0 (md_pad big m) = blk (blk (h_state c) ?b1) ?b2"
      by (simp only: m(4) absorb_append [OF m(2)] absorb_block [OF b(1)] absorb_one [OF b(2)])
    with False b m(3) len show ?thesis
      by (cases big) (simp_all add: HASH_FINAL_def copy m(5) HASH_CBLOCK_def Let_def md_hash_def)
  qed
qed

lemma collected_updates:
  "collected blk s0 m c \<Longrightarrow> \<exists>c'. hash_updates blk ds c = Ret c' \<and> collected blk s0 (m @ concat ds) c'"
proof (induction ds arbitrary: m c)
  case (Cons d ds)
  obtain c1 where "HASH_UPDATE blk d c = Ret (1, c1)" "collected blk s0 (m @ d) c1"
    using collected_update [OF Cons.prems] by blast
  then show ?case using Cons.IH [of "m @ d" c1] by simp
qed simp

section \<open>Properties\<close>

text \<open>
  C22. The digest does not depend on how the text arrives: for any text cut into any pieces, of any
  lengths, the updates and the final step return the digest of the whole text as the RFC defines
  it, with no access outside the 64-byte buffer; the bit count wraps at 64 bits as the RFC says.
\<close>

theorem digest_of_pieces: "hash_pieces big blk mk s0 ds = Ret (md_hash big blk mk s0 (concat ds))"
proof -
  obtain c where "hash_updates blk ds (HASH_INIT s0) = Ret c" "collected blk s0 (concat ds) c"
    using collected_updates [OF collected_init, of blk ds s0] by auto
  moreover from collected_final [OF this(2)]
  obtain c' where "HASH_FINAL big blk mk c = Ret (1, md_hash big blk mk s0 (concat ds), c')" by blast
  ultimately show ?thesis by (simp add: hash_pieces_def)
qed

end
