(* ===== verification/ConstantTime.thy ===== *)
theory ConstantTime
  imports Prelude
begin

text \<open>
  The branch-free helpers of the OpenSSL copy under \<open>lib3rd\<close> (\<open>internal/constant_time.h\<close>):
  comparisons that give a mask of all ones or all zeros, selection by such a mask, and the
  loops that swap buffers or look up a row of a table. \<open>unsigned int\<close> and \<open>uint32_t\<close> have 32
  bits, \<open>size_t\<close> and \<open>uint64_t\<close> 64, a byte is an \<open>8 word\<close>; a conversion is \<open>ucast\<close>.
\<close>

unbundle bit_operations_syntax

section \<open>Comparisons\<close>

definition constant_time_msb :: "32 word \<Rightarrow> 32 word" where
  "constant_time_msb a = 0 - drop_bit (4 * 8 - 1) a"

definition constant_time_msb_32 :: "32 word \<Rightarrow> 32 word" where
  "constant_time_msb_32 a = 0 - drop_bit 31 a"

definition constant_time_msb_64 :: "64 word \<Rightarrow> 64 word" where
  "constant_time_msb_64 a = 0 - drop_bit 63 a"

definition constant_time_msb_s :: "64 word \<Rightarrow> 64 word" where
  "constant_time_msb_s a = 0 - drop_bit (8 * 8 - 1) a"

definition constant_time_lt :: "32 word \<Rightarrow> 32 word \<Rightarrow> 32 word" where
  "constant_time_lt a b = constant_time_msb (a XOR ((a XOR b) OR ((a - b) XOR b)))"

definition constant_time_lt_s :: "64 word \<Rightarrow> 64 word \<Rightarrow> 64 word" where
  "constant_time_lt_s a b = constant_time_msb_s (a XOR ((a XOR b) OR ((a - b) XOR b)))"

definition constant_time_lt_8 :: "32 word \<Rightarrow> 32 word \<Rightarrow> 8 word" where
  "constant_time_lt_8 a b = ucast (constant_time_lt a b)"

definition constant_time_lt_64 :: "64 word \<Rightarrow> 64 word \<Rightarrow> 64 word" where
  "constant_time_lt_64 a b = constant_time_msb_64 (a XOR ((a XOR b) OR ((a - b) XOR b)))"

definition constant_time_ge :: "32 word \<Rightarrow> 32 word \<Rightarrow> 32 word" where
  "constant_time_ge a b = NOT (constant_time_lt a b)"

definition constant_time_ge_s :: "64 word \<Rightarrow> 64 word \<Rightarrow> 64 word" where
  "constant_time_ge_s a b = NOT (constant_time_lt_s a b)"

definition constant_time_ge_8 :: "32 word \<Rightarrow> 32 word \<Rightarrow> 8 word" where
  "constant_time_ge_8 a b = ucast (constant_time_ge a b)"

definition constant_time_ge_8_s :: "64 word \<Rightarrow> 64 word \<Rightarrow> 8 word" where
  "constant_time_ge_8_s a b = ucast (constant_time_ge_s a b)"

definition constant_time_is_zero :: "32 word \<Rightarrow> 32 word" where
  "constant_time_is_zero a = constant_time_msb (NOT a AND (a - 1))"

definition constant_time_is_zero_s :: "64 word \<Rightarrow> 64 word" where
  "constant_time_is_zero_s a = constant_time_msb_s (NOT a AND (a - 1))"

definition constant_time_is_zero_8 :: "32 word \<Rightarrow> 8 word" where
  "constant_time_is_zero_8 a = ucast (constant_time_is_zero a)"

definition constant_time_is_zero_32 :: "32 word \<Rightarrow> 32 word" where
  "constant_time_is_zero_32 a = constant_time_msb_32 (NOT a AND (a - 1))"

definition constant_time_is_zero_64 :: "64 word \<Rightarrow> 64 word" where
  "constant_time_is_zero_64 a = constant_time_msb_64 (NOT a AND (a - 1))"

definition constant_time_eq :: "32 word \<Rightarrow> 32 word \<Rightarrow> 32 word" where
  "constant_time_eq a b = constant_time_is_zero (a XOR b)"

definition constant_time_eq_s :: "64 word \<Rightarrow> 64 word \<Rightarrow> 64 word" where
  "constant_time_eq_s a b = constant_time_is_zero_s (a XOR b)"

definition constant_time_eq_8 :: "32 word \<Rightarrow> 32 word \<Rightarrow> 8 word" where
  "constant_time_eq_8 a b = ucast (constant_time_eq a b)"

definition constant_time_eq_8_s :: "64 word \<Rightarrow> 64 word \<Rightarrow> 8 word" where
  "constant_time_eq_8_s a b = ucast (constant_time_eq_s a b)"

text \<open>An \<open>int\<close> argument is the value; the conversion to \<open>unsigned\<close> takes it modulo \<open>2 ^ 32\<close>.\<close>

definition constant_time_eq_int :: "int \<Rightarrow> int \<Rightarrow> 32 word" where
  "constant_time_eq_int a b = constant_time_eq (word_of_int a) (word_of_int b)"

definition constant_time_eq_int_8 :: "int \<Rightarrow> int \<Rightarrow> 8 word" where
  "constant_time_eq_int_8 a b = constant_time_eq_8 (word_of_int a) (word_of_int b)"

section \<open>Selection\<close>

text \<open>The barriers return their argument; they only keep the compiler from looking through it.\<close>

definition value_barrier :: "32 word \<Rightarrow> 32 word" where "value_barrier a = a"
definition value_barrier_32 :: "32 word \<Rightarrow> 32 word" where "value_barrier_32 a = a"
definition value_barrier_64 :: "64 word \<Rightarrow> 64 word" where "value_barrier_64 a = a"
definition value_barrier_s :: "64 word \<Rightarrow> 64 word" where "value_barrier_s a = a"

definition constant_time_select :: "32 word \<Rightarrow> 32 word \<Rightarrow> 32 word \<Rightarrow> 32 word" where
  "constant_time_select m a b = (value_barrier m AND a) OR (value_barrier (NOT m) AND b)"

definition constant_time_select_s :: "64 word \<Rightarrow> 64 word \<Rightarrow> 64 word \<Rightarrow> 64 word" where
  "constant_time_select_s m a b = (value_barrier_s m AND a) OR (value_barrier_s (NOT m) AND b)"

definition constant_time_select_8 :: "8 word \<Rightarrow> 8 word \<Rightarrow> 8 word \<Rightarrow> 8 word" where
  "constant_time_select_8 m a b = ucast (constant_time_select (ucast m) (ucast a) (ucast b))"

definition constant_time_select_int :: "32 word \<Rightarrow> int \<Rightarrow> int \<Rightarrow> int" where
  "constant_time_select_int m a b = sint (constant_time_select m (word_of_int a) (word_of_int b))"

definition constant_time_select_int_s :: "64 word \<Rightarrow> int \<Rightarrow> int \<Rightarrow> int" where
  "constant_time_select_int_s m a b = sint (constant_time_select (ucast m) (word_of_int a) (word_of_int b))"

definition constant_time_select_32 :: "32 word \<Rightarrow> 32 word \<Rightarrow> 32 word \<Rightarrow> 32 word" where
  "constant_time_select_32 m a b = (value_barrier_32 m AND a) OR (value_barrier_32 (NOT m) AND b)"

definition constant_time_select_64 :: "64 word \<Rightarrow> 64 word \<Rightarrow> 64 word \<Rightarrow> 64 word" where
  "constant_time_select_64 m a b = (value_barrier_64 m AND a) OR (value_barrier_64 (NOT m) AND b)"

section \<open>Swapping and lookup\<close>

text \<open>The new contents of the two variables.\<close>

definition constant_time_cond_swap_32 :: "32 word \<Rightarrow> 32 word \<Rightarrow> 32 word \<Rightarrow> 32 word \<times> 32 word" where
  "constant_time_cond_swap_32 m a b = (let x = (a XOR b) AND m in (a XOR x, b XOR x))"

definition constant_time_cond_swap_64 :: "64 word \<Rightarrow> 64 word \<Rightarrow> 64 word \<Rightarrow> 64 word \<times> 64 word" where
  "constant_time_cond_swap_64 m a b = (let x = (a XOR b) AND m in (a XOR x, b XOR x))"

text \<open>
  Two separate buffers, from position \<open>i\<close> for \<open>n\<close> more bytes; an access past the end of one of
  them is undefined.
\<close>

fun swap_loop :: "8 word \<Rightarrow> 8 word list \<Rightarrow> 8 word list \<Rightarrow> nat \<Rightarrow> nat \<Rightarrow> (8 word list \<times> 8 word list) outcome" where
  "swap_loop m a b i 0 = Ret (a, b)"
| "swap_loop m a b i (Suc n) =
     (if length a \<le> i \<or> length b \<le> i then Undef
      else let tmp = (a ! i XOR b ! i) AND m
           in swap_loop m (a[i := a ! i XOR tmp]) (b[i := b ! i XOR tmp]) (Suc i) n)"

definition constant_time_cond_swap_buff ::
  "8 word \<Rightarrow> 8 word list \<Rightarrow> 8 word list \<Rightarrow> nat \<Rightarrow> (8 word list \<times> 8 word list) outcome" where
  "constant_time_cond_swap_buff m a b len = swap_loop m a b 0 len"

text \<open>The inner loop of the lookup: \<open>j\<close> runs over the columns, \<open>t\<close> is what is left of the table.\<close>

fun lookup_row :: "8 word \<Rightarrow> 8 word list \<Rightarrow> 8 word list \<Rightarrow> nat \<Rightarrow> nat \<Rightarrow> (8 word list \<times> 8 word list) outcome" where
  "lookup_row m out t j 0 = Ret (out, t)"
| "lookup_row m out t j (Suc n) =
     (case t of
        [] \<Rightarrow> Undef
      | x # t \<Rightarrow>
          if length out \<le> j then Undef
          else lookup_row m (out[j := out ! j OR constant_time_select_8 m x 0]) t (Suc j) n)"

fun lookup_rows :: "8 word list \<Rightarrow> 8 word list \<Rightarrow> nat \<Rightarrow> nat \<Rightarrow> 64 word \<Rightarrow> 8 word list outcome" where
  "lookup_rows out t rowsize 0 idx = Ret out"
| "lookup_rows out t rowsize (Suc n) idx =
     obind (lookup_row (ucast (constant_time_is_zero_s idx)) out t 0 rowsize)
       (\<lambda>(out, t). lookup_rows out t rowsize n (idx - 1))"

text \<open>
  The start of the output, \<open>rowsize\<close> bytes of zeros, and what lies after them.
\<close>

definition constant_time_lookup ::
  "8 word list \<Rightarrow> 8 word list \<Rightarrow> nat \<Rightarrow> nat \<Rightarrow> 64 word \<Rightarrow> 8 word list outcome" where
  "constant_time_lookup out table rowsize numrows idx =
     (if length out < rowsize then Undef
      else lookup_rows (replicate rowsize 0 @ drop rowsize out) table rowsize numrows idx)"

section \<open>Lemmas\<close>

text \<open>The mask of a truth value.\<close>

definition mask_of :: "bool \<Rightarrow> 'a::len word" where
  "mask_of p = (if p then -1 else 0)"

lemma mask_of_simps [simp]:
  "mask_of True = (-1 :: 'a::len word)" "mask_of False = (0 :: 'a::len word)"
  by (simp_all add: mask_of_def)

text \<open>The top bit of a word: it decides the size of the value, and the borrow of a difference.\<close>

abbreviation top_bit :: "'a::len word \<Rightarrow> bool" where
  "top_bit a \<equiv> bit a (LENGTH('a) - Suc 0)"

lemma top_bit_uint: "top_bit a \<longleftrightarrow> 2 ^ (LENGTH('a) - 1) \<le> uint (a :: 'a::len word)"
proof -
  define n where "n = LENGTH('a) - 1"
  have "uint a < 2 ^ LENGTH('a)" by (rule uint_bounded)
  then have u: "uint a < 2 * 2 ^ n" by (simp add: n_def flip: power_Suc)
  have "uint a div 2 ^ n = (if 2 ^ n \<le> uint a then 1 else 0)"
  proof (cases "2 ^ n \<le> uint a")
    case True
    then have "uint a div 2 ^ n = 1" using u by (intro int_div_pos_eq [of _ _ _ "uint a - 2 ^ n"]) simp_all
    with True show ?thesis by simp
  qed (simp add: div_pos_pos_trivial)
  then have "bit (uint a) n \<longleftrightarrow> 2 ^ n \<le> uint a" by (simp add: bit_iff_odd)
  then show ?thesis by (simp add: bit_uint_iff n_def)
qed

lemma top_bit_mask:
  fixes a :: "'a::len word"
  assumes "n = LENGTH('a) - Suc 0"
  shows "0 - drop_bit n a = mask_of (top_bit a)"
proof -
  have "drop_bit n a = (if top_bit a then 1 else 0)"
  proof (rule bit_word_eqI)
    fix k
    have "\<not> bit a (n + k)" if "0 < k"
      using that bit_imp_le_length [of a "n + k"] by (auto simp: assms)
    then show "bit (drop_bit n a) k = bit (if top_bit a then 1 else 0 :: 'a word) k"
      by (cases k) (auto simp: bit_drop_bit_eq assms bit_1_iff)
  qed
  then show ?thesis by (simp add: mask_of_def)
qed

lemma borrow_bit:
  fixes a b :: "'a::len word"
  assumes "top_bit a = top_bit b"
  shows "top_bit (a - b) \<longleftrightarrow> a < b"
proof -
  define H :: int where "H = 2 ^ (LENGTH('a) - 1)"
  have H: "2 ^ LENGTH('a) = 2 * H" by (simp add: H_def flip: power_Suc)
  have range: "0 \<le> uint a" "uint a < 2 * H" "0 \<le> uint b" "uint b < 2 * H"
    using uint_bounded [of a] uint_bounded [of b] by (simp_all add: H)
  have "uint (a - b) = (if uint b \<le> uint a then uint a - uint b else uint a - uint b + 2 * H)"
    by (simp add: uint_sub_if' H)
  moreover have "H \<le> uint a \<longleftrightarrow> H \<le> uint b" using assms by (simp add: top_bit_uint H_def)
  ultimately show ?thesis
    using range unfolding top_bit_uint word_less_def H_def [symmetric]
    by (cases "H \<le> uint a"; simp split: if_splits; linarith)
qed

lemma lt_bit:
  fixes a b :: "'a::len word"
  shows "top_bit (a XOR ((a XOR b) OR ((a - b) XOR b))) \<longleftrightarrow> a < b"
proof (cases "top_bit a = top_bit b")
  case True
  then show ?thesis using borrow_bit [OF True] by (auto simp: bit_xor_iff bit_or_iff)
next
  case False
  then have "a < b \<longleftrightarrow> \<not> top_bit a" by (auto simp: top_bit_uint word_less_def)
  then show ?thesis using False by (auto simp: bit_xor_iff bit_or_iff)
qed

lemma zero_bit:
  fixes a :: "'a::len word"
  shows "top_bit (NOT a AND (a - 1)) \<longleftrightarrow> a = 0"
proof (cases "top_bit a")
  case True
  then show ?thesis by (auto simp: bit_and_iff bit_not_iff)
next
  case False
  have "top_bit (a - 1) \<longleftrightarrow> a = 0"
  proof (cases "LENGTH('a) = 1")
    case True
    then have "uint a < 2" using uint_bounded [of a] by simp
    moreover have "\<not> 1 \<le> uint a" using False True top_bit_uint [of a] by simp
    ultimately have "a = 0" by (metis int_one_le_iff_zero_less order_le_less uint_0_iff uint_ge_0)
    with False show ?thesis by (simp add: True)
  next
    case long: False
    then have "\<not> top_bit (1 :: 'a word)" by (auto simp: bit_1_iff)
    with False have "top_bit (a - 1) \<longleftrightarrow> a < 1" by (intro borrow_bit) simp
    then show ?thesis by (auto simp: word_less_1)
  qed
  with False show ?thesis by (auto simp: bit_and_iff bit_not_iff)
qed

lemma ucast_minus_one: "LENGTH('b) \<le> LENGTH('a) \<Longrightarrow> ucast (-1 :: 'a::len word) = (-1 :: 'b::len word)"
  by (rule bit_word_eqI) (simp add: bit_ucast_iff)

lemma ucast_mask [simp]: "ucast (mask_of p :: 64 word) = (mask_of p :: 8 word)" 
  "ucast (mask_of p :: 32 word) = (mask_of p :: 8 word)"
  "ucast (mask_of p :: 64 word) = (mask_of p :: 32 word)"
  by (cases p; simp add: mask_of_def ucast_minus_one)+

lemma not_mask [simp]: "NOT (mask_of p) = mask_of (\<not> p)"
  by (simp add: mask_of_def)

lemma msb_masks:
  "constant_time_msb a = mask_of (top_bit a)" "constant_time_msb_32 a = mask_of (top_bit a)"
  "constant_time_msb_64 b = mask_of (top_bit b)" "constant_time_msb_s b = mask_of (top_bit b)"
  using top_bit_mask [of 31 a] top_bit_mask [of 63 b]
  by (simp_all add: constant_time_msb_def constant_time_msb_32_def constant_time_msb_64_def constant_time_msb_s_def)

lemmas ct_comparisons =
  constant_time_lt_def constant_time_lt_s_def constant_time_lt_8_def constant_time_lt_64_def
  constant_time_ge_def constant_time_ge_s_def constant_time_ge_8_def constant_time_ge_8_s_def
  constant_time_is_zero_def constant_time_is_zero_s_def constant_time_is_zero_8_def
  constant_time_is_zero_32_def constant_time_is_zero_64_def
  constant_time_eq_def constant_time_eq_s_def constant_time_eq_8_def constant_time_eq_8_s_def
  constant_time_eq_int_def constant_time_eq_int_8_def

lemma top_bits: "bit (w :: 32 word) 31 = top_bit w" "bit (v :: 64 word) 63 = top_bit v"
  by simp_all

lemma lt_masks:
  "constant_time_lt a b = mask_of (a < b)" "constant_time_lt_s c d = mask_of (c < d)"
  "constant_time_lt_64 c d = mask_of (c < d)"
  using lt_bit [of a b] lt_bit [of c d] by (simp_all only: ct_comparisons msb_masks)

lemma zero_masks:
  "constant_time_is_zero a = mask_of (a = 0)" "constant_time_is_zero_32 a = mask_of (a = 0)"
  "constant_time_is_zero_s c = mask_of (c = 0)" "constant_time_is_zero_64 c = mask_of (c = 0)"
  using zero_bit [of a] zero_bit [of c] by (simp_all only: ct_comparisons msb_masks)

lemma xor_zero [simp]: "a XOR b = 0 \<longleftrightarrow> a = (b :: 'a::len word)"
  by (metis xor_self_eq xor.right_neutral xor.assoc)

lemma xor_back [simp]: "a XOR (a XOR b) = (b :: 'a::len word)" "b XOR (a XOR b) = a"
  by (metis xor.commute xor.left_commute xor_self_eq xor.right_neutral)+

lemma word_of_int_32_eq:
  assumes "- (2 ^ 31) \<le> a" "a < 2 ^ 31" "- (2 ^ 31) \<le> b" "b < 2 ^ 31"
  shows "word_of_int a = (word_of_int b :: 32 word) \<longleftrightarrow> a = b"
proof
  assume "word_of_int a = (word_of_int b :: 32 word)"
  then have "sint (word_of_int a :: 32 word) = sint (word_of_int b :: 32 word)" by simp
  then show "a = b" using assms by (simp add: int_word_sint)
qed simp

lemma select_masks [simp]:
  "constant_time_select (mask_of p) a b = (if p then a else b)"
  "constant_time_select_32 (mask_of p) a b = (if p then a else b)"
  "constant_time_select_s (mask_of p) c d = (if p then c else d)"
  "constant_time_select_64 (mask_of p) c d = (if p then c else d)"
  by (simp_all add: constant_time_select_def constant_time_select_32_def constant_time_select_s_def
      constant_time_select_64_def value_barrier_def value_barrier_32_def value_barrier_s_def value_barrier_64_def)

text \<open>
  The byte version widens its mask without sign: the upper bits of \<open>NOT\<close> are cut off by the
  conversion of the result.
\<close>

lemma select_8_mask [simp]: "constant_time_select_8 (mask_of p) x y = (if p then x else y)"
  unfolding constant_time_select_8_def constant_time_select_def value_barrier_def
  by (rule bit_word_eqI) (cases p; auto simp: bit_ucast_iff bit_or_iff bit_and_iff bit_not_iff)

section \<open>Swapping and lookup\<close>

lemma swap_loop_prefix:
  assumes "i + n \<le> length a" and "i + n \<le> length b"
  shows "swap_loop (mask_of p) a b i n =
     Ret (if p then (take i a @ take n (drop i b) @ drop (i + n) a, take i b @ take n (drop i a) @ drop (i + n) b)
          else (a, b))"
  using assms
proof (induction n arbitrary: a b i)
  case (Suc n)
  have split: "take (Suc i) (xs[i := y]) = take i xs @ [y]" if "i < length xs" for xs and y :: "8 word"
    using that by (simp add: take_Suc_conv_app_nth)
  have step: "take (Suc n) (drop i ys) = ys ! i # take n (drop (Suc i) ys)" if "i < length ys" for ys :: "8 word list"
    using that by (metis Cons_nth_drop_Suc take_Suc_Cons)
  show ?case
    using Suc.prems Suc.IH [of "Suc i" "a[i := b ! i]" "b[i := a ! i]"] Suc.IH [of "Suc i" a b] split step
    by (cases p) (simp_all add: Let_def)
qed simp

lemma lookup_row_miss:
  "n \<le> length t \<Longrightarrow> j + n \<le> length out \<Longrightarrow> lookup_row 0 out t j n = Ret (out, drop n t)"
proof (induction n arbitrary: t j)
  case (Suc n)
  then show ?case using select_8_mask [of False] by (cases t) (simp_all add: list_update_id)
qed simp

lemma lookup_row_hit:
  "n \<le> length t \<Longrightarrow> lookup_row (-1) (pre @ replicate n 0 @ post) t (length pre) n = Ret (pre @ take n t @ post, drop n t)"
proof (induction n arbitrary: t pre)
  case (Suc n)
  then obtain x u where t: "t = x # u" by (cases t) auto
  have "lookup_row (-1) ((pre @ [x]) @ replicate n 0 @ post) u (length (pre @ [x])) n
      = Ret ((pre @ [x]) @ take n u @ post, drop n u)"
    using Suc.prems t by (intro Suc.IH) simp
  then show ?case using select_8_mask [of True x 0] by (simp add: t nth_append list_update_append)
qed simp

lemma lookup_rows_miss:
  "n \<le> unat idx \<Longrightarrow> n * rowsize \<le> length t \<Longrightarrow> rowsize \<le> length out \<Longrightarrow> lookup_rows out t rowsize n idx = Ret out"
proof (induction n arbitrary: t idx)
  case (Suc n)
  then have "idx \<noteq> 0" by auto
  moreover from this have "unat (idx - 1) = unat idx - 1" by (simp add: unat_minus_one)
  ultimately show ?case
    using Suc lookup_row_miss [of rowsize t 0 out] by (simp add: zero_masks)
qed simp

lemma lookup_rows_hit:
  "unat idx < n \<Longrightarrow> n < 2 ^ 64 \<Longrightarrow> n * rowsize \<le> length t \<Longrightarrow>
     lookup_rows (replicate rowsize 0 @ post) t rowsize n idx = Ret (take rowsize (drop (unat idx * rowsize) t) @ post)"
proof (induction n arbitrary: t idx)
  case (Suc n)
  show ?case
  proof (cases "idx = 0")
    case True
    then have "unat (idx - 1) = 2 ^ 64 - 1" by (simp add: unsigned_minus_1_eq_mask mask_eq_exp_minus_1)
    with True Suc.prems show ?thesis
      using lookup_row_hit [of rowsize t "[]" post]
        lookup_rows_miss [of n "idx - 1" rowsize "drop rowsize t" "take rowsize t @ post"]
        ucast_minus_one [where 'a = 64 and 'b = 8]
      by (simp add: zero_masks)
  next
    case False
    then have u: "unat (idx - 1) = unat idx - 1" "unat idx \<noteq> 0"
      by (simp_all add: unat_minus_one unat_eq_0)
    then have "unat idx * rowsize = rowsize + unat (idx - 1) * rowsize"
      by (cases "unat idx") simp_all
    with False Suc u show ?thesis
      using lookup_row_miss [of rowsize t 0 "replicate rowsize 0 @ post"]
      by (simp add: zero_masks add.commute)
  qed
qed simp

text \<open>On values of type \<open>int\<close>.\<close>

lemma constant_time_ints:
  assumes "- (2 ^ 31) \<le> a" "a < 2 ^ 31" "- (2 ^ 31) \<le> b" "b < 2 ^ 31"
  shows "constant_time_eq_int a b = mask_of (a = b)" and "constant_time_eq_int_8 a b = mask_of (a = b)"
    and "constant_time_select_int (mask_of p) a b = (if p then a else b)"
    and "constant_time_select_int_s (mask_of p) a b = (if p then a else b)"
  using assms
  by (simp_all add: constant_time_eq_int_def constant_time_eq_int_8_def constant_time_eq_8_def constant_time_eq_def
      zero_masks word_of_int_32_eq constant_time_select_int_def constant_time_select_int_s_def int_word_sint)

lemma constant_time_ints_sint:
  "constant_time_eq_int (sint a) (sint b) = mask_of (a = b)"
  "constant_time_eq_int_8 (sint a) (sint b) = mask_of (a = b)"
  "constant_time_select_int (mask_of p) (sint a) (sint b) = (if p then sint a else sint b)"
  "constant_time_select_int_s (mask_of p) (sint a) (sint b) = (if p then sint a else sint b)"
  for a b :: "32 word"
proof -
  have eq: "sint a = sint b \<longleftrightarrow> a = b" by (auto intro: signed_word_eqI)
  show "constant_time_eq_int (sint a) (sint b) = mask_of (a = b)"
    "constant_time_eq_int_8 (sint a) (sint b) = mask_of (a = b)"
    "constant_time_select_int (mask_of p) (sint a) (sint b) = (if p then sint a else sint b)"
    "constant_time_select_int_s (mask_of p) (sint a) (sint b) = (if p then sint a else sint b)"
    using constant_time_ints [of "sint a" "sint b"] sint_greater_eq [of a] sint_lt [of a] sint_greater_eq [of b] sint_lt [of b]
    by (simp_all add: eq)
qed

section \<open>Properties\<close>

text \<open>
  C23. Every branch-free comparison and selection computes what its branching reference computes:
  the comparisons give the mask of the comparison, at each width and in each byte variant, and
  a selection by such a mask is a conditional; the versions on the type \<open>int\<close> do so on each of its
  values (the signed readings of the 32-bit words).
\<close>

theorem constant_time_reference:
  "constant_time_lt a b = mask_of (a < b) \<and> constant_time_lt_8 a b = mask_of (a < b) \<and>
   constant_time_lt_s c d = mask_of (c < d) \<and> constant_time_lt_64 c d = mask_of (c < d) \<and>
   constant_time_ge a b = mask_of (b \<le> a) \<and> constant_time_ge_8 a b = mask_of (b \<le> a) \<and>
   constant_time_ge_s c d = mask_of (d \<le> c) \<and> constant_time_ge_8_s c d = mask_of (d \<le> c) \<and>
   constant_time_is_zero a = mask_of (a = 0) \<and> constant_time_is_zero_8 a = mask_of (a = 0) \<and>
   constant_time_is_zero_32 a = mask_of (a = 0) \<and> constant_time_is_zero_s c = mask_of (c = 0) \<and>
   constant_time_is_zero_64 c = mask_of (c = 0) \<and>
   constant_time_eq a b = mask_of (a = b) \<and> constant_time_eq_8 a b = mask_of (a = b) \<and>
   constant_time_eq_s c d = mask_of (c = d) \<and> constant_time_eq_8_s c d = mask_of (c = d) \<and>
   constant_time_select (mask_of p) a b = (if p then a else b) \<and>
   constant_time_select_s (mask_of p) c d = (if p then c else d) \<and>
   constant_time_select_8 (mask_of p) x y = (if p then x else y) \<and>
   constant_time_select_32 (mask_of p) a b = (if p then a else b) \<and>
   constant_time_select_64 (mask_of p) c d = (if p then c else d) \<and>
   constant_time_eq_int (sint a) (sint b) = mask_of (a = b) \<and>
   constant_time_eq_int_8 (sint a) (sint b) = mask_of (a = b) \<and>
   constant_time_select_int (mask_of p) (sint a) (sint b) = (if p then sint a else sint b) \<and>
   constant_time_select_int_s (mask_of p) (sint a) (sint b) = (if p then sint a else sint b)"
  by (simp add: constant_time_ints_sint lt_masks zero_masks linorder_not_less constant_time_lt_8_def constant_time_ge_def constant_time_ge_8_def
      constant_time_ge_s_def constant_time_ge_8_s_def constant_time_is_zero_8_def constant_time_eq_def
      constant_time_eq_8_def constant_time_eq_s_def constant_time_eq_8_s_def)

text \<open>
  The lookup reads every row of the table and returns the wanted one: the first bytes of the
  output become row \<open>idx\<close> of the table, or zeros when the index is past the last row, the bytes
  after them stay, and no access leaves the table or the output.
\<close>

theorem constant_time_lookup_row:
  assumes "length table = numrows * rowsize" and "rowsize \<le> length out" and "numrows < 2 ^ 64"
  shows "constant_time_lookup out table rowsize numrows idx =
     Ret ((if unat idx < numrows then take rowsize (drop (unat idx * rowsize) table) else replicate rowsize 0)
          @ drop rowsize out)"
  using assms lookup_rows_hit [of idx numrows rowsize table "drop rowsize out"]
    lookup_rows_miss [of numrows idx rowsize table "replicate rowsize 0 @ drop rowsize out"]
  by (simp add: constant_time_lookup_def)

theorem constant_time_lookup_row_witness:
  "constant_time_lookup [7, 7, 9] [1, 2, 3, 4, 5, 6] 2 3 1 = Ret [3, 4, 9]"
  using constant_time_lookup_row [of "[1, 2, 3, 4, 5, 6]" 3 2 "[7, 7, 9]" 1] by simp

text \<open>The conditional swap of two buffers exchanges their first \<open>len\<close> bytes, or none.\<close>

lemma cond_swap_buff:
  assumes "len \<le> length a" and "len \<le> length b"
  shows "constant_time_cond_swap_buff (mask_of p) a b len =
     Ret (if p then (take len b @ drop len a, take len a @ drop len b) else (a, b))"
  using swap_loop_prefix [of 0 len a b p] assms by (simp add: constant_time_cond_swap_buff_def)

lemma cond_swap_words:
  "constant_time_cond_swap_32 (mask_of p) a b = (if p then (b, a) else (a, b))"
  "constant_time_cond_swap_64 (mask_of p) c d = (if p then (d, c) else (c, d))"
  by (simp_all add: constant_time_cond_swap_32_def constant_time_cond_swap_64_def Let_def)

end
