(* ===== verification/PacketReader.thy ===== *)
theory PacketReader
  imports Prelude
begin

text \<open>
  The bounded reader of the OpenSSL copy under \<open>lib3rd\<close> (\<open>internal/packet.h\<close>, type \<open>PACKET\<close>), with
  which the TLS library takes messages apart. A pointer is \<open>NULL\<close> (\<open>None\<close>) or an offset into an
  array of bytes; reading outside the array is undefined. \<open>size_t\<close> and \<open>unsigned long\<close> have 64
  bits, \<open>unsigned int\<close> 32. An output parameter is passed in and returned: a call that fails leaves
  it as it was. The outputs are values of their own: a call that passes one object for two of them
  (the reader itself for the sub-reader) is outside the model. The writer, \<open>WPACKET\<close>, is only declared in the header.
\<close>

unbundle bit_operations_syntax

section \<open>Pointers\<close>

type_synonym cptr = "(8 word list \<times> nat) option"

definition ptr_add :: "cptr \<Rightarrow> 64 word \<Rightarrow> cptr" where
  "ptr_add p n = map_option (\<lambda>(m, i). (m, i + unat n)) p"

definition read_at :: "cptr \<Rightarrow> nat \<Rightarrow> 8 word outcome" where
  "read_at p k = (case p of None \<Rightarrow> Undef | Some (m, i) \<Rightarrow> if i + k < length m then Ret (m ! (i + k)) else Undef)"

text \<open>The \<open>n\<close> bytes that a library function may read from a pointer; a call for no bytes reads nothing.\<close>

definition read_n :: "cptr \<Rightarrow> 64 word \<Rightarrow> 8 word list outcome" where
  "read_n p n =
     (if n = 0 then Ret []
      else case p of None \<Rightarrow> Undef
        | Some (m, i) \<Rightarrow> if i + unat n \<le> length m then Ret (take (unat n) (drop i m)) else Undef)"

text \<open>\<open>memcpy\<close> to the start of an array.\<close>

definition copy_to :: "8 word list \<Rightarrow> cptr \<Rightarrow> 64 word \<Rightarrow> 8 word list outcome" where
  "copy_to dest p n =
     obind (read_n p n) (\<lambda>xs. if length dest < length xs then Undef else Ret (xs @ drop (length xs) dest))"

section \<open>The reader\<close>

record PACKET =
  curr :: cptr
  remaining :: "64 word"

definition packet_forward :: "PACKET \<Rightarrow> 64 word \<Rightarrow> PACKET" where
  "packet_forward pkt len = pkt\<lparr>curr := ptr_add (curr pkt) len, remaining := remaining pkt - len\<rparr>"

definition PACKET_remaining :: "PACKET \<Rightarrow> 64 word" where
  "PACKET_remaining pkt = remaining pkt"

definition PACKET_end :: "PACKET \<Rightarrow> cptr" where
  "PACKET_end pkt = ptr_add (curr pkt) (remaining pkt)"

definition PACKET_data :: "PACKET \<Rightarrow> cptr" where
  "PACKET_data pkt = curr pkt"

text \<open>\<open>SIZE_MAX / 2\<close>\<close>

definition PACKET_buf_init :: "PACKET \<Rightarrow> cptr \<Rightarrow> 64 word \<Rightarrow> int \<times> PACKET" where
  "PACKET_buf_init pkt buf len =
     (if 0x7FFFFFFFFFFFFFFF < len then (0, pkt) else (1, pkt\<lparr>curr := buf, remaining := len\<rparr>))"

definition PACKET_null_init :: "PACKET \<Rightarrow> PACKET" where
  "PACKET_null_init pkt = pkt\<lparr>curr := None, remaining := 0\<rparr>"

text \<open>\<open>memcmp\<close> is \<open>CRYPTO_memcmp\<close> on the bytes of both sides.\<close>

definition PACKET_equal ::
  "(8 word list \<Rightarrow> 8 word list \<Rightarrow> int) \<Rightarrow> PACKET \<Rightarrow> cptr \<Rightarrow> 64 word \<Rightarrow> int outcome" where
  "PACKET_equal memcmp pkt ptr num =
     (if PACKET_remaining pkt \<noteq> num then Ret 0
      else obind (read_n (curr pkt) num) (\<lambda>a. obind (read_n ptr num) (\<lambda>b.
        Ret (if memcmp a b = 0 then 1 else 0))))"

definition PACKET_peek_sub_packet :: "PACKET \<Rightarrow> PACKET \<Rightarrow> 64 word \<Rightarrow> int \<times> PACKET" where
  "PACKET_peek_sub_packet pkt subpkt len =
     (if PACKET_remaining pkt < len then (0, subpkt) else PACKET_buf_init subpkt (curr pkt) len)"

definition PACKET_get_sub_packet :: "PACKET \<Rightarrow> PACKET \<Rightarrow> 64 word \<Rightarrow> int \<times> PACKET \<times> PACKET" where
  "PACKET_get_sub_packet pkt subpkt len =
     (let (ret, subpkt) = PACKET_peek_sub_packet pkt subpkt len
      in if ret = 0 then (0, pkt, subpkt) else (1, packet_forward pkt len, subpkt))"

section \<open>Numbers\<close>

definition PACKET_peek_net_2 :: "PACKET \<Rightarrow> 32 word \<Rightarrow> (int \<times> 32 word) outcome" where
  "PACKET_peek_net_2 pkt data =
     (if PACKET_remaining pkt < 2 then Ret (0, data)
      else obind (read_at (curr pkt) 0) (\<lambda>a. obind (read_at (curr pkt) 1) (\<lambda>b.
        Ret (1, push_bit 8 (ucast a) OR ucast b))))"

definition PACKET_peek_net_3 :: "PACKET \<Rightarrow> 64 word \<Rightarrow> (int \<times> 64 word) outcome" where
  "PACKET_peek_net_3 pkt data =
     (if PACKET_remaining pkt < 3 then Ret (0, data)
      else obind (read_at (curr pkt) 0) (\<lambda>a. obind (read_at (curr pkt) 1) (\<lambda>b. obind (read_at (curr pkt) 2) (\<lambda>c.
        Ret (1, (push_bit 16 (ucast a) OR push_bit 8 (ucast b)) OR ucast c)))))"

definition PACKET_peek_net_4 :: "PACKET \<Rightarrow> 64 word \<Rightarrow> (int \<times> 64 word) outcome" where
  "PACKET_peek_net_4 pkt data =
     (if PACKET_remaining pkt < 4 then Ret (0, data)
      else obind (read_at (curr pkt) 0) (\<lambda>a. obind (read_at (curr pkt) 1) (\<lambda>b.
           obind (read_at (curr pkt) 2) (\<lambda>c. obind (read_at (curr pkt) 3) (\<lambda>d.
        Ret (1, ((push_bit 24 (ucast a) OR push_bit 16 (ucast b)) OR push_bit 8 (ucast c)) OR ucast d))))))"

definition PACKET_peek_1 :: "PACKET \<Rightarrow> 32 word \<Rightarrow> (int \<times> 32 word) outcome" where
  "PACKET_peek_1 pkt data =
     (if PACKET_remaining pkt = 0 then Ret (0, data)
      else obind (read_at (curr pkt) 0) (\<lambda>a. Ret (1, ucast a)))"

definition PACKET_peek_4 :: "PACKET \<Rightarrow> 64 word \<Rightarrow> (int \<times> 64 word) outcome" where
  "PACKET_peek_4 pkt data =
     (if PACKET_remaining pkt < 4 then Ret (0, data)
      else obind (read_at (curr pkt) 0) (\<lambda>a. obind (read_at (curr pkt) 1) (\<lambda>b.
           obind (read_at (curr pkt) 2) (\<lambda>c. obind (read_at (curr pkt) 3) (\<lambda>d.
        Ret (1, ((ucast a OR push_bit 8 (ucast b)) OR push_bit 16 (ucast c)) OR push_bit 24 (ucast d)))))))"

text \<open>What the getters share: a successful peek moves the reader on.\<close>

definition get_after_peek :: "PACKET \<Rightarrow> 64 word \<Rightarrow> (int \<times> 'a) outcome \<Rightarrow> (int \<times> 'a \<times> PACKET) outcome" where
  "get_after_peek pkt len peek =
     obind peek (\<lambda>(ret, data). if ret = 0 then Ret (0, data, pkt) else Ret (1, data, packet_forward pkt len))"

definition PACKET_get_net_2 :: "PACKET \<Rightarrow> 32 word \<Rightarrow> (int \<times> 32 word \<times> PACKET) outcome" where
  "PACKET_get_net_2 pkt data = get_after_peek pkt 2 (PACKET_peek_net_2 pkt data)"

definition PACKET_get_net_3 :: "PACKET \<Rightarrow> 64 word \<Rightarrow> (int \<times> 64 word \<times> PACKET) outcome" where
  "PACKET_get_net_3 pkt data = get_after_peek pkt 3 (PACKET_peek_net_3 pkt data)"

definition PACKET_get_net_4 :: "PACKET \<Rightarrow> 64 word \<Rightarrow> (int \<times> 64 word \<times> PACKET) outcome" where
  "PACKET_get_net_4 pkt data = get_after_peek pkt 4 (PACKET_peek_net_4 pkt data)"

definition PACKET_get_1 :: "PACKET \<Rightarrow> 32 word \<Rightarrow> (int \<times> 32 word \<times> PACKET) outcome" where
  "PACKET_get_1 pkt data = get_after_peek pkt 1 (PACKET_peek_1 pkt data)"

definition PACKET_get_4 :: "PACKET \<Rightarrow> 64 word \<Rightarrow> (int \<times> 64 word \<times> PACKET) outcome" where
  "PACKET_get_4 pkt data = get_after_peek pkt 4 (PACKET_peek_4 pkt data)"

text \<open>The versions for a \<open>size_t\<close>: the local variable is only read when it was set.\<close>

definition get_len :: "64 word \<Rightarrow> (int \<times> 'a::len word \<times> PACKET) outcome \<Rightarrow> (int \<times> 64 word \<times> PACKET) outcome" where
  "get_len data get = obind get (\<lambda>(ret, i, pkt). Ret (ret, if ret \<noteq> 0 then ucast i else data, pkt))"

definition PACKET_get_net_2_len :: "PACKET \<Rightarrow> 64 word \<Rightarrow> (int \<times> 64 word \<times> PACKET) outcome" where
  "PACKET_get_net_2_len pkt data = get_len data (PACKET_get_net_2 pkt 0)"

definition PACKET_get_net_3_len :: "PACKET \<Rightarrow> 64 word \<Rightarrow> (int \<times> 64 word \<times> PACKET) outcome" where
  "PACKET_get_net_3_len pkt data = get_len data (PACKET_get_net_3 pkt 0)"

definition PACKET_get_net_4_len :: "PACKET \<Rightarrow> 64 word \<Rightarrow> (int \<times> 64 word \<times> PACKET) outcome" where
  "PACKET_get_net_4_len pkt data = get_len data (PACKET_get_net_4 pkt 0)"

definition PACKET_get_1_len :: "PACKET \<Rightarrow> 64 word \<Rightarrow> (int \<times> 64 word \<times> PACKET) outcome" where
  "PACKET_get_1_len pkt data = get_len data (PACKET_get_1 pkt 0)"

section \<open>Bytes\<close>

definition PACKET_peek_bytes :: "PACKET \<Rightarrow> cptr \<Rightarrow> 64 word \<Rightarrow> int \<times> cptr" where
  "PACKET_peek_bytes pkt data len = (if PACKET_remaining pkt < len then (0, data) else (1, curr pkt))"

definition PACKET_get_bytes :: "PACKET \<Rightarrow> cptr \<Rightarrow> 64 word \<Rightarrow> int \<times> cptr \<times> PACKET" where
  "PACKET_get_bytes pkt data len =
     (let (ret, data) = PACKET_peek_bytes pkt data len
      in if ret = 0 then (0, data, pkt) else (1, data, packet_forward pkt len))"

definition PACKET_peek_copy_bytes :: "PACKET \<Rightarrow> 8 word list \<Rightarrow> 64 word \<Rightarrow> (int \<times> 8 word list) outcome" where
  "PACKET_peek_copy_bytes pkt data len =
     (if PACKET_remaining pkt < len then Ret (0, data)
      else obind (copy_to data (curr pkt) len) (\<lambda>data. Ret (1, data)))"

definition PACKET_copy_bytes :: "PACKET \<Rightarrow> 8 word list \<Rightarrow> 64 word \<Rightarrow> (int \<times> 8 word list \<times> PACKET) outcome" where
  "PACKET_copy_bytes pkt data len = get_after_peek pkt len (PACKET_peek_copy_bytes pkt data len)"

definition PACKET_copy_all :: "PACKET \<Rightarrow> 8 word list \<Rightarrow> 64 word \<Rightarrow> (int \<times> 8 word list \<times> 64 word) outcome" where
  "PACKET_copy_all pkt dest dest_len =
     (if dest_len < PACKET_remaining pkt then Ret (0, dest, 0)
      else obind (copy_to dest (curr pkt) (remaining pkt)) (\<lambda>dest. Ret (1, dest, remaining pkt)))"

text \<open>
  The copies on the heap: \<open>alloc\<close> says whether the allocation succeeds. The old block is freed;
  the result is the new one, or \<open>NULL\<close>.
\<close>

definition PACKET_memdup :: "bool \<Rightarrow> PACKET \<Rightarrow> (int \<times> 8 word list option \<times> 64 word) outcome" where
  "PACKET_memdup alloc pkt =
     (let len = PACKET_remaining pkt in
      if len = 0 then Ret (1, None, 0)
      else obind (read_n (curr pkt) len) (\<lambda>xs. if \<not> alloc then Ret (0, None, 0) else Ret (1, Some xs, len)))"

text \<open>
  \<open>OPENSSL_strndup\<close> copies a text up to its first zero byte, or all of its \<open>n\<close> bytes, and ends the
  copy with a zero; a null pointer has no copy.
\<close>

definition PACKET_strndup :: "bool \<Rightarrow> PACKET \<Rightarrow> (int \<times> 8 word list option) outcome" where
  "PACKET_strndup alloc pkt =
     (if curr pkt = None then Ret (0, None)
      else obind (read_n (curr pkt) (PACKET_remaining pkt)) (\<lambda>xs.
        if \<not> alloc then Ret (0, None) else Ret (1, Some (takeWhile (\<lambda>b. b \<noteq> 0) xs @ [0]))))"

definition PACKET_contains_zero_byte :: "PACKET \<Rightarrow> int outcome" where
  "PACKET_contains_zero_byte pkt = obind (read_n (curr pkt) (remaining pkt)) (\<lambda>xs. Ret (if 0 \<in> set xs then 1 else 0))"

definition PACKET_forward :: "PACKET \<Rightarrow> 64 word \<Rightarrow> int \<times> PACKET" where
  "PACKET_forward pkt len = (if PACKET_remaining pkt < len then (0, pkt) else (1, packet_forward pkt len))"

section \<open>Vectors with a length\<close>

text \<open>
  The body that the length-prefixed readers share: \<open>get\<close> reads the length from the copy \<open>tmp\<close> of
  the reader, \<open>whole\<close> says that nothing may be left over.
\<close>

definition length_prefixed ::
  "bool \<Rightarrow> (PACKET \<Rightarrow> (int \<times> 'a::len word \<times> PACKET) outcome) \<Rightarrow> PACKET \<Rightarrow> PACKET \<Rightarrow> (int \<times> PACKET \<times> PACKET) outcome" where
  "length_prefixed whole get pkt subpkt =
     obind (get pkt) (\<lambda>(ret, len, tmp).
       if ret = 0 then Ret (0, pkt, subpkt)
       else
         let (ret, data, tmp) = PACKET_get_bytes tmp None (ucast len) in
         if ret = 0 \<or> whole \<and> PACKET_remaining tmp \<noteq> 0 then Ret (0, pkt, subpkt)
         else Ret (1, tmp, subpkt\<lparr>curr := data, remaining := ucast len\<rparr>))"

definition PACKET_get_length_prefixed_1 :: "PACKET \<Rightarrow> PACKET \<Rightarrow> (int \<times> PACKET \<times> PACKET) outcome" where
  "PACKET_get_length_prefixed_1 = length_prefixed False (\<lambda>tmp. PACKET_get_1 tmp 0)"

definition PACKET_as_length_prefixed_1 :: "PACKET \<Rightarrow> PACKET \<Rightarrow> (int \<times> PACKET \<times> PACKET) outcome" where
  "PACKET_as_length_prefixed_1 = length_prefixed True (\<lambda>tmp. PACKET_get_1 tmp 0)"

definition PACKET_get_length_prefixed_2 :: "PACKET \<Rightarrow> PACKET \<Rightarrow> (int \<times> PACKET \<times> PACKET) outcome" where
  "PACKET_get_length_prefixed_2 = length_prefixed False (\<lambda>tmp. PACKET_get_net_2 tmp 0)"

definition PACKET_as_length_prefixed_2 :: "PACKET \<Rightarrow> PACKET \<Rightarrow> (int \<times> PACKET \<times> PACKET) outcome" where
  "PACKET_as_length_prefixed_2 = length_prefixed True (\<lambda>tmp. PACKET_get_net_2 tmp 0)"

definition PACKET_get_length_prefixed_3 :: "PACKET \<Rightarrow> PACKET \<Rightarrow> (int \<times> PACKET \<times> PACKET) outcome" where
  "PACKET_get_length_prefixed_3 = length_prefixed False (\<lambda>tmp. PACKET_get_net_3 tmp 0)"

section \<open>The bytes that are left\<close>

text \<open>A reader that stays inside its array, and the bytes it still has to read.\<close>

definition packet_wf :: "PACKET \<Rightarrow> bool" where
  "packet_wf pkt \<longleftrightarrow> (case curr pkt of None \<Rightarrow> remaining pkt = 0 | Some (m, i) \<Rightarrow> i + unat (remaining pkt) \<le> length m)"

definition packet_bytes :: "PACKET \<Rightarrow> 8 word list" where
  "packet_bytes pkt = (case curr pkt of None \<Rightarrow> [] | Some (m, i) \<Rightarrow> take (unat (remaining pkt)) (drop i m))"

lemma length_packet_bytes: "packet_wf pkt \<Longrightarrow> length (packet_bytes pkt) = unat (remaining pkt)"
  by (auto simp: packet_wf_def packet_bytes_def split: option.splits)

lemma read_at_bytes:
  assumes "packet_wf pkt" and "k < length (packet_bytes pkt)"
  shows "read_at (curr pkt) k = Ret (packet_bytes pkt ! k)"
  using assms by (auto simp: packet_wf_def packet_bytes_def read_at_def split: option.splits)

lemma read_n_bytes:
  assumes "packet_wf pkt" and "unat n \<le> length (packet_bytes pkt)"
  shows "read_n (curr pkt) n = Ret (take (unat n) (packet_bytes pkt))"
  using assms by (auto simp: packet_wf_def packet_bytes_def read_n_def unat_eq_0 split: option.splits)

lemma forward_bytes:
  assumes "packet_wf pkt" and "unat n \<le> length (packet_bytes pkt)"
  shows "packet_wf (packet_forward pkt n)" and "packet_bytes (packet_forward pkt n) = drop (unat n) (packet_bytes pkt)"
proof -
  have n: "n \<le> remaining pkt" using assms by (simp add: length_packet_bytes word_le_nat_alt)
  then have sub: "unat (remaining pkt - n) = unat (remaining pkt) - unat n" by (rule unat_sub)
  have le: "unat n \<le> unat (remaining pkt)" using n by (simp add: word_le_nat_alt)
  have "packet_wf (packet_forward pkt n) \<and> packet_bytes (packet_forward pkt n) = drop (unat n) (packet_bytes pkt)"
  proof (cases "curr pkt")
    case None
    then show ?thesis using assms(1) n by (simp add: packet_wf_def packet_bytes_def packet_forward_def ptr_add_def)
  next
    case (Some p)
    obtain m i where p: "p = (m, i)" by (cases p)
    have "drop (unat n) (take (unat (remaining pkt)) (drop i m)) = take (unat (remaining pkt) - unat n) (drop (i + unat n) m)"
      by (simp add: drop_take add.commute)
    then show ?thesis using assms(1) Some sub le
      by (simp add: packet_wf_def packet_bytes_def packet_forward_def ptr_add_def p)
  qed
  then show "packet_wf (packet_forward pkt n)" "packet_bytes (packet_forward pkt n) = drop (unat n) (packet_bytes pkt)"
    by simp_all
qed

lemma packet_buf_init_wf:
  assumes "PACKET_buf_init pkt (Some (m, 0)) (word_of_nat (length m)) = (1, pkt')" and "length m < 2 ^ 64"
  shows "packet_wf pkt' \<and> packet_bytes pkt' = m"
  using assms by (auto simp: PACKET_buf_init_def packet_wf_def packet_bytes_def unat_of_nat take_bit_nat_eq_self_iff
      split: if_splits)

lemma remaining_less:
  assumes "packet_wf pkt"
  shows "PACKET_remaining pkt < n \<longleftrightarrow> length (packet_bytes pkt) < unat n"
    and "PACKET_remaining pkt = 0 \<longleftrightarrow> packet_bytes pkt = []"
  using length_packet_bytes [OF assms]
  by (simp_all add: PACKET_remaining_def word_less_nat_alt unat_eq_0 [symmetric] flip: length_0_conv)

text \<open>The operations that do not move the reader: the bytes that are left, as one piece.\<close>

lemma packet_whole_reads:
  assumes "packet_wf pkt" and "bs = packet_bytes pkt"
  shows "PACKET_copy_all pkt dest dest_len =
      (if unat dest_len < length bs then Ret (0, dest, 0)
       else if length dest < length bs then Undef
       else Ret (1, bs @ drop (length bs) dest, PACKET_remaining pkt))"
    and "PACKET_memdup True pkt = Ret (1, if bs = [] then None else Some bs, PACKET_remaining pkt)"
    and "PACKET_strndup True pkt =
      Ret (if curr pkt = None then (0, None) else (1, Some (takeWhile (\<lambda>b. b \<noteq> 0) bs @ [0])))"
    and "PACKET_contains_zero_byte pkt = Ret (of_bool (0 \<in> set bs))"
    and "length m < 2 ^ 64 \<Longrightarrow> (\<And>a b. length a = length b \<Longrightarrow> memcmp a b = 0 \<longleftrightarrow> a = b) \<Longrightarrow>
      PACKET_equal memcmp pkt (Some (m, 0)) (word_of_nat (length m)) = Ret (of_bool (bs = m))"
proof -
  have n: "unat (PACKET_remaining pkt) = length bs" using length_packet_bytes [OF assms(1)] by (simp add: assms(2) PACKET_remaining_def)
  have r: "read_n (curr pkt) (PACKET_remaining pkt) = Ret bs" using read_n_bytes [OF assms(1), of "PACKET_remaining pkt"] n by (simp add: assms(2))
  note zero = remaining_less(2) [OF assms(1), folded assms(2)]
  show "PACKET_copy_all pkt dest dest_len = (if unat dest_len < length bs then Ret (0, dest, 0)
       else if length dest < length bs then Undef else Ret (1, bs @ drop (length bs) dest, PACKET_remaining pkt))"
    using r n by (simp add: PACKET_copy_all_def copy_to_def word_less_nat_alt flip: PACKET_remaining_def)
  show "PACKET_memdup True pkt = Ret (1, if bs = [] then None else Some bs, PACKET_remaining pkt)"
    using r zero by (auto simp: PACKET_memdup_def Let_def)
  show "PACKET_strndup True pkt = Ret (if curr pkt = None then (0, None) else (1, Some (takeWhile (\<lambda>b. b \<noteq> 0) bs @ [0])))"
    using r by (simp add: PACKET_strndup_def)
  show "PACKET_contains_zero_byte pkt = Ret (of_bool (0 \<in> set bs))"
    using r by (simp add: PACKET_contains_zero_byte_def flip: PACKET_remaining_def)
  show "PACKET_equal memcmp pkt (Some (m, 0)) (word_of_nat (length m)) = Ret (of_bool (bs = m))"
    if "length m < 2 ^ 64" and "\<And>a b. length a = length b \<Longrightarrow> memcmp a b = 0 \<longleftrightarrow> a = b"
  proof -
    have m: "unat (word_of_nat (length m) :: 64 word) = length m"
      using that(1) by (simp add: unat_of_nat take_bit_nat_eq_self_iff)
    have "PACKET_remaining pkt = word_of_nat (length m) \<longleftrightarrow> length bs = length m"
      using m n by (metis unsigned_word_eqI)
    moreover have "read_n (Some (m, 0)) (word_of_nat (length m)) = Ret m" using m by (simp add: read_n_def unat_eq_0 [symmetric])
    ultimately show ?thesis using r that(2) [of bs m] by (auto simp: PACKET_equal_def)
  qed
qed

text \<open>Bytes put together in network order.\<close>

fun be_val :: "8 word list \<Rightarrow> nat" where
  "be_val [] = 0"
| "be_val (b # bs) = unat b * 256 ^ length bs + be_val bs"

lemma be_val_less: "be_val bs < 256 ^ length bs"
proof (induction bs)
  case (Cons b bs)
  have "unat b \<le> 255" using unsigned_less [of b, where ?'a = nat] by simp
  then have "unat b * 256 ^ length bs \<le> 255 * 256 ^ length bs" by (rule mult_right_mono) simp
  with Cons show ?case by (simp only: be_val.simps list.size power_Suc add_Suc_right add_0_right)
qed simp

lemma byte_or:
  fixes w :: "'a::len word"
  assumes "unat w < 2 ^ k" and "8 + k \<le> LENGTH('a)"
  shows "unat (push_bit k (ucast (b :: 8 word)) OR w) = unat b * 2 ^ k + unat w"
proof -
  have b: "unat b < 256" using unsigned_less [of b, where ?'a = nat] by simp
  have "unat b * 2 ^ k < 256 * 2 ^ k" using b by simp
  also have "\<dots> \<le> 2 ^ LENGTH('a)"
    using power_increasing [OF assms(2), of "2 :: nat"] by (simp add: power_add)
  finally have fits: "unat b * 2 ^ k < 2 ^ LENGTH('a)" .
  have "(2 :: nat) ^ 8 \<le> 2 ^ LENGTH('a)" using assms(2) by (intro power_increasing) simp_all
  then have "unat (ucast b :: 'a word) = unat b" using b by (simp add: unsigned_ucast_eq take_bit_nat_eq_self_iff)
  then have push: "unat (push_bit k (ucast b :: 'a word)) = unat b * 2 ^ k"
    using fits by (subst unsigned_push_bit_eq) (simp add: push_bit_eq_mult take_bit_nat_eq_self_iff)
  have low: "take_bit k (unat w) = unat w" using assms(1) by (rule take_bit_nat_eq_self)
  have "(unat b * 2 ^ k) AND unat w = 0"
    by (subst low [symmetric]) (auto intro!: bit_eqI simp: bit_and_iff bit_take_bit_iff bit_push_bit_iff simp flip: push_bit_eq_mult)
  then show ?thesis by (simp add: unsigned_or_eq push disjunctive_add_eq_or)
qed

lemma be_words:
  "16 \<le> LENGTH('a) \<Longrightarrow> unat (push_bit 8 (ucast a) OR ucast b :: 'a::len word) = be_val [a, b]"
  "24 \<le> LENGTH('a) \<Longrightarrow> unat (push_bit 16 (ucast a) OR (push_bit 8 (ucast b) OR ucast c) :: 'a::len word) = be_val [a, b, c]"
  "32 \<le> LENGTH('a) \<Longrightarrow> unat (push_bit 24 (ucast a) OR (push_bit 16 (ucast b) OR (push_bit 8 (ucast c) OR ucast d)) :: 'a::len word) = be_val [a, b, c, d]"
proof -
  have byte: "unat (ucast x :: 'a word) = be_val [x]" if "8 \<le> LENGTH('a)" for x :: "8 word"
  proof -
    have "(2 :: nat) ^ 8 \<le> 2 ^ LENGTH('a)" using that by (rule power_increasing) simp
    then show ?thesis
      using unsigned_less [of x, where ?'a = nat] by (simp add: unsigned_ucast_eq take_bit_nat_eq_self_iff)
  qed
  show two: "unat (push_bit 8 (ucast a) OR ucast b :: 'a word) = be_val [a, b]" if "16 \<le> LENGTH('a)" for a b
    using that byte be_val_less [of "[b]"] by (subst byte_or) simp_all
  show three: "unat (push_bit 16 (ucast a) OR (push_bit 8 (ucast b) OR ucast c) :: 'a word) = be_val [a, b, c]"
    if "24 \<le> LENGTH('a)" for a b c
    using that two [of b c] be_val_less [of "[b, c]"] by (subst byte_or) simp_all
  show "unat (push_bit 24 (ucast a) OR (push_bit 16 (ucast b) OR (push_bit 8 (ucast c) OR ucast d)) :: 'a word) = be_val [a, b, c, d]"
    if "32 \<le> LENGTH('a)"
    using that three [of b c d] be_val_less [of "[b, c, d]"] by (subst byte_or) simp_all
qed

lemma peek_numbers:
  assumes "packet_wf pkt" and "bs = packet_bytes pkt"
  shows "\<exists>d. PACKET_peek_1 pkt w = Ret (if length bs < 1 then (0, w) else (1, d)) \<and> (1 \<le> length bs \<longrightarrow> unat d = be_val (take 1 bs))"
    and "\<exists>d. PACKET_peek_net_2 pkt w = Ret (if length bs < 2 then (0, w) else (1, d)) \<and> (2 \<le> length bs \<longrightarrow> unat d = be_val (take 2 bs))"
    and "\<exists>d. PACKET_peek_net_3 pkt v = Ret (if length bs < 3 then (0, v) else (1, d)) \<and> (3 \<le> length bs \<longrightarrow> unat d = be_val (take 3 bs))"
    and "\<exists>d. PACKET_peek_net_4 pkt v = Ret (if length bs < 4 then (0, v) else (1, d)) \<and> (4 \<le> length bs \<longrightarrow> unat d = be_val (take 4 bs))"
    and "\<exists>d. PACKET_peek_4 pkt v = Ret (if length bs < 4 then (0, v) else (1, d)) \<and> (4 \<le> length bs \<longrightarrow> unat d = be_val (rev (take 4 bs)))"
proof -
  note read = read_at_bytes [OF assms(1), folded assms(2)]
  have r: "k < n \<Longrightarrow> n \<le> length bs \<Longrightarrow> read_at (curr pkt) k = Ret (bs ! k)" for k n by (rule read) simp
  note less = remaining_less [OF assms(1), folded assms(2)]
  have take: "take 1 bs = [bs ! 0]" if "1 \<le> length bs" using that by (cases bs) auto
  have take2: "take 2 bs = [bs ! 0, bs ! 1]" if "2 \<le> length bs"
    using that by (auto simp: numeral_eq_Suc Suc_le_length_iff)
  have take3: "take 3 bs = [bs ! 0, bs ! 1, bs ! 2]" if "3 \<le> length bs"
    using that by (auto simp: numeral_eq_Suc Suc_le_length_iff)
  have take4: "take 4 bs = [bs ! 0, bs ! 1, bs ! 2, bs ! 3]" if "4 \<le> length bs"
    using that by (auto simp: numeral_eq_Suc Suc_le_length_iff)
  have one: "unat (ucast (bs ! 0) :: 32 word) = be_val [bs ! 0]"
    using be_val_less [of "[bs ! 0]"] by (simp add: unsigned_ucast_eq take_bit_nat_eq_self_iff)
  show "\<exists>d. PACKET_peek_1 pkt w = Ret (if length bs < 1 then (0, w) else (1, d)) \<and> (1 \<le> length bs \<longrightarrow> unat d = be_val (take 1 bs))"
    by (rule exI [of _ "ucast (bs ! 0)"])
      (use read [of 0] take one in \<open>cases bs; simp add: PACKET_peek_1_def less\<close>)
  show "\<exists>d. PACKET_peek_net_2 pkt w = Ret (if length bs < 2 then (0, w) else (1, d)) \<and> (2 \<le> length bs \<longrightarrow> unat d = be_val (take 2 bs))"
    by (rule exI [of _ "push_bit 8 (ucast (bs ! 0)) OR ucast (bs ! 1)"])
      (use r [of 0 2] r [of 1 2] take2 be_words(1) [of "bs ! 0" "bs ! 1", where 'a = 32] in \<open>auto simp: PACKET_peek_net_2_def less\<close>)
  show "\<exists>d. PACKET_peek_net_3 pkt v = Ret (if length bs < 3 then (0, v) else (1, d)) \<and> (3 \<le> length bs \<longrightarrow> unat d = be_val (take 3 bs))"
    by (rule exI [of _ "push_bit 16 (ucast (bs ! 0)) OR (push_bit 8 (ucast (bs ! 1)) OR ucast (bs ! 2))"])
      (use r [of 0 3] r [of 1 3] r [of 2 3] take3 be_words(2) [of "bs ! 0" "bs ! 1" "bs ! 2", where 'a = 64] in
        \<open>auto simp: PACKET_peek_net_3_def less or.assoc\<close>)
  show "\<exists>d. PACKET_peek_net_4 pkt v = Ret (if length bs < 4 then (0, v) else (1, d)) \<and> (4 \<le> length bs \<longrightarrow> unat d = be_val (take 4 bs))"
    by (rule exI [of _ "push_bit 24 (ucast (bs ! 0)) OR (push_bit 16 (ucast (bs ! 1)) OR (push_bit 8 (ucast (bs ! 2)) OR ucast (bs ! 3)))"])
      (use r [of 0 4] r [of 1 4] r [of 2 4] r [of 3 4] take4 be_words(3) [of "bs ! 0" "bs ! 1" "bs ! 2" "bs ! 3", where 'a = 64] in
        \<open>auto simp: PACKET_peek_net_4_def less or.assoc\<close>)
  show "\<exists>d. PACKET_peek_4 pkt v = Ret (if length bs < 4 then (0, v) else (1, d)) \<and> (4 \<le> length bs \<longrightarrow> unat d = be_val (rev (take 4 bs)))"
    by (rule exI [of _ "push_bit 24 (ucast (bs ! 3)) OR (push_bit 16 (ucast (bs ! 2)) OR (push_bit 8 (ucast (bs ! 1)) OR ucast (bs ! 0)))"])
      (use r [of 0 4] r [of 1 4] r [of 2 4] r [of 3 4] take4 be_words(3) [of "bs ! 3" "bs ! 2" "bs ! 1" "bs ! 0", where 'a = 64] in
        \<open>auto simp: PACKET_peek_4_def less or.commute or.left_commute\<close>)
qed


section \<open>A reader of lists\<close>

text \<open>The reading calls as one type of operation, run on a reader and on the list of its bytes.\<close>

datatype read_op = Get1 | GetNet2 | GetNet3 | GetNet4 | Get4 | GetBytes "64 word" | Forward "64 word"
  | Prefixed1 | Prefixed2 | Prefixed3

datatype reading = Failed | Number nat | Block "8 word list"

definition number_read :: "(int \<times> 'a::len word \<times> PACKET) outcome \<Rightarrow> (reading \<times> PACKET) outcome" where
  "number_read get = obind get (\<lambda>(ret, d, pkt). Ret (if ret = 0 then Failed else Number (unat d), pkt))"

definition vector_read :: "(int \<times> PACKET \<times> PACKET) outcome \<Rightarrow> (reading \<times> PACKET) outcome" where
  "vector_read get = obind get (\<lambda>(ret, pkt, sub).
     if ret = 0 then Ret (Failed, pkt) else obind (read_n (curr sub) (remaining sub)) (\<lambda>xs. Ret (Block xs, pkt)))"

fun packet_read :: "read_op \<Rightarrow> PACKET \<Rightarrow> (reading \<times> PACKET) outcome" where
  "packet_read Get1 pkt = number_read (PACKET_get_1 pkt 0)"
| "packet_read GetNet2 pkt = number_read (PACKET_get_net_2 pkt 0)"
| "packet_read GetNet3 pkt = number_read (PACKET_get_net_3 pkt 0)"
| "packet_read GetNet4 pkt = number_read (PACKET_get_net_4 pkt 0)"
| "packet_read Get4 pkt = number_read (PACKET_get_4 pkt 0)"
| "packet_read (GetBytes n) pkt =
     (let (ret, p, pkt) = PACKET_get_bytes pkt None n
      in if ret = 0 then Ret (Failed, pkt) else obind (read_n p n) (\<lambda>xs. Ret (Block xs, pkt)))"
| "packet_read (Forward n) pkt =
     (let (ret, pkt) = PACKET_forward pkt n in Ret (if ret = 0 then Failed else Block [], pkt))"
| "packet_read Prefixed1 pkt = vector_read (PACKET_get_length_prefixed_1 pkt pkt)"
| "packet_read Prefixed2 pkt = vector_read (PACKET_get_length_prefixed_2 pkt pkt)"
| "packet_read Prefixed3 pkt = vector_read (PACKET_get_length_prefixed_3 pkt pkt)"

fun packet_reads :: "read_op list \<Rightarrow> PACKET \<Rightarrow> (reading list \<times> PACKET) outcome" where
  "packet_reads [] pkt = Ret ([], pkt)"
| "packet_reads (r # rs) pkt =
     obind (packet_read r pkt) (\<lambda>(x, pkt). obind (packet_reads rs pkt) (\<lambda>(xs, pkt). Ret (x # xs, pkt)))"

definition take_number :: "nat \<Rightarrow> 8 word list \<Rightarrow> reading \<times> 8 word list" where
  "take_number k bs = (if length bs < k then (Failed, bs) else (Number (be_val (take k bs)), drop k bs))"

definition take_vector :: "nat \<Rightarrow> 8 word list \<Rightarrow> reading \<times> 8 word list" where
  "take_vector k bs =
     (if length bs < k then (Failed, bs)
      else let n = be_val (take k bs) in
           if length bs < k + n then (Failed, bs) else (Block (take n (drop k bs)), drop (k + n) bs))"

fun bytes_read :: "read_op \<Rightarrow> 8 word list \<Rightarrow> reading \<times> 8 word list" where
  "bytes_read Get1 bs = take_number 1 bs"
| "bytes_read GetNet2 bs = take_number 2 bs"
| "bytes_read GetNet3 bs = take_number 3 bs"
| "bytes_read GetNet4 bs = take_number 4 bs"
| "bytes_read Get4 bs = (if length bs < 4 then (Failed, bs) else (Number (be_val (rev (take 4 bs))), drop 4 bs))"
| "bytes_read (GetBytes n) bs = (if length bs < unat n then (Failed, bs) else (Block (take (unat n) bs), drop (unat n) bs))"
| "bytes_read (Forward n) bs = (if length bs < unat n then (Failed, bs) else (Block [], drop (unat n) bs))"
| "bytes_read Prefixed1 bs = take_vector 1 bs"
| "bytes_read Prefixed2 bs = take_vector 2 bs"
| "bytes_read Prefixed3 bs = take_vector 3 bs"

fun bytes_reads :: "read_op list \<Rightarrow> 8 word list \<Rightarrow> reading list \<times> 8 word list" where
  "bytes_reads [] bs = ([], bs)"
| "bytes_reads (r # rs) bs = (let (x, bs) = bytes_read r bs; (xs, bs) = bytes_reads rs bs in (x # xs, bs))"

text \<open>What one call of a reader has to do with the list.\<close>

definition reads_as :: "(reading \<times> PACKET) outcome \<Rightarrow> reading \<times> 8 word list \<Rightarrow> bool" where
  "reads_as m r \<longleftrightarrow> (\<exists>pkt. m = Ret (fst r, pkt) \<and> packet_wf pkt \<and> packet_bytes pkt = snd r)"

lemma reads_asI: "m = Ret (x, pkt) \<Longrightarrow> packet_wf pkt \<Longrightarrow> packet_bytes pkt = bs \<Longrightarrow> reads_as m (x, bs)"
  by (auto simp: reads_as_def)

text \<open>A getter of \<open>k\<close> bytes, in terms of the list.\<close>

lemma get_after_peek_bytes:
  assumes "packet_wf pkt" and "peek = Ret (if length (packet_bytes pkt) < unat n then (0, w) else (1, d))"
  shows "length (packet_bytes pkt) < unat n \<Longrightarrow> get_after_peek pkt n peek = Ret (0, w, pkt)"
    and "unat n \<le> length (packet_bytes pkt) \<Longrightarrow> get_after_peek pkt n peek = Ret (1, d, packet_forward pkt n)"
  using assms by (simp_all add: get_after_peek_def)

lemma number_reads_as:
  assumes "packet_wf pkt" and "peek = Ret (if length (packet_bytes pkt) < unat n then (0, w) else (1, d))"
    and "unat n \<le> length (packet_bytes pkt) \<longrightarrow> unat d = v"
  shows "reads_as (number_read (get_after_peek pkt n peek))
     (if length (packet_bytes pkt) < unat n then (Failed, packet_bytes pkt) else (Number v, drop (unat n) (packet_bytes pkt)))"
  using get_after_peek_bytes [OF assms(1,2)] forward_bytes [OF assms(1)] assms(1,3)
  by (auto simp: number_read_def intro!: reads_asI)

lemma vector_reads_as:
  fixes d :: "'a::len word"
  assumes "packet_wf pkt" and "get pkt = get_after_peek pkt k peek"
    and "peek = Ret (if length (packet_bytes pkt) < unat k then (0, w) else (1, d))"
    and "unat k \<le> length (packet_bytes pkt) \<longrightarrow> unat d = be_val (take (unat k) (packet_bytes pkt))"
    and "LENGTH('a) \<le> 64"
  shows "reads_as (vector_read (length_prefixed False get pkt sub0)) (take_vector (unat k) (packet_bytes pkt))"
proof (cases "length (packet_bytes pkt) < unat k")
  case True
  then show ?thesis
    using get_after_peek_bytes(1) [OF assms(1,3)] assms(1,2)
    by (simp add: length_prefixed_def vector_read_def take_vector_def reads_as_def)
next
  case False
  let ?tmp = "packet_forward pkt k" and ?n = "ucast d :: 64 word"
  from False have k: "unat k \<le> length (packet_bytes pkt)" by simp
  note tmp = forward_bytes [OF assms(1) k]
  have "unat d < 2 ^ 64"
    using less_le_trans [OF unsigned_less [of d, where ?'a = nat] power_increasing [OF assms(5), of "2 :: nat"]] by simp
  then have n: "unat ?n = be_val (take (unat k) (packet_bytes pkt))"
    using assms(4) k by (simp add: unsigned_ucast_eq take_bit_nat_eq_self_iff)
  have get: "get pkt = Ret (1, d, ?tmp)" using get_after_peek_bytes(2) [OF assms(1,3) k] assms(2) by simp
  have more: "length (packet_bytes pkt) < unat k + unat ?n \<longleftrightarrow> length (packet_bytes ?tmp) < unat ?n"
    using k unfolding tmp(2) length_drop by linarith
  have list: "take_vector (unat k) (packet_bytes pkt) =
      (if length (packet_bytes ?tmp) < unat ?n then (Failed, packet_bytes pkt)
       else (Block (take (unat ?n) (packet_bytes ?tmp)), drop (unat ?n) (packet_bytes ?tmp)))"
    using k unfolding take_vector_def n [symmetric] Let_def more by (simp add: tmp(2) add.commute)
  note short = remaining_less(1) [OF tmp(1), of ?n]
  show ?thesis
  proof (cases "length (packet_bytes ?tmp) < unat ?n")
    case True
    then have "vector_read (length_prefixed False get pkt sub0) = Ret (Failed, pkt)"
      by (simp add: length_prefixed_def get vector_read_def PACKET_get_bytes_def PACKET_peek_bytes_def short)
    with True show ?thesis using assms(1) by (simp add: list reads_as_def)
  next
    case False
    then have fits: "unat ?n \<le> length (packet_bytes ?tmp)" by simp
    have "vector_read (length_prefixed False get pkt sub0) =
        Ret (Block (take (unat ?n) (packet_bytes ?tmp)), packet_forward ?tmp ?n)"
      using False read_n_bytes [OF tmp(1) fits]
      by (simp add: length_prefixed_def get vector_read_def PACKET_get_bytes_def PACKET_peek_bytes_def short)
    with False show ?thesis using forward_bytes [OF tmp(1) fits] by (simp add: list reads_as_def)
  qed
qed

text \<open>The reads of a number, of bytes, and of a piece with its length before it.\<close>

lemma packet_read_number:
  assumes "packet_wf pkt" and "r \<in> {Get1, GetNet2, GetNet3, GetNet4, Get4}"
  shows "reads_as (packet_read r pkt) (bytes_read r (packet_bytes pkt))"
proof (cases r)
  case Get1
  obtain d where "PACKET_peek_1 pkt 0 = Ret (if length (packet_bytes pkt) < unat (1 :: 64 word) then (0, 0) else (1, d))"
      "unat (1 :: 64 word) \<le> length (packet_bytes pkt) \<longrightarrow> unat d = be_val (take 1 (packet_bytes pkt))"
    using peek_numbers(1) [OF assms(1) refl, of 0] by auto
  from number_reads_as [OF assms(1) this] show ?thesis by (simp add: Get1 PACKET_get_1_def take_number_def cong: if_cong)
next
  case GetNet2
  obtain d where "PACKET_peek_net_2 pkt 0 = Ret (if length (packet_bytes pkt) < unat (2 :: 64 word) then (0, 0) else (1, d))"
      "unat (2 :: 64 word) \<le> length (packet_bytes pkt) \<longrightarrow> unat d = be_val (take 2 (packet_bytes pkt))"
    using peek_numbers(2) [OF assms(1) refl, of 0] by auto
  from number_reads_as [OF assms(1) this] show ?thesis by (simp add: GetNet2 PACKET_get_net_2_def take_number_def cong: if_cong)
next
  case GetNet3
  obtain d where "PACKET_peek_net_3 pkt 0 = Ret (if length (packet_bytes pkt) < unat (3 :: 64 word) then (0, 0) else (1, d))"
      "unat (3 :: 64 word) \<le> length (packet_bytes pkt) \<longrightarrow> unat d = be_val (take 3 (packet_bytes pkt))"
    using peek_numbers(3) [OF assms(1) refl, of 0] by auto
  from number_reads_as [OF assms(1) this] show ?thesis by (simp add: GetNet3 PACKET_get_net_3_def take_number_def cong: if_cong)
next
  case GetNet4
  obtain d where "PACKET_peek_net_4 pkt 0 = Ret (if length (packet_bytes pkt) < unat (4 :: 64 word) then (0, 0) else (1, d))"
      "unat (4 :: 64 word) \<le> length (packet_bytes pkt) \<longrightarrow> unat d = be_val (take 4 (packet_bytes pkt))"
    using peek_numbers(4) [OF assms(1) refl, of 0] by auto
  from number_reads_as [OF assms(1) this] show ?thesis by (simp add: GetNet4 PACKET_get_net_4_def take_number_def cong: if_cong)
next
  case Get4
  obtain d where "PACKET_peek_4 pkt 0 = Ret (if length (packet_bytes pkt) < unat (4 :: 64 word) then (0, 0) else (1, d))"
      "unat (4 :: 64 word) \<le> length (packet_bytes pkt) \<longrightarrow> unat d = be_val (rev (take 4 (packet_bytes pkt)))"
    using peek_numbers(5) [OF assms(1) refl, of 0] by auto
  from number_reads_as [OF assms(1) this] show ?thesis by (simp add: Get4 PACKET_get_4_def cong: if_cong)
qed (use assms(2) in auto)

lemma packet_read_bytes:
  assumes "packet_wf pkt" and "r = GetBytes n \<or> r = Forward n"
  shows "reads_as (packet_read r pkt) (bytes_read r (packet_bytes pkt))"
proof (cases r)
  case (GetBytes n)
  show ?thesis
  proof (cases "length (packet_bytes pkt) < unat n")
    case False
    then have n: "unat n \<le> length (packet_bytes pkt)" by simp
    show ?thesis
      using False assms(1) forward_bytes [OF assms(1) n] read_n_bytes [OF assms(1) n]
      by (simp add: GetBytes PACKET_get_bytes_def PACKET_peek_bytes_def remaining_less reads_as_def)
  qed (simp add: assms(1) GetBytes PACKET_get_bytes_def PACKET_peek_bytes_def remaining_less reads_as_def)
next
  case (Forward n)
  show ?thesis
  proof (cases "length (packet_bytes pkt) < unat n")
    case False
    then show ?thesis
      using assms(1) forward_bytes [OF assms(1), of n] by (simp add: Forward PACKET_forward_def remaining_less reads_as_def)
  qed (simp add: assms(1) Forward PACKET_forward_def remaining_less reads_as_def)
qed (use assms(2) in auto)

lemma packet_read_prefixed:
  assumes "packet_wf pkt" and "r \<in> {Prefixed1, Prefixed2, Prefixed3}"
  shows "reads_as (packet_read r pkt) (bytes_read r (packet_bytes pkt))"
proof (cases r)
  case Prefixed1
  obtain d where "PACKET_peek_1 pkt 0 = Ret (if length (packet_bytes pkt) < unat (1 :: 64 word) then (0, 0) else (1, d))"
      "unat (1 :: 64 word) \<le> length (packet_bytes pkt) \<longrightarrow> unat d = be_val (take (unat (1 :: 64 word)) (packet_bytes pkt))"
    using peek_numbers(1) [OF assms(1) refl, of 0] by auto
  from vector_reads_as [where get = "\<lambda>tmp. PACKET_get_1 tmp 0", OF assms(1) PACKET_get_1_def this] show ?thesis
    by (simp add: Prefixed1 PACKET_get_length_prefixed_1_def)
next
  case Prefixed2
  obtain d where "PACKET_peek_net_2 pkt 0 = Ret (if length (packet_bytes pkt) < unat (2 :: 64 word) then (0, 0) else (1, d))"
      "unat (2 :: 64 word) \<le> length (packet_bytes pkt) \<longrightarrow> unat d = be_val (take (unat (2 :: 64 word)) (packet_bytes pkt))"
    using peek_numbers(2) [OF assms(1) refl, of 0] by auto
  from vector_reads_as [where get = "\<lambda>tmp. PACKET_get_net_2 tmp 0", OF assms(1) PACKET_get_net_2_def this] show ?thesis
    by (simp add: Prefixed2 PACKET_get_length_prefixed_2_def)
next
  case Prefixed3
  obtain d where "PACKET_peek_net_3 pkt 0 = Ret (if length (packet_bytes pkt) < unat (3 :: 64 word) then (0, 0) else (1, d))"
      "unat (3 :: 64 word) \<le> length (packet_bytes pkt) \<longrightarrow> unat d = be_val (take (unat (3 :: 64 word)) (packet_bytes pkt))"
    using peek_numbers(3) [OF assms(1) refl, of 0] by auto
  from vector_reads_as [where get = "\<lambda>tmp. PACKET_get_net_3 tmp 0", OF assms(1) PACKET_get_net_3_def this] show ?thesis
    by (simp add: Prefixed3 PACKET_get_length_prefixed_3_def)
qed (use assms(2) in auto)

lemma packet_read_as: "packet_wf pkt \<Longrightarrow> reads_as (packet_read r pkt) (bytes_read r (packet_bytes pkt))"
  by (cases r) (auto intro: packet_read_number packet_read_bytes packet_read_prefixed simp del: packet_read.simps bytes_read.simps)

lemma packet_reads_as:
  assumes "packet_wf pkt"
  shows "\<exists>pkt'. packet_reads rs pkt = Ret (fst (bytes_reads rs (packet_bytes pkt)), pkt') \<and>
     packet_wf pkt' \<and> packet_bytes pkt' = snd (bytes_reads rs (packet_bytes pkt))"
  using assms
proof (induction rs arbitrary: pkt)
  case (Cons r rs)
  from packet_read_as [OF Cons.prems, of r] obtain pkt1 where 1: "packet_read r pkt = Ret (fst (bytes_read r (packet_bytes pkt)), pkt1)"
      "packet_wf pkt1" "packet_bytes pkt1 = snd (bytes_read r (packet_bytes pkt))"
    by (auto simp: reads_as_def)
  from Cons.IH [OF 1(2)] obtain pkt2 where "packet_reads rs pkt1 = Ret (fst (bytes_reads rs (packet_bytes pkt1)), pkt2)"
      "packet_wf pkt2" "packet_bytes pkt2 = snd (bytes_reads rs (packet_bytes pkt1))" by blast
  with 1 show ?case by (auto simp: case_prod_unfold Let_def)
qed simp

section \<open>Properties\<close>

text \<open>
  C21. A reader implements a list of bytes: on a reader set up over an array, any sequence of
  numbers, blocks, skips and length-prefixed vectors gives what the same sequence gives on the
  list of the array's bytes, failures included, never reads outside the array, and leaves exactly
  the bytes that the list has left.
\<close>

theorem packet_reader_refines_list:
  assumes "PACKET_buf_init pkt0 (Some (m, 0)) (word_of_nat (length m)) = (1, pkt)" and "length m < 2 ^ 64"
  shows "\<exists>pkt'. packet_reads rs pkt = Ret (fst (bytes_reads rs m), pkt') \<and>
     packet_wf pkt' \<and> packet_bytes pkt' = snd (bytes_reads rs m)"
  using packet_reads_as [of pkt rs] packet_buf_init_wf [OF assms] by simp

theorem packet_reader_refines_list_witness:
  "\<exists>pkt'. packet_reads [Get1, Prefixed1, GetNet2] \<lparr>curr = Some ([7, 2, 5, 6, 1], 0), remaining = 5\<rparr> =
     Ret ([Number 7, Block [5, 6], Failed], pkt') \<and> packet_bytes pkt' = [1]"
proof -
  have "PACKET_buf_init \<lparr>curr = None, remaining = 0\<rparr> (Some ([7, 2, 5, 6, 1], 0)) (word_of_nat (length ([7, 2, 5, 6, 1] :: 8 word list))) =
      (1, \<lparr>curr = Some ([7, 2, 5, 6, 1], 0), remaining = 5\<rparr>)"
    by (simp add: PACKET_buf_init_def)
  moreover have "length ([7, 2, 5, 6, 1] :: 8 word list) < 2 ^ 64" by simp
  ultimately have "\<exists>pkt'. packet_reads [Get1, Prefixed1, GetNet2] \<lparr>curr = Some ([7, 2, 5, 6, 1], 0), remaining = 5\<rparr> =
      Ret (fst (bytes_reads [Get1, Prefixed1, GetNet2] [7, 2, 5, 6, 1]), pkt') \<and>
      packet_wf pkt' \<and> packet_bytes pkt' = snd (bytes_reads [Get1, Prefixed1, GetNet2] [7, 2, 5, 6, 1])"
    by (rule packet_reader_refines_list)
  moreover have "bytes_reads [Get1, Prefixed1, GetNet2] [7, 2, 5, 6, 1] = ([Number 7, Block [5, 6], Failed], [1])"
    by (simp add: take_number_def take_vector_def)
  ultimately show ?thesis by (simp only: fst_conv snd_conv) blast
qed

end
