(* ===== verification/SafeMath.thy ===== *)
theory SafeMath
  imports Prelude "HOL-Library.Signed_Division"
begin

text \<open>
  The overflow-checked arithmetic of the OpenSSL copy under \<open>lib3rd\<close> (\<open>internal/safe_math.h\<close>): macros
  that make one function per operation and type. Each function returns its result and the
  error flag. For addition, subtraction and multiplication the header has two versions, one
  with the compiler's overflow builtins and one without.

  A signed type of \<open>w\<close> bits is the integers from \<open>smin w\<close> to \<open>smax w\<close>; signed arithmetic
  outside this range is undefined, and so is a division by zero. C's \<open>/\<close> and \<open>%\<close> are \<open>sdiv\<close>
  and \<open>smod\<close>. An unsigned type is a word type.
\<close>

unbundle bit_operations_syntax

section \<open>Signed types\<close>

definition smin :: "nat \<Rightarrow> int" where "smin w = - (2 ^ (w - 1))"
definition smax :: "nat \<Rightarrow> int" where "smax w = 2 ^ (w - 1) - 1"

definition in_type :: "nat \<Rightarrow> int \<Rightarrow> bool" where
  "in_type w r \<longleftrightarrow> smin w \<le> r \<and> r \<le> smax w"

text \<open>An arithmetic result of the type.\<close>

definition arith :: "nat \<Rightarrow> int \<Rightarrow> int outcome" where
  "arith w r = (if in_type w r then Ret r else Undef)"

text \<open>The versions with builtins.\<close>

definition safe_add_s :: "nat \<Rightarrow> int \<Rightarrow> int \<Rightarrow> int \<Rightarrow> int \<times> int" where
  "safe_add_s w a b err =
     (if in_type w (a + b) then (a + b, err) else (if a < 0 then smin w else smax w, err OR 1))"

definition safe_sub_s :: "nat \<Rightarrow> int \<Rightarrow> int \<Rightarrow> int \<Rightarrow> int \<times> int" where
  "safe_sub_s w a b err =
     (if in_type w (a - b) then (a - b, err) else (if a < 0 then smin w else smax w, err OR 1))"

definition safe_mul_s :: "nat \<Rightarrow> int \<Rightarrow> int \<Rightarrow> int \<Rightarrow> int \<times> int" where
  "safe_mul_s w a b err =
     (if in_type w (a * b) then (a * b, err) else (if (a < 0) \<noteq> (b < 0) then smin w else smax w, err OR 1))"

text \<open>The versions without.\<close>

definition portable_add_s :: "nat \<Rightarrow> int \<Rightarrow> int \<Rightarrow> int \<Rightarrow> (int \<times> int) outcome" where
  "portable_add_s w a b err =
     (if (a < 0) \<noteq> (b < 0) \<or> a > 0 \<and> b \<le> smax w - a \<or> a < 0 \<and> b \<ge> smin w - a \<or> a = 0
      then obind (arith w (a + b)) (\<lambda>r. Ret (r, err))
      else Ret (if a < 0 then smin w else smax w, err OR 1))"

definition portable_sub_s :: "nat \<Rightarrow> int \<Rightarrow> int \<Rightarrow> int \<Rightarrow> (int \<times> int) outcome" where
  "portable_sub_s w a b err =
     (if \<not> ((a < 0) \<noteq> (b < 0)) \<or> b > 0 \<and> a \<ge> smin w + b \<or> b < 0 \<and> a \<le> smax w + b \<or> b = 0
      then obind (arith w (a - b)) (\<lambda>r. Ret (r, err))
      else Ret (if a < 0 then smin w else smax w, err OR 1))"

definition portable_mul_s :: "nat \<Rightarrow> int \<Rightarrow> int \<Rightarrow> int \<Rightarrow> (int \<times> int) outcome" where
  "portable_mul_s w a b err =
     (let failed = Ret (if (a < 0) \<noteq> (b < 0) then smin w else smax w, err OR 1) in
      if a = 0 \<or> b = 0 then Ret (0, err)
      else if a = 1 then Ret (b, err)
      else if b = 1 then Ret (a, err)
      else if a \<noteq> smin w \<and> b \<noteq> smin w then
        obind (if a < 0 then arith w (- a) else Ret a) (\<lambda>x.
        obind (if b < 0 then arith w (- b) else Ret b) (\<lambda>y.
          if x \<le> smax w sdiv y then obind (arith w (a * b)) (\<lambda>r. Ret (r, err)) else failed))
      else failed)"

definition safe_div_s :: "nat \<Rightarrow> int \<Rightarrow> int \<Rightarrow> int \<Rightarrow> (int \<times> int) outcome" where
  "safe_div_s w a b err =
     (if b = 0 then Ret (if a < 0 then smin w else smax w, err OR 1)
      else if b = -1 \<and> a = smin w then Ret (smax w, err OR 1)
      else obind (arith w (a sdiv b)) (\<lambda>r. Ret (r, err)))"

text \<open>\<open>a % b\<close> is undefined when \<open>a / b\<close> does not fit the type.\<close>

definition safe_mod_s :: "nat \<Rightarrow> int \<Rightarrow> int \<Rightarrow> int \<Rightarrow> (int \<times> int) outcome" where
  "safe_mod_s w a b err =
     (if b = 0 then Ret (0, err OR 1)
      else if b = -1 \<and> a = smin w then Ret (smax w, err OR 1)
      else obind (arith w (a sdiv b)) (\<lambda>_. Ret (a smod b, err)))"

definition safe_neg_s :: "nat \<Rightarrow> int \<Rightarrow> int \<Rightarrow> (int \<times> int) outcome" where
  "safe_neg_s w a err =
     (if a \<noteq> smin w then obind (arith w (- a)) (\<lambda>r. Ret (r, err)) else Ret (smin w, err OR 1))"

definition safe_abs_s :: "nat \<Rightarrow> int \<Rightarrow> int \<Rightarrow> (int \<times> int) outcome" where
  "safe_abs_s w a err =
     (if a \<noteq> smin w then obind (if a < 0 then arith w (- a) else Ret a) (\<lambda>r. Ret (r, err)) else Ret (smin w, err OR 1))"

text \<open>\<open>a * b / c\<close>: directly when the product fits, otherwise by dividing the larger factor first.\<close>

definition safe_muldiv_s :: "nat \<Rightarrow> int \<Rightarrow> int \<Rightarrow> int \<Rightarrow> int \<Rightarrow> (int \<times> int) outcome" where
  "safe_muldiv_s w a b c err =
     (if c = 0 then Ret (if a = 0 \<or> b = 0 then 0 else smax w, err OR 1)
      else
        let (x, e2) = safe_mul_s w a b 0 in
        if e2 = 0 then safe_div_s w x c err
        else
          let (a, b) = (if b > a then (b, a) else (a, b)) in
          obind (safe_div_s w a c err) (\<lambda>(q, err).
          obind (safe_mod_s w a c err) (\<lambda>(r, err).
          let (x, err) = safe_mul_s w r b err;
              (y, err) = safe_mul_s w q b err
          in obind (safe_div_s w x c err) (\<lambda>(q, err). Ret (safe_add_s w y q err)))))"

section \<open>Unsigned types\<close>

definition safe_add_u :: "'a::len word \<Rightarrow> 'a word \<Rightarrow> int \<Rightarrow> 'a word \<times> int" where
  "safe_add_u a b err = (if unat a + unat b < 2 ^ LENGTH('a) then (a + b, err) else (a + b, err OR 1))"

definition portable_add_u :: "'a::len word \<Rightarrow> 'a word \<Rightarrow> int \<Rightarrow> 'a word \<times> int" where
  "portable_add_u a b err = (a + b, if b > (-1) - a then err OR 1 else err)"

definition safe_sub_u :: "'a::len word \<Rightarrow> 'a word \<Rightarrow> int \<Rightarrow> 'a word \<times> int" where
  "safe_sub_u a b err = (a - b, if b > a then err OR 1 else err)"

definition safe_mul_u :: "'a::len word \<Rightarrow> 'a word \<Rightarrow> int \<Rightarrow> 'a word \<times> int" where
  "safe_mul_u a b err = (if unat a * unat b < 2 ^ LENGTH('a) then (a * b, err) else (a * b, err OR 1))"

definition portable_mul_u :: "'a::len word \<Rightarrow> 'a word \<Rightarrow> int \<Rightarrow> ('a word \<times> int) outcome" where
  "portable_mul_u a b err =
     (if b = 0 then Undef else Ret (a * b, if a > (-1) div b then err OR 1 else err))"

definition safe_div_u :: "'a::len word \<Rightarrow> 'a word \<Rightarrow> int \<Rightarrow> 'a word \<times> int" where
  "safe_div_u a b err = (if b \<noteq> 0 then (a div b, err) else (-1, err OR 1))"

definition safe_mod_u :: "'a::len word \<Rightarrow> 'a word \<Rightarrow> int \<Rightarrow> 'a word \<times> int" where
  "safe_mod_u a b err = (if b \<noteq> 0 then (a mod b, err) else (0, err OR 1))"

definition safe_neg_u :: "'a::len word \<Rightarrow> int \<Rightarrow> 'a word \<times> int" where
  "safe_neg_u a err = (if a = 0 then (a, err) else (1 + NOT a, err OR 1))"

definition safe_abs_u :: "'a::len word \<Rightarrow> int \<Rightarrow> 'a word \<times> int" where
  "safe_abs_u a err = (a, err)"

text \<open>
  With the multiplication of the compiler's builtins; the portable one is undefined for a second
  factor zero (\<open>portable_mul_u\<close>).
\<close>

definition safe_muldiv_u :: "'a::len word \<Rightarrow> 'a word \<Rightarrow> 'a word \<Rightarrow> int \<Rightarrow> 'a word \<times> int" where
  "safe_muldiv_u a b c err =
     (if c = 0 then (if a = 0 \<or> b = 0 then 0 else -1, err OR 1)
      else
        let (x, e2) = safe_mul_u a b 0 in
        if e2 = 0 then (x div c, err)
        else
          let (a, b) = (if b > a then (b, a) else (a, b));
              (x, err) = safe_mul_u (a mod c) b err;
              (y, err) = safe_mul_u (a div c) b err
          in safe_add_u y (x div c) err)"

section \<open>Lemmas\<close>

lemma or_one [simp]: "(err :: int) OR 1 \<noteq> 0"
  by (auto simp: or_one_eq) presburger

text \<open>The portable and the builtin versions.\<close>

lemma portable_add_s_eq:
  assumes "in_type w a" "in_type w b"
  shows "portable_add_s w a b err = Ret (safe_add_s w a b err)"
  using assms by (auto simp: portable_add_s_def safe_add_s_def arith_def in_type_def smin_def smax_def)

lemma portable_sub_s_eq:
  assumes "in_type w a" "in_type w b"
  shows "portable_sub_s w a b err = Ret (safe_sub_s w a b err)"
  using assms by (auto simp: portable_sub_s_def safe_sub_s_def arith_def in_type_def smin_def smax_def)

lemma unat_max [simp]: "unat (-1 :: 'a::len word) = 2 ^ LENGTH('a) - 1"
  by (simp add: unsigned_minus_1_eq_mask mask_eq_exp_minus_1)

lemma portable_add_u_eq: "portable_add_u a b err = safe_add_u (a :: 'a::len word) b err"
proof -
  have "unat (-1 - a) = 2 ^ LENGTH('a) - 1 - unat a" by (subst unat_sub) simp_all
  moreover have "unat a < 2 ^ LENGTH('a)" by (rule unsigned_less)
  ultimately have "b > -1 - a \<longleftrightarrow> \<not> unat a + unat b < 2 ^ LENGTH('a)"
    unfolding word_less_nat_alt by linarith
  then show ?thesis by (simp add: portable_add_u_def safe_add_u_def)
qed

lemma portable_mul_u_eq:
  "portable_mul_u a b err = (if b = 0 then Undef else Ret (safe_mul_u (a :: 'a::len word) b err))"
proof (cases "b = 0")
  case False
  then have "0 < unat b" by (simp add: unat_gt_0)
  then have "(2 ^ LENGTH('a) - 1) div unat b < unat a \<longleftrightarrow> 2 ^ LENGTH('a) - 1 < unat a * unat b"
    by (rule div_less_iff_less_mult)
  with False show ?thesis
    by (auto simp: portable_mul_u_def safe_mul_u_def word_less_nat_alt unat_div_distrib)
qed (simp add: portable_mul_u_def)

lemma le_sdiv_iff:
  assumes "0 < y" "0 \<le> M"
  shows "x \<le> M sdiv y \<longleftrightarrow> x * y \<le> (M :: int)"
proof -
  have "x \<le> M div y \<longleftrightarrow> x * y \<le> M"
  proof
    assume "x \<le> M div y"
    then have "x * y \<le> M div y * y" using assms(1) by (intro mult_right_mono) simp_all
    also have "\<dots> \<le> M" using div_mult_mod_eq [of M y] pos_mod_sign [OF assms(1), of M] by linarith
    finally show "x * y \<le> M" .
  next
    assume "x * y \<le> M"
    then have "x * y div y \<le> M div y" using assms(1) by (rule zdiv_mono1)
    then show "x \<le> M div y" using assms(1) by simp
  qed
  moreover have "M sdiv y = M div y" using assms by (simp add: signed_divide_int_def sgn_if)
  ultimately show ?thesis by simp
qed

text \<open>The size of a product decides whether it fits; the least value is the odd one out.\<close>

lemma in_type_mult:
  assumes "a \<noteq> 0" "b \<noteq> 0"
  shows "in_type w (a * b) \<longleftrightarrow> (if (a < 0) \<noteq> (b < 0) then \<bar>a\<bar> * \<bar>b\<bar> \<le> smax w + 1 else \<bar>a\<bar> * \<bar>b\<bar> \<le> smax w)"
    and "a * b = smin w \<longleftrightarrow> (a < 0) \<noteq> (b < 0) \<and> \<bar>a\<bar> * \<bar>b\<bar> = smax w + 1"
proof -
  have M: "0 \<le> smax w" "smin w = - (smax w + 1)" by (simp_all add: smax_def smin_def)
  define P where "P = \<bar>a\<bar> * \<bar>b\<bar>"
  define d where "d \<longleftrightarrow> (a < 0) \<noteq> (b < 0)"
  have "0 < P" "a * b = (if d then - P else P)" using assms by (auto simp: P_def d_def abs_if)
  then show "in_type w (a * b) \<longleftrightarrow> (if (a < 0) \<noteq> (b < 0) then \<bar>a\<bar> * \<bar>b\<bar> \<le> smax w + 1 else \<bar>a\<bar> * \<bar>b\<bar> \<le> smax w)"
    "a * b = smin w \<longleftrightarrow> (a < 0) \<noteq> (b < 0) \<and> \<bar>a\<bar> * \<bar>b\<bar> = smax w + 1"
    unfolding P_def [symmetric] d_def [symmetric] in_type_def using M by (cases d; auto)+
qed

text \<open>The least value has no product but with one that stays in the type, and none equal to itself.\<close>

lemma least_factor:
  assumes "in_type w a" "in_type w b" and "a \<noteq> 0" "b \<noteq> 0" "a \<noteq> 1" "b \<noteq> 1" and "a = smin w \<or> b = smin w"
  shows "\<not> in_type w (a * b) \<and> a * b \<noteq> smin w"
proof -
  have M: "0 \<le> smax w" "smin w = - (smax w + 1)" by (simp_all add: smax_def smin_def)
  have big: "smax w + 1 \<le> x * y \<and> (2 \<le> y \<longrightarrow> smax w + 1 < x * y)" if "x = smax w + 1" "1 \<le> y" for x y :: int
  proof -
    have "(smax w + 1) * 1 \<le> (smax w + 1) * y" "2 \<le> y \<longrightarrow> (smax w + 1) * 2 \<le> (smax w + 1) * y"
      using that M mult_left_mono [of 1 y "smax w + 1"] mult_left_mono [of 2 y "smax w + 1"] by auto
    then show ?thesis using M that by auto
  qed
  from assms(7) have "smax w + 1 \<le> \<bar>a\<bar> * \<bar>b\<bar> \<and> ((a < 0) \<noteq> (b < 0) \<longrightarrow> smax w + 1 < \<bar>a\<bar> * \<bar>b\<bar>)"
  proof
    assume "a = smin w"
    moreover from this have "(a < 0) \<noteq> (b < 0) \<longrightarrow> 2 \<le> \<bar>b\<bar>" "1 \<le> \<bar>b\<bar>" "\<bar>a\<bar> = smax w + 1" using assms(3-6) M by auto
    ultimately show ?thesis using big by blast
  next
    assume "b = smin w"
    moreover from this have "(a < 0) \<noteq> (b < 0) \<longrightarrow> 2 \<le> \<bar>a\<bar>" "1 \<le> \<bar>a\<bar>" "\<bar>b\<bar> = smax w + 1" using assms(3-6) M by auto
    ultimately show ?thesis using big mult.commute [of "\<bar>a\<bar>" "\<bar>b\<bar>"] by metis
  qed
  then show ?thesis using in_type_mult [OF assms(3,4), of w] M(1) by (cases "(a < 0) \<noteq> (b < 0)") simp_all
qed

lemma portable_mul_s_eq:
  assumes "in_type w a" "in_type w b"
  shows "portable_mul_s w a b err =
     Ret (fst (safe_mul_s w a b err),
          if a * b = smin w \<and> a \<noteq> 1 \<and> b \<noteq> 1 then err OR 1 else snd (safe_mul_s w a b err))"
proof -
  have M: "0 \<le> smax w" "smin w = - (smax w + 1)" by (simp_all add: smax_def smin_def)
  consider "a = 0 \<or> b = 0" | "a \<noteq> 0" "b \<noteq> 0" "a = 1 \<or> b = 1" | "a \<noteq> 0" "b \<noteq> 0" "a \<noteq> 1" "b \<noteq> 1" by blast
  then show ?thesis
  proof cases
    case 1
    then show ?thesis using M by (auto simp: portable_mul_s_def safe_mul_s_def in_type_def)
  next
    case 2
    then show ?thesis using assms by (auto simp: portable_mul_s_def safe_mul_s_def Let_def)
  next
    case 3
    let ?p = "\<bar>a\<bar> * \<bar>b\<bar>"
    note fits = in_type_mult [OF 3(1,2), of w]
    have div: "\<bar>a\<bar> \<le> smax w sdiv \<bar>b\<bar> \<longleftrightarrow> ?p \<le> smax w" using 3(2) M(1) by (intro le_sdiv_iff) simp_all
    have neg: "arith w (- a) = Ret \<bar>a\<bar>" if "a < 0" "a \<noteq> smin w" using that assms(1) M by (simp add: arith_def in_type_def)
    have neg': "arith w (- b) = Ret \<bar>b\<bar>" if "b < 0" "b \<noteq> smin w" using that assms(2) M by (simp add: arith_def in_type_def)
    define small where "small \<longleftrightarrow> a \<noteq> smin w \<and> b \<noteq> smin w \<and> ?p \<le> smax w"
    have run: "portable_mul_s w a b err =
        (if small then obind (arith w (a * b)) (\<lambda>r. Ret (r, err))
         else Ret (if (a < 0) \<noteq> (b < 0) then smin w else smax w, err OR 1))"
      unfolding small_def using 3 neg neg' div by (auto simp: portable_mul_s_def Let_def)
    show ?thesis
    proof (cases small)
      case True
      then have "in_type w (a * b)" "a * b \<noteq> smin w" unfolding fits small_def by (simp_all split: if_splits)
      with True show ?thesis by (simp add: run arith_def safe_mul_s_def)
    next
      case False
      then have "in_type w (a * b) \<longrightarrow> a * b = smin w"
        using least_factor [OF assms 3(1,2,3,4)] unfolding small_def fits by (cases "(a < 0) \<noteq> (b < 0)") auto
      moreover have "(a < 0) \<noteq> (b < 0)" if "a * b = smin w" using that unfolding fits by simp
      ultimately show ?thesis using False 3 by (cases "in_type w (a * b)") (auto simp: run safe_mul_s_def)
    qed
  qed
qed

lemma mul_u_err: "snd (safe_mul_u a b err) = 0 \<longleftrightarrow> err = 0 \<and> unat a * unat b < 2 ^ LENGTH('a)"
  and mul_u_value: "unat a * unat b < 2 ^ LENGTH('a) \<Longrightarrow> unat (fst (safe_mul_u a b err)) = unat a * unat b"
  for a b :: "'a::len word"
  by (auto simp: safe_mul_u_def unat_word_ariths)

lemma muldiv_split: "(a :: nat) * b div c = a div c * b + a mod c * b div c" if "c \<noteq> 0"
proof -
  have "a * b = a mod c * b + a div c * b * c"
    by (metis add.commute add_mult_distrib div_mult_mod_eq mult.assoc mult.commute)
  then show ?thesis using that by simp
qed

lemma muldiv_u_exact:
  assumes "c \<noteq> 0" and "snd (safe_muldiv_u a b c err) = 0"
  shows "unat (fst (safe_muldiv_u a b c err)) = unat a * unat b div unat c" and "err = 0"
proof -
  have c: "unat c \<noteq> 0" using assms(1) by (simp add: unat_eq_0)
  let ?r = "safe_muldiv_u a b c err"
  have "unat (fst ?r) = unat a * unat b div unat c \<and> err = 0"
  proof (cases "unat a * unat b < 2 ^ LENGTH('a)")
    case True
    then have "?r = (a * b div c, err)" using assms(1) by (simp add: safe_muldiv_u_def safe_mul_u_def)
    with True assms show ?thesis by (simp add: unat_div_distrib unat_word_ariths)
  next
    case False
    define p q where "p = max a b" and "q = min a b"
    have pq: "unat a * unat b = unat p * unat q" "(if b > a then (b, a) else (a, b)) = (p, q)"
      by (auto simp: p_def q_def max_def min_def)
    define x where "x = safe_mul_u (p mod c) q err"
    define y where "y = safe_mul_u (p div c) q (snd x)"
    have r: "?r = safe_add_u (fst y) (fst x div c) (snd y)"
      using False assms(1) pq(2)
      by (simp add: safe_muldiv_u_def safe_mul_u_def [of a b] Let_def case_prod_unfold x_def y_def)
    have add: "unat (fst y) + unat (fst x div c) < 2 ^ LENGTH('a)" "snd y = 0"
      using assms(2) by (auto simp: r safe_add_u_def split: if_splits)
    then have "err = 0" "unat (fst x) = unat p mod unat c * unat q" "unat (fst y) = unat p div unat c * unat q"
      by (auto simp: x_def y_def mul_u_err mul_u_value unat_div_distrib unat_mod_distrib)
    moreover have "unat (fst ?r) = unat (fst y) + unat (fst x div c)"
      using add by (simp add: r safe_add_u_def unat_word_ariths)
    ultimately show ?thesis using muldiv_split [OF c, of "unat p" "unat q"] by (simp add: pq(1) unat_div_distrib)
  qed
  then show "unat (fst ?r) = unat a * unat b div unat c" "err = 0" by (rule conjunct1, rule conjunct2)
qed

lemma sdiv_pos: "0 \<le> x \<Longrightarrow> 0 < c \<Longrightarrow> x sdiv c = x div (c :: int)"
  and sdiv_neg: "x \<le> 0 \<Longrightarrow> 0 < c \<Longrightarrow> x sdiv c = - (- x div (c :: int))"
  and sdiv_minus: "x sdiv (- c) = - (x sdiv (c :: int))"
  by (auto simp: signed_divide_int_def sgn_if)

lemma sdiv_split_pos:
  fixes c m n :: int
  assumes "0 < c" and "0 \<le> m \<and> 0 \<le> n \<or> m \<le> 0 \<and> n \<le> 0"
  shows "(c * m + n) sdiv c = m + n sdiv c"
  using assms(2)
proof
  assume mn: "0 \<le> m \<and> 0 \<le> n"
  then have "0 \<le> c * m + n" using assms(1) by simp
  then show ?thesis using mn assms(1) by (simp add: sdiv_pos)
next
  assume mn: "m \<le> 0 \<and> n \<le> 0"
  then have "c * m + n \<le> 0" using assms(1) by (simp add: add_nonpos_nonpos mult_nonneg_nonpos)
  moreover have "- (c * m + n) div c = - m + - n div c"
    using assms(1) div_mult_self2 [of c "- n" "- m"] by (simp add: algebra_simps)
  ultimately show ?thesis using mn assms(1) by (simp add: sdiv_neg)
qed

lemma sdiv_split:
  fixes c m n :: int
  assumes "c \<noteq> 0" and "0 \<le> c * m \<and> 0 \<le> n \<or> c * m \<le> 0 \<and> n \<le> 0"
  shows "(c * m + n) sdiv c = m + n sdiv c"
proof (cases "0 < c")
  case True
  then show ?thesis using assms(2) by (intro sdiv_split_pos) (auto simp: zero_le_mult_iff mult_le_0_iff)
next
  case False
  then have "0 < - c" using assms(1) by simp
  then have "(- c * - m + n) sdiv (- c) = - m + n sdiv (- c)"
    using assms(2) by (intro sdiv_split_pos) (auto simp: zero_le_mult_iff mult_le_0_iff)
  then show ?thesis by (simp add: sdiv_minus)
qed

lemma sdiv_smod_signs:
  "0 \<le> a \<Longrightarrow> 0 \<le> c * (a sdiv c) \<and> 0 \<le> a smod (c :: int)"
  "a \<le> 0 \<Longrightarrow> c * (a sdiv c) \<le> 0 \<and> a smod (c :: int) \<le> 0"
proof -
  have e: "c * (a sdiv c) = sgn a * (\<bar>c\<bar> * (\<bar>a\<bar> div \<bar>c\<bar>))"
    by (simp add: signed_divide_int_def abs_sgn [of c])
  have "0 \<le> \<bar>c\<bar> * (\<bar>a\<bar> div \<bar>c\<bar>)" "0 \<le> \<bar>a\<bar> mod \<bar>c\<bar>"
    by (cases "c = 0"; simp add: pos_imp_zdiv_nonneg_iff)+
  then show "0 \<le> a \<Longrightarrow> 0 \<le> c * (a sdiv c) \<and> 0 \<le> a smod c" "a \<le> 0 \<Longrightarrow> c * (a sdiv c) \<le> 0 \<and> a smod c \<le> 0"
    unfolding e signed_modulo_int_def by (auto simp: sgn_if)
qed

text \<open>Dividing one factor first is exact, with truncation and for all signs.\<close>

lemma muldiv_s_split:
  fixes a b c :: int
  assumes "c \<noteq> 0"
  shows "(a sdiv c) * b + (a smod c * b) sdiv c = a * b sdiv c"
proof -
  have "a * b = (c * (a sdiv c) + a smod c) * b" by (simp only: mult_sdiv_smod_eq)
  then have "a * b = c * ((a sdiv c) * b) + a smod c * b" by (simp add: algebra_simps)
  moreover have "0 \<le> c * (a sdiv c * b) \<and> 0 \<le> a smod c * b \<or> c * (a sdiv c * b) \<le> 0 \<and> a smod c * b \<le> 0"
  proof -
    have "0 \<le> c * (a sdiv c) \<and> 0 \<le> a smod c \<or> c * (a sdiv c) \<le> 0 \<and> a smod c \<le> 0"
      using sdiv_smod_signs by (cases "0 \<le> a") auto
    then have "0 \<le> (c * (a sdiv c)) * b \<and> 0 \<le> a smod c * b \<or> (c * (a sdiv c)) * b \<le> 0 \<and> a smod c * b \<le> 0"
      by (auto simp: zero_le_mult_iff mult_le_0_iff)
    then show ?thesis by (simp add: mult.assoc)
  qed
  ultimately show ?thesis using sdiv_split [OF assms] by simp
qed

text \<open>The operations stay in the type.\<close>

lemma in_type_least: "in_type w (smin w)" "in_type w (smax w)" "in_type w 0"
  by (simp_all add: in_type_def smin_def smax_def)

lemma abs_sdiv_le: "b \<noteq> 0 \<Longrightarrow> \<bar>a sdiv b\<bar> = \<bar>a\<bar> div \<bar>b :: int\<bar>"
  using pos_imp_zdiv_nonneg_iff [of "\<bar>b\<bar>" "\<bar>a\<bar>"] by (cases "a = 0") (simp_all add: signed_divide_int_def abs_mult abs_sgn_eq)

lemma in_type_sdiv:
  assumes "in_type w a" "b \<noteq> 0" "\<not> (b = -1 \<and> a = smin w)"
  shows "in_type w (a sdiv b)"
proof -
  have M: "0 \<le> smax w" "smin w = - (smax w + 1)" by (simp_all add: smax_def smin_def)
  consider "b = 1" | "b = -1" | "2 \<le> \<bar>b\<bar>" using assms(2) by linarith
  then show ?thesis
  proof cases
    case 3
    have "\<bar>a\<bar> div \<bar>b\<bar> \<le> \<bar>a\<bar> div 2" using 3 by (intro zdiv_mono2) simp_all
    moreover have "\<bar>a\<bar> \<le> smax w + 1" using assms(1) M by (auto simp: in_type_def)
    moreover have "x div 2 \<le> smax w" if "x \<le> smax w + 1" for x using that M(1) by simp
    ultimately have "\<bar>a sdiv b\<bar> \<le> smax w" using assms(2) by (metis abs_sdiv_le order_trans)
    then show ?thesis using M by (auto simp: in_type_def)
  qed (use assms M in \<open>auto simp: in_type_def\<close>)
qed

lemma in_type_smod: "in_type w a \<Longrightarrow> in_type w (a smod b)"
proof -
  assume a: "in_type w a"
  have "\<bar>a\<bar> mod \<bar>b\<bar> \<le> \<bar>a\<bar>" by (rule zmod_le_nonneg_dividend) simp
  moreover have "0 \<le> \<bar>a\<bar> mod \<bar>b\<bar>" by (cases "b = 0") simp_all
  ultimately show ?thesis using a by (auto simp: in_type_def signed_modulo_int_def sgn_if smin_def smax_def split: if_splits)
qed

lemma safe_div_s_cases:
  assumes "in_type w a"
  shows "\<exists>r err'. safe_div_s w a b err = Ret (r, err') \<and> in_type w r \<and> (err' = 0 \<longrightarrow> err = 0 \<and> b \<noteq> 0 \<and> r = a sdiv b)"
    and "b \<noteq> 0 \<Longrightarrow> \<exists>r err'. safe_mod_s w a b err = Ret (r, err') \<and> in_type w r \<and> (err' = 0 \<longrightarrow> err = 0 \<and> r = a smod b)"
  using in_type_sdiv [OF assms] in_type_smod [OF assms, of b] in_type_least [of w]
  by (auto simp: safe_div_s_def safe_mod_s_def arith_def)

lemma safe_mul_s_cases:
  "in_type w (fst (safe_mul_s w a b err))"
  "snd (safe_mul_s w a b err) = 0 \<longleftrightarrow> err = 0 \<and> in_type w (a * b)"
  "in_type w (a * b) \<Longrightarrow> fst (safe_mul_s w a b err) = a * b"
  using in_type_least [of w] by (simp_all add: safe_mul_s_def)

lemma safe_add_s_cases:
  "in_type w (fst (safe_add_s w a b err))"
  "snd (safe_add_s w a b err) = 0 \<longleftrightarrow> err = 0 \<and> in_type w (a + b)"
  "in_type w (a + b) \<Longrightarrow> fst (safe_add_s w a b err) = a + b"
  using in_type_least [of w] by (simp_all add: safe_add_s_def)

lemma muldiv_s_exact:
  assumes "in_type w a" "in_type w b" "c \<noteq> 0"
  shows "\<exists>r err'. safe_muldiv_s w a b c err = Ret (r, err') \<and> in_type w r \<and> (err' = 0 \<longrightarrow> err = 0 \<and> r = a * b sdiv c)"
proof (cases "in_type w (a * b)")
  case True
  then show ?thesis
    using assms(3) safe_div_s_cases(1) [OF True, of c err] by (simp add: safe_muldiv_s_def safe_mul_s_def)
next
  case False
  obtain p q where pq: "(if b > a then (b, a) else (a, b)) = (p, q)" "in_type w p" "a * b = p * q"
    using assms(1,2) by (cases "b > a") auto
  obtain d e1 where d: "safe_div_s w p c err = Ret (d, e1)" "e1 = 0 \<longrightarrow> err = 0 \<and> d = p sdiv c"
    using safe_div_s_cases(1) [OF pq(2), of c err] by blast
  obtain m e2 where m: "safe_mod_s w p c e1 = Ret (m, e2)" "e2 = 0 \<longrightarrow> e1 = 0 \<and> m = p smod c"
    using safe_div_s_cases(2) [OF pq(2) assms(3), of e1] by blast
  define x where "x = safe_mul_s w m q e2"
  define y where "y = safe_mul_s w d q (snd x)"
  obtain t e3 where t: "safe_div_s w (fst x) c (snd y) = Ret (t, e3)" "e3 = 0 \<longrightarrow> snd y = 0 \<and> t = fst x sdiv c"
    using safe_div_s_cases(1) [OF safe_mul_s_cases(1), of w m q e2 c "snd y"] by (auto simp: x_def)
  have run: "safe_muldiv_s w a b c err = Ret (safe_add_s w (fst y) t e3)"
    using False assms(3) pq(1) d(1) m(1) t(1)
    by (simp add: safe_muldiv_s_def safe_mul_s_def [of w a b] case_prod_unfold Let_def x_def [symmetric] y_def [symmetric])
  have "err = 0 \<and> fst (safe_add_s w (fst y) t e3) = a * b sdiv c" if "snd (safe_add_s w (fst y) t e3) = 0"
  proof -
    from that have add: "e3 = 0" "in_type w (fst y + t)" by (simp_all add: safe_add_s_cases)
    then have "snd y = 0" "t = fst x sdiv c" using t(2) by simp_all
    then have "snd x = 0" "fst y = d * q" by (simp_all add: y_def safe_mul_s_cases)
    then have "e2 = 0" "fst x = m * q" by (simp_all add: x_def safe_mul_s_cases)
    then show ?thesis
      using d(2) m(2) add(2) \<open>t = fst x sdiv c\<close> \<open>fst y = d * q\<close> muldiv_s_split [OF assms(3), of p q]
      by (simp add: safe_add_s_cases(3) pq(3))
  qed
  then show ?thesis using run safe_add_s_cases(1) by (metis prod.collapse)
qed

section \<open>Properties\<close>

text \<open>
  C37. Multiplying and dividing without an intermediate overflow is exact: whatever the signs, the
  signed function never overflows undefinedly and stays in its type, and when it reports no
  error its result is the truncated quotient of the unbounded product; the unsigned function
  likewise gives the quotient of the unbounded product.
\<close>

theorem muldiv_exact:
  assumes "in_type w a" and "in_type w b" and "c \<noteq> 0" and "z \<noteq> 0"
  shows "(\<exists>r err'. safe_muldiv_s w a b c 0 = Ret (r, err') \<and> in_type w r \<and> (err' = 0 \<longrightarrow> r = a * b sdiv c)) \<and>
     (snd (safe_muldiv_u x y z 0) = 0 \<longrightarrow> unat (fst (safe_muldiv_u x y z 0)) = unat x * unat y div unat z)"
  using muldiv_s_exact [OF assms(1-3), of 0] muldiv_u_exact(1) [OF assms(4), of x y 0] by blast

theorem muldiv_exact_witness:
  "safe_muldiv_s 32 2000000000 (- 3) 4 0 = Ret (- 1500000000, 0) \<and>
   snd (safe_muldiv_u (2000000000 :: 32 word) 3 4 0) = 0 \<and>
   unat (fst (safe_muldiv_u (2000000000 :: 32 word) 3 4 0)) = 1500000000"
proof -
  have ty: "in_type 32 2000000000" "in_type 32 (- 3)" "(4 :: int) \<noteq> 0" "(4 :: 32 word) \<noteq> 0"
    by (simp_all add: in_type_def smin_def smax_def)
  note exact = muldiv_exact [OF ty, of 2000000000 3]
  from exact obtain r err' where run: "safe_muldiv_s 32 2000000000 (- 3) 4 0 = Ret (r, err')"
      "err' = 0 \<longrightarrow> r = 2000000000 * (- 3) sdiv 4" by blast
  from run(1) have "err' = 0"
    by (simp add: safe_muldiv_s_def safe_mul_s_def safe_div_s_def safe_mod_s_def safe_add_s_def arith_def in_type_def
        smin_def smax_def signed_divide_int_def signed_modulo_int_def split: if_splits)
  with run have signed: "safe_muldiv_s 32 2000000000 (- 3) 4 0 = Ret (- 1500000000, 0)"
    by (simp add: signed_divide_int_def)
  have "snd (safe_muldiv_u (2000000000 :: 32 word) 3 4 0) = 0"
    by (simp add: safe_muldiv_u_def safe_mul_u_def safe_add_u_def)
  with exact have "unat (fst (safe_muldiv_u (2000000000 :: 32 word) 3 4 0)) = 1500000000" by simp
  with signed \<open>snd (safe_muldiv_u (2000000000 :: 32 word) 3 4 0) = 0\<close> show ?thesis by blast
qed

text \<open>
  C36. The two versions of the checked operations agree: on values of the type, addition and
  subtraction without builtins never overflow and return what the builtins return; so does
  multiplication, save that it reports an error, with the right product, when the product is
  the least value of the type; the unsigned multiplication divides by zero when its second
  factor is zero.
\<close>

theorem portable_versions_agree:
  assumes "in_type w a" and "in_type w b"
  shows "portable_add_s w a b err = Ret (safe_add_s w a b err) \<and>
     portable_sub_s w a b err = Ret (safe_sub_s w a b err) \<and>
     portable_mul_s w a b err =
       Ret (fst (safe_mul_s w a b err),
            if a * b = smin w \<and> a \<noteq> 1 \<and> b \<noteq> 1 then err OR 1 else snd (safe_mul_s w a b err)) \<and>
     portable_add_u x y err = safe_add_u x y err \<and>
     portable_mul_u x y err = (if y = 0 then Undef else Ret (safe_mul_u x y err))"
  using portable_add_s_eq [OF assms] portable_sub_s_eq [OF assms] portable_mul_s_eq [OF assms]
    portable_add_u_eq portable_mul_u_eq by blast

theorem portable_versions_agree_witness:
  "portable_mul_s 32 (- 1073741824) 2 0 = Ret (- 2147483648, 1) \<and> safe_mul_s 32 (- 1073741824) 2 0 = (- 2147483648, 0)"
  using portable_versions_agree [of 32 "- 1073741824" 2 0 "0 :: 32 word" 0]
  by (auto simp: in_type_def smin_def smax_def safe_mul_s_def)

end
