(* ===== verification/OsslTools.thy ===== *)
theory OsslTools
  imports Prelude "HOL-Library.Sublist"
begin

unbundle bit_operations_syntax

text \<open>
  Small helpers with code in the headers of the OpenSSL copy: code points
  (\<open>internal/unicode.h\<close>), C strings and paths (\<open>internal/common.h\<close>, for Unix), reference counts
  (\<open>internal/refcount.h\<close>, with atomics), words in big-endian order (\<open>crypto/modes.h\<close>, without the
  byte-swapping instruction), and the test for ASCII (\<open>crypto/ctype.h\<close>).
\<close>

section \<open>Code points\<close>

definition SURROGATE_MIN :: "64 word" where "SURROGATE_MIN = 0xd800"
definition SURROGATE_MAX :: "64 word" where "SURROGATE_MAX = 0xdfff"
definition UNICODE_MAX :: "64 word" where "UNICODE_MAX = 0x10ffff"

definition is_unicode_surrogate :: "64 word \<Rightarrow> bool" where
  "is_unicode_surrogate value \<longleftrightarrow> value \<ge> SURROGATE_MIN \<and> value \<le> SURROGATE_MAX"

definition is_unicode_valid :: "64 word \<Rightarrow> bool" where
  "is_unicode_valid value \<longleftrightarrow> value \<le> UNICODE_MAX \<and> \<not> is_unicode_surrogate value"

text \<open>The test for ASCII, on an \<open>int\<close>.\<close>

definition ossl_isascii :: "32 word \<Rightarrow> bool" where
  "ossl_isascii c \<longleftrightarrow> c AND NOT 127 = 0"

text \<open>The valid code points are the Unicode scalar values.\<close>

lemma unicode_scalar_values:
  "is_unicode_valid value \<longleftrightarrow> uint value \<in> {0 .. 0xD7FF} \<union> {0xE000 .. 0x10FFFF}"
  by (auto simp: is_unicode_valid_def is_unicode_surrogate_def SURROGATE_MIN_def SURROGATE_MAX_def UNICODE_MAX_def word_le_def)

lemma isascii_range: "ossl_isascii c \<longleftrightarrow> uint c \<le> 127"
proof -
  have "(127 :: 32 word) = mask 7" by (simp add: mask_eq_exp_minus_1)
  then have "ossl_isascii c \<longleftrightarrow> take_bit 7 c = c"
    unfolding ossl_isascii_def by (auto simp: bit_eq_iff bit_simps)
  also have "\<dots> \<longleftrightarrow> take_bit 7 (uint c) = uint c" by (simp add: unsigned_take_bit_eq word_uint_eq_iff)
  also have "\<dots> \<longleftrightarrow> uint c \<le> 127" by (auto simp: take_bit_int_eq_self_iff)
  finally show ?thesis .
qed

section \<open>C strings and paths\<close>

text \<open>What \<open>strncmp\<close> compares: at most \<open>n\<close> characters, up to the ends.\<close>

fun strncmp_eq :: "string \<Rightarrow> string \<Rightarrow> nat \<Rightarrow> bool" where
  "strncmp_eq s t 0 = True"
| "strncmp_eq [] [] (Suc n) = True"
| "strncmp_eq (a # s) (b # t) (Suc n) = (a = b \<and> strncmp_eq s t n)"
| "strncmp_eq _ _ (Suc n) = False"

definition HAS_PREFIX :: "string \<Rightarrow> string \<Rightarrow> bool" where
  "HAS_PREFIX str pre \<longleftrightarrow> strncmp_eq (c_str str) (c_str pre) (length pre)"

definition CHECK_AND_SKIP_PREFIX :: "string \<Rightarrow> string \<Rightarrow> int \<times> string" where
  "CHECK_AND_SKIP_PREFIX str pre = (if HAS_PREFIX str pre then (1, drop (length pre) str) else (0, str))"

text \<open>\<open>tolower\<close> in the C locale, which \<open>strcasecmp\<close> applies to both sides.\<close>

definition to_lower :: "char \<Rightarrow> char" where
  "to_lower c = (if 65 \<le> (of_char c :: nat) \<and> (of_char c :: nat) \<le> 90 then char_of ((of_char c :: nat) + 32) else c)"

definition HAS_CASE_PREFIX :: "string \<Rightarrow> string \<Rightarrow> bool" where
  "HAS_CASE_PREFIX s p \<longleftrightarrow> strncmp_eq (map to_lower (c_str s)) (map to_lower (c_str p)) (length p)"

definition CHECK_AND_SKIP_CASE_PREFIX :: "string \<Rightarrow> string \<Rightarrow> int \<times> string" where
  "CHECK_AND_SKIP_CASE_PREFIX str pre = (if HAS_CASE_PREFIX str pre then (1, drop (length pre) str) else (0, str))"

definition HAS_CASE_SUFFIX :: "string \<Rightarrow> string \<Rightarrow> bool" where
  "HAS_CASE_SUFFIX str suf \<longleftrightarrow>
     (let s = c_str str in
      if length s < length suf then False
      else map to_lower (drop (length s - length suf) s) = map to_lower (c_str suf))"

definition ossl_ends_with_dirsep :: "string \<Rightarrow> bool" where
  "ossl_ends_with_dirsep path \<longleftrightarrow>
     (let path = c_str path in (if path \<noteq> [] then last path else CHR 0x00) = CHR ''/'')"

definition ossl_is_absolute_path :: "string \<Rightarrow> bool" where
  "ossl_is_absolute_path path \<longleftrightarrow> (case c_str path of [] \<Rightarrow> CHR 0x00 | c # _ \<Rightarrow> c) = CHR ''/''"

text \<open>The sizes of a number in text, by the bytes of its type.\<close>

definition DECIMAL_SIZE :: "nat \<Rightarrow> nat" where
  "DECIMAL_SIZE bytes = (bytes * 8 + 2) div 3 + 1"

definition HEX_SIZE :: "nat \<Rightarrow> nat" where
  "HEX_SIZE bytes = bytes * 2"

lemma strncmp_prefix: "strncmp_eq s t (length t) \<longleftrightarrow> prefix t s"
proof (induction t arbitrary: s)
  case (Cons a t)
  then show ?case by (cases s) auto
qed simp

lemma has_prefix: "CHR 0x00 \<notin> set pre \<Longrightarrow> HAS_PREFIX str pre \<longleftrightarrow> prefix pre (c_str str)"
  by (simp add: HAS_PREFIX_def c_str_id strncmp_prefix)

lemma has_case_prefix:
  "CHR 0x00 \<notin> set p \<Longrightarrow> HAS_CASE_PREFIX s p \<longleftrightarrow> prefix (map to_lower p) (map to_lower (c_str s))"
  using strncmp_prefix [of "map to_lower (c_str s)" "map to_lower p"] by (simp add: HAS_CASE_PREFIX_def c_str_id)

lemma has_case_suffix:
  assumes "CHR 0x00 \<notin> set x"
  shows "HAS_CASE_SUFFIX str x \<longleftrightarrow> suffix (map to_lower x) (map to_lower (c_str str))"
proof -
  let ?s = "map to_lower (c_str str)" and ?x = "map to_lower x"
  have "suffix ?x ?s \<longleftrightarrow> length ?x \<le> length ?s \<and> drop (length ?s - length ?x) ?s = ?x"
    by (metis suffix_length_le suffix_take append_take_drop_id same_suffix_suffix suffix_drop suffix_order.order_refl suffix_def append_eq_conv_conj length_append diff_add_inverse2)
  then show ?thesis using assms by (auto simp: HAS_CASE_SUFFIX_def c_str_id drop_map Let_def)
qed

text \<open>Skipping a prefix leaves the rest: the whole is the prefix with the rest.\<close>

lemma skip_prefix:
  assumes "CHECK_AND_SKIP_PREFIX str pre = (1, rest)" and "CHR 0x00 \<notin> set pre" and "CHR 0x00 \<notin> set str"
  shows "str = pre @ rest"
  using assms by (auto simp: CHECK_AND_SKIP_PREFIX_def has_prefix c_str_id prefix_def split: if_splits)

lemma absolute_path_joins: "ossl_ends_with_dirsep (dir @ ''/'')" if "CHR 0x00 \<notin> set dir"
  using that by (simp add: ossl_ends_with_dirsep_def c_str_id)

lemma length_dec_nat: "0 < k \<Longrightarrow> n < 10 ^ k \<Longrightarrow> length (dec_nat n) \<le> k"
proof (induction k arbitrary: n)
  case (Suc k)
  show ?case
  proof (cases "n < 10")
    case False
    then have "0 < k" using Suc.prems by (cases k) auto
    moreover have "n div 10 < 10 ^ k" using Suc.prems(2) by (simp add: less_mult_imp_div_less mult.commute)
    ultimately show ?thesis using Suc.IH [of "n div 10"] False by (simp add: dec_nat.simps [of n])
  qed (simp add: dec_nat.simps [of n])
qed simp

text \<open>Every number of the type fits its decimal size, with the null at the end.\<close>

lemma decimal_size_enough:
  assumes "0 < bytes" and "n < 2 ^ (8 * bytes)"
  shows "length (dec_nat n) + 1 \<le> DECIMAL_SIZE bytes"
proof -
  let ?k = "(8 * bytes + 2) div 3"
  have "n < 2 ^ (8 * bytes)" by (rule assms(2))
  also have "(2 :: nat) ^ (8 * bytes) \<le> 2 ^ (3 * ?k)" by (rule power_increasing) simp_all
  also have "\<dots> = 8 ^ ?k" by (simp add: power_mult)
  also have "\<dots> \<le> 10 ^ ?k" by (rule power_mono) simp_all
  finally have "length (dec_nat n) \<le> ?k" using assms(1) by (intro length_dec_nat) simp_all
  then show ?thesis by (simp add: DECIMAL_SIZE_def mult.commute)
qed

section \<open>Reference counts\<close>

text \<open>
  Both return 1, the new value as an \<open>int\<close>, and the counter. The atomic operation wraps; the
  addition to its old value is a signed one.
\<close>

definition CRYPTO_UP_REF :: "32 word \<Rightarrow> (int \<times> int \<times> 32 word) outcome" where
  "CRYPTO_UP_REF val = (if sint val + 1 < 2 ^ 31 then Ret (1, sint val + 1, val + 1) else Undef)"

definition CRYPTO_DOWN_REF :: "32 word \<Rightarrow> (int \<times> int \<times> 32 word) outcome" where
  "CRYPTO_DOWN_REF val = (if - (2 ^ 31) \<le> sint val - 1 then Ret (1, sint val - 1, val - 1) else Undef)"

text \<open>
  The operations of all threads on one object, in the order of the atomic steps, with the values
  they return; beside it the number of references that are held: only a holder may take another
  reference or give its own back.
\<close>

datatype ref_op = Up | Down

fun ref_run :: "ref_op list \<Rightarrow> 32 word \<Rightarrow> (int list \<times> 32 word) outcome" where
  "ref_run [] val = Ret ([], val)"
| "ref_run (op # ops) val =
     obind (case op of Up \<Rightarrow> CRYPTO_UP_REF val | Down \<Rightarrow> CRYPTO_DOWN_REF val) (\<lambda>(ok, ret, val).
     obind (ref_run ops val) (\<lambda>(rets, val). Ret (ret # rets, val)))"

fun refs_held :: "ref_op list \<Rightarrow> nat \<Rightarrow> nat option" where
  "refs_held [] n = Some n"
| "refs_held (op # ops) n =
     (if n = 0 then None else refs_held ops (case op of Up \<Rightarrow> n + 1 | Down \<Rightarrow> n - 1))"

lemma refs_held_zero: "refs_held ops 0 = Some m \<longleftrightarrow> ops = [] \<and> m = 0"
  by (cases ops) auto

text \<open>
  As long as there are fewer than 2^31 operations and references, the counter is the number of
  references, nothing overflows, and zero is returned exactly once, by the operation that gives the
  last reference back, and nothing comes after it: the object is destroyed once.
\<close>

lemma refcount_destroys_once:
  assumes "refs_held ops n = Some m" and "n + length ops < 2 ^ 31" and "sint val = int n"
  shows "\<exists>rets val'. ref_run ops val = Ret (rets, val') \<and> sint val' = int m \<and> length rets = length ops \<and>
     (\<forall>i < length ops. rets ! i = 0 \<longleftrightarrow> Suc i = length ops \<and> m = 0)"
  using assms
proof (induction ops arbitrary: n val)
  case (Cons op ops)
  define n' where "n' = (case op of Up \<Rightarrow> n + 1 | Down \<Rightarrow> n - 1)"
  have held: "0 < n" "refs_held ops n' = Some m" using Cons.prems(1) by (auto simp: n'_def split: if_splits)
  have bound: "n' + length ops < 2 ^ 31" "n' < 2 ^ 31"
    using Cons.prems(2) by (auto simp: n'_def split: ref_op.splits)
  define val' where "val' = (case op of Up \<Rightarrow> val + 1 | Down \<Rightarrow> val - 1)"
  have step: "(case op of Up \<Rightarrow> CRYPTO_UP_REF val | Down \<Rightarrow> CRYPTO_DOWN_REF val) = Ret (1, int n', val')"
    using Cons.prems(2,3) held(1)
    by (cases op) (auto simp: CRYPTO_UP_REF_def CRYPTO_DOWN_REF_def n'_def val'_def)
  have "val = of_int (int n)" by (simp flip: Cons.prems(3))
  then have "val' = of_int (int n')" using held(1) by (cases op) (simp_all add: n'_def val'_def)
  then have "sint val' = int n'" using bound(2) by (simp add: int_word_sint del: of_int_of_nat_eq)
  from Cons.IH [OF held(2) bound(1) this] obtain rets w where IH: "ref_run ops val' = Ret (rets, w)" "sint w = int m"
      "length rets = length ops" "\<forall>i < length ops. rets ! i = 0 \<longleftrightarrow> Suc i = length ops \<and> m = 0" by blast
  have zero: "n' = 0 \<longleftrightarrow> ops = [] \<and> m = 0"
    using held(2) by (cases ops) (auto split: if_splits)
  have "(int n' # rets) ! i = 0 \<longleftrightarrow> Suc i = length (op # ops) \<and> m = 0" if "i < length (op # ops)" for i
    using that IH(4) zero by (cases i) auto
  with IH step show ?case by simp
qed simp

section \<open>Big-endian words\<close>

definition GETU32 :: "8 word list \<Rightarrow> 32 word outcome" where
  "GETU32 p =
     (if length p < 4 then Undef
      else Ret (push_bit 24 (ucast (p ! 0)) OR push_bit 16 (ucast (p ! 1)) OR push_bit 8 (ucast (p ! 2)) OR ucast (p ! 3)))"

definition PUTU32 :: "8 word list \<Rightarrow> 32 word \<Rightarrow> 8 word list outcome" where
  "PUTU32 p v =
     (if length p < 4 then Undef
      else Ret (p[0 := ucast (drop_bit 24 v), 1 := ucast (drop_bit 16 v), 2 := ucast (drop_bit 8 v), 3 := ucast v]))"

lemma four_bytes:
  "push_bit 24 (ucast (ucast (drop_bit 24 v) :: 8 word)) OR push_bit 16 (ucast (ucast (drop_bit 16 v) :: 8 word)) OR
     push_bit 8 (ucast (ucast (drop_bit 8 v) :: 8 word)) OR ucast (ucast v :: 8 word) = (v :: 32 word)"
  (is "?w = v")
proof (rule bit_word_eqI)
  fix n assume n: "n < LENGTH(32)"
  consider "n < 8" | (b) "8 \<le> n" "n < 16" | (c) "16 \<le> n" "n < 24" | (d) "24 \<le> n" by linarith
  then show "bit ?w n = bit v n"
  proof cases
    case b
    then obtain k where "n = 8 + k" "k < 8" by (metis le_Suc_ex nat_add_left_cancel_less numeral_Bit0)
    then show ?thesis by (simp add: bit_simps)
  next
    case c
    then obtain k where "n = 16 + k" "k < 8" using le_Suc_ex [of 16 n] by auto
    then show ?thesis by (simp add: bit_simps)
  next
    case d
    then obtain k where "n = 24 + k" "k < 8" using le_Suc_ex [of 24 n] n by auto
    then show ?thesis by (simp add: bit_simps)
  qed (simp add: bit_simps)
qed

lemma getu32_putu32:
  assumes "PUTU32 p v = Ret p'"
  shows "GETU32 p' = Ret v"
proof -
  have "4 \<le> length p" using assms by (simp add: PUTU32_def split: if_splits)
  then obtain a b c d q where "p = a # b # c # d # q" by (auto simp: Suc_le_length_iff numeral_eq_Suc)
  then show ?thesis using assms four_bytes [of v] by (auto simp: PUTU32_def GETU32_def)
qed

end
