(* ===== verification/Ktls.thy ===== *)
theory Ktls
  imports Prelude
begin

unbundle bit_operations_syntax

text \<open>
  TLS records through the kernel, \<open>internal/ktls.h\<close> of the OpenSSL copy in its version for Linux:
  switching a socket over, sending a control record, and receiving a record, whose header the
  kernel has stripped and this code writes again. The results of \<open>setsockopt\<close>, \<open>sendmsg\<close>,
  \<open>sendfile\<close> and \<open>recvmsg\<close> are inputs, and so are the kernel's own constants.
\<close>

section \<open>Constants\<close>

definition SSL3_RT_HEADER_LENGTH :: nat where "SSL3_RT_HEADER_LENGTH = 5"
definition EVP_GCM_TLS_TAG_LEN :: nat where "EVP_GCM_TLS_TAG_LEN = 16"
definition TLS1_2_VERSION_MAJOR :: "8 word" where "TLS1_2_VERSION_MAJOR = 0x03"
definition TLS1_2_VERSION_MINOR :: "8 word" where "TLS1_2_VERSION_MINOR = 0x03"
definition SOL_TLS :: int where "SOL_TLS = 282"
definition TCP_ULP :: int where "TCP_ULP = 31"
definition TLS_RX :: int where "TLS_RX = 2"

text \<open>Constants of the kernel and of the C library that the header does not define itself.\<close>

record kernel_consts =
  SOL_TCP :: int
  TLS_TX :: int
  TLS_SET_RECORD_TYPE :: int
  TLS_GET_RECORD_TYPE :: int
  EINVAL :: int

section \<open>Switching a socket over\<close>

text \<open>\<open>setsockopt\<close> by descriptor, level, option and value.\<close>

type_synonym setsockopt = "int \<Rightarrow> int \<Rightarrow> int \<Rightarrow> 8 word list \<Rightarrow> int"

text \<open>The name \<open>tls\<close> with its null.\<close>

definition ktls_enable :: "kernel_consts \<Rightarrow> setsockopt \<Rightarrow> int \<Rightarrow> int" where
  "ktls_enable k sso fd = (if sso fd (SOL_TCP k) TCP_ULP [116, 108, 115, 0] \<noteq> 0 then 0 else 1)"

text \<open>The keys are the first \<open>tls_crypto_info_len\<close> bytes of the union.\<close>

record ktls_crypto_info =
  crypto_info :: "8 word list"
  tls_crypto_info_len :: nat

definition ktls_start :: "kernel_consts \<Rightarrow> setsockopt \<Rightarrow> int \<Rightarrow> ktls_crypto_info \<Rightarrow> int \<Rightarrow> int" where
  "ktls_start k sso fd info is_tx =
     (if sso fd SOL_TLS (if is_tx \<noteq> 0 then TLS_TX k else TLS_RX) (take (tls_crypto_info_len info) (crypto_info info)) \<noteq> 0
      then 0 else 1)"

section \<open>Sending\<close>

text \<open>A message: one control message (level, type, data) and the bytes.\<close>

record msghdr =
  cmsg_level :: int
  cmsg_type :: int
  cmsg_data :: "8 word list"
  msg_iov :: "8 word list"

definition ktls_send_ctrl_message :: "kernel_consts \<Rightarrow> (int \<Rightarrow> msghdr \<Rightarrow> int) \<Rightarrow> int \<Rightarrow> 8 word \<Rightarrow> 8 word list \<Rightarrow> int" where
  "ktls_send_ctrl_message k sendmsg fd record_type data =
     sendmsg fd \<lparr>cmsg_level = SOL_TLS, cmsg_type = TLS_SET_RECORD_TYPE k, cmsg_data = [record_type], msg_iov = data\<rparr>"

definition ktls_sendfile :: "(int \<Rightarrow> int \<Rightarrow> int \<Rightarrow> nat \<Rightarrow> int) \<Rightarrow> int \<Rightarrow> int \<Rightarrow> int \<Rightarrow> nat \<Rightarrow> int \<Rightarrow> int" where
  "ktls_sendfile sendfile s fd off n flags = sendfile s fd off n"

section \<open>Receiving\<close>

text \<open>
  What \<open>recvmsg\<close> gives: its result, the bytes that it put into the memory of \<open>msg_iov\<close>, and the type and
  the first byte of the control message, when there is one.
\<close>

record recvmsg =
  rm_ret :: int
  rm_data :: "8 word list"
  rm_control :: "(int \<times> 8 word) option"

text \<open>The record header in front of \<open>ret\<close> bytes.\<close>

definition put_header :: "8 word list \<Rightarrow> 8 word \<Rightarrow> int \<Rightarrow> 8 word list" where
  "put_header p byte ret =
     p[0 := byte, 1 := TLS1_2_VERSION_MAJOR, 2 := TLS1_2_VERSION_MINOR,
       3 := word_of_int (drop_bit 8 ret) AND 0xff, 4 := word_of_int ret AND 0xff]"

text \<open>
  The result, the new \<open>errno\<close> if the code sets it, and the buffer \<open>p\<close> of \<open>len\<close> bytes. \<open>recvmsg\<close> gets a
  pointer to its byte 5 and the length that leaves room for the tag.
\<close>

definition ktls_read_record ::
  "kernel_consts \<Rightarrow> (nat \<Rightarrow> recvmsg) \<Rightarrow> 8 word list \<Rightarrow> nat \<Rightarrow> int \<times> int option \<times> 8 word list" where
  "ktls_read_record k recv p len =
     (let prepend_length = SSL3_RT_HEADER_LENGTH in
      if len < prepend_length + EVP_GCM_TLS_TAG_LEN then (-1, Some (EINVAL k), p)
      else
        let msg = recv (len - prepend_length - EVP_GCM_TLS_TAG_LEN);
            p = take prepend_length p @ rm_data msg @ drop (prepend_length + length (rm_data msg)) p;
            ret = rm_ret msg
        in if ret < 0 then (ret, None, p)
           else (case rm_control msg of
               None \<Rightarrow> (ret, None, p)
             | Some (type, byte) \<Rightarrow>
                 if type = TLS_GET_RECORD_TYPE k then
                   (ret + int prepend_length, None, put_header p byte ret)
                 else (ret, None, p)))"

section \<open>Lemmas\<close>

text \<open>\<open>recvmsg\<close> as documented: not more bytes than there is room for, and it returns their number, or fails.\<close>

definition recv_documented :: "(nat \<Rightarrow> recvmsg) \<Rightarrow> bool" where
  "recv_documented recv \<longleftrightarrow>
     (\<forall>n. length (rm_data (recv n)) \<le> n \<and> (0 \<le> rm_ret (recv n) \<longrightarrow> rm_ret (recv n) = int (length (rm_data (recv n)))))"

text \<open>A buffer that is too short for header and tag is refused before anything is received.\<close>

lemma ktls_short: "len < 21 \<Longrightarrow> ktls_read_record k recv p len = (-1, Some (EINVAL k), p)"
  by (simp add: ktls_read_record_def SSL3_RT_HEADER_LENGTH_def EVP_GCM_TLS_TAG_LEN_def)

text \<open>Nothing is written outside the buffer, and what follows the received bytes, the room of the tag at least, is kept.\<close>

lemma ktls_bounds:
  assumes "recv_documented recv" and "length p = len" and "ktls_read_record k recv p len = (ret, err, p')"
  shows "length p' = len \<and> ret \<le> max (-1) (int len - 16) \<and> drop (len - 16) p' = drop (len - 16) p"
proof (cases "len < 21")
  case True
  then show ?thesis using assms ktls_short by auto
next
  case False
  let ?msg = "recv (len - 5 - 16)"
  have doc: "length (rm_data ?msg) \<le> len - 5 - 16" "0 \<le> rm_ret ?msg \<Longrightarrow> rm_ret ?msg = int (length (rm_data ?msg))"
    using assms(1) by (auto simp: recv_documented_def)
  define q where "q = take 5 p @ rm_data ?msg @ drop (5 + length (rm_data ?msg)) p"
  have q: "length q = len" "drop (len - 16) q = drop (len - 16) p"
    using False assms(2) doc(1) by (simp_all add: q_def)
  have "p' = q \<and> ret = rm_ret ?msg \<or> (\<exists>b. p' = put_header q b (rm_ret ?msg) \<and> 0 \<le> rm_ret ?msg \<and> ret = rm_ret ?msg + 5)"
    using assms(3) False
    by (auto simp: ktls_read_record_def SSL3_RT_HEADER_LENGTH_def EVP_GCM_TLS_TAG_LEN_def q_def Let_def split: if_splits option.splits)
  then show ?thesis using q doc False by (cases "0 \<le> rm_ret ?msg") (auto simp: put_header_def drop_update_cancel)
qed

text \<open>
  A received record of less than 64 KiB gets the header that the record layer expects: its type,
  version 1.2 and the length of the data that follow, the higher byte first.
\<close>

lemma ktls_header:
  assumes "recv_documented recv" and "length p = len" and "21 \<le> len"
    and "recv (len - 21) = \<lparr>rm_ret = n, rm_data = d, rm_control = Some (TLS_GET_RECORD_TYPE k, byte)\<rparr>" and "0 \<le> n" and "n < 65536"
    and "ktls_read_record k recv p len = (ret, err, p')"
  shows "ret = 5 + n \<and> take (nat ret) p' = byte # 3 # 3 # p' ! 3 # p' ! 4 # d \<and>
     n = 256 * uint (p' ! 3) + uint (p' ! 4)"
proof -
  have d: "n = int (length d)" "length d \<le> len - 21"
    using assms(1,4,5) unfolding recv_documented_def by (metis recvmsg.select_convs(1,2))+
  obtain a b c e f r where p: "p = a # b # c # e # f # r"
    using assms(2,3) by (auto simp: Suc_le_length_iff numeral_eq_Suc)
  have ret: "ret = n + 5" and p': "p' = byte # 3 # 3 # (word_of_int (drop_bit 8 n) AND 0xff) # (word_of_int n AND 0xff) # d @ drop (length d) r"
    using assms(3-5,7) p
    by (auto simp: ktls_read_record_def put_header_def SSL3_RT_HEADER_LENGTH_def EVP_GCM_TLS_TAG_LEN_def TLS1_2_VERSION_MAJOR_def
        TLS1_2_VERSION_MINOR_def Let_def numeral_eq_Suc split: if_splits)
  have "(0xff :: 8 word) = - 1" by simp
  then have "x AND 0xff = x" for x :: "8 word" by (simp only: and.right_neutral)
  then have "uint (p' ! 3) = n div 256" "uint (p' ! 4) = n mod 256"
    using assms(5,6) by (simp_all add: p' uint_word_of_int drop_bit_eq_div)
  then have "n = 256 * uint (p' ! 3) + uint (p' ! 4)" by simp
  moreover have "nat ret = Suc (Suc (Suc (Suc (Suc (length d)))))" using ret d by simp
  then have "take (nat ret) p' = byte # 3 # 3 # p' ! 3 # p' ! 4 # d" by (simp add: p' numeral_eq_Suc)
  ultimately show ?thesis using ret by simp
qed

end
