(* ===== verification/Spec2Isabelle.thy ===== *)
theory Spec2Isabelle
  imports Deployment Tickets Programs TestPrograms Tlog SslSpec Md32 ConstantTime PacketReader SafeMath OsslTools Ktls
begin

text \<open>
  A verification development of the SDP gateway: a software-defined perimeter of a controller, a
  gateway in front of an application, and clients. Its C++ sources are under \<open>src/comm\<close> (shared
  libraries) and \<open>src/modules\<close> (the four programs).

  \<^bold>\<open>The program.\<close> Every server hides its TCP ports behind a firewall that drops all connections
  except from listed hosts. A client first \<^emph>\<open>knocks\<close>: it sends one UDP datagram.
  \<^item> The controller's knock carries a voucher (account and password), encrypted for the controller.
    An accepted knock lists the sender for the controller's port; the client then asks over TLS
    for its access list: for each application that the account may use, an item with a ticket that
    is encrypted for the gateway and signed by the controller.
  \<^item> The gateway's knock carries such a ticket. An accepted knock lists the sender for the
    application's port. The controller sends the gateway orders that black-list a host, and the
    application sends it notices about clients that break a limit.
  \<^item> The application counts the requests of each client by the minute and measures how long the
    client was silent; it refuses a request over a limit and sends the gateway a notice.

  Each server is one loop over \<open>epoll_wait\<close> with a service object whose virtual methods are the
  handlers; requests are a command, and a serialised protocol message.

  \<^bold>\<open>Shared libraries.\<close>
  \<^item> \<open>Prelude\<close>: the type \<open>outcome\<close> of a call (a value, an uncaught exception, undefined behaviour,
    or a loop that never ends), \<open>substr\<close>, C strings, decimal printing, little-endian words, and the
    assertion macros of \<open>comm/tlog/tlog.h\<close>. \<open>StdMap\<close>: \<open>std::map\<close> as an association list in
    key order, with the laws that its clients use as the locale \<open>std_map\<close>.
  \<^item> \<open>CommDef\<close> (\<open>commdef/comm_def.h\<close>, \<open>ssltools/ssl_def.h\<close>), \<open>CommTool\<close> (\<open>commdef/comm_tool.cpp\<close>),
    \<open>Tlog\<close> (\<open>tlog/tlog.cpp\<close>, with the macros of \<open>comm_tool.h\<close> that print messages): constants, the MAC
    address and the clock in minutes, logging.
  \<^item> \<open>SslTools\<close> (\<open>ssltools/ssl_tool.cpp\<close>, class \<open>SSLTools\<close>): the block-wise \<open>RSAEncrypt\<close>, \<open>RSADecrypt\<close>,
    \<open>RSASign\<close>, \<open>RSAVerify\<close>, and \<open>MD5Encrypt\<close>. \<open>Connector\<close>: class \<open>SSLConnector\<close> of the same file.
  \<^item> \<open>Proto\<close> (\<open>proto/*.proto\<close>): one record per message. \<open>SpaTools\<close> (\<open>spatools/spa_tool.cpp\<close>):
    vouchers and tickets, sealed and opened.
  \<^item> \<open>Iptables\<close> (\<open>iptools/iptables_tool.cpp\<close>): the commands \<open>BanUser\<close> and \<open>UnbanUser\<close> issue, in a
    trace, and the white list \<open>OpWhiteList\<close>, \<open>InitWhiteList\<close>, \<open>IsIPInWhiteList\<close> beside it.
  \<^item> \<open>Packet\<close>, \<open>Transport\<close>, \<open>Service\<close> (\<open>erpc/erpc_def.h\<close>, \<open>erpc_handler.cpp\<close>, \<open>erpc_service\<close>,
    \<open>erpc_config\<close>): the wire format, reading, writing and datagrams, the forwarding of commands to
    a service (a record of methods over the state of the process), \<open>HandleRPCRequest\<close>,
    \<open>HandleUDPRequest\<close>, \<open>HandleApplicationRequest\<close>, \<open>HandleRPCAccept\<close>.
  \<^item> \<open>Dispatcher\<close> (\<open>erpc/epoll_dispatcher.cpp\<close>, \<open>erpc_server.cpp\<close>): the table of descriptors, one
    event (\<open>Dispatch_event\<close>), one batch (\<open>Dispatch\<close>), and \<open>Run\<close>.
  \<^item> \<open>Replay\<close>: the contract of \<open>QueryAndInsertMD5\<close>, which both configurations implement.

  \<^bold>\<open>Programs.\<close>
  \<^item> \<open>ControllerConfig\<close>, \<open>ControllerService\<close> (\<open>modules/controller\<close>): \<open>SDPControllerConfig\<close> is the state
    of the singleton; \<open>Con_ConFuncUdpRecv\<close>, \<open>Con_ConFuncGetAccess\<close>, \<open>Con_ConFuncRegisterApp\<close> are the
    handlers and \<open>SDPController_start\<close> is the state in which \<open>main\<close> enters the loop.
  \<^item> \<open>GatewayConfig\<close>, \<open>GatewayService\<close> (\<open>modules/gateway\<close>): \<open>SDPAppGatewayConfig\<close>;
    \<open>Gate_GateFuncUdpRecv\<close>, \<open>Gate_GateFuncBlackListOp\<close>, \<open>Gate_GateFuncNotice\<close>; \<open>SDPAppGateway_start\<close>.
    The inductive relations \<open>gate_step\<close> and \<open>gate_run\<close> give the states that requests can lead to.
  \<^item> \<open>Application\<close> (\<open>modules/application\<close>): \<open>FrequencyJudgment\<close>, \<open>TimeLimitJudgement\<close>, \<open>App_AppFuncHttps\<close>.
  \<^item> \<open>Servers\<close>: the three servers as the dispatcher's loop with each service registered. \<open>Programs\<close>:
    the constructors of the program objects and the three \<open>main\<close> functions.
  \<^item> \<open>Client\<close> (\<open>ClientRPCRequest\<close> and \<open>ClientTCPRequest\<close>, \<open>erpc/erpc_client.cpp\<close>, \<open>modules/client\<close>, and the
    requests that the controller sends): both knocks, the access list, the access, black-listing,
    and one round of the scanning thread.
  \<^item> \<open>TestPrograms\<close>: the test drivers beside the libraries, and what they print.

  \<^bold>\<open>The OpenSSL copy.\<close> Most of \<open>lib3rd/openssl\<close> is declarations; the headers with code are modelled:
  \<^item> \<open>Md32\<close> (\<open>crypto/md32_common.h\<close>, \<open>MD5_CTX\<close> of \<open>openssl/md5.h\<close>): the collector that \<open>MD5Encrypt\<close>
    feeds, \<open>HASH_UPDATE\<close> and \<open>HASH_FINAL\<close>, over any compression of one block.
  \<^item> \<open>ConstantTime\<close> (\<open>internal/constant_time.h\<close>): masks, selection, swapping, table lookup.
  \<^item> \<open>PacketReader\<close> (\<open>internal/packet.h\<close>): the bounded reader \<open>PACKET\<close> over pointers into an array.
  \<^item> \<open>SafeMath\<close> (\<open>internal/safe_math.h\<close>): checked arithmetic in the version with compiler builtins
    and in the portable one.
  \<^item> \<open>OsslTools\<close> (\<open>internal/unicode.h\<close>, \<open>internal/common.h\<close>, \<open>internal/refcount.h\<close>, macros of
    \<open>crypto/modes.h\<close> and \<open>crypto/ctype.h\<close>): code points, prefixes and paths, reference counts,
    big-endian words. \<open>Ktls\<close> (\<open>internal/ktls.h\<close>): TLS records through the Linux kernel.

  \<^bold>\<open>Compositions.\<close> \<open>SslSpec\<close>: the RSA loops of \<open>SslTools\<close> against a block-wise reference. \<open>Admission\<close>:
  clients, controller and gateway together, from knock to answer. \<open>Authorization\<close>: controller,
  gateway and application as one system among hosts that send anything; the inductive relation
  \<open>sys_run\<close> gives what can happen, with the two things that the network cannot do as its rules (a
  connection needs an open port; \<open>unforged\<close>: nobody signs for the controller). \<open>Tickets\<close>: what its runs
  guarantee about requests, single tickets and hosts that were shut out. \<open>Deployment\<close>: all four programs from start-up to the
  page. This theory: the application's notices and the scanning thread at the gateway.

  \<^bold>\<open>What is proved.\<close> Each theory holds the lemmas of its component; the numbered properties are
  \<^item> what the system is for: only authorized hosts get through the gateway's firewall (C1) and to the
    application's handlers (C3), where the gateway's own address alone needs no knock at the
    controller, and every user gets to the page (C2); every opening of the gateway
    takes a ticket of its own (C4), and a host that was shut out, other than the controller's and
    the application's, needs a new one (C5);
  \<^item> who is let in: an accepted knock satisfies every check (C6, C15), is accepted at most once for a
    signature or digest (C14, C27), and is the only way onto a white list (C10); the session of an
    honest client succeeds from end to end in any state that is not against it, all its tickets
    opening the gateway one after the other (C11), with the access list that the permissions give it
    (C16, C34, C35);
  \<^item> who is kept out: the invariant of the gateway over all handlers (C9) and over the whole server
    loop (C7), and that of the controller with the shape of its tables (C8), through the contract
    \<open>service_contract\<close> (what each method keeps) that \<open>server_contract\<close> lifts to \<open>Run\<close>; the limits of
    the application (C19, C20) and the effect of its notices, on all clients but the hosts of the
    gateway's initial list, and of the scanning thread at the gateway (C17, C18);
  \<^item> the firewall: the white list implements a set of hosts (C32), with which the commands issued
    balance (C9);
  \<^item> cryptography on blocks: the round trip of a ticket (C24), the block-wise reference (C25) and
    termination (C40);
  \<^item> transport: packets (C33), one request per connection (C29);
  \<^item> the OpenSSL helpers against their specifications: the reader against a reader of lists (C21),
    the collector against the digest of the whole padded text (C22), the branch-free helpers against
    conditionals (C23), checked arithmetic against the integers (C36, C37);
  \<^item> where the code does not do what it means to, the exact behaviour is the theorem: hosts of the
    initial list cannot be shut out (C26); knocks that overrun a buffer (C12), crashes by a padded
    signature (C13), a reset connection (C30) or a short datagram (C39), responses that always report
    success (C31), responses that are dropped while the handler reports success (C38), a loop that
    cannot end (C28).

  Theorems without a number add the exit-by-exit effect of the knocks, the round trip of a voucher,
  the client's view of a call, the balance of the commands with the list from start-up on, what a
  signature leaves uncovered, clocks beyond 32 bits, a connection without a handshake, texts that
  a plain descriptor takes in pieces (complete in two, lost from the third on; the TLS connections
  of the program take a text whole), the printed voucher, programs whose \<open>main\<close> never returns and a gateway that serves unregistered, the one
  destruction of a counted object (\<open>refcount_destroys_once\<close>), and the header and the bounds of a record
  that the kernel delivers (\<open>ktls_header\<close>, \<open>ktls_bounds\<close>).

  \<^bold>\<open>Parameters.\<close> Code that is not under \<open>src/\<close> is an argument: OpenSSL and the key files (record
  \<open>openssl\<close>, with the hypotheses \<open>rsa_pair\<close>, \<open>sign_pair\<close>, \<open>reads_keys\<close>, \<open>md5_works\<close> of its documented
  behaviour; \<open>tls_env\<close> for one connection), the generated serialisers (\<open>codec\<close>; a theorem that needs a
  message to be parsed back names that message), the shell (\<open>system_call\<close> gives a status for a command and those
  before it), the results of \<open>read\<close>, \<open>write\<close>, \<open>recvfrom\<close>, \<open>accept\<close> and \<open>epoll_wait\<close>, the clocks and
  random numbers. A function that ends without its \<open>return\<close> returns the parameter \<open>junk\<close>: the build does not
  optimise, so control comes back to the caller with whatever the register held.

  \<^bold>\<open>Bounds.\<close> Nothing runs on fuel. The RSA loops are partial functions: with a key of 42 bytes
  they never advance, and with a longer one they end (C40). The write loop recurses
  over the list of results of \<open>SSL_write\<close> (or \<open>write\<close>); when the list ends first, the loop is still waiting: its
  result is \<open>None\<close>, and \<open>Diverge\<close> for the request that it serves. The server's loop recurses over the list of batches that \<open>epoll_wait\<close>
  has delivered and yields the state in which it waits for the next one. Wire fields, truncated
  clocks and the sums of a ticket's lifetime are 32-bit words; return codes, ports and 64-bit clocks
  are integers.

  \<^bold>\<open>Not modelled.\<close> The calls of log lines outside \<open>Tlog\<close> (they change nothing but the standard
  output); which descriptors are closed and which OpenSSL objects are freed, apart from the
  connector's own; the interleaving of the scanning thread with the controller's loop (they share no
  state but the log). The lines of \<open>src/comm\<close> and \<open>src/modules\<close>
  that no definition covers are includes, class declarations whose members are defined elsewhere,
  destructors, functions that only return a member or call one other function, and comments.
  Most lines of the repository are the vendored headers of OpenSSL, and nothing more of them can be
  translated: of the compression functions, the writer \<open>WPACKET\<close>, TLS and RSA there are declarations
  only, the rest are constants, error codes, object tables and types, and variants of the helpers
  above for other compilers and systems.
  The system of \<open>Authorization\<close> has one host per address: who else may send from a listed address
  (behind the same router, say) is outside it.
\<close>

section \<open>Shutting a client out\<close>

text \<open>
  C17. A client that breaks a limit of the application is shut out: the application refuses the
  request and sends one notice, and the gateway, in whatever state it can be, serves this notice
  by taking the client off the white list and closing the port for it. The client is any host but
  the controller's and the application's own: these two are on the gateway's initial list, and the
  gateway cannot close the port for them (C26).
\<close>

theorem misbehaving_client_shut_out:
  assumes "App_AppFuncHttps env request extra c = Ret (-1, out, c')"
    and "gate_run ssl cd sys junk tr g"
    and "si_ip (socket_info extra) \<notin> {IP_CONTROLLER_PB, IP_APPLICATION_PB}"
  shows "\<exists>req ret g'. app_notices c' = app_notices c @ [req] \<and>
     Gate_GateFuncNotice sys junk req \<lparr>socket_info = \<lparr>si_ip = IP_APPLICATION_PB, si_port = p\<rparr>\<rparr> g =
       Ret (ret, GateFuncNoticeRsp, g') \<and>
     \<not> gw_listed g' (si_ip (socket_info extra)) \<and>
     net_opened (gw_whitelist g') (si_ip (socket_info extra)) TCP_PORT_APPLICATION = 0 \<and>
     (\<forall>h. h \<noteq> si_ip (socket_info extra) \<longrightarrow> gw_listed g' h = gw_listed g h)"
proof -
  let ?ip = "si_ip (socket_info extra)" and ?extra = "\<lparr>socket_info = \<lparr>si_ip = IP_APPLICATION_PB, si_port = p\<rparr>\<rparr>"
  have sent: "app_notices c' = app_notices c @ [close_port_req ?ip]"
    using assms(1)
  proof (cases rule: Https_cases)
    case freq
    then show ?thesis using Frequency_keeps by fastforce
  next
    case (idle c1)
    then show ?thesis
      using Frequency_keeps [OF idle(1)] TimeLimit_eq [of env ?ip c1] by (simp split: if_splits)
  qed simp
  let ?g = "snd (gw_OpWhiteList sys IP_WHITE_LIST_DEL ?ip g)"
  have notice: "\<exists>ret. Gate_GateFuncNotice sys junk (close_port_req ?ip) ?extra g = Ret (ret, GateFuncNoticeRsp, ?g)"
    by (simp add: Gate_GateFuncNotice_def close_port_req_def APP_NOTICE_CLOSE_PORT_FOR_IP_def case_prod_unfold Let_def
        iAssert_def)
  then obtain ret where ret: "Gate_GateFuncNotice sys junk (close_port_req ?ip) ?extra g = Ret (ret, GateFuncNoticeRsp, ?g)"
    by blast
  have inv: "gate_inv ?g" by (rule gate_inv_notice [OF gate_inv_run [OF assms(2)] ret])
  have off: "\<not> gw_listed ?g ?ip" by (simp add: wl.listed_revoke)
  moreover have "net_opened (gw_whitelist ?g) ?ip TCP_PORT_APPLICATION = 0"
    by (rule gate_inv_closed [OF inv _ off]) (use assms(3) in \<open>simp add: gate_initial_def\<close>)
  moreover have "\<forall>h. h \<noteq> ?ip \<longrightarrow> gw_listed ?g h = gw_listed g h" by (simp add: wl.listed_revoke)
  ultimately show ?thesis using sent ret by blast
qed

definition idle_app :: SDPApplicationConfig where
  "idle_app = \<lparr>visist_freq_map = [], last_visit_time_map = [(''47.111.5.82'', 0)], app_notices = []\<rparr>"

theorem misbehaving_client_shut_out_witness:
  "\<exists>req ret g'. Gate_GateFuncNotice toy_sys 0 req \<lparr>socket_info = \<lparr>si_ip = IP_APPLICATION_PB, si_port = 9\<rparr>\<rparr> toy_gateway1 =
       Ret (ret, GateFuncNoticeRsp, g') \<and> \<not> gw_listed g' ''47.111.5.82''"
proof -
  let ?extra = "\<lparr>socket_info = \<lparr>si_ip = ''47.111.5.82'', si_port = 7\<rparr>\<rparr>"
  have "\<exists>out c'. App_AppFuncHttps toy_app_env ''GET'' ?extra idle_app = Ret (-1, out, c')"
    by (simp add: App_AppFuncHttps_def FrequencyJudgment_def TimeLimitJudgement_def send_notice_def Let_def
        idle_app_def toy_app_env_def ACCESS_TOO_LAST_LIMIT_def)
  then obtain out c' where "App_AppFuncHttps toy_app_env ''GET'' ?extra idle_app = Ret (-1, out, c')" by blast
  from misbehaving_client_shut_out [OF this toy_run, of 9] show ?thesis by (auto simp: const_defs)
qed

text \<open>
  C18. One round of the controller's scanning thread cuts the scanned client off: in whatever state
  the gateway is, the first request takes the client off the white list and makes it refuse the
  client's knocks; the second lets the client knock again but does not put it back on the list,
  so it is off after every round.
\<close>

theorem scan_round_cuts_client:
  assumes "gate_run ssl cd sys junk tr g"
  shows "\<exists>r1 g1 g2. Gate_GateFuncBlackListOp sys scan_add_req extra g = Ret (r1, GateFuncBlackListOpRsp, g1) \<and>
     gw_black g1 IP_CLIENT_PB \<and> \<not> gw_listed g1 IP_CLIENT_PB \<and>
     Gate_GateFuncUdpRecv ssl cd sys now msg IP_CLIENT_PB port g1 = Ret (1, g1) \<and>
     Gate_GateFuncBlackListOp sys scan_del_req extra g1 = Ret (0, GateFuncBlackListOpRsp, g2) \<and>
     \<not> gw_black g2 IP_CLIENT_PB \<and> \<not> gw_listed g2 IP_CLIENT_PB \<and>
     net_opened (gw_whitelist g2) IP_CLIENT_PB TCP_PORT_APPLICATION = 0"
proof -
  have inv: "gate_inv g" by (rule gate_inv_run [OF assms])
  have ops: "get_i32 (bq_op scan_add_req) = IP_BLACK_LIST_ADD" "get_i32 (bq_op scan_del_req) = IP_BLACK_LIST_DEL"
      "get_str (bq_ip scan_add_req) = IP_CLIENT_PB" "get_str (bq_ip scan_del_req) = IP_CLIENT_PB"
    by (simp_all add: scan_add_req_def scan_del_req_def IP_BLACK_LIST_ADD_def IP_BLACK_LIST_DEL_def)
  obtain r1 g1 where 1: "Gate_GateFuncBlackListOp sys scan_add_req extra g = Ret (r1, GateFuncBlackListOpRsp, g1)"
    using blacklist_returns by blast
  have inv1: "gate_inv g1" by (rule gate_inv_blacklist [OF inv 1])
  have ports: "gw_app_tcp_port g = TCP_PORT_APPLICATION" "gw_app_tcp_port g1 = TCP_PORT_APPLICATION"
    and black: "black_port TCP_PORT_APPLICATION g" "black_port TCP_PORT_APPLICATION g1"
    using inv inv1 by (simp_all add: gate_inv_def)
  from blacklist_effect [OF 1] have b1: "gw_black g1 IP_CLIENT_PB"
    using black_list_step(2) [OF black(1), of IP_BLACK_LIST_ADD IP_CLIENT_PB IP_CLIENT_PB]
    by (simp add: ops ports Let_def)
  let ?g2 = "snd (ControllerBlackList_OP IP_BLACK_LIST_DEL IP_CLIENT_PB TCP_PORT_APPLICATION g1)"
  have 2: "Gate_GateFuncBlackListOp sys scan_del_req extra g1 = Ret (0, GateFuncBlackListOpRsp, ?g2)"
    by (simp add: Gate_GateFuncBlackListOp_def ops ports case_prod_unfold Let_def IP_BLACK_LIST_ADD_def
        IP_BLACK_LIST_DEL_def)
  have inv2: "gate_inv ?g2" by (rule gate_inv_blacklist [OF inv1 2])
  have off: "\<not> gw_listed g1 IP_CLIENT_PB" using inv1 b1 ports by (simp add: gate_inv_def)
  have b2: "\<not> gw_black ?g2 IP_CLIENT_PB"
    using black_list_step(2) [OF black(2), of IP_BLACK_LIST_DEL IP_CLIENT_PB IP_CLIENT_PB]
    by (simp add: ports IP_BLACK_LIST_ADD_def IP_BLACK_LIST_DEL_def)
  have "Gate_GateFuncUdpRecv ssl cd sys now msg IP_CLIENT_PB port g1 = Ret (1, g1)"
    using b1 by (simp add: Gate_GateFuncUdpRecv_def)
  moreover have "net_opened (gw_whitelist ?g2) IP_CLIENT_PB TCP_PORT_APPLICATION = 0"
  proof -
    have "IP_CLIENT_PB \<notin> gate_initial" by (simp add: gate_initial_def const_defs)
    then show ?thesis using inv1 off ports by (simp add: gate_inv_def fw_sync_def)
  qed
  ultimately show ?thesis using 1 2 b1 b2 off by auto
qed

theorem scan_round_cuts_client_witness:
  "\<exists>r1 g1 g2. Gate_GateFuncBlackListOp toy_sys scan_add_req toy_extra toy_gateway1 = Ret (r1, GateFuncBlackListOpRsp, g1) \<and>
     Gate_GateFuncBlackListOp toy_sys scan_del_req toy_extra g1 = Ret (0, GateFuncBlackListOpRsp, g2) \<and>
     \<not> gw_listed g2 ''47.111.5.82''"
proof -
  have "IP_CLIENT_PB = ''47.111.5.82''" by (simp add: const_defs)
  with scan_round_cuts_client [OF toy_run, of toy_extra 1000 "''s''" 9] show ?thesis by (simp only:) blast
qed

end
